(* ===== verification/Prelude.thy ===== *)
theory Prelude
  imports Complex_Main "HOL-Library.Word" "HOL-Library.Signed_Division"
begin

text \<open>
  Shared vocabulary of the development: the collections of simplification facts, Go's
  64-bit integers as \<^typ>\<open>int\<close> with the wrap-around written out, optional values as Go
  pointers, and the generic lemmas on lists, options and maps the components share.
\<close>

named_theorems state_simps \<open>unfolding of state-passing combinators and operations\<close>
named_theorems frame_simps \<open>which parts of the state an operation leaves alone\<close>

section \<open>Go's int64\<close>

definition max_int64 :: int where
  "max_int64 = 9223372036854775807"

definition min_int64 :: int where
  "min_int64 = - 9223372036854775808"

definition is_int64 :: "int \<Rightarrow> bool" where
  "is_int64 i \<longleftrightarrow> min_int64 \<le> i \<and> i \<le> max_int64"

text \<open>Arithmetic on \<open>int64\<close> and \<open>time.Duration\<close> wraps around modulo \<open>2^64\<close>.\<close>

definition wrap64 :: "int \<Rightarrow> int" where
  "wrap64 i = (i + 9223372036854775808) mod 18446744073709551616 - 9223372036854775808"

lemma wrap64_id [simp]: "is_int64 i \<Longrightarrow> wrap64 i = i"
  by (simp add: wrap64_def is_int64_def min_int64_def max_int64_def)

lemma wrap64_range [simp, intro]: "is_int64 (wrap64 i)"
  using pos_mod_bound [of 18446744073709551616 "i + 9223372036854775808"]
    pos_mod_sign [of 18446744073709551616 "i + 9223372036854775808"]
  by (simp add: wrap64_def is_int64_def min_int64_def max_int64_def)

lemma is_int64I: "min_int64 \<le> i \<Longrightarrow> i \<le> max_int64 \<Longrightarrow> is_int64 i"
  by (simp add: is_int64_def)

text \<open>Go's integer division truncates towards zero; the divisor is never zero here.\<close>

definition go_div :: "int \<Rightarrow> int \<Rightarrow> int" where
  "go_div a b = wrap64 (a sdiv b)"

lemma sdiv_nonneg [simp]: "0 \<le> a \<Longrightarrow> 0 < b \<Longrightarrow> (a::int) sdiv b = a div b"
  by (auto simp: signed_divide_int_def sgn_if)

section \<open>Lists\<close>

text \<open>The first element, as \<open>LIMIT 1\<close> and the first hit of a loop give it.\<close>

definition first_of :: "'a list \<Rightarrow> 'a option" where
  "first_of xs = (case xs of [] \<Rightarrow> None | x # _ \<Rightarrow> Some x)"

lemma first_of_simps [simp]:
  "first_of [] = None" "first_of (x # xs) = Some x"
  by (simp_all add: first_of_def)

lemma first_of_None_iff [simp]: "first_of xs = None \<longleftrightarrow> xs = []"
  by (cases xs) auto

lemma first_of_SomeD: "first_of xs = Some x \<Longrightarrow> x \<in> set xs"
  by (cases xs) auto

lemma first_of_filter_SomeD: "first_of (filter P xs) = Some x \<Longrightarrow> x \<in> set xs \<and> P x"
  by (drule first_of_SomeD) simp

lemma first_of_filter_NoneD: "first_of (filter P xs) = None \<Longrightarrow> x \<in> set xs \<Longrightarrow> \<not> P x"
  by (auto simp: filter_empty_conv)

text \<open>\<open>UPDATE ... WHERE\<close> on a list of rows: the rows that match are rewritten in place.\<close>

definition update_where :: "('a \<Rightarrow> bool) \<Rightarrow> ('a \<Rightarrow> 'a) \<Rightarrow> 'a list \<Rightarrow> 'a list" where
  "update_where P f xs = map (\<lambda>x. if P x then f x else x) xs"

lemma update_where_Nil [simp]: "update_where P f [] = []"
  by (simp add: update_where_def)

lemma update_where_Cons [simp]:
  "update_where P f (x # xs) = (if P x then f x else x) # update_where P f xs"
  by (simp add: update_where_def)

lemma length_update_where [simp]: "length (update_where P f xs) = length xs"
  by (simp add: update_where_def)

lemma in_update_where:
  "y \<in> set (update_where P f xs) \<longleftrightarrow> (\<exists>x \<in> set xs. y = (if P x then f x else x))"
  by (auto simp: update_where_def)

lemma update_where_none [simp]: "\<forall>x \<in> set xs. \<not> P x \<Longrightarrow> update_where P f xs = xs"
  by (induction xs) auto

lemma map_update_where:
  "(\<And>x. P x \<Longrightarrow> g (f x) = g x) \<Longrightarrow> map g (update_where P f xs) = map g xs"
  by (induction xs) auto

text \<open>
  The part of a list an update cannot reach: if neither the old nor the new value of a
  rewritten element satisfies \<open>Q\<close>, the \<open>Q\<close>-part of the list is unchanged.
\<close>

lemma filter_update_where:
  "(\<And>x. P x \<Longrightarrow> \<not> Q x \<and> \<not> Q (f x)) \<Longrightarrow> filter Q (update_where P f xs) = filter Q xs"
  by (induction xs) auto

lemma update_where_hit:
  "y \<in> set (update_where P f xs) \<Longrightarrow> P y \<Longrightarrow> (\<And>x. P x \<Longrightarrow> Q (f x)) \<Longrightarrow> Q y"
  by (induction xs) (auto split: if_splits)

lemma filter_filter_other:
  "(\<And>x. Q x \<Longrightarrow> P x) \<Longrightarrow> filter Q (filter P xs) = filter Q xs"
  by (induction xs) auto

lemma distinct_map_filter [simp, intro]: "distinct (map f xs) \<Longrightarrow> distinct (map f (filter P xs))"
  by (induction xs) auto

lemma distinct_map_unique:
  "distinct (map f xs) \<Longrightarrow> x \<in> set xs \<Longrightarrow> y \<in> set xs \<Longrightarrow> f x = f y \<Longrightarrow> x = y"
  by (simp add: distinct_map inj_on_def)

section \<open>Options and maps\<close>

text \<open>SQL's \<open>COALESCE\<close> of a nullable parameter and a column.\<close>

definition coalesce :: "'a option \<Rightarrow> 'a \<Rightarrow> 'a" where
  "coalesce p c = (case p of None \<Rightarrow> c | Some v \<Rightarrow> v)"

definition coalesce_null :: "'a option \<Rightarrow> 'a option \<Rightarrow> 'a option" where
  "coalesce_null p c = (case p of None \<Rightarrow> c | Some v \<Rightarrow> Some v)"

text \<open>\<open>NULLIF(s, '')\<close>, and the Go helper \<open>emptyString\<close> with the same effect.\<close>

definition nullif_empty :: "string \<Rightarrow> string option" where
  "nullif_empty s = (if s = [] then None else Some s)"

lemma coalesce_simps [simp]:
  "coalesce None c = c" "coalesce (Some v) c = v"
  "coalesce_null None d = d" "coalesce_null (Some v) d = Some v"
  by (simp_all add: coalesce_def coalesce_null_def)

lemma nullif_empty_simps [simp]:
  "nullif_empty [] = None" "s \<noteq> [] \<Longrightarrow> nullif_empty s = Some s"
  by (simp_all add: nullif_empty_def)

end
