(* ===== verification/GoStrings.thy ===== *)
theory GoStrings
  imports Prelude
begin

text \<open>
  The functions of Go's \<open>strings\<close>, \<open>strconv\<close> and \<open>net\<close> packages that the backend
  uses, on Go strings as lists of bytes (\<^typ>\<open>char\<close> is a byte). \<open>TrimSpace\<close> knows the
  UTF-8 encodings of all of Unicode's white space. \<open>ToLower\<close> maps every character whose
  lower case is an ASCII character (the ASCII capitals, U+0130 and the Kelvin sign U+212A);
  it leaves the other non-ASCII characters alone, which no caller can observe: every caller
  compares the result with, or searches it for, ASCII words only.
\<close>

section \<open>Prefixes, suffixes and searching\<close>

definition HasPrefix :: "string \<Rightarrow> string \<Rightarrow> bool" where
  "HasPrefix s p \<longleftrightarrow> take (length p) s = p"

definition HasSuffix :: "string \<Rightarrow> string \<Rightarrow> bool" where
  "HasSuffix s p \<longleftrightarrow> length p \<le> length s \<and> drop (length s - length p) s = p"

definition TrimPrefix :: "string \<Rightarrow> string \<Rightarrow> string" where
  "TrimPrefix s p = (if HasPrefix s p then drop (length p) s else s)"

definition TrimSuffix :: "string \<Rightarrow> string \<Rightarrow> string" where
  "TrimSuffix s p = (if HasSuffix s p then take (length s - length p) s else s)"

fun Contains :: "string \<Rightarrow> string \<Rightarrow> bool" where
  "Contains [] w \<longleftrightarrow> w = []"
| "Contains (x # xs) w \<longleftrightarrow> HasPrefix (x # xs) w \<or> Contains xs w"

definition Count1 :: "string \<Rightarrow> char \<Rightarrow> nat" where
  "Count1 s c = length (filter (\<lambda>x. x = c) s)"

text \<open>\<open>strings.Split\<close> and \<open>strings.SplitN(s, sep, 2)\<close> with a one-byte separator.\<close>

fun Split :: "char \<Rightarrow> string \<Rightarrow> string list" where
  "Split c [] = [[]]"
| "Split c (x # xs) =
     (if x = c then [] # Split c xs
      else case Split c xs of [] \<Rightarrow> [[x]] | y # ys \<Rightarrow> (x # y) # ys)"

definition SplitN2 :: "char \<Rightarrow> string \<Rightarrow> string list" where
  "SplitN2 c s =
     (if c \<in> set s then [takeWhile (\<lambda>x. x \<noteq> c) s, tl (dropWhile (\<lambda>x. x \<noteq> c) s)] else [s])"

fun join_with :: "char \<Rightarrow> string list \<Rightarrow> string" where
  "join_with c [] = []"
| "join_with c [x] = x"
| "join_with c (x # y # ys) = x @ c # join_with c (y # ys)"

text \<open>\<open>IndexAny\<close> and \<open>LastIndexAny\<close>: the position, or \<open>None\<close> for Go's \<open>-1\<close>.\<close>

fun IndexAny :: "string \<Rightarrow> char list \<Rightarrow> nat option" where
  "IndexAny [] cs = None"
| "IndexAny (x # xs) cs = (if x \<in> set cs then Some 0 else map_option Suc (IndexAny xs cs))"

fun LastIndexAny :: "string \<Rightarrow> char list \<Rightarrow> nat option" where
  "LastIndexAny [] cs = None"
| "LastIndexAny (x # xs) cs =
     (case LastIndexAny xs cs of
        Some i \<Rightarrow> Some (Suc i)
      | None \<Rightarrow> if x \<in> set cs then Some 0 else None)"

definition TrimRight1 :: "string \<Rightarrow> char \<Rightarrow> string" where
  "TrimRight1 s c = rev (dropWhile (\<lambda>x. x = c) (rev s))"

lemma HasPrefix_append [simp]: "HasPrefix (p @ s) p"
  by (simp add: HasPrefix_def)

lemma HasPrefix_iff: "HasPrefix s p \<longleftrightarrow> (\<exists>r. s = p @ r)"
  by (metis HasPrefix_append HasPrefix_def append_take_drop_id)

lemma HasSuffix_iff: "HasSuffix s p \<longleftrightarrow> (\<exists>r. s = r @ p)"
proof
  assume "HasSuffix s p"
  then show "\<exists>r. s = r @ p"
    by (metis HasSuffix_def append_take_drop_id)
qed (auto simp: HasSuffix_def)

lemma TrimPrefix_append [simp]: "TrimPrefix (p @ s) p = s"
  by (simp add: TrimPrefix_def)

lemma Split_nonempty [simp]: "Split c s \<noteq> []"
  by (induction s) (auto split: list.splits)

lemma Split_no_sep: "c \<notin> set s \<Longrightarrow> Split c s = [s]"
  by (induction s) auto

lemma Split_append_sep: "c \<notin> set a \<Longrightarrow> Split c (a @ c # b) = a # Split c b"
  by (induction a) auto

lemma Split_segments: "x \<in> set (Split c s) \<Longrightarrow> c \<notin> set x"
  by (induction s arbitrary: x) (auto split: if_splits list.splits)

lemma join_Split: "join_with c (Split c s) = s"
proof (induction s)
  case Nil
  then show ?case by simp
next
  case (Cons x xs)
  obtain y ys where s: "Split c xs = y # ys"
    by (meson Split_nonempty list.exhaust)
  with Cons show ?case
    by (cases ys) auto
qed

lemma Contains_iff: "Contains s w \<longleftrightarrow> (\<exists>a b. s = a @ w @ b)"
proof (induction s)
  case Nil
  then show ?case by auto
next
  case (Cons x xs)
  then show ?case
    by (auto simp: HasPrefix_iff Cons_eq_append_conv)
qed

lemma IndexAny_Some:
  "IndexAny s cs = Some i \<Longrightarrow> i < length s \<and> s ! i \<in> set cs \<and> (\<forall>j < i. s ! j \<notin> set cs)"
  by (induction s arbitrary: i) (auto simp: less_Suc_eq_0_disj split: if_splits)

lemma IndexAny_None: "IndexAny s cs = None \<longleftrightarrow> set s \<inter> set cs = {}"
  by (induction s) auto

lemma LastIndexAny_None: "LastIndexAny s cs = None \<longleftrightarrow> set s \<inter> set cs = {}"
  by (induction s) (auto split: option.splits)

lemma LastIndexAny_Some:
  "LastIndexAny s cs = Some i \<Longrightarrow>
     i < length s \<and> s ! i \<in> set cs \<and> (\<forall>j. i < j \<and> j < length s \<longrightarrow> s ! j \<notin> set cs)"
proof (induction s arbitrary: i)
  case Nil
  then show ?case by simp
next
  case (Cons x xs)
  show ?case
  proof (cases "LastIndexAny xs cs")
    case None
    then have "\<forall>j < length xs. xs ! j \<notin> set cs"
      by (metis LastIndexAny_None disjoint_iff nth_mem)
    with None Cons.prems show ?thesis
      by (auto simp: nth_Cons split: if_splits nat.splits)
  next
    case (Some k)
    with Cons.prems have i: "i = Suc k" by simp
    from Cons.IH [OF Some] show ?thesis
      unfolding i by (auto simp: nth_Cons split: nat.splits)
  qed
qed

section \<open>Case and white space\<close>

definition lower1 :: "char \<Rightarrow> char" where
  "lower1 c = (let n = (of_char c :: nat) in if 65 \<le> n \<and> n \<le> 90 then char_of (n + 32) else c)"

fun ToLower :: "string \<Rightarrow> string" where
  "ToLower (a # b # c # s) =
     (if a = CHR 0xE2 \<and> b = CHR 0x84 \<and> c = CHR 0xAA then CHR ''k'' # ToLower s
      else if a = CHR 0xC4 \<and> b = CHR 0xB0 then CHR ''i'' # ToLower (c # s)
      else lower1 a # ToLower (b # c # s))"
| "ToLower [a, b] =
     (if a = CHR 0xC4 \<and> b = CHR 0xB0 then [CHR ''i''] else [lower1 a, lower1 b])"
| "ToLower [a] = [lower1 a]"
| "ToLower [] = []"

text \<open>The UTF-8 encodings of the white space \<open>unicode.IsSpace\<close> accepts.\<close>

definition space_codes :: "string list" where
  "space_codes =
     [[CHR 0x09], [CHR 0x0A], [CHR 0x0B], [CHR 0x0C], [CHR 0x0D], [CHR 0x20],
      [CHR 0xC2, CHR 0x85], [CHR 0xC2, CHR 0xA0], [CHR 0xE1, CHR 0x9A, CHR 0x80],
      [CHR 0xE2, CHR 0x80, CHR 0x80], [CHR 0xE2, CHR 0x80, CHR 0x81],
      [CHR 0xE2, CHR 0x80, CHR 0x82], [CHR 0xE2, CHR 0x80, CHR 0x83],
      [CHR 0xE2, CHR 0x80, CHR 0x84], [CHR 0xE2, CHR 0x80, CHR 0x85],
      [CHR 0xE2, CHR 0x80, CHR 0x86], [CHR 0xE2, CHR 0x80, CHR 0x87],
      [CHR 0xE2, CHR 0x80, CHR 0x88], [CHR 0xE2, CHR 0x80, CHR 0x89],
      [CHR 0xE2, CHR 0x80, CHR 0x8A], [CHR 0xE2, CHR 0x80, CHR 0xA8],
      [CHR 0xE2, CHR 0x80, CHR 0xA9], [CHR 0xE2, CHR 0x80, CHR 0xAF],
      [CHR 0xE2, CHR 0x81, CHR 0x9F], [CHR 0xE3, CHR 0x80, CHR 0x80]]"

lemma space_codes_nonempty: "p \<in> set space_codes \<Longrightarrow> 0 < length p"
  by (auto simp: space_codes_def)

function trim_left :: "string list \<Rightarrow> string \<Rightarrow> string" where
  "trim_left ps s =
     (case find (\<lambda>p. p \<noteq> [] \<and> HasPrefix s p) ps of
        None \<Rightarrow> s
      | Some p \<Rightarrow> trim_left ps (drop (length p) s))"
  by pat_completeness auto
termination
proof (relation "measure (\<lambda>(ps, s). length s)")
  fix ps s p
  assume "find (\<lambda>p. p \<noteq> [] \<and> HasPrefix s p) ps = Some p"
  then have "p \<noteq> []" and "HasPrefix s p"
    by (auto simp: find_Some_iff)
  then have "0 < length p" and "length p \<le> length s"
    by (auto simp: HasPrefix_iff)
  then have "length s - length p < length s" by arith
  then show "((ps, drop (length p) s), (ps, s)) \<in> measure (\<lambda>(ps, s). length s)"
    by simp
qed simp

declare trim_left.simps [simp del]

definition TrimSpace :: "string \<Rightarrow> string" where
  "TrimSpace s = rev (trim_left (map rev space_codes) (rev (trim_left space_codes s)))"

lemma trim_left_id:
  "(\<And>p. p \<in> set ps \<Longrightarrow> p \<noteq> [] \<Longrightarrow> \<not> HasPrefix s p) \<Longrightarrow> trim_left ps s = s"
  by (subst trim_left.simps) (auto simp: find_None_iff split: option.splits dest: find_Some_iff [THEN iffD1])

text \<open>A string that starts and ends with an ASCII character other than a space is kept.\<close>

definition plain_char :: "char \<Rightarrow> bool" where
  "plain_char c \<longleftrightarrow> 33 \<le> (of_char c :: nat) \<and> (of_char c :: nat) < 127"

lemma not_HasPrefix_hd: "s \<noteq> [] \<Longrightarrow> p \<noteq> [] \<Longrightarrow> hd s \<noteq> hd p \<Longrightarrow> \<not> HasPrefix s p"
  by (cases s; cases p) (auto simp: HasPrefix_def)

lemma plain_not_space:
  "plain_char c \<Longrightarrow> p \<in> set space_codes \<union> set (map rev space_codes) \<Longrightarrow> c \<noteq> hd p"
  by (auto simp: space_codes_def plain_char_def)

lemma TrimSpace_plain:
  assumes "s \<noteq> []" "plain_char (hd s)" "plain_char (last s)"
  shows "TrimSpace s = s"
proof -
  have "hd s \<noteq> hd p" if "p \<in> set space_codes" for p
    using plain_not_space [OF assms(2)] that by auto
  then have "trim_left space_codes s = s"
    using assms(1) by (intro trim_left_id not_HasPrefix_hd) auto
  moreover have "hd (rev s) \<noteq> hd p" if "p \<in> set (map rev space_codes)" for p
    using plain_not_space [OF assms(3), of p] that assms(1) by (simp add: hd_rev)
  then have "trim_left (map rev space_codes) (rev s) = rev s"
    using assms(1) by (intro trim_left_id not_HasPrefix_hd) auto
  ultimately show ?thesis
    by (simp add: TrimSpace_def)
qed

section \<open>Decimal numbers\<close>

definition digit_char :: "nat \<Rightarrow> char" where
  "digit_char d = char_of (48 + d)"

fun nat_digits :: "nat \<Rightarrow> string" where
  "nat_digits n = (if n < 10 then [digit_char n] else nat_digits (n div 10) @ [digit_char (n mod 10)])"

declare nat_digits.simps [simp del]

text \<open>\<open>strconv.FormatInt(i, 10)\<close> and \<open>fmt.Sprintf("%d", i)\<close>.\<close>

definition FormatInt :: "int \<Rightarrow> string" where
  "FormatInt i = (if i < 0 then CHR ''-'' # nat_digits (nat (- i)) else nat_digits (nat i))"

definition is_digit :: "char \<Rightarrow> bool" where
  "is_digit c \<longleftrightarrow> 48 \<le> (of_char c :: nat) \<and> (of_char c :: nat) \<le> 57"

definition digit_val :: "char \<Rightarrow> nat" where
  "digit_val c = of_char c - 48"

definition digits_val :: "string \<Rightarrow> nat" where
  "digits_val s = foldl (\<lambda>n c. 10 * n + digit_val c) 0 s"

definition parse_digits :: "string \<Rightarrow> nat option" where
  "parse_digits s = (if s \<noteq> [] \<and> (\<forall>c \<in> set s. is_digit c) then Some (digits_val s) else None)"

text \<open>\<open>strconv.ParseInt(s, 10, 64)\<close> and \<open>strconv.Atoi\<close>: \<open>None\<close> for a syntax or range error.\<close>

definition ParseInt :: "string \<Rightarrow> int option" where
  "ParseInt s =
     (case s of
        [] \<Rightarrow> None
      | c # cs \<Rightarrow>
          (case parse_digits (if c = CHR ''-'' \<or> c = CHR ''+'' then cs else s) of
             None \<Rightarrow> None
           | Some n \<Rightarrow>
               let i = (if c = CHR ''-'' then - int n else int n)
               in if is_int64 i then Some i else None))"

lemma of_char_digit_char: "d < 10 \<Longrightarrow> (of_char (digit_char d) :: nat) = 48 + d"
  by (simp add: digit_char_def take_bit_eq_mod)

lemma nat_digits_spec:
  "nat_digits n \<noteq> [] \<and> (\<forall>c \<in> set (nat_digits n). is_digit c) \<and> digits_val (nat_digits n) = n"
proof (induction n rule: nat_digits.induct)
  case (1 n)
  show ?case
  proof (cases "n < 10")
    case True
    then show ?thesis
      by (subst (1 2 3) nat_digits.simps)
        (simp add: is_digit_def digits_val_def digit_val_def of_char_digit_char)
  next
    case False
    with 1 have ih: "nat_digits (n div 10) \<noteq> []" "\<forall>c \<in> set (nat_digits (n div 10)). is_digit c"
      "digits_val (nat_digits (n div 10)) = n div 10"
      by auto
    have d: "(of_char (digit_char (n mod 10)) :: nat) = 48 + n mod 10"
      by (rule of_char_digit_char) simp
    from False ih d show ?thesis
      by (subst (1 2 3) nat_digits.simps) (auto simp: is_digit_def digits_val_def digit_val_def)
  qed
qed

lemma parse_nat_digits [simp]: "parse_digits (nat_digits n) = Some n"
  using nat_digits_spec [of n] by (simp add: parse_digits_def)

lemma is_digit_not_sign: "is_digit c \<Longrightarrow> c \<noteq> CHR ''-'' \<and> c \<noteq> CHR ''+''"
  by (auto simp: is_digit_def)

lemma nat_digits_Cons: "\<exists>c cs. nat_digits n = c # cs \<and> is_digit c"
  using nat_digits_spec [of n] by (cases "nat_digits n") auto

lemma ParseInt_FormatInt: "is_int64 i \<Longrightarrow> ParseInt (FormatInt i) = Some i"
proof (cases "i < 0")
  case True
  moreover assume "is_int64 i"
  ultimately show ?thesis by (simp add: ParseInt_def FormatInt_def)
next
  case False
  assume "is_int64 i"
  moreover obtain c cs where "nat_digits (nat i) = c # cs" "is_digit c"
    using nat_digits_Cons by blast
  moreover have "parse_digits (nat_digits (nat i)) = Some (nat i)" by simp
  ultimately show ?thesis
    using False by (auto simp: ParseInt_def FormatInt_def dest: is_digit_not_sign)
qed

lemma FormatInt_inj: "is_int64 i \<Longrightarrow> is_int64 j \<Longrightarrow> FormatInt i = FormatInt j \<Longrightarrow> i = j"
  by (metis ParseInt_FormatInt option.inject)

lemma digit_plain: "is_digit c \<Longrightarrow> plain_char c"
  by (auto simp: is_digit_def plain_char_def)

lemma nat_digits_plain:
  "nat_digits n \<noteq> [] \<and> plain_char (hd (nat_digits n)) \<and> plain_char (last (nat_digits n))"
  using nat_digits_spec [of n] by (simp add: digit_plain)

lemma FormatInt_plain:
  "FormatInt i \<noteq> [] \<and> plain_char (hd (FormatInt i)) \<and> plain_char (last (FormatInt i))"
  using nat_digits_plain [of "nat (- i)"] nat_digits_plain [of "nat i"]
  by (simp add: FormatInt_def plain_char_def)

lemma FormatInt_chars: "c \<in> set (FormatInt i) \<Longrightarrow> is_digit c \<or> c = CHR ''-''"
  using nat_digits_spec [of "nat (- i)"] nat_digits_spec [of "nat i"]
  by (auto simp: FormatInt_def split: if_splits)

end
