(* ===== verification/Codec.thy ===== *)
theory Codec
  imports GoStrings
begin

text \<open>
  Byte codecs and the secrets code of \<open>backend/internal/crypto/crypto.go\<close>: Go's
  \<open>base64.RawURLEncoding\<close> and \<open>hex.EncodeToString\<close> (lists of bytes as numbers below
  256), and \<open>Encrypt\<close>/\<open>Decrypt\<close> of provider API keys. The AES-GCM primitive is a
  parameter (\<open>seal\<close> and \<open>unseal\<close>), with its documented law as a hypothesis.
\<close>

type_synonym bytes = "nat list"

definition is_bytes :: "bytes \<Rightarrow> bool" where
  "is_bytes bs \<longleftrightarrow> (\<forall>b \<in> set bs. b < 256)"

definition bytes_of :: "string \<Rightarrow> bytes" where
  "bytes_of s = map of_char s"

definition string_of :: "bytes \<Rightarrow> string" where
  "string_of bs = map char_of bs"

lemma is_bytes_simps [simp]:
  "is_bytes []" "is_bytes (b # bs) \<longleftrightarrow> b < 256 \<and> is_bytes bs"
  "is_bytes (xs @ ys) \<longleftrightarrow> is_bytes xs \<and> is_bytes ys"
  by (auto simp: is_bytes_def)

lemma of_char_less [simp]: "(of_char c :: nat) < 256"
  using of_char_mod_256 [of c, where 'a = nat] by (metis mod_less_divisor zero_less_numeral)

lemma is_bytes_bytes_of [simp]: "is_bytes (bytes_of s)"
  by (auto simp: is_bytes_def bytes_of_def)

lemma string_of_bytes_of [simp]: "string_of (bytes_of s) = s"
  by (simp add: string_of_def bytes_of_def comp_def)

lemma bytes_of_string_of [simp]: "is_bytes bs \<Longrightarrow> bytes_of (string_of bs) = bs"
  by (induction bs) (auto simp: string_of_def bytes_of_def take_bit_eq_mod [of 8])

lemma length_bytes_of [simp]: "length (bytes_of s) = length s"
  by (simp add: bytes_of_def)

section \<open>Hexadecimal\<close>

definition hex_digit :: "nat \<Rightarrow> char" where
  "hex_digit n = char_of (if n < 10 then 48 + n else 87 + n)"

fun hex_encode :: "bytes \<Rightarrow> string" where
  "hex_encode [] = []"
| "hex_encode (b # bs) = hex_digit (b div 16) # hex_digit (b mod 16) # hex_encode bs"

lemma hex_digit_inj: "m < 16 \<Longrightarrow> n < 16 \<Longrightarrow> hex_digit m = hex_digit n \<Longrightarrow> m = n"
proof -
  assume "m < 16" "n < 16" "hex_digit m = hex_digit n"
  then have "(of_char (hex_digit m) :: nat) = of_char (hex_digit n)" by simp
  with \<open>m < 16\<close> \<open>n < 16\<close> show ?thesis
    by (auto simp: hex_digit_def take_bit_eq_mod split: if_splits)
qed

lemma hex_encode_inj:
  "is_bytes xs \<Longrightarrow> is_bytes ys \<Longrightarrow> hex_encode xs = hex_encode ys \<Longrightarrow> xs = ys"
proof (induction xs arbitrary: ys)
  case Nil
  then show ?case by (cases ys) auto
next
  case (Cons x xs)
  then obtain y zs where ys: "ys = y # zs" by (cases ys) auto
  from Cons.prems have b: "x < 256" "y < 256" and
    h: "hex_digit (x div 16) = hex_digit (y div 16)" "hex_digit (x mod 16) = hex_digit (y mod 16)"
    by (auto simp: ys)
  have "x div 16 = y div 16" "x mod 16 = y mod 16"
    using b by (auto intro!: hex_digit_inj [OF _ _ h(1)] hex_digit_inj [OF _ _ h(2)])
  then have "x = y" by (metis div_mult_mod_eq)
  with Cons show ?case by (auto simp: ys)
qed

section \<open>Base64, URL alphabet, no padding\<close>

definition b64_char :: "nat \<Rightarrow> char" where
  "b64_char n =
     char_of (if n < 26 then 65 + n else if n < 52 then 71 + n else if n < 62 then n - 4
              else if n = 62 then 45 else 95)"

definition b64_val :: "char \<Rightarrow> nat option" where
  "b64_val c =
     (let n = (of_char c :: nat) in
        if 65 \<le> n \<and> n \<le> 90 then Some (n - 65)
        else if 97 \<le> n \<and> n \<le> 122 then Some (n - 71)
        else if 48 \<le> n \<and> n \<le> 57 then Some (n + 4)
        else if n = 45 then Some 62 else if n = 95 then Some 63 else None)"

fun b64_encode :: "bytes \<Rightarrow> string" where
  "b64_encode [] = []"
| "b64_encode [a] = [b64_char (a div 4), b64_char (a mod 4 * 16)]"
| "b64_encode [a, b] =
     [b64_char (a div 4), b64_char (a mod 4 * 16 + b div 16), b64_char (b mod 16 * 4)]"
| "b64_encode (a # b # c # r) =
     b64_char (a div 4) # b64_char (a mod 4 * 16 + b div 16) #
     b64_char (b mod 16 * 4 + c div 64) # b64_char (c mod 64) # b64_encode r"

text \<open>
  The decoder skips line breaks, rejects a character outside the alphabet and a single
  trailing sextet, and ignores the unused low bits of the last one, as the library does.
\<close>

fun sextets :: "string \<Rightarrow> nat list option" where
  "sextets [] = Some []"
| "sextets (c # cs) =
     (case b64_val c of None \<Rightarrow> None
      | Some v \<Rightarrow> (case sextets cs of None \<Rightarrow> None | Some vs \<Rightarrow> Some (v # vs)))"

fun b64_groups :: "nat list \<Rightarrow> bytes option" where
  "b64_groups [] = Some []"
| "b64_groups [a] = None"
| "b64_groups [a, b] = Some [a * 4 + b div 16]"
| "b64_groups [a, b, c] = Some [a * 4 + b div 16, b mod 16 * 16 + c div 4]"
| "b64_groups (a # b # c # d # r) =
     (case b64_groups r of None \<Rightarrow> None
      | Some bs \<Rightarrow> Some ((a * 4 + b div 16) # (b mod 16 * 16 + c div 4) # (c mod 4 * 64 + d) # bs))"

definition b64_decode :: "string \<Rightarrow> bytes option" where
  "b64_decode s =
     (case sextets (filter (\<lambda>c. c \<noteq> CHR 0x0A \<and> c \<noteq> CHR 0x0D) s) of
        None \<Rightarrow> None | Some vs \<Rightarrow> b64_groups vs)"

lemma b64_val_char [simp]: "n < 64 \<Longrightarrow> b64_val (b64_char n) = Some n"
  by (auto simp: b64_val_def b64_char_def Let_def take_bit_eq_mod)

lemma b64_char_not_newline [simp]:
  "n < 64 \<Longrightarrow> b64_char n \<noteq> CHR 0x0A" "n < 64 \<Longrightarrow> b64_char n \<noteq> CHR 0x0D"
  using b64_val_char [of n] by (auto simp: b64_val_def simp del: b64_val_char)

fun b64_sextets :: "bytes \<Rightarrow> nat list" where
  "b64_sextets [] = []"
| "b64_sextets [a] = [a div 4, a mod 4 * 16]"
| "b64_sextets [a, b] = [a div 4, a mod 4 * 16 + b div 16, b mod 16 * 4]"
| "b64_sextets (a # b # c # r) =
     (a div 4) # (a mod 4 * 16 + b div 16) # (b mod 16 * 4 + c div 64) # (c mod 64) # b64_sextets r"

lemma b64_encode_sextets: "b64_encode bs = map b64_char (b64_sextets bs)"
  by (induction bs rule: b64_encode.induct) auto

lemma b64_sextets_bound: "is_bytes bs \<Longrightarrow> v \<in> set (b64_sextets bs) \<Longrightarrow> v < 64"
proof (induction bs rule: b64_sextets.induct)
  case (4 a b c r)
  have "a div 4 < 64" "a mod 4 * 16 + b div 16 < 64" "b mod 16 * 4 + c div 64 < 64"
    using "4.prems"(1) by (simp_all, linarith+)
  with 4 show ?case by auto
next
  case (3 a b)
  then have "a div 4 < 64" "a mod 4 * 16 + b div 16 < 64" "b mod 16 * 4 < 64"
    by (simp_all, linarith+)
  with 3 show ?case by auto
next
  case (2 a)
  then have "a div 4 < 64" "a mod 4 * 16 < 64" by auto
  with 2 show ?case by auto
qed simp

lemma sextets_map: "\<forall>v \<in> set vs. v < 64 \<Longrightarrow> sextets (map b64_char vs) = Some vs"
  by (induction vs) auto

lemma b64_groups_sextets: "is_bytes bs \<Longrightarrow> b64_groups (b64_sextets bs) = Some bs"
proof (induction bs rule: b64_sextets.induct)
  case (4 a b c r)
  have "(a mod 4 * 16 + b div 16) div 16 = a mod 4" "(a mod 4 * 16 + b div 16) mod 16 = b div 16"
    "(b mod 16 * 4 + c div 64) div 4 = b mod 16" "(b mod 16 * 4 + c div 64) mod 4 = c div 64"
    using "4.prems" by (simp_all add: div_add1_eq less_mult_imp_div_less)
  then show ?case using 4 by auto
next
  case (3 a b)
  then have "(a mod 4 * 16 + b div 16) div 16 = a mod 4" "(a mod 4 * 16 + b div 16) mod 16 = b div 16"
    by (simp_all add: div_add1_eq less_mult_imp_div_less)
  then show ?case by auto
qed auto

theorem b64_decode_encode: "is_bytes bs \<Longrightarrow> b64_decode (b64_encode bs) = Some bs"
proof -
  assume bs: "is_bytes bs"
  then have v: "\<forall>v \<in> set (b64_sextets bs). v < 64"
    using b64_sextets_bound by blast
  then have "filter (\<lambda>c. c \<noteq> CHR 0x0A \<and> c \<noteq> CHR 0x0D) (map b64_char (b64_sextets bs))
      = map b64_char (b64_sextets bs)"
    by (intro filter_True) auto
  with v bs show ?thesis
    by (simp add: b64_decode_def b64_encode_sextets sextets_map b64_groups_sextets)
qed

lemma length_b64_encode: "length (b64_encode bs) = (4 * length bs + 2) div 3"
  by (induction bs rule: b64_encode.induct) auto

section \<open>Encrypting provider API keys\<close>

datatype crypto_error = ShortKey | RandError | BadEncoding | InvalidCiphertext | AuthFailed

definition nonce_size :: nat where
  "nonce_size = 12"

text \<open>
  The source of randomness is the argument \<open>nonce\<close>: \<open>None\<close> when \<open>io.ReadFull\<close> fails.
  \<open>aes.NewCipher\<close> and \<open>cipher.NewGCM\<close> cannot fail on a key of 32 bytes.
\<close>

definition Encrypt ::
    "(bytes \<Rightarrow> bytes \<Rightarrow> bytes \<Rightarrow> bytes) \<Rightarrow> bytes option \<Rightarrow> string \<Rightarrow> string \<Rightarrow> crypto_error + string" where
  "Encrypt seal nonce masterKey plaintext =
     (if length masterKey < 32 then Inl ShortKey
      else
        let key = take 32 (bytes_of masterKey)
        in case nonce of
             None \<Rightarrow> Inl RandError
           | Some n \<Rightarrow> Inr (b64_encode (n @ seal key n (bytes_of plaintext))))"

definition Decrypt ::
    "(bytes \<Rightarrow> bytes \<Rightarrow> bytes \<Rightarrow> bytes option) \<Rightarrow> string \<Rightarrow> string \<Rightarrow> crypto_error + string" where
  "Decrypt unseal masterKey encoded =
     (if length masterKey < 32 then Inl ShortKey
      else
        case b64_decode encoded of
          None \<Rightarrow> Inl BadEncoding
        | Some dat \<Rightarrow>
            let key = take 32 (bytes_of masterKey)
            in if length dat < nonce_size then Inl InvalidCiphertext
               else case unseal key (take nonce_size dat) (drop nonce_size dat) of
                      None \<Rightarrow> Inl AuthFailed
                    | Some p \<Rightarrow> Inr (string_of p))"

text \<open>What the code relies on of AES-GCM: opening what was sealed under the same 256-bit key and nonce.\<close>

definition aead_law ::
    "(bytes \<Rightarrow> bytes \<Rightarrow> bytes \<Rightarrow> bytes) \<Rightarrow> (bytes \<Rightarrow> bytes \<Rightarrow> bytes \<Rightarrow> bytes option) \<Rightarrow> bool" where
  "aead_law seal unseal \<longleftrightarrow>
     (\<forall>k n p. length k = 32 \<and> length n = nonce_size \<and> is_bytes p \<longrightarrow>
        is_bytes (seal k n p) \<and> unseal k n (seal k n p) = Some p)"

lemma Encrypt_short_key [simp]: "length k < 32 \<Longrightarrow> Encrypt seal nonce k p = Inl ShortKey"
  by (simp add: Encrypt_def)

lemma sealed_opens:
  assumes "aead_law seal unseal" "is_bytes n" "length n = nonce_size"
    and enc: "Encrypt seal (Some n) k p = Inr c"
  shows "Decrypt unseal k c = Inr p"
proof -
  from enc have k: "\<not> length k < 32"
    and c: "c = b64_encode (n @ seal (take 32 (bytes_of k)) n (bytes_of p))"
    by (auto simp: Encrypt_def Let_def split: if_splits)
  have "is_bytes (n @ seal (take 32 (bytes_of k)) n (bytes_of p))"
    using assms(1-3) k by (simp add: aead_law_def)
  then have "b64_decode c = Some (n @ seal (take 32 (bytes_of k)) n (bytes_of p))"
    unfolding c by (rule b64_decode_encode)
  with k assms show ?thesis
    by (simp add: Decrypt_def Let_def aead_law_def)
qed

text \<open>
  C28. Round trip of a stored API key. Whatever the random nonce, what \<open>Encrypt\<close> returns for a
  master key \<open>Decrypt\<close> turns back into the plaintext under the same master key, through the
  base64 text that is stored.
\<close>

theorem Decrypt_Encrypt:
  assumes "aead_law seal unseal" "is_bytes n" "length n = nonce_size"
    and enc: "Encrypt seal (Some n) k p = Inr c"
  shows "Decrypt unseal k c = Inr p"
  by (rule sealed_opens [OF assms])

definition sample_seal :: "bytes \<Rightarrow> bytes \<Rightarrow> bytes \<Rightarrow> bytes" where
  "sample_seal k n p = p @ [0]"

definition sample_unseal :: "bytes \<Rightarrow> bytes \<Rightarrow> bytes \<Rightarrow> bytes option" where
  "sample_unseal k n c = (if c = [] then None else Some (butlast c))"

theorem Decrypt_Encrypt_witness:
  "\<exists>c. Encrypt sample_seal (Some (replicate 12 7)) (replicate 32 CHR ''k'') ''sk'' = Inr c \<and>
     Decrypt sample_unseal (replicate 32 CHR ''k'') c = Inr ''sk''"
proof -
  have "aead_law sample_seal sample_unseal"
    by (simp add: aead_law_def sample_seal_def sample_unseal_def)
  moreover have "is_bytes (replicate 12 7)" by (simp add: is_bytes_def)
  moreover have "length (replicate 12 (7::nat)) = nonce_size" by (simp add: nonce_size_def)
  moreover obtain c where "Encrypt sample_seal (Some (replicate 12 7)) (replicate 32 CHR ''k'') ''sk'' = Inr c"
    by (simp add: Encrypt_def Let_def)
  ultimately show ?thesis using Decrypt_Encrypt by blast
qed

text \<open>\<open>generateToken\<close> and \<open>GenerateCSRFToken\<close>: 32 random bytes in base64.\<close>

definition random_token :: "bytes option \<Rightarrow> string option" where
  "random_token r = map_option b64_encode r"

lemma random_token_length: "random_token (Some bs) = Some t \<Longrightarrow> length bs = 32 \<Longrightarrow> length t = 43"
  by (auto simp: random_token_def length_b64_encode)

lemma random_token_inj:
  "is_bytes xs \<Longrightarrow> is_bytes ys \<Longrightarrow> random_token (Some xs) = random_token (Some ys) \<Longrightarrow> xs = ys"
  unfolding random_token_def by (metis b64_decode_encode option.inject option.simps(9))

end
