(* ===== verification/Web.thy ===== *)
theory Web
  imports Codec
begin

text \<open>
  Requests, responses and identities: what \<open>net/http\<close> hands to the middleware and the
  handlers, \<open>auth.User\<close>, the token service of \<open>backend/internal/auth/jwt.go\<close> and the
  defaults of \<open>backend/internal/config/config.go\<close>. The JWT library is a parameter (\<open>sign\<close>
  and \<open>parse\<close>) with its documented law as a hypothesis. Times are nanoseconds.
\<close>

datatype json =
    JNull | JBool bool | JInt int | JStr string
  | JNum rat | JArr "json list" | JObj "(string \<times> json) list"

record user =
  u_id :: int
  u_tenant :: int
  u_email :: string
  u_csrf :: string

text \<open>
  A request. \<open>rq_header\<close> and \<open>rq_query\<close> are \<open>Header.Get\<close> and \<open>URL.Query().Get\<close>, which give
  the empty string for an absent name; \<open>rq_user\<close> is the user \<open>WithUser\<close> put into the context.
\<close>

record request =
  rq_method :: string
  rq_path :: string
  rq_header :: "string \<Rightarrow> string"
  rq_query :: "string \<Rightarrow> string"
  rq_remote :: string
  rq_user :: "user option"

definition UserFromContext :: "request \<Rightarrow> user option" where
  "UserFromContext r = rq_user r"

definition WithUser :: "request \<Rightarrow> user \<Rightarrow> request" where
  "WithUser r u = r\<lparr>rq_user := Some u\<rparr>"

definition authUserIDPtr :: "request \<Rightarrow> int option" where
  "authUserIDPtr r = map_option u_id (UserFromContext r)"

text \<open>What a handler writes: a status with a payload, or \<open>writeError\<close>.\<close>

datatype 'a response = Reply int 'a | Fail int string

fun resp_status :: "'a response \<Rightarrow> int" where
  "resp_status (Reply s _) = s"
| "resp_status (Fail s _) = s"

text \<open>\<open>API.tenantID\<close>: the tenant of the user, else the \<open>X-Tenant-ID\<close> header, else 1.\<close>

definition tenantID :: "request \<Rightarrow> int" where
  "tenantID r =
     (case UserFromContext r of
        Some u \<Rightarrow> u_tenant u
      | None \<Rightarrow>
          let value = rq_header r ''X-Tenant-ID''
          in if value = [] then 1
             else case ParseInt value of None \<Rightarrow> 1 | Some i \<Rightarrow> i)"

definition ParseID :: "string \<Rightarrow> int option" where
  "ParseID part =
     (case ParseInt (TrimSpace part) of
        None \<Rightarrow> None
      | Some i \<Rightarrow> if i \<le> 0 then None else Some i)"

definition parsePagination :: "request \<Rightarrow> int \<times> int" where
  "parsePagination r =
     (let page = (case ParseInt (rq_query r ''page'') of
                    Some p \<Rightarrow> if rq_query r ''page'' \<noteq> [] \<and> p > 0 then p else 1
                  | None \<Rightarrow> 1);
          limit = (case ParseInt (rq_query r ''limit'') of
                    Some l \<Rightarrow> if rq_query r ''limit'' \<noteq> [] \<and> l > 0 \<and> l \<le> 100 then l else 20
                  | None \<Rightarrow> 20)
      in (page, limit))"

definition page_offset :: "int \<Rightarrow> int \<Rightarrow> int" where
  "page_offset page limit = wrap64 (wrap64 (page - 1) * limit)"

lemma ParseID_Some: "ParseID s = Some i \<Longrightarrow> 0 < i \<and> is_int64 i"
  by (auto simp: ParseID_def ParseInt_def Let_def split: option.splits list.splits if_splits)

lemma ParseID_FormatInt: "0 < i \<Longrightarrow> is_int64 i \<Longrightarrow> ParseID (FormatInt i) = Some i"
  using FormatInt_plain [of i] by (simp add: ParseID_def TrimSpace_plain ParseInt_FormatInt)

lemma parsePagination_bounds:
  "parsePagination r = (page, limit) \<Longrightarrow> 1 \<le> page \<and> 1 \<le> limit \<and> limit \<le> 100 \<and> is_int64 page"
  by (auto simp: parsePagination_def Let_def ParseInt_def is_int64_def min_int64_def max_int64_def
      split: option.splits if_splits list.splits)

lemma tenantID_user: "UserFromContext r = Some u \<Longrightarrow> tenantID r = u_tenant u"
  by (simp add: tenantID_def)

section \<open>Tokens\<close>

record auth_service =
  svc_secret :: string
  svc_ttl :: int

record claims =
  cl_uid :: int
  cl_tid :: int
  cl_email :: string
  cl_csrf :: string
  cl_issued :: int
  cl_expires :: int

definition NewService :: "string \<Rightarrow> int \<Rightarrow> string + auth_service" where
  "NewService secret ttl =
     (if secret = [] then Inl ''JWT_SECRET is required''
      else Inr \<lparr>svc_secret = secret,
                svc_ttl = (if ttl = 0 then 24 * 3600 * 1000000000 else ttl)\<rparr>)"

definition GenerateToken ::
    "(string \<Rightarrow> claims \<Rightarrow> string option) \<Rightarrow> auth_service \<Rightarrow> int \<Rightarrow> user \<Rightarrow> string \<Rightarrow> string option" where
  "GenerateToken sign s now usr csrf =
     sign (svc_secret s)
       \<lparr>cl_uid = u_id usr, cl_tid = u_tenant usr, cl_email = u_email usr, cl_csrf = csrf,
        cl_issued = now, cl_expires = now + svc_ttl s\<rparr>"

definition ParseToken ::
    "(string \<Rightarrow> int \<Rightarrow> string \<Rightarrow> claims option) \<Rightarrow> auth_service \<Rightarrow> int \<Rightarrow> string \<Rightarrow> user option" where
  "ParseToken parse s now token =
     (case parse (svc_secret s) now token of
        None \<Rightarrow> None
      | Some c \<Rightarrow> Some \<lparr>u_id = cl_uid c, u_tenant = cl_tid c, u_email = cl_email c, u_csrf = cl_csrf c\<rparr>)"

text \<open>
  What the code relies on of the JWT library: a token it signed parses, under the same
  secret, to the private claims that were signed, until a second before it expires (numeric
  dates are cut to whole seconds).
\<close>

definition jwt_law ::
    "(string \<Rightarrow> claims \<Rightarrow> string option) \<Rightarrow> (string \<Rightarrow> int \<Rightarrow> string \<Rightarrow> claims option) \<Rightarrow> bool" where
  "jwt_law sign parse \<longleftrightarrow>
     (\<forall>s c t now. sign s c = Some t \<longrightarrow> now < cl_expires c - 1000000000 \<longrightarrow>
        (\<exists>c'. parse s now t = Some c' \<and> cl_uid c' = cl_uid c \<and> cl_tid c' = cl_tid c
              \<and> cl_email c' = cl_email c \<and> cl_csrf c' = cl_csrf c))"

lemma ParseToken_GenerateToken:
  assumes "jwt_law sign parse" "GenerateToken sign s now usr csrf = Some t"
    and "now' < now + svc_ttl s - 1000000000"
  shows "ParseToken parse s now' t =
    Some \<lparr>u_id = u_id usr, u_tenant = u_tenant usr, u_email = u_email usr, u_csrf = csrf\<rparr>"
proof -
  let ?c = "\<lparr>cl_uid = u_id usr, cl_tid = u_tenant usr, cl_email = u_email usr, cl_csrf = csrf,
    cl_issued = now, cl_expires = now + svc_ttl s\<rparr>"
  from assms(2) have "sign (svc_secret s) ?c = Some t" by (simp add: GenerateToken_def)
  moreover from assms(3) have "now' < cl_expires ?c - 1000000000" by simp
  ultimately obtain c' where "parse (svc_secret s) now' t = Some c'" "cl_uid c' = u_id usr"
    "cl_tid c' = u_tenant usr" "cl_email c' = u_email usr" "cl_csrf c' = csrf"
    using assms(1) unfolding jwt_law_def by (metis claims.select_convs(1-4))
  then show ?thesis by (simp add: ParseToken_def)
qed

section \<open>Configuration\<close>

record config =
  cfg_database :: string
  cfg_port :: string
  cfg_jwt :: string
  cfg_origin :: string
  cfg_redis :: string
  cfg_master :: string

definition config_Load :: "(string \<Rightarrow> string) \<Rightarrow> config" where
  "config_Load getenv =
     \<lparr>cfg_database = getenv ''DATABASE_URL'',
      cfg_port = (if getenv ''PORT'' = [] then ''8080'' else getenv ''PORT''),
      cfg_jwt = getenv ''JWT_SECRET'',
      cfg_origin = (if getenv ''FRONTEND_ORIGIN'' = [] then ''http://localhost:5173''
                    else getenv ''FRONTEND_ORIGIN''),
      cfg_redis = getenv ''REDIS_URL'',
      cfg_master = getenv ''MASTER_KEY''\<rparr>"

end
