(* ===== verification/Tables.thy ===== *)
theory Tables
  imports Web
begin

text \<open>
  The rows of the PostgreSQL schema (\<open>backend/migrations\<close>) with the columns the Go models
  of \<open>backend/internal/models/models.go\<close> carry, one record per table, and the database as
  the record of all tables. A table is its rows in insertion order and the value of its
  \<open>BIGSERIAL\<close> sequence. Money and temperatures (\<open>float64\<close>/\<open>DOUBLE PRECISION\<close>) are
  rationals, rounded as theory \<open>Float64\<close> has it wherever the code computes with them. JSON columns hold \<^typ>\<open>json\<close> values.
\<close>

record user_row =
  us_id :: int
  us_email :: string
  us_hash :: string
  us_tenant :: int
  us_created :: int
  us_updated :: int

record conversation_row =
  cv_id :: int
  cv_tenant :: int
  cv_number :: string
  cv_name :: "string option"
  cv_last :: "int option"
  cv_created :: int
  cv_pic :: "string option"

record message_row =
  ms_id :: int
  ms_tenant :: int
  ms_conv :: int
  ms_sender :: string
  ms_content :: string
  ms_time :: int
  ms_meta :: "json option"
  ms_created :: int

record summary_row =
  ds_id :: int
  ds_tenant :: int
  ds_conv :: int
  ds_text :: string
  ds_points :: "json option"
  ds_created :: int

record important_row =
  im_id :: int
  im_tenant :: int
  im_msg :: int
  im_priority :: string
  im_reason :: "string option"
  im_created :: int

record action_row =
  ai_id :: int
  ai_tenant :: int
  ai_conv :: int
  ai_desc :: string
  ai_status :: string
  ai_assigned :: "int option"
  ai_due :: "int option"
  ai_watchers :: "json option"
  ai_created :: int

record activity_row =
  ac_id :: int
  ac_tenant :: int
  ac_user :: int
  ac_action :: string
  ac_details :: json
  ac_created :: int

record provider_row =
  pv_id :: int
  pv_tenant :: int
  pv_name :: string
  pv_key :: string
  pv_model :: string
  pv_display :: "string option"
  pv_base :: "string option"
  pv_endpoint :: "string option"
  pv_deployment :: "string option"
  pv_version :: "string option"
  pv_temp :: rat
  pv_max :: int
  pv_cin :: rat
  pv_cout :: rat
  pv_rpm :: int
  pv_rpd :: int
  pv_budget :: "rat option"
  pv_active :: bool
  pv_default :: bool
  pv_fallback :: bool
  pv_health :: string
  pv_checked :: "int option"
  pv_created :: int

record usage_row =
  ug_id :: int
  ug_tenant :: int
  ug_provider :: int
  ug_msg :: "int option"
  ug_in :: int
  ug_out :: int
  ug_total :: int
  ug_cin :: rat
  ug_cout :: rat
  ug_cost :: rat
  ug_ms :: int
  ug_ok :: bool
  ug_error :: string
  ug_feature :: string
  ug_created :: int

record health_row =
  hl_id :: int
  hl_provider :: int
  hl_tenant :: int
  hl_time :: int
  hl_status :: string
  hl_ms :: int
  hl_error :: "string option"
  hl_created :: int

record history_row =
  hs_id :: int
  hs_tenant :: int
  hs_provider :: int
  hs_change :: json
  hs_by :: "int option"
  hs_created :: int

record feature_row =
  fa_id :: int
  fa_tenant :: int
  fa_feature :: string
  fa_provider :: int
  fa_priority :: int
  fa_created :: int

record user_ext_row =
  ue_user :: int
  ue_tenant :: int
  ue_role :: string
  ue_team :: int
  ue_created :: int
  ue_updated :: int

record user_role_row =
  ur_id :: int
  ur_user :: int
  ur_tenant :: int
  ur_role :: string
  ur_created :: int

record member_row =
  tm_id :: int
  tm_team :: int
  tm_user :: int
  tm_role :: string
  tm_joined :: int

record invitation_row =
  ti_id :: int
  ti_tenant :: int
  ti_email :: string
  ti_role :: string
  ti_status :: string
  ti_token :: string
  ti_by :: "int option"
  ti_created :: int
  ti_expires :: int

record workflow_row =
  wf_id :: int
  wf_tenant :: int
  wf_name :: string
  wf_trigger :: string
  wf_actions :: string
  wf_enabled :: bool
  wf_created :: int
  wf_updated :: int

record execution_row =
  we_id :: int
  we_workflow :: int
  we_time :: int
  we_success :: bool
  we_error :: "string option"
  we_created :: int

record integration_row =
  ig_id :: int
  ig_tenant :: int
  ig_type :: string
  ig_config :: json
  ig_status :: string
  ig_created :: int
  ig_updated :: int

record audit_row =
  au_id :: int
  au_tenant :: int
  au_user :: "int option"
  au_action :: string
  au_rtype :: "string option"
  au_rid :: "int option"
  au_before :: "json option"
  au_after :: "json option"
  au_ip :: string
  au_agent :: string
  au_created :: int

record label_row =
  lb_id :: int
  lb_tenant :: int
  lb_name :: string
  lb_color :: string
  lb_created :: int

record message_label_row =
  ml_msg :: int
  ml_label :: int
  ml_tenant :: int
  ml_created :: int

record comment_row =
  cm_id :: int
  cm_tenant :: int
  cm_item :: int
  cm_user :: int
  cm_content :: string
  cm_created :: int

record notification_row =
  nt_id :: int
  nt_tenant :: int
  nt_user :: int
  nt_type :: string
  nt_content :: string
  nt_read :: bool
  nt_created :: int

text \<open>
  Two records of \<open>backend/internal/llm\<close> the process keeps outside the database: the
  configuration a provider instance holds (\<open>contract.ProviderConfig\<close>) and the messages of the
  Redis queue (\<open>llm.QueueMessage\<close>).
\<close>

record provider_config =
  pc_id :: int
  pc_name :: string
  pc_key :: string
  pc_model :: string
  pc_base :: string
  pc_endpoint :: string
  pc_deployment :: string
  pc_version :: string
  pc_temp :: rat
  pc_max :: int
  pc_cin :: rat
  pc_cout :: rat
  pc_rpm :: int

record queue_message =
  qm_tenant :: int
  qm_message :: int
  qm_content :: string
  qm_feature :: string
  qm_created :: int

record 'r table =
  tb_rows :: "'r list"
  tb_seq :: int

definition empty_table :: "'r table" where
  "empty_table = \<lparr>tb_rows = [], tb_seq = 0\<rparr>"

record db =
  users :: "user_row table"
  conversations :: "conversation_row table"
  messages :: "message_row table"
  daily_summaries :: "summary_row table"
  important_messages :: "important_row table"
  action_items :: "action_row table"
  user_activity_logs :: "activity_row table"
  llm_providers :: "provider_row table"
  llm_usage_logs :: "usage_row table"
  llm_provider_health :: "health_row table"
  llm_provider_history :: "history_row table"
  llm_feature_assignments :: "feature_row table"
  users_extended :: "user_ext_row table"
  user_roles :: "user_role_row table"
  team_members :: "member_row table"
  team_invitations :: "invitation_row table"
  workflows :: "workflow_row table"
  workflow_executions :: "execution_row table"
  integrations :: "integration_row table"
  audit_logs :: "audit_row table"
  labels :: "label_row table"
  message_labels :: "message_label_row table"
  comments :: "comment_row table"
  notifications :: "notification_row table"

definition empty_db :: db where
  "empty_db =
     \<lparr>users = empty_table, conversations = empty_table, messages = empty_table,
      daily_summaries = empty_table, important_messages = empty_table,
      action_items = empty_table, user_activity_logs = empty_table,
      llm_providers = empty_table, llm_usage_logs = empty_table,
      llm_provider_health = empty_table, llm_provider_history = empty_table,
      llm_feature_assignments = empty_table, users_extended = empty_table,
      user_roles = empty_table, team_members = empty_table, team_invitations = empty_table,
      workflows = empty_table, workflow_executions = empty_table, integrations = empty_table,
      audit_logs = empty_table, labels = empty_table, message_labels = empty_table,
      comments = empty_table, notifications = empty_table\<rparr>"

lemma empty_table_simps [simp]: "tb_rows empty_table = []" "tb_seq empty_table = 0"
  by (simp_all add: empty_table_def)

text \<open>Membership of a key, as foreign-key checks look it up (they see every row).\<close>

definition has_key :: "('r \<Rightarrow> int) \<Rightarrow> int \<Rightarrow> 'r table \<Rightarrow> bool" where
  "has_key key i t \<longleftrightarrow> (\<exists>r \<in> set (tb_rows t). key r = i)"

lemma has_key_simps [simp]:
  "has_key key i \<lparr>tb_rows = [], tb_seq = q\<rparr> = False"
  "has_key key i \<lparr>tb_rows = r # rs, tb_seq = q\<rparr> \<longleftrightarrow> key r = i \<or> has_key key i \<lparr>tb_rows = rs, tb_seq = q\<rparr>"
  by (auto simp: has_key_def)

end
