(* ===== verification/Database.thy ===== *)
theory Database
  imports Tables "HOL-Library.State_Monad"
begin

text \<open>
  The tenant connection of \<open>backend/internal/db/db.go\<close> and the SQL statements the backend
  sends through it. A statement is a function of the connection's session (the setting
  \<open>app.tenant_id\<close> and whether row-level security binds the role: PostgreSQL exempts
  superusers and owners, so it is a parameter of the world) and the database. Any statement
  may also fail for an outside reason: the world holds a schedule of such faults, one entry
  consumed per call that reaches the server. An entry beyond the schedule is no fault. Beside
  the database the world holds what the process and Redis keep: the random bytes to come, what
  was handed to the hub, the queues (by key), and the provider instances and the cache of the
  LLM router (\<open>w_instances\<close> holds the configuration an instance was created with), and the tenants
  whose health monitor and queue worker are running.
\<close>

datatype dberr = NoRows | Violation | Fault | NotFound

record session =
  ss_tenant :: "int option"
  ss_rls :: bool

record world =
  w_db :: db
  w_sess :: session
  w_faults :: "bool list"
  w_now :: int
  w_rand :: "bytes option list"
  w_hub :: bool
  w_bcast :: "(int \<times> json) list"
  w_queue :: "string \<Rightarrow> queue_message list"
  w_instances :: "string \<rightharpoonup> provider_config"
  w_cache :: "string \<rightharpoonup> provider_config \<times> int"
  w_monitors :: "int set"
  w_workers :: "int set"

type_synonym 'a act = "(world, 'a) state"
type_synonym 'a sql = "session \<Rightarrow> db \<Rightarrow> (dberr + 'a) \<times> db"

section \<open>Statements\<close>

text \<open>
  The policy \<open>tenant_id = current_setting('app.tenant_id')\<close> of the migrations, which both
  hides rows from a statement (\<open>USING\<close>) and refuses new ones (\<open>WITH CHECK\<close>).
\<close>

definition visible :: "session \<Rightarrow> int \<Rightarrow> bool" where
  "visible s t \<longleftrightarrow> (ss_rls s \<longrightarrow> ss_tenant s = Some t)"

definition sql_select :: "(db \<Rightarrow> 'r table) \<Rightarrow> ('r \<Rightarrow> int) \<Rightarrow> ('r \<Rightarrow> bool) \<Rightarrow> 'r list sql" where
  "sql_select get ten P s d = (Inr (filter (\<lambda>r. visible s (ten r) \<and> P r) (tb_rows (get d))), d)"

text \<open>\<open>QueryRow(...).Scan\<close>: the first row, or \<open>pgx.ErrNoRows\<close>.\<close>

definition sql_row :: "(db \<Rightarrow> 'r table) \<Rightarrow> ('r \<Rightarrow> int) \<Rightarrow> ('r \<Rightarrow> bool) \<Rightarrow> 'r sql" where
  "sql_row get ten P s d =
     (case first_of (filter (\<lambda>r. visible s (ten r) \<and> P r) (tb_rows (get d))) of
        None \<Rightarrow> (Inl NoRows, d)
      | Some r \<Rightarrow> (Inr r, d))"

text \<open>
  \<open>INSERT ... RETURNING\<close>: the sequence advances even when the row is refused by a policy or a
  constraint (\<open>ok\<close> holds the unique and foreign-key constraints).
\<close>

definition sql_insert ::
    "(db \<Rightarrow> 'r table) \<Rightarrow> (('r table \<Rightarrow> 'r table) \<Rightarrow> db \<Rightarrow> db) \<Rightarrow> ('r \<Rightarrow> int)
       \<Rightarrow> (db \<Rightarrow> 'r \<Rightarrow> bool) \<Rightarrow> (int \<Rightarrow> 'r) \<Rightarrow> 'r sql" where
  "sql_insert get upd ten ok mk s d =
     (let i = tb_seq (get d) + 1; r = mk i
      in if visible s (ten r) \<and> ok d r
         then (Inr r, upd (\<lambda>t. t\<lparr>tb_rows := tb_rows t @ [r], tb_seq := i\<rparr>) d)
         else (Inl Violation, upd (\<lambda>t. t\<lparr>tb_seq := i\<rparr>) d))"

text \<open>\<open>UPDATE ... WHERE ... RETURNING\<close>, with the rows as they are after the update.\<close>

definition sql_update ::
    "(db \<Rightarrow> 'r table) \<Rightarrow> (('r table \<Rightarrow> 'r table) \<Rightarrow> db \<Rightarrow> db) \<Rightarrow> ('r \<Rightarrow> int)
       \<Rightarrow> ('r \<Rightarrow> bool) \<Rightarrow> ('r \<Rightarrow> 'r) \<Rightarrow> 'r list sql" where
  "sql_update get upd ten P f s d =
     (let hit = (\<lambda>r. visible s (ten r) \<and> P r)
      in (Inr (map f (filter hit (tb_rows (get d)))),
          upd (\<lambda>t. t\<lparr>tb_rows := update_where hit f (tb_rows t)\<rparr>) d))"

text \<open>\<open>DELETE ... WHERE\<close>: the number of rows; \<open>casc\<close> removes what referenced a deleted row.\<close>

definition sql_delete ::
    "(db \<Rightarrow> 'r table) \<Rightarrow> (('r table \<Rightarrow> 'r table) \<Rightarrow> db \<Rightarrow> db) \<Rightarrow> ('r \<Rightarrow> int)
       \<Rightarrow> ('r list \<Rightarrow> db \<Rightarrow> db) \<Rightarrow> ('r \<Rightarrow> bool) \<Rightarrow> nat sql" where
  "sql_delete get upd ten casc P s d =
     (let hit = (\<lambda>r. visible s (ten r) \<and> P r); gone = filter hit (tb_rows (get d))
      in (Inr (length gone),
          casc gone (upd (\<lambda>t. t\<lparr>tb_rows := filter (\<lambda>r. \<not> hit r) (tb_rows t)\<rparr>) d)))"

text \<open>
  \<open>INSERT ... ON CONFLICT (...) DO UPDATE\<close>: \<open>same\<close> finds the conflicting row. Under row-level
  security the row to update must be visible and the statement fails otherwise.
\<close>

definition sql_upsert ::
    "(db \<Rightarrow> 'r table) \<Rightarrow> (('r table \<Rightarrow> 'r table) \<Rightarrow> db \<Rightarrow> db) \<Rightarrow> ('r \<Rightarrow> int)
       \<Rightarrow> (db \<Rightarrow> 'r \<Rightarrow> bool) \<Rightarrow> (int \<Rightarrow> 'r) \<Rightarrow> ('r \<Rightarrow> bool) \<Rightarrow> ('r \<Rightarrow> 'r) \<Rightarrow> 'r sql" where
  "sql_upsert get upd ten ok mk same f s d =
     (let i = tb_seq (get d) + 1; r = mk i; seqd = upd (\<lambda>t. t\<lparr>tb_seq := i\<rparr>) d
      in if \<not> (visible s (ten r) \<and> ok d r) then (Inl Violation, seqd)
         else case first_of (filter same (tb_rows (get d))) of
                None \<Rightarrow> (Inr r, upd (\<lambda>t. t\<lparr>tb_rows := tb_rows t @ [r], tb_seq := i\<rparr>) d)
              | Some old \<Rightarrow>
                  if visible s (ten old)
                  then (Inr (f old),
                        upd (\<lambda>t. t\<lparr>tb_rows := update_where same f (tb_rows t), tb_seq := i\<rparr>) d)
                  else (Inl Violation, seqd))"

text \<open>\<open>INSERT ... ON CONFLICT DO NOTHING\<close>.\<close>

definition sql_insert_ignore ::
    "(db \<Rightarrow> 'r table) \<Rightarrow> (('r table \<Rightarrow> 'r table) \<Rightarrow> db \<Rightarrow> db) \<Rightarrow> ('r \<Rightarrow> int)
       \<Rightarrow> (db \<Rightarrow> 'r \<Rightarrow> bool) \<Rightarrow> (int \<Rightarrow> 'r) \<Rightarrow> ('r \<Rightarrow> bool) \<Rightarrow> unit sql" where
  "sql_insert_ignore get upd ten ok mk same s d =
     (let i = tb_seq (get d) + 1; r = mk i
      in if \<not> visible s (ten r) then (Inl Violation, upd (\<lambda>t. t\<lparr>tb_seq := i\<rparr>) d)
         else if \<exists>x \<in> set (tb_rows (get d)). same x
              then (Inr (), upd (\<lambda>t. t\<lparr>tb_seq := i\<rparr>) d)
         else if ok d r
              then (Inr (), upd (\<lambda>t. t\<lparr>tb_rows := tb_rows t @ [r], tb_seq := i\<rparr>) d)
         else (Inl Violation, upd (\<lambda>t. t\<lparr>tb_seq := i\<rparr>) d))"

section \<open>Actions\<close>

text \<open>A call that reaches the server: it consumes one entry of the fault schedule.\<close>

definition faulty :: "(dberr + 'a) act \<Rightarrow> (dberr + 'a) act" where
  "faulty m = State (\<lambda>w.
     case w_faults w of
       [] \<Rightarrow> run_state m w
     | b # fs \<Rightarrow> (if b then (Inl Fault, w\<lparr>w_faults := fs\<rparr>) else run_state m (w\<lparr>w_faults := fs\<rparr>)))"

definition Exec :: "'a sql \<Rightarrow> (dberr + 'a) act" where
  "Exec q = faulty (State (\<lambda>w. let (r, d) = q (w_sess w) (w_db w) in (r, w\<lparr>w_db := d\<rparr>)))"

definition Acquire :: "(dberr + unit) act" where
  "Acquire = faulty (State_Monad.return (Inr ()))"

definition SetTenant :: "int option \<Rightarrow> (dberr + unit) act" where
  "SetTenant t = faulty (State (\<lambda>w. (Inr (), w\<lparr>w_sess := (w_sess w)\<lparr>ss_tenant := t\<rparr>\<rparr>)))"

text \<open>
  \<open>Store.WithTenantConn\<close>: acquire a connection, set the tenant, run the callback, reset the
  setting on the way out and drop that call's error.
\<close>

definition WithTenantConn :: "int \<Rightarrow> (dberr + 'a) act \<Rightarrow> (dberr + 'a) act" where
  "WithTenantConn tenant fn = do {
     conn \<leftarrow> Acquire;
     case conn of
       Inl e \<Rightarrow> State_Monad.return (Inl e)
     | Inr _ \<Rightarrow> do {
         set \<leftarrow> SetTenant (Some tenant);
         case set of
           Inl e \<Rightarrow> State_Monad.return (Inl e)
         | Inr _ \<Rightarrow> do {
             r \<leftarrow> fn;
             _ \<leftarrow> SetTenant None;
             State_Monad.return r
           }
       }
   }"

text \<open>Sequencing of statements in a callback: stop at the first error.\<close>

definition then_ok :: "(dberr + 'a) act \<Rightarrow> ('a \<Rightarrow> (dberr + 'b) act) \<Rightarrow> (dberr + 'b) act" where
  "then_ok m f = do {
     r \<leftarrow> m;
     case r of Inl e \<Rightarrow> State_Monad.return (Inl e) | Inr x \<Rightarrow> f x
   }"

definition ok :: "'a \<Rightarrow> (dberr + 'a) act" where
  "ok x = State_Monad.return (Inr x)"

definition err :: "dberr \<Rightarrow> (dberr + 'a) act" where
  "err e = State_Monad.return (Inl e)"

definition Now :: "int act" where
  "Now = State (\<lambda>w. (w_now w, w))"

definition RandRead :: "bytes option act" where
  "RandRead = State (\<lambda>w. case w_rand w of [] \<Rightarrow> (None, w) | r # rs \<Rightarrow> (r, w\<lparr>w_rand := rs\<rparr>))"

text \<open>\<open>a.Hub.Broadcast\<close> guarded by \<open>a.Hub != nil\<close>: what is handed to the hub, in order.\<close>

definition HubBroadcast :: "int \<Rightarrow> json \<Rightarrow> unit act" where
  "HubBroadcast tenant payload = State (\<lambda>w.
     ((), if w_hub w then w\<lparr>w_bcast := w_bcast w @ [(tenant, payload)]\<rparr> else w))"

text \<open>State the process keeps: read and written without a call to a server.\<close>

definition get_mem :: "(world \<Rightarrow> 'a) \<Rightarrow> 'a act" where
  "get_mem f = State (\<lambda>w. (f w, w))"

definition set_instances :: "(string \<rightharpoonup> provider_config) \<Rightarrow> unit act" where
  "set_instances m = State (\<lambda>w. ((), w\<lparr>w_instances := m\<rparr>))"

definition set_cache :: "(string \<rightharpoonup> provider_config \<times> int) \<Rightarrow> unit act" where
  "set_cache m = State (\<lambda>w. ((), w\<lparr>w_cache := m\<rparr>))"

definition set_monitors :: "int set \<Rightarrow> unit act" where
  "set_monitors ts = State (\<lambda>w. ((), w\<lparr>w_monitors := ts\<rparr>))"

definition set_workers :: "int set \<Rightarrow> unit act" where
  "set_workers ts = State (\<lambda>w. ((), w\<lparr>w_workers := ts\<rparr>))"

definition set_queue :: "(string \<Rightarrow> queue_message list) \<Rightarrow> unit act" where
  "set_queue q = State (\<lambda>w. ((), w\<lparr>w_queue := q\<rparr>))"

section \<open>Running actions\<close>

lemma run_mem [state_simps, simp]:
  "run_state (get_mem f) w = (f w, w)"
  "run_state (set_instances m) w = ((), w\<lparr>w_instances := m\<rparr>)"
  "run_state (set_cache c) w = ((), w\<lparr>w_cache := c\<rparr>)"
  "run_state (set_queue q) w = ((), w\<lparr>w_queue := q\<rparr>)"
  "run_state (set_monitors ts) w = ((), w\<lparr>w_monitors := ts\<rparr>)"
  "run_state (set_workers ts) w = ((), w\<lparr>w_workers := ts\<rparr>)"
  by (simp_all add: set_monitors_def set_workers_def get_mem_def set_instances_def set_cache_def set_queue_def)

lemma run_faulty_nil [simp]: "w_faults w = [] \<Longrightarrow> run_state (faulty m) w = run_state m w"
  by (simp add: faulty_def)

lemma run_Exec_nil [state_simps]:
  "w_faults w = [] \<Longrightarrow> run_state (Exec q) w =
     (let (r, d) = q (w_sess w) (w_db w) in (r, w\<lparr>w_db := d\<rparr>))"
  by (simp add: Exec_def)

lemma run_then_ok [state_simps]:
  "run_state (then_ok m f) w =
     (case run_state m w of (Inl e, w') \<Rightarrow> (Inl e, w') | (Inr x, w') \<Rightarrow> run_state (f x) w')"
  by (auto simp: then_ok_def split: prod.splits sum.splits)

lemma run_ok [state_simps, simp]: "run_state (ok x) w = (Inr x, w)"
  by (simp add: ok_def)

lemma run_err [state_simps, simp]: "run_state (err e) w = (Inl e, w)"
  by (simp add: err_def)

lemma run_Now [state_simps, simp]: "run_state Now w = (w_now w, w)"
  by (simp add: Now_def)

lemma run_HubBroadcast [state_simps]:
  "run_state (HubBroadcast t p) w =
     ((), if w_hub w then w\<lparr>w_bcast := w_bcast w @ [(t, p)]\<rparr> else w)"
  by (simp add: HubBroadcast_def)

lemma run_RandRead [state_simps]:
  "run_state RandRead w =
     (case w_rand w of [] \<Rightarrow> (None, w) | r # rs \<Rightarrow> (r, w\<lparr>w_rand := rs\<rparr>))"
  by (simp add: RandRead_def)

text \<open>Without faults the callback runs in a session of exactly the tenant asked for.\<close>

lemma run_WithTenantConn_nil [state_simps]:
  assumes "w_faults w = []"
    and "w_faults (snd (run_state fn (w\<lparr>w_sess := (w_sess w)\<lparr>ss_tenant := Some t\<rparr>\<rparr>))) = []"
  shows "run_state (WithTenantConn t fn) w =
     (let (r, w') = run_state fn (w\<lparr>w_sess := (w_sess w)\<lparr>ss_tenant := Some t\<rparr>\<rparr>)
      in (r, w'\<lparr>w_sess := (w_sess w')\<lparr>ss_tenant := None\<rparr>\<rparr>))"
  using assms
  by (cases "run_state fn (w\<lparr>w_sess := (w_sess w)\<lparr>ss_tenant := Some t\<rparr>\<rparr>)")
    (simp add: WithTenantConn_def Acquire_def SetTenant_def)

section \<open>Relations every step respects\<close>

text \<open>
  The shape of every frame property: a reflexive and transitive relation between worlds that
  each primitive respects is respected by whatever the primitives are composed to.
\<close>

locale step_core =
  fixes R :: "world \<Rightarrow> world \<Rightarrow> bool"
  assumes refl: "R w w"
    and trans: "R u v \<Longrightarrow> R v w \<Longrightarrow> R u w"
    and faults: "w_faults w = b # fs \<Longrightarrow> R w (w\<lparr>w_faults := fs\<rparr>)"
    and rand: "R w (w\<lparr>w_rand := rs\<rparr>)"
    and instances: "R w (w\<lparr>w_instances := is\<rparr>)"
    and cache: "R w (w\<lparr>w_cache := cs\<rparr>)"
    and monitors: "R w (w\<lparr>w_monitors := ts\<rparr>)"
    and workers: "R w (w\<lparr>w_workers := ts\<rparr>)"
begin

lemma keeps_return [intro]: "state_io_rel R (State_Monad.return x)"
  by (simp add: state_io_rel_def refl)

lemma keeps_bind [intro]:
  assumes "state_io_rel R m" and "\<And>x. state_io_rel R (f x)"
  shows "state_io_rel R (State_Monad.bind m f)"
  unfolding state_io_rel_def
proof
  fix w
  have "R w (snd (run_state m w))" using assms(1) by (simp add: state_io_rel_def)
  moreover have "R (snd (run_state m w)) (snd (run_state (f (fst (run_state m w))) (snd (run_state m w))))"
    using assms(2) by (simp add: state_io_rel_def)
  ultimately show "R w (snd (run_state (State_Monad.bind m f) w))"
    by (auto intro: trans simp: split_beta)
qed

lemma keeps_faulty [intro]: "state_io_rel R m \<Longrightarrow> state_io_rel R (faulty m)"
  unfolding state_io_rel_def faulty_def
  by (auto split: list.split intro: faults trans [OF faults])

lemma keeps_Exec:
  "(\<And>w. R w (w\<lparr>w_db := snd (q (w_sess w) (w_db w))\<rparr>)) \<Longrightarrow> state_io_rel R (Exec q)"
  unfolding Exec_def by (rule keeps_faulty) (simp add: state_io_rel_def split_beta)

lemma keeps_Acquire [intro]: "state_io_rel R Acquire"
  unfolding Acquire_def by (intro keeps_faulty keeps_return)

lemma keeps_sum [intro]:
  "(\<And>e. state_io_rel R (f e)) \<Longrightarrow> (\<And>x. state_io_rel R (g x)) \<Longrightarrow>
     state_io_rel R (case r of Inl e \<Rightarrow> f e | Inr x \<Rightarrow> g x)"
  by (cases r) auto

lemma keeps_option [intro]:
  "state_io_rel R f \<Longrightarrow> (\<And>x. state_io_rel R (g x)) \<Longrightarrow>
     state_io_rel R (case r of None \<Rightarrow> f | Some x \<Rightarrow> g x)"
  by (cases r) auto

lemma keeps_if [intro]:
  "state_io_rel R f \<Longrightarrow> state_io_rel R g \<Longrightarrow> state_io_rel R (if b then f else g)"
  by simp

lemma keeps_prod [intro]:
  "(\<And>x y. state_io_rel R (f x y)) \<Longrightarrow> state_io_rel R (case p of (x, y) \<Rightarrow> f x y)"
  by (cases p) auto

lemma keeps_then_ok [intro]:
  "state_io_rel R m \<Longrightarrow> (\<And>x. state_io_rel R (f x)) \<Longrightarrow> state_io_rel R (then_ok m f)"
  unfolding then_ok_def by (intro keeps_bind keeps_sum keeps_return)

lemma keeps_ok [intro]: "state_io_rel R (ok x)"
  unfolding ok_def by (rule keeps_return)

lemma keeps_err [intro]: "state_io_rel R (err e)"
  unfolding err_def by (rule keeps_return)

lemma keeps_Now [intro]: "state_io_rel R Now"
  by (simp add: state_io_rel_def refl)

lemma keeps_RandRead [intro]: "state_io_rel R RandRead"
  by (auto simp: state_io_rel_def RandRead_def refl rand split: list.split)

lemma keeps_mem [intro]:
  "state_io_rel R (get_mem f)" "state_io_rel R (set_instances m)" "state_io_rel R (set_cache c)"
  "state_io_rel R (set_monitors ts)" "state_io_rel R (set_workers ts)"
  by (simp_all add: state_io_rel_def refl instances cache monitors workers)

lemmas keeps_core =
  keeps_return keeps_bind keeps_sum keeps_option keeps_if keeps_prod keeps_then_ok keeps_ok
  keeps_err keeps_Now keeps_RandRead keeps_mem

end

text \<open>The same with what leaves the process: the hub and the queue.\<close>

locale step_relation = step_core +
  assumes bcast: "R w (w\<lparr>w_bcast := bs\<rparr>)"
    and queue: "R w (w\<lparr>w_queue := qs\<rparr>)"
begin

lemma keeps_HubBroadcast [intro]: "state_io_rel R (HubBroadcast t p)"
  by (simp add: state_io_rel_def HubBroadcast_def refl bcast)

lemma keeps_queue [intro]: "state_io_rel R (set_queue q)"
  by (simp add: state_io_rel_def queue)

lemmas keeps_basic = keeps_core keeps_HubBroadcast keeps_queue

end

text \<open>A relation that also ignores the session's tenant is respected by tenant connections.\<close>

locale frame_core = step_core +
  assumes sess: "R w (w\<lparr>w_sess := (w_sess w)\<lparr>ss_tenant := t\<rparr>\<rparr>)"
begin

lemma keeps_SetTenant [intro]: "state_io_rel R (SetTenant t)"
  unfolding SetTenant_def by (rule keeps_faulty) (simp add: state_io_rel_def sess)

lemma keeps_WithTenantConn [intro]: "state_io_rel R fn \<Longrightarrow> state_io_rel R (WithTenantConn t fn)"
  unfolding WithTenantConn_def
  by (intro keeps_bind keeps_sum keeps_return keeps_Acquire keeps_SetTenant)

lemmas keeps_conn = keeps_core keeps_WithTenantConn

end

locale frame_relation = step_relation + frame_core
begin

lemmas keeps_intros = keeps_basic keeps_WithTenantConn

end

text \<open>A relation that does not look at the database is respected by every statement.\<close>

locale exec_relation = frame_core +
  assumes db: "R w (w\<lparr>w_db := d\<rparr>)"
begin

lemma keeps_any [intro]: "state_io_rel R (Exec q)"
  by (rule keeps_Exec) (rule db)

lemmas keeps_all = keeps_conn keeps_any

end

text \<open>No operation makes up a fault: what runs without faults leaves none behind.\<close>

definition no_faults :: "world \<Rightarrow> world \<Rightarrow> bool" where
  "no_faults w w' \<longleftrightarrow> (w_faults w = [] \<longrightarrow> w_faults w' = [])"

interpretation quiet: frame_relation no_faults
  by unfold_locales (auto simp: no_faults_def)

interpretation quiet_exec: exec_relation no_faults
  by unfold_locales (simp add: no_faults_def)

lemma quietD: "state_io_rel no_faults m \<Longrightarrow> w_faults w = [] \<Longrightarrow> w_faults (snd (run_state m w)) = []"
  by (simp add: state_io_rel_def no_faults_def)

lemmas quiet_Exec [intro] = quiet_exec.keeps_any

text \<open>A tenant connection around a callback that is itself free of faults.\<close>

lemma run_WithTenantConn_quiet:
  assumes "w_faults w = []" "state_io_rel no_faults fn"
  shows "run_state (WithTenantConn t fn) w =
     (let (r, w') = run_state fn (w\<lparr>w_sess := (w_sess w)\<lparr>ss_tenant := Some t\<rparr>\<rparr>)
      in (r, w'\<lparr>w_sess := (w_sess w')\<lparr>ss_tenant := None\<rparr>\<rparr>))"
  by (rule run_WithTenantConn_nil) (use assms in \<open>auto intro: quietD\<close>)

end
