(* ===== verification/Tenancy.thy ===== *)
theory Tenancy
  imports Database
begin

text \<open>
  Tenant isolation as a frame relation. \<open>db_frame t\<close> relates two databases when everything
  that belongs to a tenant other than \<open>t\<close> is as it was: the same rows, with the same
  contents, in the same order. Rows of the tables that reference a deletable row (comments,
  and the usage, health, history and feature rows of a provider) may also have disappeared,
  since \<open>ON DELETE CASCADE\<close> does not look at the tenant column. \<open>workflow_executions\<close> has no
  tenant column and is treated separately.
\<close>

definition same_rows :: "('r \<Rightarrow> int) \<Rightarrow> int \<Rightarrow> 'r table \<Rightarrow> 'r table \<Rightarrow> bool" where
  "same_rows ten t T T' \<longleftrightarrow>
     filter (\<lambda>r. ten r \<noteq> t) (tb_rows T') = filter (\<lambda>r. ten r \<noteq> t) (tb_rows T)"

definition shrunk_rows :: "('r \<Rightarrow> int) \<Rightarrow> int \<Rightarrow> 'r table \<Rightarrow> 'r table \<Rightarrow> bool" where
  "shrunk_rows ten t T T' \<longleftrightarrow>
     (\<exists>K. filter (\<lambda>r. ten r \<noteq> t) (tb_rows T') = filter K (filter (\<lambda>r. ten r \<noteq> t) (tb_rows T)))"

definition db_frame :: "int \<Rightarrow> db \<Rightarrow> db \<Rightarrow> bool" where
  "db_frame t d d' \<longleftrightarrow>
     same_rows us_tenant t (users d) (users d') \<and>
     same_rows cv_tenant t (conversations d) (conversations d') \<and>
     same_rows ms_tenant t (messages d) (messages d') \<and>
     same_rows ds_tenant t (daily_summaries d) (daily_summaries d') \<and>
     same_rows im_tenant t (important_messages d) (important_messages d') \<and>
     same_rows ai_tenant t (action_items d) (action_items d') \<and>
     same_rows ac_tenant t (user_activity_logs d) (user_activity_logs d') \<and>
     same_rows pv_tenant t (llm_providers d) (llm_providers d') \<and>
     shrunk_rows ug_tenant t (llm_usage_logs d) (llm_usage_logs d') \<and>
     shrunk_rows hl_tenant t (llm_provider_health d) (llm_provider_health d') \<and>
     shrunk_rows hs_tenant t (llm_provider_history d) (llm_provider_history d') \<and>
     shrunk_rows fa_tenant t (llm_feature_assignments d) (llm_feature_assignments d') \<and>
     same_rows ue_tenant t (users_extended d) (users_extended d') \<and>
     same_rows ur_tenant t (user_roles d) (user_roles d') \<and>
     same_rows tm_team t (team_members d) (team_members d') \<and>
     same_rows ti_tenant t (team_invitations d) (team_invitations d') \<and>
     same_rows wf_tenant t (workflows d) (workflows d') \<and>
     same_rows ig_tenant t (integrations d) (integrations d') \<and>
     same_rows au_tenant t (audit_logs d) (audit_logs d') \<and>
     same_rows lb_tenant t (labels d) (labels d') \<and>
     same_rows ml_tenant t (message_labels d) (message_labels d') \<and>
     shrunk_rows cm_tenant t (comments d) (comments d') \<and>
     same_rows nt_tenant t (notifications d) (notifications d')"

definition tenant_frame :: "int \<Rightarrow> world \<Rightarrow> world \<Rightarrow> bool" where
  "tenant_frame t w w' \<longleftrightarrow> db_frame t (w_db w) (w_db w')"

lemma same_rows_refl [simp]: "same_rows ten t T T"
  by (simp add: same_rows_def)

lemma shrunk_rows_refl [simp]: "shrunk_rows ten t T T"
  unfolding shrunk_rows_def by (rule exI [of _ "\<lambda>_. True"]) simp

lemma same_rows_trans: "same_rows ten t T U \<Longrightarrow> same_rows ten t U V \<Longrightarrow> same_rows ten t T V"
  by (simp add: same_rows_def)

lemma shrunk_rows_trans:
  "shrunk_rows ten t T U \<Longrightarrow> shrunk_rows ten t U V \<Longrightarrow> shrunk_rows ten t T V"
  unfolding shrunk_rows_def by (elim exE) (metis filter_filter)

lemma same_shrunk: "same_rows ten t T U \<Longrightarrow> shrunk_rows ten t T U"
  unfolding same_rows_def shrunk_rows_def by (rule exI [of _ "\<lambda>_. True"]) simp

lemma shrunk_filter:
  "shrunk_rows ten t T (T\<lparr>tb_rows := filter K (tb_rows T)\<rparr>)"
  unfolding shrunk_rows_def
  by (rule exI [of _ K]) (simp add: conj_commute)

lemma db_frame_refl [simp]: "db_frame t d d"
  by (simp add: db_frame_def)

lemma db_frame_trans: "db_frame t c d \<Longrightarrow> db_frame t d e \<Longrightarrow> db_frame t c e"
  unfolding db_frame_def by (intro conjI; elim conjE; erule (1) same_rows_trans shrunk_rows_trans)

text \<open>The relation is a frame relation, for every tenant.\<close>

interpretation tenant: frame_relation "tenant_frame t" for t
  by unfold_locales (auto simp: tenant_frame_def intro: db_frame_trans)

section \<open>Statements on a table that keep to one tenant\<close>

text \<open>
  What a table gives the isolation proofs: reading back what was written, and that a change
  of this table which keeps the other tenants' rows is a change the frame allows.
\<close>

locale tenant_table =
  fixes get :: "db \<Rightarrow> 'r table"
    and upd :: "('r table \<Rightarrow> 'r table) \<Rightarrow> db \<Rightarrow> db"
    and ten :: "'r \<Rightarrow> int"
  assumes get_upd: "get (upd f d) = f (get d)"
    and frame: "same_rows ten t (get d) (f (get d)) \<Longrightarrow> db_frame t d (upd f d)"
begin

lemma keeps_select: "state_io_rel (tenant_frame t) (Exec (sql_select get ten P))"
  by (rule tenant.keeps_Exec) (simp add: sql_select_def tenant_frame_def)

lemma keeps_row: "state_io_rel (tenant_frame t) (Exec (sql_row get ten P))"
  by (rule tenant.keeps_Exec) (simp add: sql_row_def tenant_frame_def split: option.split)

lemma frame_seq: "db_frame t d (upd (\<lambda>T. T\<lparr>tb_seq := i\<rparr>) d)"
  by (rule frame) (simp add: same_rows_def)

lemma frame_append:
  "ten r = t \<Longrightarrow> db_frame t d (upd (\<lambda>T. T\<lparr>tb_rows := tb_rows T @ [r], tb_seq := i\<rparr>) d)"
  by (rule frame) (simp add: same_rows_def)

lemma frame_rewrite:
  "(\<And>r. P r \<Longrightarrow> ten r = t \<and> ten (f r) = t) \<Longrightarrow>
     db_frame t d (upd (\<lambda>T. T\<lparr>tb_rows := update_where P f (tb_rows T), tb_seq := i T\<rparr>) d)"
  by (rule frame) (simp add: same_rows_def filter_update_where)

lemma keeps_insert:
  assumes "\<And>i. ten (mk i) = t"
  shows "state_io_rel (tenant_frame t) (Exec (sql_insert get upd ten good mk))"
  by (rule tenant.keeps_Exec)
    (simp add: sql_insert_def tenant_frame_def Let_def frame_append frame_seq assms)

lemma keeps_insert_ignore:
  assumes "\<And>i. ten (mk i) = t"
  shows "state_io_rel (tenant_frame t) (Exec (sql_insert_ignore get upd ten good mk same))"
  by (rule tenant.keeps_Exec)
    (simp add: sql_insert_ignore_def tenant_frame_def Let_def frame_append frame_seq assms)

lemma keeps_update:
  assumes "\<And>r. P r \<Longrightarrow> ten r = t" and "\<And>r. ten (f r) = ten r"
  shows "state_io_rel (tenant_frame t) (Exec (sql_update get upd ten P f))"
proof (rule tenant.keeps_Exec)
  fix w
  have rewrite: "db_frame t d (upd (\<lambda>T. T\<lparr>tb_rows := update_where Q f (tb_rows T)\<rparr>) d)"
    if "\<And>r. Q r \<Longrightarrow> P r" for Q d
    using that assms by (intro frame) (auto simp: same_rows_def intro!: filter_update_where)
  show "tenant_frame t w (w\<lparr>w_db := snd (sql_update get upd ten P f (w_sess w) (w_db w))\<rparr>)"
    using rewrite [of "\<lambda>r. visible (w_sess w) (ten r) \<and> P r" "w_db w"]
    by (simp add: sql_update_def tenant_frame_def Let_def)
qed

lemma keeps_delete:
  assumes "\<And>r. P r \<Longrightarrow> ten r = t" and casc: "\<And>rs d. db_frame t d (casc rs d)"
  shows "state_io_rel (tenant_frame t) (Exec (sql_delete get upd ten casc P))"
proof (rule tenant.keeps_Exec)
  fix w
  have remove: "db_frame t d (upd (\<lambda>T. T\<lparr>tb_rows := filter (\<lambda>r. \<not> Q r) (tb_rows T)\<rparr>) d)"
    if "\<And>r. Q r \<Longrightarrow> P r" for Q d
    using that assms(1) by (intro frame) (auto simp: same_rows_def intro!: filter_cong)
  show "tenant_frame t w (w\<lparr>w_db := snd (sql_delete get upd ten casc P (w_sess w) (w_db w))\<rparr>)"
    using db_frame_trans [OF remove [of "\<lambda>r. visible (w_sess w) (ten r) \<and> P r" "w_db w"] casc]
    by (simp add: sql_delete_def tenant_frame_def Let_def)
qed

lemma keeps_upsert:
  assumes "\<And>i. ten (mk i) = t" and "\<And>r. same r \<Longrightarrow> ten r = t" and "\<And>r. ten (f r) = ten r"
  shows "state_io_rel (tenant_frame t) (Exec (sql_upsert get upd ten good mk same f))"
  by (rule tenant.keeps_Exec)
    (auto simp: sql_upsert_def tenant_frame_def Let_def frame_seq assms
      intro!: frame_append frame_rewrite split: option.split)

lemmas keeps_stmt =
  keeps_select keeps_row keeps_insert keeps_insert_ignore keeps_update keeps_delete keeps_upsert

end

interpretation tt_users: tenant_table users users_update us_tenant
  by unfold_locales (simp_all add: db_frame_def)
interpretation tt_conversations: tenant_table conversations conversations_update cv_tenant
  by unfold_locales (simp_all add: db_frame_def)
interpretation tt_messages: tenant_table messages messages_update ms_tenant
  by unfold_locales (simp_all add: db_frame_def)
interpretation tt_summaries: tenant_table daily_summaries daily_summaries_update ds_tenant
  by unfold_locales (simp_all add: db_frame_def)
interpretation tt_important: tenant_table important_messages important_messages_update im_tenant
  by unfold_locales (simp_all add: db_frame_def)
interpretation tt_items: tenant_table action_items action_items_update ai_tenant
  by unfold_locales (simp_all add: db_frame_def)
interpretation tt_activity: tenant_table user_activity_logs user_activity_logs_update ac_tenant
  by unfold_locales (simp_all add: db_frame_def)
interpretation tt_providers: tenant_table llm_providers llm_providers_update pv_tenant
  by unfold_locales (simp_all add: db_frame_def)
interpretation tt_usage: tenant_table llm_usage_logs llm_usage_logs_update ug_tenant
  by unfold_locales (simp_all add: db_frame_def same_shrunk)
interpretation tt_health: tenant_table llm_provider_health llm_provider_health_update hl_tenant
  by unfold_locales (simp_all add: db_frame_def same_shrunk)
interpretation tt_history: tenant_table llm_provider_history llm_provider_history_update hs_tenant
  by unfold_locales (simp_all add: db_frame_def same_shrunk)
interpretation tt_features: tenant_table llm_feature_assignments llm_feature_assignments_update fa_tenant
  by unfold_locales (simp_all add: db_frame_def same_shrunk)
interpretation tt_extended: tenant_table users_extended users_extended_update ue_tenant
  by unfold_locales (simp_all add: db_frame_def)
interpretation tt_roles: tenant_table user_roles user_roles_update ur_tenant
  by unfold_locales (simp_all add: db_frame_def)
interpretation tt_members: tenant_table team_members team_members_update tm_team
  by unfold_locales (simp_all add: db_frame_def)
interpretation tt_invitations: tenant_table team_invitations team_invitations_update ti_tenant
  by unfold_locales (simp_all add: db_frame_def)
interpretation tt_workflows: tenant_table workflows workflows_update wf_tenant
  by unfold_locales (simp_all add: db_frame_def)
interpretation tt_integrations: tenant_table integrations integrations_update ig_tenant
  by unfold_locales (simp_all add: db_frame_def)
interpretation tt_audit: tenant_table audit_logs audit_logs_update au_tenant
  by unfold_locales (simp_all add: db_frame_def)
interpretation tt_labels: tenant_table labels labels_update lb_tenant
  by unfold_locales (simp_all add: db_frame_def)
interpretation tt_mlabels: tenant_table message_labels message_labels_update ml_tenant
  by unfold_locales (simp_all add: db_frame_def)
interpretation tt_comments: tenant_table comments comments_update cm_tenant
  by unfold_locales (simp_all add: db_frame_def same_shrunk)
interpretation tt_notifications: tenant_table notifications notifications_update nt_tenant
  by unfold_locales (simp_all add: db_frame_def)

lemmas keeps_stmts =
  tt_users.keeps_stmt tt_conversations.keeps_stmt tt_messages.keeps_stmt tt_summaries.keeps_stmt
  tt_important.keeps_stmt tt_items.keeps_stmt tt_activity.keeps_stmt tt_providers.keeps_stmt
  tt_usage.keeps_stmt tt_health.keeps_stmt tt_history.keeps_stmt tt_features.keeps_stmt
  tt_extended.keeps_stmt tt_roles.keeps_stmt tt_members.keeps_stmt tt_invitations.keeps_stmt
  tt_workflows.keeps_stmt tt_integrations.keeps_stmt tt_audit.keeps_stmt tt_labels.keeps_stmt
  tt_mlabels.keeps_stmt tt_comments.keeps_stmt tt_notifications.keeps_stmt

section \<open>What a statement reads\<close>

text \<open>
  The rows a tenant can see through a statement: with the tenant in the \<open>WHERE\<close> clause the
  result depends on that tenant's rows alone, whatever the session and the policies.
\<close>

lemma sql_select_tenant_only:
  assumes "\<And>r. P r \<Longrightarrow> ten r = t"
    and "filter (\<lambda>r. ten r = t) (tb_rows (get d)) = filter (\<lambda>r. ten r = t) (tb_rows (get d'))"
  shows "fst (sql_select get ten P s d) = fst (sql_select get ten P s d')"
proof -
  have "filter (\<lambda>r. visible s (ten r) \<and> P r) rows
      = filter (\<lambda>r. visible s (ten r) \<and> P r) (filter (\<lambda>r. ten r = t) rows)" for rows
    unfolding filter_filter using assms(1) by (intro filter_cong) auto
  then have "filter (\<lambda>r. visible s (ten r) \<and> P r) (tb_rows (get d))
      = filter (\<lambda>r. visible s (ten r) \<and> P r) (tb_rows (get d'))"
    using assms(2) by metis
  then show ?thesis by (simp add: sql_select_def)
qed

end
