(* ===== verification/Middleware.thy ===== *)
theory Middleware
  imports Web
begin

text \<open>
  \<open>backend/internal/middleware/middleware.go\<close>: CORS and security headers, authentication,
  the CSRF check, the per-key fixed-window rate limiter and the client key. A limiter is
  \<^verbatim>\<open>items\<close> with its limit and window; \<open>Allow\<close> takes the reading of the clock.
\<close>

section \<open>Headers\<close>

definition HandleCORS :: "request \<Rightarrow> string \<Rightarrow> (string \<times> string) list \<times> bool" where
  "HandleCORS r origin =
     ((if origin \<noteq> [] then [(''Access-Control-Allow-Origin'', origin)] else [])
      @ [(''Vary'', ''Origin''),
         (''Access-Control-Allow-Methods'', ''GET, POST, PUT, PATCH, DELETE, OPTIONS''),
         (''Access-Control-Allow-Headers'', ''Authorization, Content-Type, X-CSRF-Token'')],
      rq_method r = ''OPTIONS'')"

definition SecurityHeaders :: "(string \<times> string) list" where
  "SecurityHeaders =
     [(''X-Content-Type-Options'', ''nosniff''),
      (''X-Frame-Options'', ''DENY''),
      (''Referrer-Policy'', ''strict-origin-when-cross-origin''),
      (''Content-Security-Policy'',
       ''default-src 'self'; connect-src 'self' http://localhost:8080 ws://localhost:8080 http://localhost:5173; img-src 'self' data:; style-src 'self' 'unsafe-inline' https://fonts.googleapis.com; font-src 'self' https://fonts.gstatic.com'')]"

section \<open>Authentication and CSRF\<close>

text \<open>\<open>parse\<close> is the service's \<open>ParseToken\<close>; \<open>None\<close> stands for any of the errors.\<close>

definition Authenticate :: "(string \<Rightarrow> user option) \<Rightarrow> request \<Rightarrow> user option" where
  "Authenticate parse r =
     (let header = rq_header r ''Authorization''
      in if header = [] then
           (let token = rq_query r ''token'' in if token \<noteq> [] then parse token else None)
         else
           case SplitN2 (CHR 0x20) header of
             [scheme, rest] \<Rightarrow>
               if ToLower scheme = ''bearer'' then parse (TrimSpace rest) else None
           | _ \<Rightarrow> None)"

definition ValidateCSRF :: "request \<Rightarrow> user \<Rightarrow> bool" where
  "ValidateCSRF r u =
     (if rq_method r = ''POST'' \<or> rq_method r = ''PATCH'' \<or> rq_method r = ''DELETE'' then
        (let value = rq_header r ''X-CSRF-Token'' in \<not> (value = [] \<or> value \<noteq> u_csrf u))
      else True)"

lemma ValidateCSRF_protected:
  "rq_method r \<in> {''POST'', ''PATCH'', ''DELETE''} \<Longrightarrow>
     ValidateCSRF r u \<longleftrightarrow> rq_header r ''X-CSRF-Token'' = u_csrf u \<and> u_csrf u \<noteq> []"
  by (auto simp: ValidateCSRF_def Let_def)

lemma Authenticate_parse: "Authenticate parse r = Some u \<Longrightarrow> \<exists>t. parse t = Some u"
  by (auto simp: Authenticate_def Let_def split: if_splits list.splits)

section \<open>The client key\<close>

text \<open>\<open>net.SplitHostPort\<close>, the host only; \<open>None\<close> for an address error.\<close>

definition last_index :: "char \<Rightarrow> string \<Rightarrow> nat option" where
  "last_index c s = LastIndexAny s [c]"

definition index_of :: "char \<Rightarrow> string \<Rightarrow> nat option" where
  "index_of c s = IndexAny s [c]"

definition SplitHost :: "string \<Rightarrow> string option" where
  "SplitHost hp =
     (case last_index (CHR '':'') hp of
        None \<Rightarrow> None
      | Some i \<Rightarrow>
          if take 1 hp = ''['' then
            (case index_of (CHR '']'') hp of
               None \<Rightarrow> None
             | Some e \<Rightarrow>
                 if e + 1 \<noteq> i then None
                 else if CHR ''['' \<in> set (drop 1 hp) \<or> CHR '']'' \<in> set (drop (e + 1) hp) then None
                 else Some (take (e - 1) (drop 1 hp)))
          else
            (let host = take i hp
             in if CHR '':'' \<in> set host \<or> CHR ''['' \<in> set hp \<or> CHR '']'' \<in> set hp
                then None else Some host))"

definition ClientKey :: "request \<Rightarrow> string" where
  "ClientKey r =
     (let forwarded = rq_header r ''X-Forwarded-For''
      in if forwarded \<noteq> [] then TrimSpace (hd (Split (CHR '','') forwarded))
         else case SplitHost (rq_remote r) of Some host \<Rightarrow> host | None \<Rightarrow> rq_remote r)"

section \<open>The rate limiter\<close>

record rate_entry =
  re_count :: int
  re_reset :: int

record limiter =
  lim_limit :: int
  lim_window :: int
  lim_items :: "string \<rightharpoonup> rate_entry"

definition NewRateLimiter :: "int \<Rightarrow> int \<Rightarrow> limiter" where
  "NewRateLimiter limit window = \<lparr>lim_limit = limit, lim_window = window, lim_items = Map.empty\<rparr>"

definition Allow :: "string \<Rightarrow> int \<Rightarrow> limiter \<Rightarrow> bool \<times> limiter" where
  "Allow key now rl =
     (case lim_items rl key of
        None \<Rightarrow>
          (True, rl\<lparr>lim_items := (lim_items rl)(key \<mapsto> \<lparr>re_count = 1, re_reset = now + lim_window rl\<rparr>)\<rparr>)
      | Some entry \<Rightarrow>
          if now > re_reset entry then
            (True, rl\<lparr>lim_items := (lim_items rl)(key \<mapsto> \<lparr>re_count = 1, re_reset = now + lim_window rl\<rparr>)\<rparr>)
          else if re_count entry \<ge> lim_limit rl then (False, rl)
          else (True, rl\<lparr>lim_items := (lim_items rl)(key \<mapsto> entry\<lparr>re_count := re_count entry + 1\<rparr>)\<rparr>))"

text \<open>A sequence of requests, each a key and the time it arrives: the answers in order.\<close>

fun allow_run :: "(string \<times> int) list \<Rightarrow> limiter \<Rightarrow> bool list \<times> limiter" where
  "allow_run [] rl = ([], rl)"
| "allow_run ((key, now) # es) rl =
     (let (b, rl') = Allow key now rl; (bs, rl'') = allow_run es rl' in (b # bs, rl''))"

definition limiter_inv :: "limiter \<Rightarrow> bool" where
  "limiter_inv rl \<longleftrightarrow> 1 \<le> lim_limit rl \<and> 0 \<le> lim_window rl \<and>
     (\<forall>k e. lim_items rl k = Some e \<longrightarrow> 1 \<le> re_count e \<and> re_count e \<le> lim_limit rl)"

lemma Allow_config [simp]:
  "lim_limit (snd (Allow k t rl)) = lim_limit rl" "lim_window (snd (Allow k t rl)) = lim_window rl"
  by (auto simp: Allow_def split: option.splits)

lemma Allow_other [simp]: "k' \<noteq> k \<Longrightarrow> lim_items (snd (Allow k t rl)) k' = lim_items rl k'"
  by (auto simp: Allow_def split: option.splits)

lemma limiter_inv_New: "1 \<le> l \<Longrightarrow> 0 \<le> w \<Longrightarrow> limiter_inv (NewRateLimiter l w)"
  by (simp add: limiter_inv_def NewRateLimiter_def)

lemma limiter_invD:
  "limiter_inv rl \<Longrightarrow> lim_items rl k = Some e \<Longrightarrow>
     0 \<le> re_count e \<and> 1 \<le> re_count e \<and> re_count e \<le> lim_limit rl"
  by (fastforce simp: limiter_inv_def)

lemma limiter_inv_Allow:
  assumes inv: "limiter_inv rl"
  shows "limiter_inv (snd (Allow k t rl))"
proof (cases "lim_items rl k")
  case None
  with inv show ?thesis by (simp add: limiter_inv_def Allow_def)
next
  case (Some e)
  have "1 \<le> lim_limit rl" using inv by (simp add: limiter_inv_def)
  with Some inv limiter_invD [OF inv Some] show ?thesis
    by (auto simp: limiter_inv_def Allow_def)
qed

text \<open>How many of the requests with key \<open>k\<close> were let through.\<close>

definition granted :: "string \<Rightarrow> (string \<times> int) list \<Rightarrow> bool list \<Rightarrow> nat" where
  "granted k es bs = length (filter (\<lambda>(e, b). fst e = k \<and> b) (zip es bs))"

lemma granted_simps [simp]:
  "granted k [] bs = 0"
  "granted k (e # es) (b # bs) = (if fst e = k \<and> b then 1 else 0) + granted k es bs"
  by (simp_all add: granted_def)

text \<open>What is left of the current window of a key at time \<open>t\<close>.\<close>

definition budget :: "string \<Rightarrow> limiter \<Rightarrow> int" where
  "budget k rl =
     (case lim_items rl k of None \<Rightarrow> lim_limit rl | Some e \<Rightarrow> lim_limit rl - re_count e)"

definition window_end :: "string \<Rightarrow> limiter \<Rightarrow> int option" where
  "window_end k rl = map_option re_reset (lim_items rl k)"

lemma budget_bounds: "limiter_inv rl \<Longrightarrow> 0 \<le> budget k rl \<and> budget k rl \<le> lim_limit rl"
  by (cases "lim_items rl k") (force simp: budget_def limiter_inv_def, force simp: budget_def dest: limiter_invD)

lemma Allow_within:
  assumes "lim_items rl k = Some e" "t \<le> re_reset e"
  shows "fst (Allow k t rl) \<longleftrightarrow> 0 < budget k rl"
    and "budget k (snd (Allow k t rl)) = (if 0 < budget k rl then budget k rl - 1 else budget k rl)"
    and "window_end k (snd (Allow k t rl)) = Some (re_reset e)"
  using assms by (auto simp: Allow_def budget_def window_end_def)

lemma Allow_opens:
  assumes "case lim_items rl k of None \<Rightarrow> True | Some e \<Rightarrow> re_reset e < t"
  shows "fst (Allow k t rl)" and "budget k (snd (Allow k t rl)) = lim_limit rl - 1"
    and "window_end k (snd (Allow k t rl)) = Some (t + lim_window rl)"
  using assms by (auto simp: Allow_def budget_def window_end_def split: option.splits)

lemma budget_other [simp]: "k' \<noteq> k \<Longrightarrow> budget k' (snd (Allow k t rl)) = budget k' rl"
  by (simp add: budget_def split: option.split)

lemma window_end_other [simp]: "k' \<noteq> k \<Longrightarrow> window_end k' (snd (Allow k t rl)) = window_end k' rl"
  by (simp add: window_end_def)

text \<open>
  Inside one window the remaining budget bounds what is granted: requests up to the
  window's end never reset the entry.
\<close>

lemma granted_one_window:
  assumes "limiter_inv rl" "window_end k rl = Some w" "\<forall>e \<in> set es. fst e = k \<longrightarrow> snd e \<le> w"
  shows "int (granted k es (fst (allow_run es rl))) \<le> budget k rl"
  using assms
proof (induction es arbitrary: rl)
  case Nil
  then show ?case using budget_bounds by auto
next
  case (Cons e es)
  obtain k' t where e: "e = (k', t)" by (cases e)
  let ?rl = "snd (Allow k' t rl)"
  have step: "fst (allow_run ((k', t) # es) rl) = fst (Allow k' t rl) # fst (allow_run es ?rl)"
    by (simp add: split_beta Let_def)
  from Cons.prems(1) have inv: "limiter_inv ?rl" by (rule limiter_inv_Allow)
  show ?case
  proof (cases "k' = k")
    case False
    then have "window_end k ?rl = Some w" "budget k ?rl = budget k rl"
      using Cons.prems(2) by simp_all
    with Cons.IH [OF inv] Cons.prems(3) False show ?thesis
      by (simp add: step e del: allow_run.simps)
  next
    case True
    from Cons.prems(2) obtain en where en: "lim_items rl k = Some en" "re_reset en = w"
      by (auto simp: window_end_def)
    with Cons.prems(3) have t: "t \<le> re_reset en" by (simp add: e True)
    note w = Allow_within [OF en(1) t]
    have ih: "int (granted k es (fst (allow_run es ?rl))) \<le> budget k ?rl"
      using Cons.IH [OF inv] Cons.prems(3) w(3) en(2) by (simp add: True)
    show ?thesis
      using ih w budget_bounds [OF Cons.prems(1), of k] by (auto simp: step [unfolded True] e True simp del: allow_run.simps split: if_splits)
  qed
qed

text \<open>
  Over any period no longer than the window at most one reset happens, so at most what was
  left plus one full window is granted.
\<close>

lemma granted_period:
  assumes "limiter_inv rl" "\<forall>e \<in> set es. a \<le> snd e \<and> snd e \<le> a + lim_window rl"
  shows "int (granted k es (fst (allow_run es rl))) \<le> budget k rl + lim_limit rl"
  using assms
proof (induction es arbitrary: rl)
  case Nil
  then show ?case using budget_bounds [of rl k] by (simp add: limiter_inv_def)
next
  case (Cons e es)
  obtain k' t where e: "e = (k', t)" by (cases e)
  let ?rl = "snd (Allow k' t rl)"
  have step: "fst (allow_run ((k', t) # es) rl) = fst (Allow k' t rl) # fst (allow_run es ?rl)"
    by (simp add: split_beta Let_def)
  from Cons.prems(1) have inv: "limiter_inv ?rl" by (rule limiter_inv_Allow)
  have per: "\<forall>e \<in> set es. a \<le> snd e \<and> snd e \<le> a + lim_window ?rl" using Cons.prems(2) by simp
  show ?case
  proof (cases "k' = k")
    case False
    with Cons.IH [OF inv per] show ?thesis by (simp add: step e del: allow_run.simps)
  next
    case True
    show ?thesis
    proof (cases "case lim_items rl k of None \<Rightarrow> True | Some en \<Rightarrow> re_reset en < t")
      case opens: True
      note o = Allow_opens [OF opens]
      have "\<forall>e \<in> set es. fst e = k \<longrightarrow> snd e \<le> t + lim_window rl"
        using Cons.prems(2) by (fastforce simp: e)
      then have "int (granted k es (fst (allow_run es ?rl))) \<le> budget k ?rl"
        using granted_one_window [OF inv, of k "t + lim_window rl" es] o(3) by (simp add: True)
      with o budget_bounds [OF Cons.prems(1), of k] show ?thesis by (simp add: step [unfolded True] e True del: allow_run.simps)
    next
      case False
      then obtain en where en: "lim_items rl k = Some en" "t \<le> re_reset en"
        by (auto split: option.splits)
      note w = Allow_within [OF en]
      from Cons.IH [OF inv per] w show ?thesis
        by (auto simp: step [unfolded True] e True simp del: allow_run.simps split: if_splits)
    qed
  qed
qed

lemma granted_fresh:
  assumes "limiter_inv rl" "lim_items rl k = None"
    and "\<forall>e \<in> set es. a \<le> snd e \<and> snd e \<le> a + lim_window rl"
  shows "int (granted k es (fst (allow_run es rl))) \<le> lim_limit rl"
  using assms
proof (induction es arbitrary: rl)
  case Nil
  then show ?case by (simp add: limiter_inv_def)
next
  case (Cons e es)
  obtain k' t where e: "e = (k', t)" by (cases e)
  let ?rl = "snd (Allow k' t rl)"
  have step: "fst (allow_run ((k', t) # es) rl) = fst (Allow k' t rl) # fst (allow_run es ?rl)"
    by (simp add: split_beta Let_def)
  from Cons.prems(1) have inv: "limiter_inv ?rl" by (rule limiter_inv_Allow)
  show ?case
  proof (cases "k' = k")
    case False
    then have "int (granted k es (fst (allow_run es ?rl))) \<le> lim_limit ?rl"
      using Cons.prems by (intro Cons.IH [OF inv]) auto
    then show ?thesis using False by (simp add: step e del: allow_run.simps)
  next
    case True
    have o: "fst (Allow k t rl)" "budget k (snd (Allow k t rl)) = lim_limit rl - 1"
      "window_end k (snd (Allow k t rl)) = Some (t + lim_window rl)"
      using Allow_opens [where rl = rl and k = k and t = t] Cons.prems(2) by auto
    have "\<forall>e \<in> set es. fst e = k \<longrightarrow> snd e \<le> t + lim_window rl"
      using Cons.prems(3) by (fastforce simp: e)
    then have "int (granted k es (fst (allow_run es ?rl))) \<le> budget k ?rl"
      using granted_one_window [OF inv, of k "t + lim_window rl" es] o(3) by (simp add: True)
    with o show ?thesis by (simp add: step [unfolded True] e True del: allow_run.simps)
  qed
qed

lemma limiter_inv_run: "limiter_inv rl \<Longrightarrow> limiter_inv (snd (allow_run es rl))"
proof (induction es arbitrary: rl)
  case (Cons e es)
  from Cons.IH [OF limiter_inv_Allow [OF Cons.prems]] show ?case
    by (cases e) (simp add: split_beta Let_def)
qed simp

lemma allow_run_config [simp]:
  "lim_limit (snd (allow_run es rl)) = lim_limit rl" "lim_window (snd (allow_run es rl)) = lim_window rl"
  by (induction es arbitrary: rl; clarsimp simp: split_beta Let_def)+

text \<open>
  C12. The rate limiter. After any history of requests, in any period no longer than the
  window, a key is let through at most \<open>2 * limit - 1\<close> times, whatever other keys do. (The
  window is fixed and not sliding, so the bound is not \<open>limit\<close>; it is reached below.)
\<close>

theorem rate_limit_bound:
  assumes "1 \<le> limit" "0 \<le> window" "\<forall>e \<in> set es. a \<le> snd e \<and> snd e \<le> a + window"
  shows "int (granted k es (fst (allow_run es (snd (allow_run before (NewRateLimiter limit window))))))
           \<le> 2 * limit - 1"
proof -
  let ?rl = "snd (allow_run before (NewRateLimiter limit window))"
  have inv: "limiter_inv ?rl" by (intro limiter_inv_run limiter_inv_New assms)
  have cfg: "lim_limit ?rl = limit" "lim_window ?rl = window" by (simp_all add: NewRateLimiter_def)
  show ?thesis
  proof (cases "lim_items ?rl k")
    case None
    from granted_fresh [OF inv this, of es a] assms cfg show ?thesis by auto
  next
    case (Some e)
    with limiter_invD [OF inv Some] have "budget k ?rl \<le> lim_limit ?rl - 1"
      using cfg by (simp add: budget_def)
    with granted_period [OF inv, of es a k] assms(3) show ?thesis unfolding cfg by auto
  qed
qed

theorem rate_limit_bound_witness:
  "granted ''u'' (replicate 59 (''u'', 60) @ replicate 60 (''u'', 61))
     (fst (allow_run (replicate 59 (''u'', 60) @ replicate 60 (''u'', 61))
        (snd (allow_run [(''u'', 0)] (NewRateLimiter 60 60))))) = 119 \<and>
   int (granted ''u'' (replicate 59 (''u'', 60) @ replicate 60 (''u'', 61))
     (fst (allow_run (replicate 59 (''u'', 60) @ replicate 60 (''u'', 61))
        (snd (allow_run [(''u'', 0)] (NewRateLimiter 60 60)))))) \<le> 2 * 60 - 1"
  (is "?g = 119 \<and> _")
proof
  show "?g = 119" by code_simp
  show "int ?g \<le> 2 * 60 - 1"
    by (rule rate_limit_bound [of 60 60 _ 60]) auto
qed

end
