(* ===== verification/Rbac.thy ===== *)
theory Rbac
  imports Tenancy Middleware
begin

text \<open>
  Roles and the audit trail: \<open>backend/internal/handlers/rbac.go\<close>, \<open>audit.go\<close> (\<open>logAudit\<close>,
  \<open>clientIP\<close>) and \<open>activity.go\<close>. Roles are strings in the code; the datatype \<open>role\<close> is the
  abstract order they stand for, and \<open>role_of_rank\<close> relates the two.
\<close>

section \<open>The order of roles\<close>

datatype role = NoRole | Viewer | Member | Manager | Admin | Owner

fun role_level :: "role \<Rightarrow> int" where
  "role_level NoRole = 0"
| "role_level Viewer = 1"
| "role_level Member = 2"
| "role_level Manager = 3"
| "role_level Admin = 4"
| "role_level Owner = 5"

lemma role_level_inj: "role_level a = role_level b \<Longrightarrow> a = b"
  by (cases a; cases b) auto

instantiation role :: linorder
begin

definition less_eq_role :: "role \<Rightarrow> role \<Rightarrow> bool" where
  "less_eq_role a b \<longleftrightarrow> role_level a \<le> role_level b"

definition less_role :: "role \<Rightarrow> role \<Rightarrow> bool" where
  "less_role a b \<longleftrightarrow> role_level a < role_level b"

instance
  by standard (auto simp: less_eq_role_def less_role_def role_level_inj)

end

text \<open>The constants of the code and the map \<open>roleRank\<close>, which gives 0 for any other string.\<close>

definition roleRank :: "string \<Rightarrow> int" where
  "roleRank s =
     (if s = ''owner'' then 5 else if s = ''admin'' then 4 else if s = ''manager'' then 3
      else if s = ''member'' then 2 else if s = ''viewer'' then 1 else 0)"

definition role_of :: "string \<Rightarrow> role" where
  "role_of s =
     (let l = ToLower s in
        if l = ''owner'' then Owner else if l = ''admin'' then Admin
        else if l = ''manager'' then Manager else if l = ''member'' then Member
        else if l = ''viewer'' then Viewer else NoRole)"

lemma role_of_rank: "roleRank (ToLower s) = role_level (role_of s)"
  by (simp add: roleRank_def role_of_def Let_def)

lemma roleRank_le_iff:
  "roleRank (ToLower a) \<le> roleRank (ToLower b) \<longleftrightarrow> role_of a \<le> role_of b"
  by (simp add: role_of_rank less_eq_role_def)

section \<open>The role a path requires\<close>

definition RequiredRole :: "string \<Rightarrow> string \<Rightarrow> string" where
  "RequiredRole path method =
     (if path = ''/api/v1/auth/login'' \<or> path = ''/api/v1/auth/register'' then ''''
      else if path = ''/api/v1/auth/whatsapp/qr'' \<or> path = ''/api/v1/auth/whatsapp/status'' then ''''
      else if path = ''/api/v1/ws'' then ''viewer''
      else if path = ''/api/v1/dashboard'' then ''viewer''
      else if path = ''/api/v1/dashboard/stream'' then ''viewer''
      else if path = ''/api/v1/conversations'' then ''viewer''
      else if HasPrefix path ''/api/v1/conversations/'' \<and> HasSuffix path ''/messages'' then ''viewer''
      else if path = ''/api/v1/messages/reply'' then ''member''
      else if path = ''/api/v1/messages/forward'' then ''member''
      else if path = ''/api/v1/important-messages'' then ''viewer''
      else if HasPrefix path ''/api/v1/messages/'' \<and> HasSuffix path ''/labels'' then ''member''
      else if path = ''/api/v1/action-items'' then
        (if method = ''GET'' then ''viewer'' else ''manager'')
      else if HasPrefix path ''/api/v1/action-items/'' \<and> HasSuffix path ''/comments'' then
        (if method = ''GET'' then ''viewer'' else ''member'')
      else if HasPrefix path ''/api/v1/action-items/'' then ''manager''
      else if path = ''/api/v1/daily-summary'' then ''viewer''
      else if path = ''/api/v1/conversations/summarize'' then ''member''
      else if path = ''/api/v1/llm/providers'' then ''admin''
      else if path = ''/api/v1/llm/providers/comparison'' then ''admin''
      else if HasPrefix path ''/api/v1/llm/providers/'' then ''admin''
      else if path = ''/api/v1/llm/usage'' then ''manager''
      else if path = ''/api/v1/llm/costs'' then ''manager''
      else if path = ''/api/v1/llm/analytics/cost-breakdown'' then ''manager''
      else if path = ''/api/v1/llm/analytics/usage-by-feature'' then ''manager''
      else if path = ''/api/v1/llm/health'' then ''manager''
      else if path = ''/api/v1/llm/features'' then ''admin''
      else if HasPrefix path ''/api/v1/llm/features/'' then ''admin''
      else if path = ''/api/v1/llm/bulk-test'' then ''admin''
      else if path = ''/api/v1/llm/recommendations'' then ''manager''
      else if path = ''/api/v1/team/users'' then
        (if method = ''GET'' then ''admin'' else ''admin'')
      else if HasPrefix path ''/api/v1/team/users/'' then ''admin''
      else if path = ''/api/v1/team/invitations'' then ''admin''
      else if path = ''/api/v1/team/activity'' then ''manager''
      else if path = ''/api/v1/workflows'' then
        (if method = ''GET'' then ''manager'' else ''admin'')
      else if HasPrefix path ''/api/v1/workflows/'' then
        (if HasSuffix path ''/executions'' then ''manager''
         else if HasSuffix path ''/test'' then ''admin'' else ''admin'')
      else if HasPrefix path ''/api/v1/integrations'' then
        (if method = ''GET'' then ''admin'' else ''admin'')
      else if path = ''/api/v1/webhooks/incoming'' then ''''
      else if path = ''/api/v1/audit-logs'' then ''admin''
      else if path = ''/api/v1/notifications'' then ''member''
      else if HasPrefix path ''/api/v1/notifications/'' then ''member''
      else if path = ''/api/v1/labels'' then ''manager''
      else if HasPrefix path ''/api/v1/comments/'' then ''member''
      else if HasPrefix path ''/api/v1/'' then ''viewer''
      else '''')"

section \<open>The audit trail\<close>

definition clientIP :: "request \<Rightarrow> string" where
  "clientIP r =
     (let forwarded = rq_header r ''X-Forwarded-For''
      in if forwarded \<noteq> [] then TrimSpace (hd (Split (CHR '','') forwarded))
         else case SplitHost (rq_remote r) of None \<Rightarrow> rq_remote r | Some host \<Rightarrow> host)"

definition insert_audit ::
    "int \<Rightarrow> int option \<Rightarrow> string \<Rightarrow> string option \<Rightarrow> int option \<Rightarrow> json option \<Rightarrow> json option
       \<Rightarrow> string \<Rightarrow> string \<Rightarrow> int \<Rightarrow> audit_row sql" where
  "insert_audit tenant userID action rtype rid before after ip ua now =
     sql_insert audit_logs audit_logs_update au_tenant (\<lambda>d r. True)
       (\<lambda>i. \<lparr>au_id = i, au_tenant = tenant, au_user = userID, au_action = action,
             au_rtype = rtype, au_rid = rid, au_before = before, au_after = after,
             au_ip = ip, au_agent = ua, au_created = now\<rparr>)"

definition logAudit ::
    "request \<Rightarrow> int \<Rightarrow> int option \<Rightarrow> string \<Rightarrow> string option \<Rightarrow> int option
       \<Rightarrow> json option \<Rightarrow> json option \<Rightarrow> unit act" where
  "logAudit r tenant userID action rtype rid before after = do {
     now \<leftarrow> Now;
     _ \<leftarrow> WithTenantConn tenant
       (Exec (insert_audit tenant userID action rtype rid before after
          (clientIP r) (rq_header r ''User-Agent'') now));
     State_Monad.return ()
   }"

definition insert_activity :: "int \<Rightarrow> int \<Rightarrow> string \<Rightarrow> json \<Rightarrow> int \<Rightarrow> activity_row sql" where
  "insert_activity tenant userID action details now =
     sql_insert user_activity_logs user_activity_logs_update ac_tenant
       (\<lambda>d r. has_key us_id userID (users d))
       (\<lambda>i. \<lparr>ac_id = i, ac_tenant = tenant, ac_user = userID, ac_action = action,
             ac_details = details, ac_created = now\<rparr>)"

definition logActivity :: "int \<Rightarrow> user \<Rightarrow> string \<Rightarrow> json \<Rightarrow> unit act" where
  "logActivity tenant u action details =
     (if u_id u = 0 then State_Monad.return ()
      else do {
        now \<leftarrow> Now;
        _ \<leftarrow> WithTenantConn tenant (Exec (insert_activity tenant (u_id u) action details now));
        State_Monad.return ()
      })"

section \<open>Authorisation\<close>

definition select_role :: "int \<Rightarrow> int \<Rightarrow> user_ext_row sql" where
  "select_role tenant userID =
     sql_row users_extended ue_tenant (\<lambda>r. ue_tenant r = tenant \<and> ue_user r = userID)"

definition getUserRole :: "int \<Rightarrow> int \<Rightarrow> (dberr + string) act" where
  "getUserRole tenant userID =
     WithTenantConn tenant (then_ok (Exec (select_role tenant userID)) (\<lambda>r. ok (ue_role r)))"

text \<open>The second result of \<open>getUserRole\<close> dropped, as \<open>Login\<close> does: \<open>viewer\<close> on an error.\<close>

definition role_or_viewer :: "dberr + string \<Rightarrow> string" where
  "role_or_viewer res = (case res of Inl _ \<Rightarrow> ''viewer'' | Inr role \<Rightarrow> role)"

definition audit_details :: "string \<Rightarrow> string \<Rightarrow> request \<Rightarrow> bool \<Rightarrow> json" where
  "audit_details required role r allowed =
     JObj [(''allowed'', JBool allowed), (''method'', JStr (rq_method r)),
           (''path'', JStr (TrimSuffix (rq_path r) ''/'')),
           (''required_role'', JStr required), (''user_role'', JStr role)]"

definition Authorize :: "request \<Rightarrow> string \<Rightarrow> bool act" where
  "Authorize r required =
     (if required = [] then State_Monad.return True
      else do {
        role \<leftarrow> (case authUserIDPtr r of
                  None \<Rightarrow> State_Monad.return ''viewer''
                | Some uid \<Rightarrow> do {
                    res \<leftarrow> getUserRole (tenantID r) uid;
                    State_Monad.return
                      (case res of Inl _ \<Rightarrow> ''viewer''
                       | Inr value \<Rightarrow> if value \<noteq> [] then value else ''viewer'')
                  });
        let allowed = roleRank (ToLower role) \<ge> roleRank (ToLower required);
        _ \<leftarrow> logAudit r (tenantID r) (authUserIDPtr r) ''permission.check'' (Some ''api'') None None
              (Some (audit_details required role r allowed));
        State_Monad.return allowed
      })"

section \<open>Frames and functional facts\<close>

lemma logAudit_tenant [intro]: "state_io_rel (tenant_frame t) (logAudit r t uid a rt rid b c)"
  unfolding logAudit_def insert_audit_def
  by (intro tenant.keeps_intros keeps_stmts) simp_all

lemma logActivity_tenant [intro]: "state_io_rel (tenant_frame t) (logActivity t u a det)"
  unfolding logActivity_def insert_activity_def
  by (intro tenant.keeps_intros keeps_stmts) simp_all

lemma getUserRole_tenant [intro]: "state_io_rel (tenant_frame t) (getUserRole t' uid)"
  unfolding getUserRole_def select_role_def by (intro tenant.keeps_intros keeps_stmts)

lemma Authorize_tenant: "state_io_rel (tenant_frame (tenantID r)) (Authorize r required)"
  unfolding Authorize_def Let_def
  by (intro tenant.keeps_intros getUserRole_tenant logAudit_tenant)

text \<open>
  Nothing but the audit log is written by an authorisation check: a frame relation of its
  own, for "the role tables are as they were".
\<close>

definition roles_frame :: "world \<Rightarrow> world \<Rightarrow> bool" where
  "roles_frame w w' \<longleftrightarrow> users_extended (w_db w') = users_extended (w_db w) \<and> ss_rls (w_sess w') = ss_rls (w_sess w)"

interpretation roles: frame_relation roles_frame
  by unfold_locales (auto simp: roles_frame_def)

lemma logAudit_roles [intro]: "state_io_rel roles_frame (logAudit r t uid a rt rid b c)"
  unfolding logAudit_def insert_audit_def
  by (intro roles.keeps_intros roles.keeps_Exec) (simp_all add: roles_frame_def sql_insert_def Let_def)

lemma getUserRole_roles [intro]: "state_io_rel roles_frame (getUserRole t uid)"
  unfolding getUserRole_def select_role_def
  by (intro roles.keeps_intros roles.keeps_Exec)
    (simp add: roles_frame_def sql_row_def split: option.split)

lemma Authorize_roles: "state_io_rel roles_frame (Authorize r required)"
  unfolding Authorize_def Let_def
  by (intro roles.keeps_intros logAudit_roles getUserRole_roles)

text \<open>
  Whatever fails, a role that \<open>getUserRole\<close> returns is the role of the user's row in that
  tenant.
\<close>

lemma faulty_cases:
  assumes "run_state (faulty m) w = (Inr x, w')"
  obtains fs where "run_state m (w\<lparr>w_faults := fs\<rparr>) = (Inr x, w')"
proof (cases "w_faults w")
  case Nil
  then have "w = w\<lparr>w_faults := []\<rparr>" by simp
  with assms Nil that show ?thesis by (metis run_faulty_nil)
next
  case (Cons b fs)
  with assms that show ?thesis by (auto simp: faulty_def split: if_splits)
qed

lemma Exec_row_Inr:
  assumes "run_state (Exec (sql_row get ten P)) w = (Inr x, w')"
  shows "x \<in> set (tb_rows (get (w_db w))) \<and> P x"
  using assms unfolding Exec_def
  by (elim faulty_cases)
    (auto simp: sql_row_def split: option.splits prod.splits dest: first_of_filter_SomeD)

lemma WithTenantConn_Inr:
  assumes "run_state (WithTenantConn t fn) w = (Inr x, w')"
  obtains fs w'' where
    "run_state fn (w\<lparr>w_faults := fs, w_sess := (w_sess w)\<lparr>ss_tenant := Some t\<rparr>\<rparr>) = (Inr x, w'')"
proof -
  from assms obtain u1 where a: "run_state Acquire w = (Inr (), u1)"
    by (auto simp: WithTenantConn_def split: prod.splits sum.splits)
  then have u1: "\<exists>fs. u1 = w\<lparr>w_faults := fs\<rparr>"
    unfolding Acquire_def by (elim faulty_cases) auto
  from assms a obtain u2 where b: "run_state (SetTenant (Some t)) u1 = (Inr (), u2)"
    and c: "\<exists>w''. run_state fn u2 = (Inr x, w'')"
    by (auto simp: WithTenantConn_def split: prod.splits sum.splits)
  from b have "\<exists>fs. u2 = u1\<lparr>w_faults := fs, w_sess := (w_sess u1)\<lparr>ss_tenant := Some t\<rparr>\<rparr>"
    unfolding SetTenant_def by (elim faulty_cases) auto
  with u1 c that show ?thesis by auto
qed

lemma getUserRole_Inr:
  assumes "run_state (getUserRole t uid) w = (Inr role, w')"
  shows "\<exists>r \<in> set (tb_rows (users_extended (w_db w))). ue_tenant r = t \<and> ue_user r = uid \<and> ue_role r = role"
  using assms unfolding getUserRole_def
  by (elim WithTenantConn_Inr)
    (auto simp: state_simps select_role_def split: prod.splits sum.splits dest!: Exec_row_Inr)

end
