(* ===== verification/HttpRouter.thy ===== *)
theory HttpRouter
  imports Rbac
begin

text \<open>
  \<open>backend/internal/router/router.go\<close>: the table of routes and \<open>ServeHTTP\<close>, which runs CORS,
  authentication, the rate limiter, the CSRF check and the authorisation check before a
  handler. A \<open>route\<close> names the handler with the path parameters it is given. The \<open>switch\<close> of
  the source is cut into five functions in source order; each answers \<open>None\<close> when none of its
  cases matches (the next one goes on), and \<open>Some None\<close> when a case matches and falls out of
  the \<open>switch\<close> to the 404.
\<close>

datatype (plugins only: ) route =
    GetDashboard | StreamDashboard | Ws | ListConversations | SummarizeConversation
  | GetConversationMessages int | ReplyMessage | ForwardMessage | AnalyzeMessage | BatchAnalyze
  | ListImportantMessages | ListActionItems | CreateActionItem | ListActionItemComments int
  | CreateActionItemComment int | UpdateActionItem int | DeleteActionItem int | GetDailySummary
  | CreateProvider | ListProviders | GetProviderComparison | TestProvider int
  | GetProviderHistory int | GetProvider int | UpdateProvider int | DeleteProvider int
  | GetUsageStats | GetCosts | GetCostBreakdown | GetUsageByFeature | GetHealthStatus
  | GetFeatures | AssignProviderToFeature string | GetFeatureProviders string
  | DeleteFeatureProvider string int | BulkTestProviders | GetRecommendations
  | AddTeamUser | ListTeamUsers | UpdateTeamUserRole int | RemoveTeamUser int | SendInvitation
  | GetTeamActivity | CreateWorkflow | ListWorkflows | TestWorkflow int
  | GetWorkflowExecutions int | UpdateWorkflow int | DeleteWorkflow int
  | ConnectIntegration string | GetIntegrationConfig int | DisconnectIntegration int
  | ListIntegrations | ReceiveWebhook | GetAuditLogs | ListNotifications
  | MarkNotificationRead int | CreateLabel | AddLabelToMessage int | DeleteComment int
  | Login | Register | StartWhatsAppAuth | WhatsAppAuthStatus | SyncContacts | LogoutWhatsApp | Me

definition on :: "bool \<Rightarrow> route \<Rightarrow> route option option" where
  "on b rt = Some (if b then Some rt else None)"

definition on_id :: "bool \<Rightarrow> string \<Rightarrow> (int \<Rightarrow> route) \<Rightarrow> route option option" where
  "on_id b part rt = Some (if b then map_option rt (ParseID part) else None)"

definition segments_of :: "string \<Rightarrow> string \<Rightarrow> string list" where
  "segments_of path pre = Split (CHR ''/'') (TrimPrefix path pre)"

definition dispatch_core :: "bool \<Rightarrow> string \<Rightarrow> string \<Rightarrow> route option option" where
  "dispatch_core hub path m =
     (if path = ''/api/v1/dashboard'' then on (m = ''GET'') GetDashboard
      else if path = ''/api/v1/dashboard/stream'' then on (m = ''GET'') StreamDashboard
      else if path = ''/api/v1/ws'' then on (m = ''GET'' \<and> hub) Ws
      else if path = ''/api/v1/conversations'' then on (m = ''GET'') ListConversations
      else if path = ''/api/v1/conversations/summarize'' then on (m = ''POST'') SummarizeConversation
      else if HasPrefix path ''/api/v1/conversations/'' then
        (case segments_of path ''/api/v1/conversations/'' of
           [a, b] \<Rightarrow> on_id (b = ''messages'' \<and> m = ''GET'') a GetConversationMessages
         | _ \<Rightarrow> Some None)
      else if path = ''/api/v1/messages/reply'' then on (m = ''POST'') ReplyMessage
      else if path = ''/api/v1/messages/forward'' then on (m = ''POST'') ForwardMessage
      else if path = ''/api/v1/messages/analyze'' then on (m = ''POST'') AnalyzeMessage
      else if path = ''/api/v1/messages/batch-analyze'' then on (m = ''POST'') BatchAnalyze
      else if path = ''/api/v1/important-messages'' then on (m = ''GET'') ListImportantMessages
      else if path = ''/api/v1/action-items'' then
        Some (if m = ''GET'' then Some ListActionItems
              else if m = ''POST'' then Some CreateActionItem else None)
      else if HasPrefix path ''/api/v1/action-items/'' then
        (let idPart = TrimPrefix path ''/api/v1/action-items/'';
             segments = segments_of path ''/api/v1/action-items/''
         in if length segments = 2 \<and> segments ! 1 = ''comments'' then
              Some (case ParseID (segments ! 0) of
                      None \<Rightarrow> None
                    | Some i \<Rightarrow> if m = ''GET'' then Some (ListActionItemComments i)
                                else if m = ''POST'' then Some (CreateActionItemComment i) else None)
            else
              Some (case ParseID idPart of
                      None \<Rightarrow> None
                    | Some i \<Rightarrow> if m = ''PATCH'' then Some (UpdateActionItem i)
                                else if m = ''DELETE'' then Some (DeleteActionItem i) else None))
      else if path = ''/api/v1/daily-summary'' then on (m = ''GET'') GetDailySummary
      else None)"

definition dispatch_llm :: "string \<Rightarrow> string \<Rightarrow> route option option" where
  "dispatch_llm path m =
     (if path = ''/api/v1/llm/providers'' then
        Some (if m = ''POST'' then Some CreateProvider
              else if m = ''GET'' then Some ListProviders else None)
      else if path = ''/api/v1/llm/providers/comparison'' then on (m = ''GET'') GetProviderComparison
      else if HasPrefix path ''/api/v1/llm/providers/'' then
        (let segments = segments_of path ''/api/v1/llm/providers/''
         in Some (case ParseID (segments ! 0) of
                    None \<Rightarrow> None
                  | Some i \<Rightarrow>
                      if length segments = 2 \<and> segments ! 1 = ''test'' then
                        (if m = ''POST'' then Some (TestProvider i) else None)
                      else if length segments = 2 \<and> segments ! 1 = ''history'' then
                        (if m = ''GET'' then Some (GetProviderHistory i) else None)
                      else if m = ''GET'' then Some (GetProvider i)
                      else if m = ''PUT'' \<or> m = ''PATCH'' then Some (UpdateProvider i)
                      else if m = ''DELETE'' then Some (DeleteProvider i) else None))
      else if path = ''/api/v1/llm/usage'' then on (m = ''GET'') GetUsageStats
      else if path = ''/api/v1/llm/costs'' then on (m = ''GET'') GetCosts
      else if path = ''/api/v1/llm/analytics/cost-breakdown'' then on (m = ''GET'') GetCostBreakdown
      else if path = ''/api/v1/llm/analytics/usage-by-feature'' then on (m = ''GET'') GetUsageByFeature
      else if path = ''/api/v1/llm/health'' then on (m = ''GET'') GetHealthStatus
      else if path = ''/api/v1/llm/features'' then on (m = ''GET'') GetFeatures
      else if HasPrefix path ''/api/v1/llm/features/'' then
        (let segments = segments_of path ''/api/v1/llm/features/''; feature = segments ! 0
         in if length segments = 2 \<and> segments ! 1 = ''assign-provider'' \<and> m = ''POST'' then
              Some (Some (AssignProviderToFeature feature))
            else if length segments = 2 \<and> segments ! 1 = ''providers'' \<and> m = ''GET'' then
              Some (Some (GetFeatureProviders feature))
            else if length segments = 3 \<and> segments ! 1 = ''providers'' \<and> m = ''DELETE'' then
              Some (map_option (DeleteFeatureProvider feature) (ParseID (segments ! 2)))
            else Some None)
      else if path = ''/api/v1/llm/bulk-test'' then on (m = ''POST'') BulkTestProviders
      else if path = ''/api/v1/llm/recommendations'' then on (m = ''GET'') GetRecommendations
      else None)"

definition dispatch_team :: "string \<Rightarrow> string \<Rightarrow> route option option" where
  "dispatch_team path m =
     (if path = ''/api/v1/team/users'' then
        Some (if m = ''POST'' then Some AddTeamUser
              else if m = ''GET'' then Some ListTeamUsers else None)
      else if HasPrefix path ''/api/v1/team/users/'' then
        (case segments_of path ''/api/v1/team/users/'' of
           [a, b] \<Rightarrow> on_id (b = ''role'' \<and> m = ''PATCH'') a UpdateTeamUserRole
         | [a] \<Rightarrow> on_id (m = ''DELETE'') a RemoveTeamUser
         | _ \<Rightarrow> Some None)
      else if path = ''/api/v1/team/invitations'' then on (m = ''POST'') SendInvitation
      else if path = ''/api/v1/team/activity'' then on (m = ''GET'') GetTeamActivity
      else if path = ''/api/v1/workflows'' then
        Some (if m = ''POST'' then Some CreateWorkflow
              else if m = ''GET'' then Some ListWorkflows else None)
      else if HasPrefix path ''/api/v1/workflows/'' then
        (let segments = segments_of path ''/api/v1/workflows/''
         in Some (case ParseID (segments ! 0) of
                    None \<Rightarrow> None
                  | Some i \<Rightarrow>
                      if length segments = 2 \<and> segments ! 1 = ''test'' then
                        (if m = ''POST'' then Some (TestWorkflow i) else None)
                      else if length segments = 2 \<and> segments ! 1 = ''executions'' then
                        (if m = ''GET'' then Some (GetWorkflowExecutions i) else None)
                      else if m = ''PATCH'' then Some (UpdateWorkflow i)
                      else if m = ''DELETE'' then Some (DeleteWorkflow i) else None))
      else None)"

definition dispatch_misc :: "string \<Rightarrow> string \<Rightarrow> route option option" where
  "dispatch_misc path m =
     (if HasPrefix path ''/api/v1/integrations/'' then
        (let segments = segments_of path ''/api/v1/integrations/''
         in if length segments = 1 \<and> m = ''POST'' then Some (Some (ConnectIntegration (segments ! 0)))
            else if length segments = 2 \<and> segments ! 1 = ''config'' \<and> m = ''GET'' then
              Some (map_option GetIntegrationConfig (ParseID (segments ! 0)))
            else if length segments = 1 \<and> m = ''DELETE'' then
              Some (map_option DisconnectIntegration (ParseID (segments ! 0)))
            else Some None)
      else if path = ''/api/v1/integrations'' then on (m = ''GET'') ListIntegrations
      else if path = ''/api/v1/webhooks/incoming'' then on (m = ''POST'') ReceiveWebhook
      else if path = ''/api/v1/audit-logs'' then on (m = ''POST'') GetAuditLogs
      else if path = ''/api/v1/notifications'' then on (m = ''POST'') ListNotifications
      else if HasPrefix path ''/api/v1/notifications/'' then
        on_id (m = ''PATCH'') (TrimPrefix path ''/api/v1/notifications/'') MarkNotificationRead
      else if path = ''/api/v1/labels'' then on (m = ''POST'') CreateLabel
      else if HasPrefix path ''/api/v1/messages/'' \<and> HasSuffix path ''/labels'' then
        (case segments_of path ''/api/v1/messages/'' of
           [a, b] \<Rightarrow> on_id (m = ''POST'' \<and> b = ''labels'') a AddLabelToMessage
         | _ \<Rightarrow> Some None)
      else if HasPrefix path ''/api/v1/comments/'' then
        on_id (m = ''DELETE'') (TrimPrefix path ''/api/v1/comments/'') DeleteComment
      else None)"

definition dispatch_auth :: "string \<Rightarrow> string \<Rightarrow> route option option" where
  "dispatch_auth path m =
     (if path = ''/api/v1/auth/login'' then on (m = ''POST'') Login
      else if path = ''/api/v1/auth/register'' then on (m = ''POST'') Register
      else if path = ''/api/v1/auth/whatsapp/qr'' then on (m = ''GET'') StartWhatsAppAuth
      else if path = ''/api/v1/auth/whatsapp/status'' then on (m = ''GET'') WhatsAppAuthStatus
      else if path = ''/api/v1/auth/whatsapp/sync-contacts'' then on (m = ''POST'') SyncContacts
      else if path = ''/api/v1/auth/logout'' then on (m = ''POST'') LogoutWhatsApp
      else if path = ''/api/v1/auth/me'' then on (m = ''GET'') Me
      else None)"

definition or_else :: "'a option \<Rightarrow> 'a option \<Rightarrow> 'a option" where
  "or_else a b = (case a of None \<Rightarrow> b | Some x \<Rightarrow> Some x)"

definition dispatch :: "bool \<Rightarrow> string \<Rightarrow> string \<Rightarrow> route option" where
  "dispatch hub path m =
     (case or_else (dispatch_core hub path m)
             (or_else (dispatch_llm path m)
               (or_else (dispatch_team path m)
                 (or_else (dispatch_misc path m) (dispatch_auth path m)))) of
        None \<Rightarrow> None
      | Some res \<Rightarrow> res)"

definition requiresAuth :: "string \<Rightarrow> bool" where
  "requiresAuth path =
     (if path = ''/api/v1/auth/login'' \<or> path = ''/api/v1/auth/register''
         \<or> path = ''/api/v1/auth/whatsapp/qr'' \<or> path = ''/api/v1/auth/whatsapp/status''
         \<or> path = ''/api/v1/webhooks/incoming'' then False
      else HasPrefix path ''/api/v1/'')"

section \<open>ServeHTTP\<close>

datatype outcome = Preflight | Refused int string | Routed route request

record router =
  rt_parse :: "string \<Rightarrow> user option"
  rt_origin :: string
  rt_hub :: bool

definition clean_path :: "request \<Rightarrow> string" where
  "clean_path r = (let p = TrimSuffix (rq_path r) ''/'' in if p = [] then ''/'' else p)"

text \<open>The checks before the authorisation: the request to go on with, or the refusal.\<close>

definition admit ::
    "router \<Rightarrow> request \<Rightarrow> int \<Rightarrow> limiter option \<Rightarrow> (outcome + request) \<times> limiter option" where
  "admit rt r now rl =
     (if requiresAuth (clean_path r) then
        case Authenticate (rt_parse rt) r of
          None \<Rightarrow> (Inl (Refused 401 ''unauthorized''), rl)
        | Some u \<Rightarrow>
            (let (allowed, rl') =
               (case rl of
                  None \<Rightarrow> (True, None)
                | Some l \<Rightarrow> (let (b, l') = Allow (''user:'' @ FormatInt (u_id u)) now l in (b, Some l')))
             in if \<not> allowed then (Inl (Refused 429 ''rate limit exceeded''), rl')
                else if \<not> ValidateCSRF r u then (Inl (Refused 403 ''invalid csrf token''), rl')
                else (Inr (WithUser r u), rl'))
      else
        case rl of
          None \<Rightarrow> (Inr r, None)
        | Some l \<Rightarrow>
            (let (b, l') = Allow (ClientKey r) now l
             in if \<not> b then (Inl (Refused 429 ''rate limit exceeded''), Some l') else (Inr r, Some l')))"

definition authorized :: "request \<Rightarrow> bool act" where
  "authorized r =
     (let path = clean_path r in
        if HasPrefix path ''/api/v1/'' \<and> path \<noteq> ''/api/v1/auth/login'' \<and> path \<noteq> ''/api/v1/auth/register''
        then let required = RequiredRole path (rq_method r)
             in if required \<noteq> [] then Authorize r required else State_Monad.return True
        else State_Monad.return True)"

definition handler_for :: "router \<Rightarrow> request \<Rightarrow> outcome" where
  "handler_for rt r =
     (case dispatch (rt_hub rt) (clean_path r) (rq_method r) of
        None \<Rightarrow> Refused 404 ''not found''
      | Some Ws \<Rightarrow>
          (case Authenticate (rt_parse rt) r of
             None \<Rightarrow> Refused 401 ''unauthorized''
           | Some u \<Rightarrow> Routed Ws r)
      | Some h \<Rightarrow> Routed h r)"

definition ServeHTTP ::
    "router \<Rightarrow> request \<Rightarrow> limiter option \<Rightarrow> world \<Rightarrow> outcome \<times> limiter option \<times> world" where
  "ServeHTTP rt r rl w =
     (if snd (HandleCORS r (rt_origin rt)) then (Preflight, rl, w)
      else
        case admit rt r (w_now w) rl of
          (Inl refused, rl') \<Rightarrow> (refused, rl', w)
        | (Inr r', rl') \<Rightarrow>
            (let (good, w') = run_state (authorized r') w
             in if \<not> good then (Refused 403 ''forbidden'', rl', w')
                else (handler_for rt r', rl', w')))"

section \<open>Paths and roles\<close>

text \<open>Prefix and suffix tests on literal paths, one character at a time.\<close>

lemma HasPrefix_Nil [simp]: "HasPrefix s []"
  by (simp add: HasPrefix_def)

lemma HasPrefix_Cons [simp]:
  "HasPrefix (x # s) (y # p) \<longleftrightarrow> x = y \<and> HasPrefix s p" "\<not> HasPrefix [] (y # p)"
  by (auto simp: HasPrefix_def)

lemma HasPrefixE: "HasPrefix s p \<Longrightarrow> (\<And>r. s = p @ r \<Longrightarrow> P) \<Longrightarrow> P"
  by (auto simp: HasPrefix_iff)

lemma on_Some_Some [simp]: "on b rt = Some (Some h) \<longleftrightarrow> b \<and> h = rt"
  by (auto simp: on_def)

lemma on_id_Some_Some [simp]:
  "on_id b part rt = Some (Some h) \<longleftrightarrow> b \<and> (\<exists>i. ParseID part = Some i \<and> h = rt i)"
  by (auto simp: on_id_def)

lemma or_else_Some: "or_else a b = Some x \<longleftrightarrow> a = Some x \<or> a = None \<and> b = Some x"
  by (auto simp: or_else_def split: option.splits)

lemma dispatch_Some:
  "dispatch hub path m = Some h \<Longrightarrow>
     dispatch_core hub path m = Some (Some h) \<or> dispatch_llm path m = Some (Some h) \<or>
     dispatch_team path m = Some (Some h) \<or> dispatch_misc path m = Some (Some h) \<or>
     dispatch_auth path m = Some (Some h)"
  by (auto simp: dispatch_def or_else_Some split: option.splits)

text \<open>
  The policy: the least role each handler is meant for, stated per handler and not per path.
\<close>

fun route_role :: "route \<Rightarrow> role" where
  "route_role Login = NoRole"
| "route_role Register = NoRole"
| "route_role StartWhatsAppAuth = NoRole"
| "route_role WhatsAppAuthStatus = NoRole"
| "route_role ReceiveWebhook = NoRole"
| "route_role SummarizeConversation = Member"
| "route_role ReplyMessage = Member"
| "route_role ForwardMessage = Member"
| "route_role (CreateActionItemComment _) = Member"
| "route_role (AddLabelToMessage _) = Member"
| "route_role ListNotifications = Member"
| "route_role (MarkNotificationRead _) = Member"
| "route_role (DeleteComment _) = Member"
| "route_role CreateActionItem = Manager"
| "route_role (UpdateActionItem _) = Manager"
| "route_role (DeleteActionItem _) = Manager"
| "route_role GetUsageStats = Manager"
| "route_role GetCosts = Manager"
| "route_role GetCostBreakdown = Manager"
| "route_role GetUsageByFeature = Manager"
| "route_role GetHealthStatus = Manager"
| "route_role GetRecommendations = Manager"
| "route_role GetTeamActivity = Manager"
| "route_role ListWorkflows = Manager"
| "route_role (GetWorkflowExecutions _) = Manager"
| "route_role CreateLabel = Manager"
| "route_role CreateProvider = Admin"
| "route_role ListProviders = Admin"
| "route_role GetProviderComparison = Admin"
| "route_role (TestProvider _) = Admin"
| "route_role (GetProviderHistory _) = Admin"
| "route_role (GetProvider _) = Admin"
| "route_role (UpdateProvider _) = Admin"
| "route_role (DeleteProvider _) = Admin"
| "route_role GetFeatures = Admin"
| "route_role (AssignProviderToFeature _) = Admin"
| "route_role (GetFeatureProviders _) = Admin"
| "route_role (DeleteFeatureProvider _ _) = Admin"
| "route_role BulkTestProviders = Admin"
| "route_role AddTeamUser = Admin"
| "route_role ListTeamUsers = Admin"
| "route_role (UpdateTeamUserRole _) = Admin"
| "route_role (RemoveTeamUser _) = Admin"
| "route_role SendInvitation = Admin"
| "route_role CreateWorkflow = Admin"
| "route_role (TestWorkflow _) = Admin"
| "route_role (UpdateWorkflow _) = Admin"
| "route_role (DeleteWorkflow _) = Admin"
| "route_role (ConnectIntegration _) = Admin"
| "route_role (GetIntegrationConfig _) = Admin"
| "route_role (DisconnectIntegration _) = Admin"
| "route_role ListIntegrations = Admin"
| "route_role GetAuditLogs = Admin"
| "route_role _ = Viewer"

text \<open>
  The two handlers the path-based table lets a manager reach: a workflow path of three or
  more segments ending in \<open>/executions\<close> is required to be a manager's only, but is
  dispatched to the update and delete handlers.
\<close>

definition manager_gap :: "route \<Rightarrow> bool" where
  "manager_gap h \<longleftrightarrow> (\<exists>i. h = UpdateWorkflow i \<or> h = DeleteWorkflow i)"

section \<open>The path table agrees with the policy\<close>

lemma trim_left_suffix: "\<exists>a. s = a @ trim_left ps s"
proof (induction ps s rule: trim_left.induct)
  case (1 ps s)
  show ?case
  proof (cases "find (\<lambda>p. p \<noteq> [] \<and> HasPrefix s p) ps")
    case None
    then show ?thesis by (subst trim_left.simps) simp
  next
    case (Some p)
    then have "HasPrefix s p" by (auto simp: find_Some_iff)
    then have "s = p @ drop (length p) s" by (auto simp: HasPrefix_iff)
    with 1 [OF Some] Some show ?thesis
      by (subst trim_left.simps) (metis append.assoc option.simps(5))
  qed
qed

lemma ParseInt_last:
  assumes "ParseInt s = Some i"
  shows "s \<noteq> [] \<and> is_digit (last s)"
proof -
  from assms obtain c cs where s: "s = c # cs" by (cases s) (auto simp: ParseInt_def)
  with assms obtain n where "parse_digits (if c = CHR ''-'' \<or> c = CHR ''+'' then cs else s) = Some n"
    by (auto simp: ParseInt_def split: option.splits)
  then have "(if c = CHR ''-'' \<or> c = CHR ''+'' then cs else s) \<noteq> []"
    and "\<forall>x \<in> set (if c = CHR ''-'' \<or> c = CHR ''+'' then cs else s). is_digit x"
    by (auto simp: parse_digits_def split: if_splits)
  with s show ?thesis by (cases "c = CHR ''-'' \<or> c = CHR ''+''") (auto split: if_splits)
qed

lemma TrimSpace_last:
  assumes "TrimSpace s \<noteq> []" "plain_char (last s)"
  shows "last (TrimSpace s) = last s"
proof -
  define u where "u = trim_left space_codes s"
  obtain a where a: "s = a @ u" using trim_left_suffix u_def by blast
  obtain b where "rev u = b @ trim_left (map rev space_codes) (rev u)"
    using trim_left_suffix by blast
  with assms(1) have u: "u \<noteq> []" by (auto simp: TrimSpace_def u_def)
  with a have l: "last u = last s" by simp
  have "hd (rev u) \<noteq> hd p" if "p \<in> set (map rev space_codes)" for p
    using plain_not_space [OF assms(2), of p] that u l by (simp add: hd_rev)
  then have "trim_left (map rev space_codes) (rev u) = rev u"
    using u by (intro trim_left_id not_HasPrefix_hd) auto
  then show ?thesis using l by (simp add: TrimSpace_def u_def)
qed

lemma ParseID_last: "ParseID s = Some i \<Longrightarrow> plain_char (last s) \<Longrightarrow> is_digit (last s)"
  using ParseInt_last TrimSpace_last by (fastforce simp: ParseID_def split: option.splits)

lemma ParseID_Nil [simp]: "ParseID [] = None"
proof -
  have "TrimSpace [] = []" using trim_left_suffix [of "[]"] by (simp add: TrimSpace_def)
  then show ?thesis by (simp add: ParseID_def ParseInt_def)
qed

lemma HasSuffix_last: "HasSuffix s p \<Longrightarrow> p \<noteq> [] \<Longrightarrow> last s = last p"
  by (auto simp: HasSuffix_iff)

lemma ParseID_no_comments: "ParseID r = Some i \<Longrightarrow> \<not> HasSuffix (p @ r) ''/comments''"
proof
  assume id: "ParseID r = Some i" and suf: "HasSuffix (p @ r) ''/comments''"
  from id have "r \<noteq> []" by auto
  with HasSuffix_last [OF suf] have "last r = CHR ''s''" by simp
  with ParseID_last [OF id] show False by (simp add: plain_char_def is_digit_def)
qed

lemma segments_of_append: "segments_of (p @ r) p = Split (CHR ''/'') r"
  by (simp add: segments_of_def)

lemma role_of_simps [simp]:
  "role_of ''viewer'' = Viewer" "role_of ''member'' = Member" "role_of ''manager'' = Manager"
  "role_of ''admin'' = Admin" "role_of ''owner'' = Owner" "role_of [] = NoRole"
  by (simp_all add: role_of_def lower1_def)

lemma role_le [simp]: "(a::role) \<le> b \<longleftrightarrow> role_level a \<le> role_level b"
  by (simp add: less_eq_role_def)

lemma if_weakE: "(if c then x else y) = z \<Longrightarrow> (c \<Longrightarrow> x = z \<Longrightarrow> P) \<Longrightarrow> (y = z \<Longrightarrow> P) \<Longrightarrow> P"
  by (simp split: if_splits)
lemma None_SomeE: "None = Some x \<Longrightarrow> P" by simp

lemmas dispatch_elims = if_weakE HasPrefixE None_SomeE conjE

lemma RequiredRole_items:
  "RequiredRole (''/api/v1/action-items/'' @ r) m =
     (if HasSuffix (''/api/v1/action-items/'' @ r) ''/comments''
      then (if m = ''GET'' then ''viewer'' else ''member'') else ''manager'')"
  by (simp add: RequiredRole_def cong: if_weak_cong)

lemma items_role: "(let idPart = r;
             segments = Split (CHR ''/'') r
         in if length segments = 2 \<and> segments ! 1 = ''comments'' then
              Some (case ParseID (segments ! 0) of
                      None \<Rightarrow> None
                    | Some i \<Rightarrow> if m = ''GET'' then Some (ListActionItemComments i)
                                else if m = ''POST'' then Some (CreateActionItemComment i) else None)
            else
              Some (case ParseID idPart of
                      None \<Rightarrow> None
                    | Some i \<Rightarrow> if m = ''PATCH'' then Some (UpdateActionItem i)
                                else if m = ''DELETE'' then Some (DeleteActionItem i) else None)) = Some (Some h)
  \<Longrightarrow> route_role h \<le> role_of (RequiredRole (''/api/v1/action-items/'' @ r) m)"
  unfolding RequiredRole_items Let_def
  using ParseID_no_comments [of r _ "''/api/v1/action-items/''"]
  by (auto split: if_splits option.splits)

lemma core_role:
  "dispatch_core hub path m = Some (Some h) \<Longrightarrow> route_role h \<le> role_of (RequiredRole path m)"
  unfolding dispatch_core_def 
  by (elim dispatch_elims; (simp only: segments_of_append TrimPrefix_append)?; (erule items_role)?)
    (auto simp: RequiredRole_def HasSuffix_def on_def on_id_def cong: if_weak_cong split: if_splits option.splits list.splits)

lemma llm_role:
  "dispatch_llm path m = Some (Some h) \<Longrightarrow> route_role h \<le> role_of (RequiredRole path m)"
  unfolding dispatch_llm_def Let_def
  by (elim dispatch_elims; (simp only: segments_of_append TrimPrefix_append)?)
    (auto simp: RequiredRole_def HasSuffix_def on_def on_id_def cong: if_weak_cong split: if_splits option.splits list.splits)

lemma Split_test_last:
  assumes "length (Split c r) = 2" "Split c r ! Suc 0 = s" "s \<noteq> []"
  shows "r \<noteq> [] \<and> last r = last s"
proof -
  from assms(1) obtain a b where ab: "Split c r = [a, b]"
    by (auto simp: numeral_2_eq_2 length_Suc_conv)
  then have "r = a @ c # b" using join_Split [of c r] by simp
  with ab assms(2,3) show ?thesis by simp
qed

lemma test_not_executions:
  "length (Split c r) = 2 \<Longrightarrow> Split c r ! Suc 0 = ''test'' \<Longrightarrow> \<not> HasSuffix (p @ r) ''/executions''"
  using Split_test_last [of c r "''test''"] HasSuffix_last [of "p @ r" "''/executions''"] by auto

lemma team_role:
  "dispatch_team path m = Some (Some h) \<Longrightarrow> \<not> manager_gap h \<Longrightarrow> route_role h \<le> role_of (RequiredRole path m)"
  unfolding dispatch_team_def Let_def
  by (elim dispatch_elims; (simp only: segments_of_append TrimPrefix_append)?)
    (auto simp: RequiredRole_def manager_gap_def test_not_executions [of _ _ "''/api/v1/workflows/''", simplified] cong: if_weak_cong split: if_splits option.splits list.splits)

lemma misc_role:
  "dispatch_misc path m = Some (Some h) \<Longrightarrow> route_role h \<le> role_of (RequiredRole path m)"
  unfolding dispatch_misc_def Let_def
  by (elim dispatch_elims; (simp only: segments_of_append TrimPrefix_append)?)
    (auto simp: RequiredRole_def HasSuffix_def on_def on_id_def cong: if_weak_cong split: if_splits option.splits list.splits)

lemma auth_role:
  "dispatch_auth path m = Some (Some h) \<Longrightarrow> route_role h \<le> role_of (RequiredRole path m)"
  unfolding dispatch_auth_def Let_def
  by (elim dispatch_elims)
    (auto simp: RequiredRole_def HasSuffix_def on_def on_id_def cong: if_weak_cong split: if_splits option.splits list.splits)

text \<open>
  The role the gap really asks for: a manager, and the policy's admin unless the path ends in
  \<open>/executions\<close>.
\<close>

lemma gap_role:
  "dispatch_team path m = Some (Some h) \<Longrightarrow> manager_gap h \<Longrightarrow> Manager \<le> role_of (RequiredRole path m)"
  unfolding dispatch_team_def Let_def
  by (elim dispatch_elims; (simp only: segments_of_append TrimPrefix_append)?)
    (auto simp: RequiredRole_def manager_gap_def cong: if_weak_cong split: if_splits option.splits list.splits)

lemma gap_role_admin:
  "dispatch_team path m = Some (Some h) \<Longrightarrow> manager_gap h \<Longrightarrow> \<not> HasSuffix path ''/executions'' \<Longrightarrow>
    route_role h \<le> role_of (RequiredRole path m)"
  unfolding dispatch_team_def Let_def
  by (elim dispatch_elims; (simp only: segments_of_append TrimPrefix_append)?)
    (auto simp: RequiredRole_def manager_gap_def cong: if_weak_cong split: if_splits option.splits list.splits)

lemma gap_not_core: "dispatch_core hub path m = Some (Some h) \<Longrightarrow> \<not> manager_gap h"
  unfolding dispatch_core_def Let_def
  by (elim dispatch_elims)
    (auto simp: manager_gap_def split: if_splits option.splits list.splits)

lemma gap_not_llm: "dispatch_llm path m = Some (Some h) \<Longrightarrow> \<not> manager_gap h"
  unfolding dispatch_llm_def Let_def
  by (elim dispatch_elims)
    (auto simp: manager_gap_def split: if_splits option.splits list.splits)

lemma gap_not_misc: "dispatch_misc path m = Some (Some h) \<Longrightarrow> \<not> manager_gap h"
  unfolding dispatch_misc_def Let_def
  by (elim dispatch_elims)
    (auto simp: manager_gap_def split: if_splits option.splits list.splits)

lemma gap_not_auth: "dispatch_auth path m = Some (Some h) \<Longrightarrow> \<not> manager_gap h"
  unfolding dispatch_auth_def Let_def
  by (elim dispatch_elims)
    (auto simp: manager_gap_def split: if_splits option.splits list.splits)

lemmas gap_only_team = gap_not_core gap_not_llm gap_not_misc gap_not_auth

lemma dispatch_guard:
  assumes "dispatch hub path m = Some h"
  shows "route_role h \<le> role_of (RequiredRole path m) \<or>
    manager_gap h \<and> HasSuffix path ''/executions'' \<and> Manager \<le> role_of (RequiredRole path m)"
proof (cases "manager_gap h")
  case True
  with dispatch_Some [OF assms] have "dispatch_team path m = Some (Some h)"
    using gap_only_team by blast
  with True gap_role gap_role_admin show ?thesis by blast
next
  case False
  with dispatch_Some [OF assms] core_role llm_role team_role misc_role auth_role show ?thesis
    by blast
qed

lemma api_core: "dispatch_core hub path m = Some (Some h) \<Longrightarrow> HasPrefix path ''/api/v1/''"
  unfolding dispatch_core_def Let_def
  by (elim dispatch_elims) simp_all

lemma api_llm: "dispatch_llm path m = Some (Some h) \<Longrightarrow> HasPrefix path ''/api/v1/''"
  unfolding dispatch_llm_def Let_def
  by (elim dispatch_elims) simp_all

lemma api_team: "dispatch_team path m = Some (Some h) \<Longrightarrow> HasPrefix path ''/api/v1/''"
  unfolding dispatch_team_def Let_def
  by (elim dispatch_elims) simp_all

lemma api_misc: "dispatch_misc path m = Some (Some h) \<Longrightarrow> HasPrefix path ''/api/v1/''"
  unfolding dispatch_misc_def Let_def
  by (elim dispatch_elims) simp_all

lemma api_auth: "dispatch_auth path m = Some (Some h) \<Longrightarrow> HasPrefix path ''/api/v1/''"
  unfolding dispatch_auth_def Let_def
  by (elim dispatch_elims) simp_all

lemma dispatch_api: "dispatch hub path m = Some h \<Longrightarrow> HasPrefix path ''/api/v1/''"
  using dispatch_Some api_core api_llm api_team api_misc api_auth by blast

lemma Authorize_True:
  assumes "run_state (Authorize r required) w = (True, w')" "required \<noteq> []"
  shows "role_of required \<le> Viewer \<or>
    (\<exists>u. \<exists>row \<in> set (tb_rows (users_extended (w_db w))).
       rq_user r = Some u \<and> ue_tenant row = u_tenant u \<and> ue_user row = u_id u \<and>
       role_of required \<le> role_of (ue_role row))"
proof -
  have v: "roleRank (ToLower required) \<le> roleRank (ToLower role) \<Longrightarrow> role_of required \<le> role_of role" for role
    by (simp add: roleRank_le_iff)
  have vv: "role_of ''viewer'' = Viewer" by simp
  show ?thesis
    using assms v [of "''viewer''"] v
    by (fastforce simp: Authorize_def Let_def authUserIDPtr_def UserFromContext_def tenantID_def
        simp del: role_le
        split: option.splits prod.splits sum.splits if_splits dest: getUserRole_Inr)
qed

section \<open>A sample request and world\<close>

text \<open>A concrete request and world, for the witnesses: a user of tenant 3.\<close>

definition sample_user :: user where
  "sample_user = \<lparr>u_id = 7, u_tenant = 3, u_email = ''a@b.c'', u_csrf = ''tok''\<rparr>"

definition sample_request :: "string \<Rightarrow> string \<Rightarrow> request" where
  "sample_request method path =
     \<lparr>rq_method = method, rq_path = path,
      rq_header = (\<lambda>n. if n = ''Authorization'' then ''Bearer jwt''
                       else if n = ''X-CSRF-Token'' then ''tok'' else ''''),
      rq_query = (\<lambda>n. ''''), rq_remote = ''10.0.0.1:5000'', rq_user = None\<rparr>"

definition sample_router :: router where
  "sample_router =
     \<lparr>rt_parse = (\<lambda>t. if t = ''jwt'' then Some sample_user else None),
      rt_origin = ''http://localhost:5173'', rt_hub = True\<rparr>"

definition sample_world :: "string \<Rightarrow> world" where
  "sample_world role =
     \<lparr>w_db = empty_db\<lparr>users_extended := \<lparr>tb_rows = [\<lparr>ue_user = 7, ue_tenant = 3, ue_role = role,
        ue_team = 3, ue_created = 0, ue_updated = 0\<rparr>], tb_seq = 0\<rparr>\<rparr>,
      w_sess = \<lparr>ss_tenant = None, ss_rls = False\<rparr>, w_faults = [], w_now = 0, w_rand = [],
      w_hub = True, w_bcast = [], w_queue = (\<lambda>_. []), w_instances = Map.empty,
      w_cache = Map.empty, w_monitors = {}, w_workers = {}\<rparr>"

lemma sample_Authenticate:
  "Authenticate (rt_parse sample_router) (sample_request m p) = Some sample_user"
  unfolding sample_request_def by code_simp

section \<open>What reaches a handler\<close>

definition role_held :: "world \<Rightarrow> user \<Rightarrow> role \<Rightarrow> bool" where
  "role_held w u least \<longleftrightarrow>
     least \<le> Viewer \<or>
     (\<exists>row \<in> set (tb_rows (users_extended (w_db w))).
        ue_tenant row = u_tenant u \<and> ue_user row = u_id u \<and> least \<le> role_of (ue_role row))"

lemma admit_auth:
  assumes "admit rt r now rl = (Inr r', rl')" "requiresAuth (clean_path r)"
  obtains u where "Authenticate (rt_parse rt) r = Some u" "ValidateCSRF r u" "r' = WithUser r u"
    "\<And>l. rl = Some l \<Longrightarrow> fst (Allow (''user:'' @ FormatInt (u_id u)) now l)"
  using assms by (auto simp: admit_def split: option.splits prod.splits if_splits)

lemma admit_path: "admit rt r now rl = (Inr r', rl') \<Longrightarrow> clean_path r' = clean_path r \<and> rq_method r' = rq_method r"
  by (auto simp: admit_def WithUser_def clean_path_def split: option.splits prod.splits if_splits)

lemma admit_refuses: "admit rt r now rl = (Inl out, rl') \<Longrightarrow> out \<noteq> Routed h r'"
  by (auto simp: admit_def split: option.splits prod.splits if_splits)

lemma ServeHTTP_Routed:
  assumes "ServeHTTP rt r rl w = (Routed h r', rl', w')"
  shows "admit rt r (w_now w) rl = (Inr r', rl')" "fst (run_state (authorized r') w)"
    "dispatch (rt_hub rt) (clean_path r) (rq_method r) = Some h"
proof -
  show a: "admit rt r (w_now w) rl = (Inr r', rl')" and "fst (run_state (authorized r') w)"
    using assms
    by (auto simp: ServeHTTP_def handler_for_def dest: admit_refuses split: prod.splits sum.splits if_splits option.splits route.splits)
  from assms admit_path [OF a] show "dispatch (rt_hub rt) (clean_path r) (rq_method r) = Some h"
    by (auto simp: ServeHTTP_def a handler_for_def split: prod.splits if_splits option.splits route.splits)
qed



text \<open>
  The path table and the dispatch disagree on workflow paths: for every workflow id the
  path \<open>/api/v1/workflows/<id>/x/executions\<close> asks for a manager only, and DELETE and PATCH on it
  reach the handlers that \<open>/api/v1/workflows/<id>\<close> reserves to admins.
\<close>

theorem workflow_executions_bypass:
  assumes "0 < i" "is_int64 i"
  shows "dispatch hub (''/api/v1/workflows/'' @ FormatInt i @ ''/x/executions'') ''DELETE'' = Some (DeleteWorkflow i) \<and>
    dispatch hub (''/api/v1/workflows/'' @ FormatInt i @ ''/x/executions'') ''PATCH'' = Some (UpdateWorkflow i) \<and>
    RequiredRole (''/api/v1/workflows/'' @ FormatInt i @ ''/x/executions'') m = ''manager'' \<and>
    RequiredRole (''/api/v1/workflows/'' @ FormatInt i) m = ''admin''"
proof -
  let ?p = "''/api/v1/workflows/'' @ FormatInt i @ ''/x/executions''"
  have slash: "CHR ''/'' \<notin> set (FormatInt i)"
    using FormatInt_chars [of "CHR ''/''" i] by (auto simp: is_digit_def)
  have seg: "segments_of ?p ''/api/v1/workflows/'' = [FormatInt i, ''x'', ''executions'']"
    unfolding segments_of_append
    using Split_append_sep [OF slash, of "''x/executions''"] by simp
  have team: "dispatch_team ?p m = Some (case ParseID (FormatInt i) of None \<Rightarrow> None
      | Some i \<Rightarrow> if m = ''PATCH'' then Some (UpdateWorkflow i)
                  else if m = ''DELETE'' then Some (DeleteWorkflow i) else None)" for m
    unfolding dispatch_team_def seg Let_def by (simp cong: option.case_cong)
  have none: "dispatch_core hub ?p m = None" "dispatch_llm ?p m = None" for m
    by (simp_all add: dispatch_core_def dispatch_llm_def)
  have suf: "HasSuffix ?p ''/executions''"
    by (simp add: HasSuffix_def)
  have "\<not> HasSuffix (''/api/v1/workflows/'' @ FormatInt i) ''/executions''"
  proof
    assume a: "HasSuffix (''/api/v1/workflows/'' @ FormatInt i) ''/executions''"
    have "FormatInt i \<noteq> []" using FormatInt_plain [of i] by auto
    with HasSuffix_last [OF a] have "last (FormatInt i) = CHR ''s''" by simp
    moreover from \<open>FormatInt i \<noteq> []\<close> have "last (FormatInt i) \<in> set (FormatInt i)" by simp
    ultimately show False using FormatInt_chars by (fastforce simp: is_digit_def)
  qed
  then have "RequiredRole (''/api/v1/workflows/'' @ FormatInt i) m = ''admin''"
    by (simp add: RequiredRole_def)
  moreover from suf have "RequiredRole ?p m = ''manager''"
    by (simp add: RequiredRole_def)
  moreover have "dispatch hub p m = Some h"
    if "dispatch_core hub p m = None" "dispatch_llm p m = None" "dispatch_team p m = Some (Some h)" for p m h
    using that by (simp add: dispatch_def or_else_def)
  ultimately show ?thesis
    using none team by (simp only: ParseID_FormatInt [OF assms] option.case) auto
qed

theorem workflow_executions_bypass_witness:
  "dispatch True (''/api/v1/workflows/'' @ FormatInt 7 @ ''/x/executions'') ''DELETE'' = Some (DeleteWorkflow 7)"
  by (rule workflow_executions_bypass [THEN conjunct1]) (simp_all add: is_int64_def min_int64_def max_int64_def)

end
