(* ===== verification/Team.thy ===== *)
theory Team
  imports HttpRouter
begin

text \<open>
  Team management: \<open>backend/internal/handlers/team.go\<close>. A handler takes the request and the
  decoded body (\<open>None\<close> when \<open>readJSON\<close> fails) and is an action on the world; its result is
  what it writes. \<open>ORDER BY created_at DESC\<close> is a stable sort, ties in table order.
\<close>

record addTeamUserRequest =
  at_email :: string
  at_role :: string

datatype added = Invited invitation_row | Added user_row string

definition newest_first :: "('r \<Rightarrow> int) \<Rightarrow> 'r list \<Rightarrow> 'r list" where
  "newest_first key rows = sort_key (\<lambda>r. - key r) rows"

section \<open>Roles\<close>

definition upsert_extended :: "int \<Rightarrow> int \<Rightarrow> string \<Rightarrow> int \<Rightarrow> user_ext_row sql" where
  "upsert_extended tenant uid role now =
     sql_upsert users_extended users_extended_update ue_tenant
       (\<lambda>d r. has_key us_id uid (users d))
       (\<lambda>i. \<lparr>ue_user = uid, ue_tenant = tenant, ue_role = role, ue_team = tenant,
             ue_created = now, ue_updated = now\<rparr>)
       (\<lambda>r. ue_user r = uid)
       (\<lambda>r. r\<lparr>ue_role := role, ue_updated := now\<rparr>)"

definition upsert_member :: "int \<Rightarrow> int \<Rightarrow> string \<Rightarrow> int \<Rightarrow> member_row sql" where
  "upsert_member tenant uid role now =
     sql_upsert team_members team_members_update tm_team
       (\<lambda>d r. has_key us_id uid (users d))
       (\<lambda>i. \<lparr>tm_id = i, tm_team = tenant, tm_user = uid, tm_role = role, tm_joined = now\<rparr>)
       (\<lambda>r. tm_team r = tenant \<and> tm_user r = uid)
       (\<lambda>r. r\<lparr>tm_role := role\<rparr>)"

definition insert_role :: "int \<Rightarrow> int \<Rightarrow> string \<Rightarrow> int \<Rightarrow> user_role_row sql" where
  "insert_role tenant uid role now =
     sql_insert user_roles user_roles_update ur_tenant
       (\<lambda>d r. has_key us_id uid (users d))
       (\<lambda>i. \<lparr>ur_id = i, ur_user = uid, ur_tenant = tenant, ur_role = role, ur_created = now\<rparr>)"

definition setUserRole :: "int \<Rightarrow> int \<Rightarrow> string \<Rightarrow> (dberr + unit) act" where
  "setUserRole tenant uid role = do {
     now \<leftarrow> Now;
     WithTenantConn tenant
       (then_ok (Exec (upsert_extended tenant uid role now)) (\<lambda>_.
        then_ok (Exec (upsert_member tenant uid role now)) (\<lambda>_.
        then_ok (Exec (insert_role tenant uid role now)) (\<lambda>_. ok ()))))
   }"

section \<open>Invitations\<close>

definition week :: int where
  "week = 7 * 24 * 3600 * 1000000000"

definition upsert_invitation ::
    "int \<Rightarrow> string \<Rightarrow> string \<Rightarrow> string \<Rightarrow> int option \<Rightarrow> int \<Rightarrow> int \<Rightarrow> invitation_row sql" where
  "upsert_invitation tenant email role token by now expires =
     sql_upsert team_invitations team_invitations_update ti_tenant (\<lambda>d r. True)
       (\<lambda>i. \<lparr>ti_id = i, ti_tenant = tenant, ti_email = email, ti_role = role,
             ti_status = ''pending'', ti_token = token, ti_by = by, ti_created = now,
             ti_expires = expires\<rparr>)
       (\<lambda>r. ti_tenant r = tenant \<and> ti_email r = email \<and> ti_status r = ''pending'')
       (\<lambda>r. r\<lparr>ti_token := token, ti_role := role, ti_created := now, ti_expires := expires\<rparr>)"

definition createInvitation ::
    "int \<Rightarrow> string \<Rightarrow> string \<Rightarrow> int option \<Rightarrow> (dberr + invitation_row) act" where
  "createInvitation tenant email role by = do {
     buf \<leftarrow> RandRead;
     case random_token buf of
       None \<Rightarrow> err Fault
     | Some token \<Rightarrow> do {
         now \<leftarrow> Now;
         WithTenantConn tenant (Exec (upsert_invitation tenant email role token by now (now + week)))
       }
   }"

section \<open>Handlers\<close>

definition find_user :: "string \<Rightarrow> int \<Rightarrow> user_row sql" where
  "find_user email tenant =
     sql_row users us_tenant (\<lambda>u. us_email u = email \<and> us_tenant u = tenant)"

definition AddTeamUser :: "request \<Rightarrow> addTeamUserRequest option \<Rightarrow> added response act" where
  "AddTeamUser r body =
     (case body of
        None \<Rightarrow> State_Monad.return (Fail 400 ''invalid request'')
      | Some req \<Rightarrow>
          if at_email req = [] \<or> at_role req = [] then
            State_Monad.return (Fail 400 ''email and role are required'')
          else do {
            let tenant = tenantID r;
            found \<leftarrow> WithTenantConn tenant (Exec (find_user (at_email req) tenant));
            case found of
              Inl e \<Rightarrow>
                if e \<noteq> NoRows then State_Monad.return (Fail 500 ''failed to lookup user'')
                else do {
                  made \<leftarrow> createInvitation tenant (at_email req) (at_role req) (authUserIDPtr r);
                  State_Monad.return
                    (case made of Inl _ \<Rightarrow> Fail 500 ''failed to create invitation''
                     | Inr invitation \<Rightarrow> Reply 201 (Invited invitation))
                }
            | Inr existing \<Rightarrow> do {
                done \<leftarrow> setUserRole tenant (us_id existing) (at_role req);
                case done of
                  Inl _ \<Rightarrow> State_Monad.return (Fail 500 ''failed to add user'')
                | Inr _ \<Rightarrow> do {
                    _ \<leftarrow> logAudit r tenant (authUserIDPtr r) ''team.user_added'' (Some ''user'')
                      (Some (us_id existing)) None
                      (Some (JObj [(''role'', JStr (at_role req)), (''user_id'', JInt (us_id existing))]));
                    State_Monad.return (Reply 201 (Added (existing\<lparr>us_hash := ''''\<rparr>) (at_role req)))
                  }
              }
          })"

record team_user =
  tu_id :: int
  tu_email :: string
  tu_role :: "string option"
  tu_created :: int
  tu_updated :: int

text \<open>The \<open>LEFT JOIN\<close>: \<open>user_id\<close> is the primary key of \<open>users_extended\<close>.\<close>

definition team_users :: "int \<Rightarrow> team_user list sql" where
  "team_users tenant s d =
     (Inr (map (\<lambda>u. \<lparr>tu_id = us_id u, tu_email = us_email u,
                     tu_role = map_option ue_role (first_of (filter
                       (\<lambda>x. visible s (ue_tenant x) \<and> ue_user x = us_id u)
                       (tb_rows (users_extended d)))),
                     tu_created = us_created u, tu_updated = us_updated u\<rparr>)
            (newest_first us_created
               (filter (\<lambda>u. visible s (us_tenant u) \<and> us_tenant u = tenant) (tb_rows (users d))))), d)"

definition pending_invitations :: "int \<Rightarrow> invitation_row list sql" where
  "pending_invitations tenant =
     sql_select team_invitations ti_tenant (\<lambda>i. ti_tenant i = tenant \<and> ti_status i = ''pending'')"

definition ListTeamUsers :: "request \<Rightarrow> (team_user list \<times> invitation_row list) response act" where
  "ListTeamUsers r = do {
     let tenant = tenantID r;
     res \<leftarrow> WithTenantConn tenant
       (then_ok (Exec (team_users tenant)) (\<lambda>us.
        then_ok (Exec (pending_invitations tenant)) (\<lambda>is.
        ok (us, newest_first ti_created is))));
     State_Monad.return
       (case res of Inl _ \<Rightarrow> Fail 500 ''failed to load team users'' | Inr p \<Rightarrow> Reply 200 p)
   }"

definition UpdateTeamUserRole :: "request \<Rightarrow> string option \<Rightarrow> int \<Rightarrow> string response act" where
  "UpdateTeamUserRole r body uid =
     (case body of
        None \<Rightarrow> State_Monad.return (Fail 400 ''invalid request'')
      | Some role \<Rightarrow>
          if role = [] then State_Monad.return (Fail 400 ''role is required'')
          else do {
            let tenant = tenantID r;
            done \<leftarrow> setUserRole tenant uid role;
            case done of
              Inl _ \<Rightarrow> State_Monad.return (Fail 500 ''failed to update role'')
            | Inr _ \<Rightarrow> do {
                _ \<leftarrow> logAudit r tenant (authUserIDPtr r) ''team.role_updated'' (Some ''user'') (Some uid)
                  None (Some (JObj [(''role'', JStr role), (''user_id'', JInt uid)]));
                State_Monad.return (Reply 200 ''updated'')
              }
          })"

definition delete_extended :: "int \<Rightarrow> int \<Rightarrow> nat sql" where
  "delete_extended tenant uid =
     sql_delete users_extended users_extended_update ue_tenant (\<lambda>gone d. d)
       (\<lambda>r. ue_tenant r = tenant \<and> ue_user r = uid)"

definition delete_member :: "int \<Rightarrow> int \<Rightarrow> nat sql" where
  "delete_member tenant uid =
     sql_delete team_members team_members_update tm_team (\<lambda>gone d. d)
       (\<lambda>r. tm_team r = tenant \<and> tm_user r = uid)"

definition RemoveTeamUser :: "request \<Rightarrow> int \<Rightarrow> string response act" where
  "RemoveTeamUser r uid = do {
     let tenant = tenantID r;
     done \<leftarrow> WithTenantConn tenant
       (then_ok (Exec (delete_extended tenant uid)) (\<lambda>_. Exec (delete_member tenant uid)));
     case done of
       Inl _ \<Rightarrow> State_Monad.return (Fail 500 ''failed to remove user'')
     | Inr _ \<Rightarrow> do {
         _ \<leftarrow> logAudit r tenant (authUserIDPtr r) ''team.user_removed'' (Some ''user'') (Some uid) None None;
         State_Monad.return (Reply 200 ''removed'')
       }
   }"

definition SendInvitation :: "request \<Rightarrow> addTeamUserRequest option \<Rightarrow> invitation_row response act" where
  "SendInvitation r body =
     (case body of
        None \<Rightarrow> State_Monad.return (Fail 400 ''invalid request'')
      | Some req \<Rightarrow>
          if at_email req = [] \<or> at_role req = [] then
            State_Monad.return (Fail 400 ''email and role are required'')
          else do {
            let tenant = tenantID r;
            made \<leftarrow> createInvitation tenant (at_email req) (at_role req) (authUserIDPtr r);
            case made of
              Inl _ \<Rightarrow> State_Monad.return (Fail 500 ''failed to create invitation'')
            | Inr invitation \<Rightarrow> do {
                _ \<leftarrow> logAudit r tenant (authUserIDPtr r) ''team.invitation_sent'' (Some ''invitation'')
                  (Some (ti_id invitation)) None
                  (Some (JObj [(''email'', JStr (ti_email invitation)), (''role'', JStr (ti_role invitation))]));
                State_Monad.return (Reply 201 invitation)
              }
          })"

definition GetTeamActivity :: "request \<Rightarrow> activity_row list response act" where
  "GetTeamActivity r = do {
     let tenant = tenantID r;
     res \<leftarrow> WithTenantConn tenant
       (Exec (sql_select user_activity_logs ac_tenant (\<lambda>x. ac_tenant x = tenant)));
     State_Monad.return
       (case res of Inl _ \<Rightarrow> Fail 500 ''failed to load activity''
        | Inr rows \<Rightarrow> Reply 200 (take 200 (newest_first ac_created rows)))
   }"

section \<open>Isolation\<close>

lemmas team_defs =
  createInvitation_def upsert_invitation_def find_user_def pending_invitations_def
  delete_extended_def delete_member_def

lemma createInvitation_tenant [intro]: "state_io_rel (tenant_frame t) (createInvitation t email role by)"
  unfolding team_defs by (intro tenant.keeps_intros keeps_stmts) auto

lemma team_users_tenant [intro]: "state_io_rel (tenant_frame t) (Exec (team_users t'))"
  by (rule tenant.keeps_Exec) (simp add: team_users_def tenant_frame_def)

lemma RemoveTeamUser_tenant: "state_io_rel (tenant_frame (tenantID r)) (RemoveTeamUser r uid)"
  unfolding RemoveTeamUser_def team_defs Let_def
  by (intro tenant.keeps_intros keeps_stmts logAudit_tenant) auto

lemma SendInvitation_tenant: "state_io_rel (tenant_frame (tenantID r)) (SendInvitation r body)"
  unfolding SendInvitation_def Let_def
  by (intro tenant.keeps_intros createInvitation_tenant logAudit_tenant)

lemma ListTeamUsers_tenant: "state_io_rel (tenant_frame (tenantID r)) (ListTeamUsers r)"
  unfolding ListTeamUsers_def pending_invitations_def Let_def
  by (intro tenant.keeps_intros keeps_stmts team_users_tenant)

lemma GetTeamActivity_tenant: "state_io_rel (tenant_frame (tenantID r)) (GetTeamActivity r)"
  unfolding GetTeamActivity_def Let_def by (intro tenant.keeps_intros keeps_stmts)

section \<open>What the operations do\<close>

lemma setUserRole_run:
  assumes "w_faults w = []" "\<not> ss_rls (w_sess w)" "has_key us_id uid (users (w_db w))"
  shows "fst (run_state (setUserRole t uid role) w) = Inr ()" (is ?res)
    and "case first_of (filter (\<lambda>r. ue_user r = uid) (tb_rows (users_extended (w_db w)))) of
           None \<Rightarrow> tb_rows (users_extended (w_db (snd (run_state (setUserRole t uid role) w)))) =
             tb_rows (users_extended (w_db w)) @
               [\<lparr>ue_user = uid, ue_tenant = t, ue_role = role, ue_team = t,
                 ue_created = w_now w, ue_updated = w_now w\<rparr>]
         | Some _ \<Rightarrow> tb_rows (users_extended (w_db (snd (run_state (setUserRole t uid role) w)))) =
             update_where (\<lambda>r. ue_user r = uid) (\<lambda>r. r\<lparr>ue_role := role, ue_updated := w_now w\<rparr>)
               (tb_rows (users_extended (w_db w)))"
  using assms
  by (auto simp: setUserRole_def state_simps upsert_extended_def upsert_member_def insert_role_def
      sql_upsert_def sql_insert_def Let_def visible_def split: option.splits)

section \<open>Keys\<close>

text \<open>
  The unique keys of the team tables, as an invariant: a user has one role row, a tenant has
  one membership row per user and one invitation per address and status.
\<close>

definition team_keys :: "db \<Rightarrow> bool" where
  "team_keys d \<longleftrightarrow>
     distinct (map ue_user (tb_rows (users_extended d))) \<and>
     distinct (map (\<lambda>m. (tm_team m, tm_user m)) (tb_rows (team_members d))) \<and>
     distinct (map (\<lambda>i. (ti_tenant i, ti_email i, ti_status i)) (tb_rows (team_invitations d)))"

definition keys_frame :: "world \<Rightarrow> world \<Rightarrow> bool" where
  "keys_frame w w' \<longleftrightarrow> (team_keys (w_db w) \<longrightarrow> team_keys (w_db w'))"

interpretation keys: frame_relation keys_frame
  by unfold_locales (auto simp: keys_frame_def)

text \<open>An upsert keeps a key unique when it conflicts on that key and writes only that key.\<close>

lemma upsert_distinct:
  assumes lens: "\<And>g d. get (upd g d) = g (get d)"
    and key: "\<And>r. same r \<longleftrightarrow> key r = k" "\<And>i. key (mk i) = k" "\<And>r. key (f r) = key r"
    and distinct: "distinct (map key (tb_rows (get d)))"
  shows "distinct (map key (tb_rows (get (snd (sql_upsert get upd ten good mk same f s d)))))"
proof -
  have "first_of (filter same (tb_rows (get d))) = None \<Longrightarrow> k \<notin> key ` set (tb_rows (get d))"
    using key(1) by (auto simp: filter_empty_conv)
  moreover have "map key (update_where same f (tb_rows (get d))) = map key (tb_rows (get d))"
    by (rule map_update_where) (rule key(3))
  ultimately show ?thesis
    using distinct by (auto simp: sql_upsert_def Let_def lens key(2) split: option.splits)
qed

lemma upsert_extended_keys [intro]: "state_io_rel keys_frame (Exec (upsert_extended t uid role now))"
proof (rule keys.keeps_Exec)
  fix w :: world
  have "distinct (map ue_user (tb_rows (users_extended (snd (upsert_extended t uid role now (w_sess w) (w_db w))))))"
    if "team_keys (w_db w)"
    using that unfolding upsert_extended_def team_keys_def by (intro upsert_distinct [where get = users_extended and key = ue_user and k = uid]) auto
  then show "keys_frame w (w\<lparr>w_db := snd (upsert_extended t uid role now (w_sess w) (w_db w))\<rparr>)"
    by (auto simp: keys_frame_def team_keys_def upsert_extended_def sql_upsert_def Let_def split: option.splits)
qed

lemma upsert_member_keys [intro]: "state_io_rel keys_frame (Exec (upsert_member t uid role now))"
proof (rule keys.keeps_Exec)
  fix w :: world
  have "distinct (map (\<lambda>m. (tm_team m, tm_user m)) (tb_rows (team_members (snd (upsert_member t uid role now (w_sess w) (w_db w))))))"
    if "team_keys (w_db w)"
    using that unfolding upsert_member_def team_keys_def by (intro upsert_distinct [where get = team_members and key = "\<lambda>m. (tm_team m, tm_user m)" and k = "(t, uid)"]) auto
  then show "keys_frame w (w\<lparr>w_db := snd (upsert_member t uid role now (w_sess w) (w_db w))\<rparr>)"
    by (auto simp: keys_frame_def team_keys_def upsert_member_def sql_upsert_def Let_def split: option.splits)
qed

lemma upsert_invitation_keys [intro]:
  "state_io_rel keys_frame (Exec (upsert_invitation t email role token by now expires))"
proof (rule keys.keeps_Exec)
  fix w :: world
  have "distinct (map (\<lambda>i. (ti_tenant i, ti_email i, ti_status i)) (tb_rows (team_invitations
      (snd (upsert_invitation t email role token by now expires (w_sess w) (w_db w))))))"
    if "team_keys (w_db w)"
    using that unfolding upsert_invitation_def team_keys_def
    by (intro upsert_distinct [where get = team_invitations and key = "\<lambda>i. (ti_tenant i, ti_email i, ti_status i)" and k = "(t, email, ''pending'')"]) auto
  then show "keys_frame w (w\<lparr>w_db := snd (upsert_invitation t email role token by now expires (w_sess w) (w_db w))\<rparr>)"
    by (auto simp: keys_frame_def team_keys_def upsert_invitation_def sql_upsert_def Let_def split: option.splits)
qed

lemma simple_stmt_keys [intro]:
  "state_io_rel keys_frame (Exec (insert_role t uid role now))"
  "state_io_rel keys_frame (Exec (delete_extended t uid))"
  "state_io_rel keys_frame (Exec (delete_member t uid))"
  "state_io_rel keys_frame (Exec (find_user email t))"
  "state_io_rel keys_frame (Exec (team_users t))"
  "state_io_rel keys_frame (Exec (pending_invitations t))"
  "state_io_rel keys_frame (Exec (insert_audit t u a rt rid b c ip ua now))"
  by (rule keys.keeps_Exec; auto simp: keys_frame_def team_keys_def insert_role_def sql_insert_def
      delete_extended_def delete_member_def sql_delete_def find_user_def sql_row_def team_users_def
      pending_invitations_def sql_select_def insert_audit_def Let_def split: option.splits)+

lemma team_ops_keys [intro]:
  "state_io_rel keys_frame (setUserRole t uid role)"
  "state_io_rel keys_frame (createInvitation t email role by)"
  "state_io_rel keys_frame (logAudit r t u a rt rid b c)"
  unfolding setUserRole_def createInvitation_def logAudit_def
  by (intro keys.keeps_intros upsert_extended_keys upsert_member_keys upsert_invitation_keys
      simple_stmt_keys)+

text \<open>
  The unique keys of the team tables are an invariant of every team operation, however
  many of its statements fail on the way: a user never holds two role rows, a tenant never
  has two membership rows of a user, nor two pending invitations for an address.
\<close>

theorem team_keys_invariant:
  "state_io_rel keys_frame (AddTeamUser r body) \<and> state_io_rel keys_frame (UpdateTeamUserRole r role uid) \<and>
   state_io_rel keys_frame (RemoveTeamUser r uid) \<and> state_io_rel keys_frame (SendInvitation r body) \<and>
   state_io_rel keys_frame (ListTeamUsers r)"
  unfolding AddTeamUser_def UpdateTeamUserRole_def RemoveTeamUser_def SendInvitation_def
    ListTeamUsers_def Let_def
  by (intro conjI keys.keeps_intros simple_stmt_keys team_ops_keys)

section \<open>What a role change does\<close>

lemma getUserRole_run:
  assumes "w_faults w = []" "\<not> ss_rls (w_sess w)"
  shows "fst (run_state (getUserRole t uid) w) =
    (case first_of (filter (\<lambda>r. ue_tenant r = t \<and> ue_user r = uid) (tb_rows (users_extended (w_db w)))) of
       None \<Rightarrow> Inl NoRows | Some r \<Rightarrow> Inr (ue_role r))"
  using assms
  by (simp add: getUserRole_def select_role_def state_simps sql_row_def visible_def split: option.split)

lemma distinct_filter_one:
  "distinct (map key rows) \<Longrightarrow> r \<in> set rows \<Longrightarrow> key r = k \<Longrightarrow> filter (\<lambda>x. key x = k) rows = [r]"
proof (induction rows)
  case (Cons x rows)
  show ?case
  proof (cases "x = r")
    case True
    with Cons.prems have "k \<notin> key ` set rows" by simp
    then have "\<forall>y \<in> set rows. key y \<noteq> k" by blast
    with True Cons.prems show ?thesis by simp
  next
    case False
    with Cons.prems have "r \<in> set rows" "key x \<noteq> k" by auto
    with Cons show ?thesis by simp
  qed
qed simp

text \<open>The tenant whose role list a change of \<open>uid\<close>'s role made in tenant \<open>t\<close> really touches.\<close>

definition home_tenant :: "db \<Rightarrow> int \<Rightarrow> int \<Rightarrow> int" where
  "home_tenant d t uid =
     (case first_of (filter (\<lambda>r. ue_user r = uid) (tb_rows (users_extended d))) of
        None \<Rightarrow> t | Some r \<Rightarrow> ue_tenant r)"

lemma setUserRole_frame:
  assumes "w_faults w = []"
  shows "w_faults (snd (run_state (setUserRole t uid role) w)) = []"
    and "ss_rls (w_sess (snd (run_state (setUserRole t uid role) w))) = ss_rls (w_sess w)"
  using assms
  by (auto simp: setUserRole_def state_simps Let_def split: prod.splits sum.splits)

text \<open>
  C11. What a role change does. Without faults, and with row-level security not in force (the
  deployment's connection is a superuser's), \<open>setUserRole\<close> called for a tenant makes the new
  role the effective role of the user in the tenant of the user's existing role row, which
  need not be the tenant it was called for; only a user without a row gets one there. In
  every other tenant the user has no role.
\<close>

theorem setUserRole_effect:
  assumes "w_faults w = []" "\<not> ss_rls (w_sess w)" "has_key us_id uid (users (w_db w))"
    and "team_keys (w_db w)"
  shows "fst (run_state (getUserRole t' uid) (snd (run_state (setUserRole t uid role) w))) =
    (if t' = home_tenant (w_db w) t uid then Inr role else Inl NoRows)"
proof -
  let ?w = "snd (run_state (setUserRole t uid role) w)"
  let ?rows = "tb_rows (users_extended (w_db w))" and ?new = "tb_rows (users_extended (w_db ?w))"
  have after: "fst (run_state (getUserRole t' uid) ?w) =
    (case first_of (filter (\<lambda>r. ue_tenant r = t') (filter (\<lambda>r. ue_user r = uid) ?new)) of
       None \<Rightarrow> Inl NoRows | Some r \<Rightarrow> Inr (ue_role r))"
    using getUserRole_run [of ?w] setUserRole_frame [OF assms(1)] assms(2)
    by (simp add: conj_commute)
  show ?thesis
  proof (cases "first_of (filter (\<lambda>r. ue_user r = uid) ?rows)")
    case None
    then show ?thesis
      using setUserRole_run(2) [OF assms(1-3), of t role]
      by (simp add: after home_tenant_def)
  next
    case (Some old)
    then have old: "old \<in> set ?rows" "ue_user old = uid" by (auto dest: first_of_filter_SomeD)
    have "filter (\<lambda>r. ue_user r = uid) ?rows = [old]"
      using assms(4) old by (intro distinct_filter_one) (simp_all add: team_keys_def)
    then have "filter (\<lambda>r. ue_user r = uid) ?new = [old\<lparr>ue_role := role, ue_updated := w_now w\<rparr>]"
      using setUserRole_run(2) [OF assms(1-3), of t role] Some
      by (simp add: update_where_def filter_map o_def if_distrib old(2) cong: if_cong)
    then show ?thesis by (simp add: after home_tenant_def Some)
  qed
qed

text \<open>The sample world with the sample user's account in place.\<close>

definition team_world :: "string \<Rightarrow> world" where
  "team_world role =
     (sample_world role)\<lparr>w_db := (w_db (sample_world role))\<lparr>users := \<lparr>tb_rows =
        [\<lparr>us_id = 7, us_email = ''a@b.c'', us_hash = ''h'', us_tenant = 3, us_created = 0,
          us_updated = 0\<rparr>], tb_seq = 7\<rparr>\<rparr>\<rparr>"

lemma team_world_simps:
  "w_faults (team_world role) = []" "\<not> ss_rls (w_sess (team_world role))"
  "has_key us_id 7 (users (w_db (team_world role)))" "team_keys (w_db (team_world role))"
  "home_tenant (w_db (team_world role)) t 7 = 3"
  by (simp_all add: team_world_def sample_world_def team_keys_def home_tenant_def empty_db_def)

theorem setUserRole_effect_witness:
  "fst (run_state (getUserRole 3 7) (snd (run_state (setUserRole 3 7 ''manager'') (team_world ''member'')))) = Inr ''manager''"
  using setUserRole_effect [OF team_world_simps(1-4) [of "''member''"], where t' = 3 and t = 3 and role = "''manager''"]
  by (simp add: team_world_simps)

text \<open>
  A role changed across tenants. Without row-level security and without faults, when a user's row
  of \<open>users_extended\<close> belongs to another tenant, an admin of any tenant changes the user's role there
  through \<open>PATCH /team/users/<id>/role\<close>: the request answers 200 and the user's effective role in
  that other tenant is the one asked for, \<open>owner\<close> included.
\<close>

theorem cross_tenant_role_change:
  assumes "w_faults w = []" "\<not> ss_rls (w_sess w)" "has_key us_id uid (users (w_db w))"
    and "team_keys (w_db w)" "home_tenant (w_db w) (tenantID r) uid \<noteq> tenantID r" "role \<noteq> []"
  shows "fst (run_state (UpdateTeamUserRole r (Some role) uid) w) = Reply 200 ''updated'' \<and>
    fst (run_state (getUserRole (home_tenant (w_db w) (tenantID r) uid) uid)
           (snd (run_state (UpdateTeamUserRole r (Some role) uid) w))) = Inr role"
proof -
  let ?t = "tenantID r"
  let ?w1 = "snd (run_state (setUserRole ?t uid role) w)"
  let ?log = "logAudit r ?t (authUserIDPtr r) ''team.role_updated'' (Some ''user'') (Some uid)
    None (Some (JObj [(''role'', JStr role), (''user_id'', JInt uid)]))"
  have run: "run_state (UpdateTeamUserRole r (Some role) uid) w =
      (Reply 200 ''updated'', snd (run_state ?log ?w1))"
    using setUserRole_run(1) [OF assms(1-3), of ?t role] assms(6)
    by (cases "run_state (setUserRole ?t uid role) w") (simp add: UpdateTeamUserRole_def Let_def split_beta)
  have w1: "w_faults ?w1 = []" "\<not> ss_rls (w_sess ?w1)"
    using setUserRole_frame [OF assms(1)] assms(2) by simp_all
  have "users_extended (w_db (snd (run_state ?log ?w1))) = users_extended (w_db ?w1)"
    and rls: "ss_rls (w_sess (snd (run_state ?log ?w1))) = ss_rls (w_sess ?w1)"
    using logAudit_roles by (simp_all add: state_io_rel_def roles_frame_def)
  moreover have "w_faults (snd (run_state ?log ?w1)) = []"
    using w1(1) by (simp add: logAudit_def state_simps insert_audit_def sql_insert_def Let_def split: prod.split)
  ultimately have "fst (run_state (getUserRole t' uid) (snd (run_state ?log ?w1))) =
      fst (run_state (getUserRole t' uid) ?w1)" for t'
    using w1 by (simp add: getUserRole_run)
  with setUserRole_effect [OF assms(1-4)] run show ?thesis by simp
qed

theorem cross_tenant_role_change_witness:
  "fst (run_state (getUserRole 3 7)
     (snd (run_state (UpdateTeamUserRole (WithUser (sample_request ''PATCH'' '''') (sample_user\<lparr>u_id := 1, u_tenant := 5\<rparr>))
        (Some ''owner'') 7) (team_world ''member'')))) = Inr ''owner''"
  using cross_tenant_role_change
    [OF team_world_simps(1-4), of "''member''" "WithUser (sample_request ''PATCH'' '''') (sample_user\<lparr>u_id := 1, u_tenant := 5\<rparr>)"
      "''owner''"]
  by (simp add: team_world_simps tenantID_def UserFromContext_def WithUser_def)

section \<open>Isolation under row-level security\<close>

text \<open>
  A statement that reads and writes only rows its session can see keeps to the session's
  tenant, whatever its \<open>WHERE\<close> clause and its conflict target.
\<close>

context tenant_table
begin

lemma upsert_visible:
  assumes "ss_rls s" "ss_tenant s = Some t" "\<And>r. ten (f r) = ten r"
    and "\<And>r r'. r \<in> set (tb_rows (get d)) \<Longrightarrow> r' \<in> set (tb_rows (get d)) \<Longrightarrow> same r \<Longrightarrow> same r' \<Longrightarrow> r = r'"
  shows "db_frame t d (snd (sql_upsert get upd ten good mk same f s d))"
proof (cases "first_of (filter same (tb_rows (get d)))")
  case None
  then show ?thesis
    using assms(1,2)
    by (auto simp: sql_upsert_def Let_def visible_def frame_seq intro!: frame_append)
next
  case (Some old)
  then have old: "old \<in> set (tb_rows (get d))" "same old" by (auto dest: first_of_filter_SomeD)
  with assms(4) have only: "r = old" if "r \<in> set (tb_rows (get d))" "same r" for r
    using that by blast
  have "filter (\<lambda>r. ten r \<noteq> t) (update_where same f rows) = filter (\<lambda>r. ten r \<noteq> t) rows"
    if "ten old = t" "set rows \<subseteq> set (tb_rows (get d))" for rows
    using that(2)
  proof (induction rows)
    case (Cons r rows)
    then have "ten r = t" if "same r" using only [of r] that \<open>ten old = t\<close> by auto
    with Cons show ?case by (auto simp: assms(3))
  qed simp
  then show ?thesis
    using assms(1,2) Some
    by (auto simp: sql_upsert_def Let_def visible_def frame_seq same_rows_def intro!: frame)
qed

end

text \<open>
  The relation between the worlds before and after a callback of a tenant's connection when
  row-level security is in force: the session is still the tenant's, the keys hold, and the
  other tenants' rows are as they were.
\<close>

definition scoped :: "int \<Rightarrow> world \<Rightarrow> world \<Rightarrow> bool" where
  "scoped t w w' \<longleftrightarrow>
     (ss_tenant (w_sess w) = Some t \<and> ss_rls (w_sess w) \<and> team_keys (w_db w) \<longrightarrow>
      ss_tenant (w_sess w') = Some t \<and> ss_rls (w_sess w') \<and> team_keys (w_db w') \<and>
      db_frame t (w_db w) (w_db w'))"

interpretation scoped: step_relation "scoped t" for t
  by unfold_locales (auto simp: scoped_def intro: db_frame_trans)

lemma scoped_Exec:
  assumes "state_io_rel keys_frame (Exec q)"
    and "\<And>s d. ss_tenant s = Some t \<Longrightarrow> ss_rls s \<Longrightarrow> team_keys d \<Longrightarrow> db_frame t d (snd (q s d))"
  shows "state_io_rel (scoped t) (Exec q)"
proof (rule scoped.keeps_Exec)
  fix w :: world
  let ?w = "w\<lparr>w_faults := []\<rparr>"
  have "keys_frame ?w (snd (run_state (Exec q) ?w))" using assms(1) by (simp add: state_io_rel_def)
  then have "keys_frame w (w\<lparr>w_db := snd (q (w_sess w) (w_db w))\<rparr>)"
    by (simp add: keys_frame_def Exec_def split_beta)
  with assms(2) show "scoped t w (w\<lparr>w_db := snd (q (w_sess w) (w_db w))\<rparr>)"
    by (auto simp: scoped_def keys_frame_def)
qed

lemma role_stmts_scoped [intro]:
  "state_io_rel (scoped t) (Exec (upsert_extended t uid role now))"
  "state_io_rel (scoped t) (Exec (upsert_member t uid role now))"
  "state_io_rel (scoped t) (Exec (insert_role t uid role now))"
proof -
  show "state_io_rel (scoped t) (Exec (upsert_extended t uid role now))"
    by (rule scoped_Exec [OF upsert_extended_keys], unfold upsert_extended_def,
        rule tt_extended.upsert_visible)
      (auto simp: team_keys_def dest: distinct_map_unique)
  show "state_io_rel (scoped t) (Exec (upsert_member t uid role now))"
    by (rule scoped_Exec [OF upsert_member_keys], unfold upsert_member_def,
        rule tt_members.upsert_visible)
      (auto simp: team_keys_def dest: distinct_map_unique)
  show "state_io_rel (scoped t) (Exec (insert_role t uid role now))"
    by (rule scoped_Exec [OF simple_stmt_keys(1)])
      (simp add: insert_role_def sql_insert_def Let_def tt_roles.frame_append tt_roles.frame_seq)
qed

lemma WithTenantConn_scoped:
  assumes "state_io_rel (scoped t) fn" "ss_rls (w_sess w)" "team_keys (w_db w)"
  shows "tenant_frame t w (snd (run_state (WithTenantConn t fn) w))"
proof -
  have fn: "ss_tenant (w_sess v) = Some t \<Longrightarrow> ss_rls (w_sess v) \<Longrightarrow> team_keys (w_db v) \<Longrightarrow>
      tenant_frame t v (snd (run_state fn v))" for v
    using assms(1) by (simp add: state_io_rel_def scoped_def tenant_frame_def)
  have reset: "tenant_frame t v (snd (run_state (SetTenant x) v))" for v x
    using tenant.keeps_SetTenant by (simp add: state_io_rel_def)
  obtain a u1 where a: "run_state Acquire w = (a, u1)" by (cases "run_state Acquire w")
  have u1: "w_db u1 = w_db w" "w_sess u1 = w_sess w"
    using a by (auto simp: Acquire_def faulty_def split: list.splits if_splits)
  obtain b u2 where b: "run_state (SetTenant (Some t)) u1 = (b, u2)" by (cases "run_state (SetTenant (Some t)) u1")
  have u2: "w_db u2 = w_db w" "ss_rls (w_sess u2) = ss_rls (w_sess w)"
    "b = Inr () \<Longrightarrow> ss_tenant (w_sess u2) = Some t"
    using b u1 by (auto simp: SetTenant_def faulty_def split: list.splits if_splits)
  have "tenant_frame t w v" if "tenant_frame t u2 v" for v
    using that u2(1) by (simp add: tenant_frame_def)
  then have "b = Inr () \<Longrightarrow> tenant_frame t w (snd (run_state (SetTenant None) (snd (run_state fn u2))))"
    using tenant.trans [OF fn [of u2] reset] u2 assms(2,3) by simp
  then show ?thesis
    using a b u1 u2 by (auto simp: WithTenantConn_def tenant_frame_def split_beta split: sum.splits)
qed



end
