(* ===== verification/AuthHandlers.thy ===== *)
theory AuthHandlers
  imports Team
begin

text \<open>
  Sign-up, sign-in and the identity a paired phone gets: \<open>backend/internal/handlers/auth.go\<close>
  and \<open>ensureWhatsAppUser\<close> of \<open>whatsapp_auth.go\<close>. bcrypt and the JWT library are parameters,
  collected in a record with the service's settings.
\<close>

record auth_env =
  ae_service :: auth_service
  ae_sign :: "string \<Rightarrow> claims \<Rightarrow> string option"
  ae_hash :: "string \<Rightarrow> string option"
  ae_compare :: "string \<Rightarrow> string \<Rightarrow> bool"

record registerRequest =
  rr_email :: string
  rr_password :: string
  rr_tenant :: int

record session_reply =
  sr_token :: string
  sr_csrf :: string
  sr_user :: user_row
  sr_role :: string

definition auth_user :: "user_row \<Rightarrow> string \<Rightarrow> user" where
  "auth_user u csrf = \<lparr>u_id = us_id u, u_tenant = us_tenant u, u_email = us_email u, u_csrf = csrf\<rparr>"

definition insert_user :: "string \<Rightarrow> string \<Rightarrow> int \<Rightarrow> int \<Rightarrow> user_row sql" where
  "insert_user email hash tenant now =
     sql_insert users users_update us_tenant
       (\<lambda>d r. \<not> (\<exists>u \<in> set (tb_rows (users d)). us_tenant u = us_tenant r \<and> us_email u = us_email r))
       (\<lambda>i. \<lparr>us_id = i, us_email = email, us_hash = hash, us_tenant = tenant, us_created = now,
             us_updated = now\<rparr>)"

text \<open>\<open>GenerateCSRFToken\<close> followed by \<open>Auth.GenerateToken\<close>, with the error of either.\<close>

definition issue_tokens :: "auth_env \<Rightarrow> user_row \<Rightarrow> (string + string \<times> string) act" where
  "issue_tokens env u = do {
     buf \<leftarrow> RandRead;
     case random_token buf of
       None \<Rightarrow> State_Monad.return (Inl ''failed to generate csrf token'')
     | Some csrf \<Rightarrow> do {
         now \<leftarrow> Now;
         State_Monad.return
           (case GenerateToken (ae_sign env) (ae_service env) now (auth_user u csrf) csrf of
              None \<Rightarrow> Inl ''failed to issue token''
            | Some token \<Rightarrow> Inr (token, csrf))
       }
   }"

section \<open>Handlers\<close>

definition Register :: "auth_env \<Rightarrow> request \<Rightarrow> registerRequest option \<Rightarrow> session_reply response act" where
  "Register env r body =
     (case body of
        None \<Rightarrow> State_Monad.return (Fail 400 ''invalid request'')
      | Some req \<Rightarrow>
          if rr_email req = [] \<or> rr_password req = [] \<or> rr_tenant req = 0 then
            State_Monad.return (Fail 400 ''email, password, and tenant_id are required'')
          else
            case ae_hash env (rr_password req) of
              None \<Rightarrow> State_Monad.return (Fail 500 ''failed to hash password'')
            | Some hash \<Rightarrow> do {
                now \<leftarrow> Now;
                made \<leftarrow> WithTenantConn (rr_tenant req)
                  (Exec (insert_user (rr_email req) hash (rr_tenant req) now));
                case made of
                  Inl _ \<Rightarrow> State_Monad.return (Fail 500 ''failed to register user'')
                | Inr u \<Rightarrow> do {
                    tokens \<leftarrow> issue_tokens env u;
                    case tokens of
                      Inl msg \<Rightarrow> State_Monad.return (Fail 500 msg)
                    | Inr (token, csrf) \<Rightarrow> do {
                        _ \<leftarrow> logActivity (us_tenant u) (auth_user u []) ''auth.register''
                          (JObj [(''user_id'', JInt (us_id u))]);
                        State_Monad.return (Reply 201
                          \<lparr>sr_token = token, sr_csrf = csrf, sr_user = u, sr_role = ''member''\<rparr>)
                      }
                  }
              })"

definition Login :: "auth_env \<Rightarrow> request \<Rightarrow> registerRequest option \<Rightarrow> session_reply response act" where
  "Login env r body =
     (case body of
        None \<Rightarrow> State_Monad.return (Fail 400 ''invalid request'')
      | Some req \<Rightarrow>
          if rr_email req = [] \<or> rr_password req = [] \<or> rr_tenant req = 0 then
            State_Monad.return (Fail 400 ''email, password, and tenant_id are required'')
          else do {
            found \<leftarrow> WithTenantConn (rr_tenant req) (Exec (find_user (rr_email req) (rr_tenant req)));
            case found of
              Inl _ \<Rightarrow> State_Monad.return (Fail 401 ''invalid credentials'')
            | Inr u \<Rightarrow>
                if \<not> ae_compare env (us_hash u) (rr_password req) then
                  State_Monad.return (Fail 401 ''invalid credentials'')
                else do {
                  tokens \<leftarrow> issue_tokens env u;
                  case tokens of
                    Inl msg \<Rightarrow> State_Monad.return (Fail 500 msg)
                  | Inr (token, csrf) \<Rightarrow> do {
                      _ \<leftarrow> logActivity (us_tenant u) (auth_user u []) ''auth.login''
                        (JObj [(''user_id'', JInt (us_id u))]);
                      res \<leftarrow> getUserRole (us_tenant u) (us_id u);
                      State_Monad.return (Reply 200
                        \<lparr>sr_token = token, sr_csrf = csrf, sr_user = u, sr_role = role_or_viewer res\<rparr>)
                    }
                }
          })"

definition Me :: "request \<Rightarrow> user_row response act" where
  "Me r =
     (case UserFromContext r of
        None \<Rightarrow> State_Monad.return (Fail 401 ''unauthorized'')
      | Some u \<Rightarrow> do {
          res \<leftarrow> WithTenantConn (u_tenant u)
            (Exec (sql_row users us_tenant (\<lambda>x. us_id x = u_id u \<and> us_tenant x = u_tenant u)));
          State_Monad.return
            (case res of Inl _ \<Rightarrow> Fail 404 ''user not found'' | Inr row \<Rightarrow> Reply 200 row)
        })"

section \<open>A paired phone's user\<close>

definition whatsapp_email :: "string \<Rightarrow> string" where
  "whatsapp_email jid = ''whatsapp+'' @ jid @ ''@messageflow.local''"

definition count_users :: "int \<Rightarrow> nat sql" where
  "count_users tenant s d =
     (Inr (length (filter (\<lambda>u. visible s (us_tenant u) \<and> us_tenant u = tenant) (tb_rows (users d)))), d)"

text \<open>
  The callback: the role for a new tenant is owner; an existing user is reused; any error of
  the lookup goes on to the insert. The random password is never used, \<open>hash\<close> of it may fail.
\<close>

definition find_or_insert :: "auth_env \<Rightarrow> int \<Rightarrow> string \<Rightarrow> (dberr + string \<times> user_row) act" where
  "find_or_insert env tenant email =
     then_ok (Exec (count_users tenant)) (\<lambda>count. do {
       let role = (if count = 0 then ''owner'' else ''member'');
       found \<leftarrow> Exec (find_user email tenant);
       case found of
         Inr u \<Rightarrow> ok (role, u)
       | Inl _ \<Rightarrow> do {
           pass \<leftarrow> RandRead;
           case ae_hash env (case pass of None \<Rightarrow> replicate 24 (CHR 0x00) | Some bs \<Rightarrow> string_of bs) of
             None \<Rightarrow> err Fault
           | Some hash \<Rightarrow> do {
               now \<leftarrow> Now;
               then_ok (Exec (insert_user email hash tenant now)) (\<lambda>u. ok (role, u))
             }
         }
     })"

definition ensureWhatsAppUser ::
    "auth_env \<Rightarrow> int \<Rightarrow> string option \<Rightarrow> (user_row \<times> string \<times> string \<times> string) option act" where
  "ensureWhatsAppUser env tenant jid =
     (case jid of
        None \<Rightarrow> State_Monad.return None
      | Some j \<Rightarrow> do {
          res \<leftarrow> WithTenantConn tenant (find_or_insert env tenant (whatsapp_email j));
          case res of
            Inl _ \<Rightarrow> State_Monad.return None
          | Inr (role, u) \<Rightarrow> do {
              set \<leftarrow> setUserRole tenant (us_id u) role;
              case set of
                Inl _ \<Rightarrow> State_Monad.return None
              | Inr _ \<Rightarrow> do {
                  tokens \<leftarrow> issue_tokens env u;
                  case tokens of
                    Inl _ \<Rightarrow> State_Monad.return None
                  | Inr (token, csrf) \<Rightarrow> do {
                      _ \<leftarrow> logActivity tenant (auth_user u []) ''auth.whatsapp''
                        (JObj [(''jid'', JStr j), (''user_id'', JInt (us_id u))]);
                      State_Monad.return (Some (u, role, token, csrf))
                    }
                }
            }
        })"

section \<open>Sessions\<close>

text \<open>A compact JWT is made of base64url segments and dots: no white space at its ends.\<close>

definition jwt_compact :: "(string \<Rightarrow> claims \<Rightarrow> string option) \<Rightarrow> bool" where
  "jwt_compact sign \<longleftrightarrow>
     (\<forall>s c t. sign s c = Some t \<longrightarrow> t \<noteq> [] \<and> plain_char (hd t) \<and> plain_char (last t))"

lemma Authenticate_bearer:
  assumes "rq_header q ''Authorization'' = ''Bearer '' @ t" "t \<noteq> []" "plain_char (hd t)" "plain_char (last t)"
  shows "Authenticate parse q = parse t"
proof -
  have "ToLower ''Bearer'' = ''bearer''" by code_simp
  with assms show ?thesis by (simp add: Authenticate_def SplitN2_def TrimSpace_plain del: ToLower.simps)
qed

text \<open>The clock reading of a request is one value: no operation of the model moves it.\<close>

definition now_frame :: "world \<Rightarrow> world \<Rightarrow> bool" where
  "now_frame w w' \<longleftrightarrow> w_now w' = w_now w"

interpretation now: frame_relation now_frame
  by unfold_locales (auto simp: now_frame_def)

lemma now_Exec [intro]: "state_io_rel now_frame (Exec q)"
  by (rule now.keeps_Exec) (simp add: now_frame_def)

lemma issue_tokens_Inr:
  assumes "run_state (issue_tokens env u) w = (Inr (token, csrf), w')"
  shows "GenerateToken (ae_sign env) (ae_service env) (w_now w) (auth_user u csrf) csrf = Some token"
  using assms
  by (auto simp: issue_tokens_def state_simps split: option.splits list.splits)

lemma Login_Reply:
  assumes "run_state (Login env r (Some req)) w = (Reply s out, w')"
  shows "s = 200 \<and> sr_user out \<in> set (tb_rows (users (w_db w))) \<and> us_email (sr_user out) = rr_email req \<and>
    us_tenant (sr_user out) = rr_tenant req \<and> ae_compare env (us_hash (sr_user out)) (rr_password req) \<and>
    GenerateToken (ae_sign env) (ae_service env) (w_now w) (auth_user (sr_user out) (sr_csrf out)) (sr_csrf out)
      = Some (sr_token out)"
proof -
  obtain f w1 where f: "run_state (WithTenantConn (rr_tenant req) (Exec (find_user (rr_email req) (rr_tenant req)))) w = (f, w1)"
    by (cases "run_state (WithTenantConn (rr_tenant req) (Exec (find_user (rr_email req) (rr_tenant req)))) w")
  have "now_frame w w1"
    using now.keeps_WithTenantConn [OF now_Exec] f by (metis snd_conv state_io_rel_def)
  then have now: "w_now w1 = w_now w" by (simp add: now_frame_def)
  from assms f obtain u where u: "f = Inr u" "ae_compare env (us_hash u) (rr_password req)"
    by (auto simp: Login_def split: sum.splits if_splits)
  with assms f obtain token csrf w2 where t: "run_state (issue_tokens env u) w1 = (Inr (token, csrf), w2)"
    and out: "s = 200" "sr_token out = token" "sr_csrf out = csrf" "sr_user out = u"
    by (auto simp: Login_def split: sum.splits if_splits prod.splits)
  have "u \<in> set (tb_rows (users (w_db w))) \<and> us_email u = rr_email req \<and> us_tenant u = rr_tenant req"
    using f unfolding u(1) find_user_def
    by (elim WithTenantConn_Inr) (auto dest!: Exec_row_Inr)
  with u out issue_tokens_Inr [OF t] now show ?thesis by simp
qed

text \<open>
  C7. Sign-in. Whatever statements fail meanwhile, \<open>Login\<close> succeeds only for a user row with
  the given address and tenant whose stored hash matches the password; and until a second
  before it expires the token it returns authenticates, as a bearer token, exactly that user
  of that tenant, with the CSRF token returned beside it.
\<close>

theorem Login_session:
  assumes "run_state (Login env r (Some req)) w = (Reply s out, w')"
    and "jwt_law (ae_sign env) parse" "jwt_compact (ae_sign env)"
    and "now' < w_now w + svc_ttl (ae_service env) - 1000000000"
    and "rq_header q ''Authorization'' = ''Bearer '' @ sr_token out"
  shows "(\<exists>u \<in> set (tb_rows (users (w_db w))).
       us_email u = rr_email req \<and> us_tenant u = rr_tenant req \<and> ae_compare env (us_hash u) (rr_password req) \<and>
       Authenticate (ParseToken parse (ae_service env) now') q = Some (auth_user u (sr_csrf out)))"
proof -
  note L = Login_Reply [OF assms(1)]
  then have "sr_token out \<noteq> [] \<and> plain_char (hd (sr_token out)) \<and> plain_char (last (sr_token out))"
    using assms(3) unfolding jwt_compact_def GenerateToken_def by blast
  with Authenticate_bearer [OF assms(5)]
  have "Authenticate (ParseToken parse (ae_service env) now') q = ParseToken parse (ae_service env) now' (sr_token out)"
    by blast
  also have "\<dots> = Some (auth_user (sr_user out) (sr_csrf out))"
    using ParseToken_GenerateToken [OF assms(2) _ assms(4), where usr = "auth_user (sr_user out) (sr_csrf out)"
      and csrf = "sr_csrf out" and t = "sr_token out"] L
    by (auto simp: auth_user_def)
  finally show ?thesis using L by blast
qed

text \<open>A concrete environment: one signing key, one set of claims that gets signed.\<close>

definition sample_env :: "string \<Rightarrow> claims \<Rightarrow> auth_env" where
  "sample_env key c =
     \<lparr>ae_service = \<lparr>svc_secret = key, svc_ttl = 86400000000000\<rparr>,
      ae_sign = (\<lambda>s x. if s = key \<and> x = c then Some ''h.p.s'' else None),
      ae_hash = (\<lambda>p. Some (''#'' @ p)), ae_compare = (\<lambda>h p. h = ''#'' @ p)\<rparr>"

definition sample_claims :: claims where
  "sample_claims = \<lparr>cl_uid = 7, cl_tid = 3, cl_email = ''a@b.c'', cl_csrf = ''AQID'', cl_issued = 0,
     cl_expires = 86400000000000\<rparr>"

definition auth_world :: world where
  "auth_world = (team_world ''member'')\<lparr>w_rand := [Some [1, 2, 3], Some [4, 5, 6]],
     w_db := (w_db (team_world ''member''))\<lparr>users := \<lparr>tb_rows =
        [\<lparr>us_id = 7, us_email = ''a@b.c'', us_hash = ''#pw'', us_tenant = 3, us_created = 0,
          us_updated = 0\<rparr>], tb_seq = 7\<rparr>\<rparr>\<rparr>"

theorem Login_session_witness:
  "\<exists>out w'. run_state (Login (sample_env ''k'' sample_claims) (sample_request ''POST'' '''')
      (Some \<lparr>rr_email = ''a@b.c'', rr_password = ''pw'', rr_tenant = 3\<rparr>)) auth_world = (Reply 200 out, w') \<and>
    Authenticate (ParseToken (\<lambda>s n t. if s = ''k'' \<and> t = ''h.p.s'' then Some sample_claims else None)
        (ae_service (sample_env ''k'' sample_claims)) 5)
      ((sample_request ''GET'' '''')\<lparr>rq_header := (\<lambda>n. if n = ''Authorization'' then ''Bearer h.p.s'' else '''')\<rparr>)
      = Some \<lparr>u_id = 7, u_tenant = 3, u_email = ''a@b.c'', u_csrf = ''AQID''\<rparr>"
proof -
  let ?env = "sample_env ''k'' sample_claims"
  let ?req = "\<lparr>rr_email = ''a@b.c'', rr_password = ''pw'', rr_tenant = 3\<rparr>"
  let ?parse = "\<lambda>s n t. if s = ''k'' \<and> t = ''h.p.s'' then Some sample_claims else None"
  let ?q = "(sample_request ''GET'' '''')\<lparr>rq_header := (\<lambda>n. if n = ''Authorization'' then ''Bearer h.p.s'' else '''')\<rparr>"
  let ?run = "run_state (Login ?env (sample_request ''POST'' '''') (Some ?req)) auth_world"
  have c: "case fst ?run of Reply s out \<Rightarrow> s = 200 \<and> sr_token out = ''h.p.s'' \<and> sr_csrf out = ''AQID'' | Fail _ _ \<Rightarrow> False"
    by code_simp
  then obtain out where out: "fst ?run = Reply 200 out" "sr_token out = ''h.p.s''" "sr_csrf out = ''AQID''"
    by (cases "fst ?run") auto
  have law: "jwt_law (ae_sign ?env) ?parse" "jwt_compact (ae_sign ?env)"
    by (auto simp: jwt_law_def jwt_compact_def sample_env_def plain_char_def)
  have run: "?run = (Reply 200 out, snd ?run)" using out(1) by (simp add: prod_eq_iff)
  have now: "5 < w_now auth_world + svc_ttl (ae_service ?env) - 1000000000"
    by (simp add: auth_world_def team_world_def sample_world_def sample_env_def)
  have head: "rq_header ?q ''Authorization'' = ''Bearer '' @ sr_token out" by (simp add: out(2))
  have users: "tb_rows (users (w_db auth_world)) = [\<lparr>us_id = 7, us_email = ''a@b.c'', us_hash = ''#pw'', us_tenant = 3, us_created = 0,
          us_updated = 0\<rparr>]" by (simp add: auth_world_def)
  from Login_session [OF run law now head] out(3) run show ?thesis
    by (auto simp: users auth_user_def)
qed

text \<open>Steps without faults, one by one.\<close>

lemma sql_insert_upd: "\<exists>f. snd (sql_insert get upd ten good mk s d) = upd f d"
  by (cases "visible s (ten (mk (tb_seq (get d) + 1))) \<and> good d (mk (tb_seq (get d) + 1))")
    (auto simp: sql_insert_def Let_def)

lemma logActivity_quiet:
  assumes "w_faults w = []"
  shows "\<exists>T s. snd (run_state (logActivity t u a det) w) =
     w\<lparr>w_db := (w_db w)\<lparr>user_activity_logs := T\<rparr>, w_sess := (w_sess w)\<lparr>ss_tenant := s\<rparr>\<rparr>"
proof (cases "u_id u = 0")
  case True
  then show ?thesis
    by (intro exI [of _ "user_activity_logs (w_db w)"] exI [of _ "ss_tenant (w_sess w)"])
      (simp add: logActivity_def)
next
  case False
  let ?q = "insert_activity t (u_id u) a det (w_now w)" and ?s = "(w_sess w)\<lparr>ss_tenant := Some t\<rparr>"
  obtain f where f: "snd (?q ?s (w_db w)) = user_activity_logs_update f (w_db w)"
    unfolding insert_activity_def using sql_insert_upd by blast
  obtain T where "snd (?q ?s (w_db w)) = (w_db w)\<lparr>user_activity_logs := T\<rparr>"
    by (rule that [of "f (user_activity_logs (w_db w))"]) (simp add: f)
  then have "snd (run_state (logActivity t u a det) w) =
      w\<lparr>w_db := (w_db w)\<lparr>user_activity_logs := T\<rparr>, w_sess := (w_sess w)\<lparr>ss_tenant := None\<rparr>\<rparr>"
    using False assms by (simp add: logActivity_def state_simps split_beta)
  then show ?thesis by blast
qed

lemma issue_tokens_run:
  assumes "w_rand w = Some a # rs" "\<And>s c. ae_sign env s c = Some (tok s c)"
  shows "run_state (issue_tokens env u) w =
    (Inr (tok (svc_secret (ae_service env))
        \<lparr>cl_uid = us_id u, cl_tid = us_tenant u, cl_email = us_email u, cl_csrf = b64_encode a,
         cl_issued = w_now w, cl_expires = w_now w + svc_ttl (ae_service env)\<rparr>, b64_encode a),
     w\<lparr>w_rand := rs\<rparr>)"
  using assms by (simp add: issue_tokens_def state_simps random_token_def GenerateToken_def auth_user_def)

lemma insert_user_run:
  fixes h :: string and now :: int
  assumes "w_faults w = []"
    and "\<not> (\<exists>u \<in> set (tb_rows (users (w_db w))). us_tenant u = t \<and> us_email u = email)"
  defines "u \<equiv> \<lparr>us_id = tb_seq (users (w_db w)) + 1, us_email = email, us_hash = h, us_tenant = t,
     us_created = now, us_updated = now\<rparr>"
  shows "run_state (WithTenantConn t (Exec (insert_user email h t now))) w =
    (Inr u, w\<lparr>w_db := (w_db w)\<lparr>users := \<lparr>tb_rows = tb_rows (users (w_db w)) @ [u], tb_seq = us_id u\<rparr>\<rparr>,
              w_sess := (w_sess w)\<lparr>ss_tenant := None\<rparr>\<rparr>)"
  using assms by (simp add: state_simps insert_user_def sql_insert_def visible_def Let_def)

lemma find_user_run:
  assumes "w_faults w = []"
  shows "run_state (WithTenantConn t (Exec (find_user email t))) w =
    (case first_of (filter (\<lambda>u. us_email u = email \<and> us_tenant u = t) (tb_rows (users (w_db w)))) of
       None \<Rightarrow> Inl NoRows | Some u \<Rightarrow> Inr u, w\<lparr>w_sess := (w_sess w)\<lparr>ss_tenant := None\<rparr>\<rparr>)"
proof -
  have "filter (\<lambda>u. visible ((w_sess w)\<lparr>ss_tenant := Some t\<rparr>) (us_tenant u) \<and> us_email u = email \<and> us_tenant u = t) rows
      = filter (\<lambda>u. us_email u = email \<and> us_tenant u = t) rows" for rows :: "user_row list"
    by (rule filter_cong) (auto simp: visible_def)
  then show ?thesis
    using assms by (simp add: state_simps find_user_def sql_row_def split: option.split)
qed

lemma getUserRole_none:
  assumes "w_faults w = []" "\<forall>x \<in> set (tb_rows (users_extended (w_db w))). ue_user x \<noteq> uid"
  shows "fst (run_state (getUserRole t uid) w) = Inl NoRows"
proof -
  have "filter (\<lambda>x. visible s (ue_tenant x) \<and> ue_tenant x = t \<and> ue_user x = uid) (tb_rows (users_extended (w_db w))) = []" for s
    using assms(2) by (auto simp: filter_empty_conv)
  then show ?thesis
    using assms(1) by (simp add: getUserRole_def select_role_def state_simps sql_row_def)
qed

text \<open>
  C34. Sign-up is open. Whoever names a tenant becomes a user of it: without faults, and under
  row-level security as well, \<open>Register\<close> with a new address answers 201 with a session of the
  tenant named, and the same credentials then sign in. The role reported is \<open>member\<close>, the role
  the account really has is \<open>viewer\<close>.
\<close>

theorem Register_then_Login:
  assumes "w_faults w = []" "rr_email req \<noteq> []" "rr_password req \<noteq> []" "rr_tenant req \<noteq> 0"
    and "\<forall>u \<in> set (tb_rows (users (w_db w))). us_email u \<noteq> rr_email req \<or> us_tenant u \<noteq> rr_tenant req"
    and "\<forall>x \<in> set (tb_rows (users_extended (w_db w))). ue_user x \<noteq> tb_seq (users (w_db w)) + 1"
    and "ae_hash env (rr_password req) = Some h" "ae_compare env h (rr_password req)"
    and "w_rand w = Some a # Some b # rs" "\<forall>s c. ae_sign env s c \<noteq> None"
  shows "\<exists>out out'. fst (run_state (Register env r (Some req)) w) = Reply 201 out \<and>
     fst (run_state (Login env r' (Some req)) (snd (run_state (Register env r (Some req)) w))) = Reply 200 out' \<and>
     sr_user out' = sr_user out \<and> us_tenant (sr_user out) = rr_tenant req \<and>
     sr_role out = ''member'' \<and> sr_role out' = ''viewer''"
proof -
  have no_user: "filter (\<lambda>u. us_email u = rr_email req \<and> us_tenant u = rr_tenant req) (tb_rows (users (w_db w))) = []"
    using assms(5) by (auto simp: filter_empty_conv)
  obtain tok where tok: "\<And>s c. ae_sign env s c = Some (tok s c)"
    by (rule that [of "\<lambda>s c. the (ae_sign env s c)"]) (use assms(10) in simp)
  let ?u = "\<lparr>us_id = tb_seq (users (w_db w)) + 1, us_email = rr_email req, us_hash = h,
    us_tenant = rr_tenant req, us_created = w_now w, us_updated = w_now w\<rparr>"
  let ?w1 = "snd (run_state (Register env r (Some req)) w)"
  have uniq: "\<not> (\<exists>u \<in> set (tb_rows (users (w_db w))). us_tenant u = rr_tenant req \<and> us_email u = rr_email req)"
    using assms(5) by blast
  obtain w1 out where R: "run_state (Register env r (Some req)) w = (Reply 201 out, w1)"
    "sr_user out = ?u" "sr_role out = ''member''"
    and w1: "w_faults w1 = []" "tb_rows (users (w_db w1)) = tb_rows (users (w_db w)) @ [?u]"
      "users_extended (w_db w1) = users_extended (w_db w)" "w_rand w1 = Some b # rs"
  proof -
    let ?tok = "tok (svc_secret (ae_service env))
        \<lparr>cl_uid = us_id ?u, cl_tid = us_tenant ?u, cl_email = us_email ?u, cl_csrf = b64_encode a,
         cl_issued = w_now w, cl_expires = w_now w + svc_ttl (ae_service env)\<rparr>"
    define w0 where "w0 = w\<lparr>w_rand := Some b # rs, w_db := (w_db w)\<lparr>users := \<lparr>tb_rows = tb_rows (users (w_db w)) @ [?u], tb_seq = us_id ?u\<rparr>\<rparr>,
              w_sess := (w_sess w)\<lparr>ss_tenant := None\<rparr>\<rparr>"
    have w0: "w_faults w0 = []" using assms(1) by (simp add: w0_def)
    from logActivity_quiet [OF w0] obtain T s where
      log: "snd (run_state (logActivity (us_tenant ?u) (auth_user ?u []) ''auth.register'' (JObj [(''user_id'', JInt (us_id ?u))])) w0)
        = w0\<lparr>w_db := (w_db w0)\<lparr>user_activity_logs := T\<rparr>, w_sess := (w_sess w0)\<lparr>ss_tenant := s\<rparr>\<rparr>" by blast
    have tokens: "run_state (issue_tokens env ?u) (w0\<lparr>w_rand := w_rand w\<rparr>) = (Inr (?tok, b64_encode a), w0)"
      using assms(9) by (subst issue_tokens_run [where a = a and rs = "Some b # rs", OF _ tok]) (simp_all add: w0_def)
    have user: "run_state (WithTenantConn (rr_tenant req) (Exec (insert_user (rr_email req) h (rr_tenant req) (w_now w)))) w =
        (Inr ?u, w0\<lparr>w_rand := w_rand w\<rparr>)"
      by (subst insert_user_run [OF assms(1) uniq]) (simp add: w0_def)
    have "run_state (Register env r (Some req)) w =
        (Reply 201 \<lparr>sr_token = ?tok, sr_csrf = b64_encode a, sr_user = ?u, sr_role = ''member''\<rparr>,
         w0\<lparr>w_db := (w_db w0)\<lparr>user_activity_logs := T\<rparr>, w_sess := (w_sess w0)\<lparr>ss_tenant := s\<rparr>\<rparr>)"
      using assms(2-4,7) by (simp add: Register_def user tokens log [simplified] split_beta)
    then show ?thesis
      by (rule that) (simp_all add: w0_def assms(1))
  qed
  define w2 where "w2 = w1\<lparr>w_sess := (w_sess w1)\<lparr>ss_tenant := None\<rparr>, w_rand := rs\<rparr>"
  have w2: "w_faults w2 = []" using w1(1) by (simp add: w2_def)
  from logActivity_quiet [OF w2] obtain T s where
    log: "snd (run_state (logActivity (us_tenant ?u) (auth_user ?u []) ''auth.login'' (JObj [(''user_id'', JInt (us_id ?u))])) w2)
      = w2\<lparr>w_db := (w_db w2)\<lparr>user_activity_logs := T\<rparr>, w_sess := (w_sess w2)\<lparr>ss_tenant := s\<rparr>\<rparr>" by blast
  let ?w3 = "w2\<lparr>w_db := (w_db w2)\<lparr>user_activity_logs := T\<rparr>, w_sess := (w_sess w2)\<lparr>ss_tenant := s\<rparr>\<rparr>"
  have "fst (run_state (getUserRole (rr_tenant req) (us_id ?u)) ?w3) = Inl NoRows"
    using w2 assms(6) w1(3) by (intro getUserRole_none) (simp_all add: w2_def)
  then have "\<exists>out'. fst (run_state (Login env r' (Some req)) w1) = Reply 200 out' \<and> sr_user out' = ?u \<and> sr_role out' = ''viewer''"
    using assms(2-4,8) log no_user
    by (simp add: Login_def find_user_run [OF w1(1)] w1(2) issue_tokens_run [OF _ tok] w1(4) w2_def
        split_beta role_or_viewer_def)
  with R show ?thesis by auto
qed

theorem Register_then_Login_witness:
  "\<exists>out'. fst (run_state (Login (sample_env ''k'' sample_claims\<lparr>ae_sign := (\<lambda>s c. Some ''t'')\<rparr>)
        (sample_request ''POST'' '''') (Some \<lparr>rr_email = ''eve@x'', rr_password = ''pw'', rr_tenant = 3\<rparr>))
      (snd (run_state (Register (sample_env ''k'' sample_claims\<lparr>ae_sign := (\<lambda>s c. Some ''t'')\<rparr>)
        (sample_request ''POST'' '''') (Some \<lparr>rr_email = ''eve@x'', rr_password = ''pw'', rr_tenant = 3\<rparr>)) auth_world)))
     = Reply 200 out' \<and> sr_role out' = ''viewer''"
proof -
  let ?env = "sample_env ''k'' sample_claims\<lparr>ae_sign := (\<lambda>s c. Some ''t'')\<rparr>"
  let ?req = "\<lparr>rr_email = ''eve@x'', rr_password = ''pw'', rr_tenant = 3\<rparr>"
  have w: "w_faults auth_world = []" "w_rand auth_world = [Some [1, 2, 3], Some [4, 5, 6]]"
    "\<forall>u \<in> set (tb_rows (users (w_db auth_world))). us_email u \<noteq> rr_email ?req \<or> us_tenant u \<noteq> rr_tenant ?req"
    "\<forall>x \<in> set (tb_rows (users_extended (w_db auth_world))). ue_user x \<noteq> tb_seq (users (w_db auth_world)) + 1"
    by (simp_all add: auth_world_def team_world_def sample_world_def)
  have e: "ae_hash ?env (rr_password ?req) = Some ''#pw''" "ae_compare ?env ''#pw'' (rr_password ?req)"
    "\<forall>s c. ae_sign ?env s c \<noteq> None" by (simp_all add: sample_env_def)
  from Register_then_Login [OF w(1) _ _ _ w(3,4) e(1,2) w(2) e(3), of "sample_request ''POST'' ''''"
      "sample_request ''POST'' ''''"]
  show ?thesis by auto
qed

section \<open>The owner of a new tenant\<close>

definition users_frame :: "world \<Rightarrow> world \<Rightarrow> bool" where
  "users_frame w w' \<longleftrightarrow> users (w_db w') = users (w_db w) \<and> ss_rls (w_sess w') = ss_rls (w_sess w)"

interpretation usersf: frame_relation users_frame
  by unfold_locales (auto simp: users_frame_def)

lemma setUserRole_users: "state_io_rel users_frame (setUserRole t uid role)"
  unfolding setUserRole_def upsert_extended_def upsert_member_def insert_role_def
  by (intro usersf.keeps_intros usersf.keeps_Exec)
    (auto simp: users_frame_def sql_upsert_def sql_insert_def Let_def split: option.splits)

definition rand_frame :: "world \<Rightarrow> world \<Rightarrow> bool" where
  "rand_frame w w' \<longleftrightarrow> w_rand w' = w_rand w"

lemma Exec_rand: "w_rand (snd (run_state (Exec q) w)) = w_rand w"
  by (auto simp: Exec_def faulty_def split_beta split: list.split)

lemma setUserRole_rand: "w_faults w = [] \<Longrightarrow> w_rand (snd (run_state (setUserRole t uid role) w)) = w_rand w"
  by (auto simp: setUserRole_def state_simps Let_def split: prod.splits sum.splits)

lemma ensure_after:
  assumes "run_state (WithTenantConn t (find_or_insert env t (whatsapp_email j))) w = (Inr (role, u), w1)"
    and "w_faults w1 = []" "\<not> ss_rls (w_sess w1)" "has_key us_id (us_id u) (users (w_db w1))"
    and "w_rand w1 = Some a # rs" "\<And>s c. ae_sign env s c = Some (tok s c)"
  obtains token csrf w2 where
    "run_state (ensureWhatsAppUser env t (Some j)) w = (Some (u, role, token, csrf), w2)"
    "w_faults w2 = []" "\<not> ss_rls (w_sess w2)" "w_rand w2 = rs" "users (w_db w2) = users (w_db w1)"
    "users_extended (w_db w2) = users_extended (w_db (snd (run_state (setUserRole t (us_id u) role) w1)))"
proof -
  define v where "v = snd (run_state (setUserRole t (us_id u) role) w1)"
  note fr = setUserRole_frame [OF assms(2), of t "us_id u" role]
  have users: "users (w_db v) = users (w_db w1)"
    using setUserRole_users by (simp add: state_io_rel_def users_frame_def v_def)
  have rand: "w_rand v = Some a # rs" using setUserRole_rand [OF assms(2)] assms(5) by (simp add: v_def)
  have set: "run_state (setUserRole t (us_id u) role) w1 = (Inr (), v)"
    using setUserRole_run(1) [OF assms(2-4), of t role] by (simp add: prod_eq_iff v_def)
  define v1 where "v1 = v\<lparr>w_rand := rs\<rparr>"
  have v1: "w_faults v1 = []" using fr by (simp add: v1_def v_def)
  from logActivity_quiet [OF this] obtain T s where
    log: "snd (run_state (logActivity t (auth_user u []) ''auth.whatsapp'' (JObj [(''jid'', JStr j), (''user_id'', JInt (us_id u))])) v1)
      = v1\<lparr>w_db := (w_db v1)\<lparr>user_activity_logs := T\<rparr>, w_sess := (w_sess v1)\<lparr>ss_tenant := s\<rparr>\<rparr>" by blast
  note tokens = issue_tokens_run [OF rand assms(6), where u = u, folded v1_def]
  let ?tok = "tok (svc_secret (ae_service env))
        \<lparr>cl_uid = us_id u, cl_tid = us_tenant u, cl_email = us_email u, cl_csrf = b64_encode a,
         cl_issued = w_now v, cl_expires = w_now v + svc_ttl (ae_service env)\<rparr>"
  have "run_state (ensureWhatsAppUser env t (Some j)) w = (Some (u, role, ?tok, b64_encode a),
      v1\<lparr>w_db := (w_db v1)\<lparr>user_activity_logs := T\<rparr>, w_sess := (w_sess v1)\<lparr>ss_tenant := s\<rparr>\<rparr>)"
    unfolding ensureWhatsAppUser_def option.case run_state_bind assms(1) set tokens prod.case sum.case
    using log by (simp add: split_beta)
  then show ?thesis
    by (rule that) (use fr assms(3) users in \<open>simp_all add: v1_def, simp_all add: v_def\<close>)
qed

lemma auth_stmt_keys [intro]:
  "state_io_rel keys_frame (Exec (insert_user email h t now))"
  "state_io_rel keys_frame (Exec (count_users t))"
  "state_io_rel keys_frame (Exec (insert_activity t uid act det now))"
  by (rule keys.keeps_Exec; auto simp: keys_frame_def team_keys_def insert_user_def sql_insert_def
      count_users_def insert_activity_def Let_def)+

lemma ensure_keys: "state_io_rel keys_frame (ensureWhatsAppUser env t jid)"
  unfolding ensureWhatsAppUser_def find_or_insert_def issue_tokens_def logActivity_def Let_def
  by (intro keys.keeps_intros auth_stmt_keys simple_stmt_keys team_ops_keys)

lemma getUserRole_same:
  assumes "w_faults w = []" "\<not> ss_rls (w_sess w)" "w_faults v = []" "\<not> ss_rls (w_sess v)"
    and "users_extended (w_db w) = users_extended (w_db v)"
  shows "fst (run_state (getUserRole t uid) w) = fst (run_state (getUserRole t uid) v)"
  using assms by (simp add: getUserRole_run)

lemma find_or_insert_new:
  fixes email :: string
  assumes "w_faults w = []" "\<forall>u \<in> set (tb_rows (users (w_db w))). us_tenant u \<noteq> t"
    and "w_rand w = Some p # rs" "ae_hash env (string_of p) = Some h"
  defines "u \<equiv> \<lparr>us_id = tb_seq (users (w_db w)) + 1, us_email = email, us_hash = h, us_tenant = t,
     us_created = w_now w, us_updated = w_now w\<rparr>"
  shows "run_state (WithTenantConn t (find_or_insert env t email)) w =
    (Inr (''owner'', u),
     w\<lparr>w_db := (w_db w)\<lparr>users := \<lparr>tb_rows = tb_rows (users (w_db w)) @ [u], tb_seq = us_id u\<rparr>\<rparr>,
       w_rand := rs, w_sess := (w_sess w)\<lparr>ss_tenant := None\<rparr>\<rparr>)"
proof -
  have none: "filter (\<lambda>u. visible s (us_tenant u) \<and> us_tenant u = t) (tb_rows (users (w_db w))) = []"
    "filter (\<lambda>u. visible s (us_tenant u) \<and> us_email u = email \<and> us_tenant u = t) (tb_rows (users (w_db w))) = []"
    "\<not> (\<exists>u \<in> set (tb_rows (users (w_db w))). us_tenant u = t \<and> us_email u = email)" for s
    using assms(2) by (auto simp: filter_empty_conv)
  have vis: "visible (s\<lparr>ss_tenant := Some t\<rparr>) t" for s :: session by (simp add: visible_def)
  show ?thesis
    using assms(1,3,4) none(3)
    by (simp add: find_or_insert_def state_simps count_users_def find_user_def sql_row_def none(1,2)
        insert_user_def sql_insert_def vis Let_def u_def)
qed

lemma find_or_insert_known:
  assumes "w_faults w = []" "\<not> ss_rls (w_sess w)"
    and "filter (\<lambda>u. us_email u = email \<and> us_tenant u = t) (tb_rows (users (w_db w))) = u # us"
  shows "run_state (WithTenantConn t (find_or_insert env t email)) w =
    (Inr (''member'', u), w\<lparr>w_sess := (w_sess w)\<lparr>ss_tenant := None\<rparr>\<rparr>)"
proof -
  have "u \<in> set (filter (\<lambda>u. us_email u = email \<and> us_tenant u = t) (tb_rows (users (w_db w))))"
    by (simp add: assms(3))
  then have "filter (\<lambda>u. us_tenant u = t) (tb_rows (users (w_db w))) \<noteq> []"
    by (auto simp: filter_empty_conv)
  then show ?thesis
    using assms
    by (simp add: find_or_insert_def state_simps count_users_def find_user_def sql_row_def visible_def Let_def)
qed

text \<open>
  The owner of a new tenant does not stay one. When a phone is paired for a tenant that
  has no users, the first status poll makes its user the owner; the next poll for the same
  session finds a user in the tenant, takes the role to be \<open>member\<close> and writes that over the
  owner's role.
\<close>

theorem whatsapp_owner_demoted:
  fixes j :: string
  assumes "w_faults w = []" "\<not> ss_rls (w_sess w)" "team_keys (w_db w)"
    and "\<forall>u \<in> set (tb_rows (users (w_db w))). us_tenant u \<noteq> t"
    and "\<forall>x \<in> set (tb_rows (users_extended (w_db w))). ue_user x \<noteq> tb_seq (users (w_db w)) + 1"
    and "w_rand w = Some p # Some a # Some b # rs" "ae_hash env (string_of p) = Some h"
    and "\<forall>s c. ae_sign env s c \<noteq> None"
  defines "uid \<equiv> tb_seq (users (w_db w)) + 1"
  defines "w1 \<equiv> snd (run_state (ensureWhatsAppUser env t (Some j)) w)"
  defines "w2 \<equiv> snd (run_state (ensureWhatsAppUser env t (Some j)) w1)"
  shows "fst (run_state (getUserRole t uid) w1) = Inr ''owner'' \<and>
    fst (run_state (getUserRole t uid) w2) = Inr ''member''"
proof -
  obtain tok where tok: "\<And>s c. ae_sign env s c = Some (tok s c)"
    by (rule that [of "\<lambda>s c. the (ae_sign env s c)"]) (use assms(8) in simp)
  let ?email = "whatsapp_email j"
  let ?u = "\<lparr>us_id = uid, us_email = ?email, us_hash = h, us_tenant = t,
     us_created = w_now w, us_updated = w_now w\<rparr>"
  let ?v = "w\<lparr>w_db := (w_db w)\<lparr>users := \<lparr>tb_rows = tb_rows (users (w_db w)) @ [?u], tb_seq = uid\<rparr>\<rparr>,
       w_rand := Some a # Some b # rs, w_sess := (w_sess w)\<lparr>ss_tenant := None\<rparr>\<rparr>"
  have new: "run_state (WithTenantConn t (find_or_insert env t ?email)) w = (Inr (''owner'', ?u), ?v)"
    using find_or_insert_new [OF assms(1,4,6,7), of ?email] by (simp add: uid_def)
  have v: "w_faults ?v = []" "\<not> ss_rls (w_sess ?v)" "has_key us_id (us_id ?u) (users (w_db ?v))"
    "w_rand ?v = Some a # Some b # rs" "team_keys (w_db ?v)"
    using assms(1-3) by (simp_all add: has_key_def team_keys_def)
  obtain token csrf x where x: "run_state (ensureWhatsAppUser env t (Some j)) w = (Some (?u, ''owner'', token, csrf), x)"
    "w_faults x = []" "\<not> ss_rls (w_sess x)" "w_rand x = Some b # rs" "users (w_db x) = users (w_db ?v)"
    "users_extended (w_db x) = users_extended (w_db (snd (run_state (setUserRole t (us_id ?u) ''owner'') ?v)))"
    using ensure_after [OF new v(1-4) tok] .
  have w1: "w1 = x" by (simp add: w1_def x(1))
  have home: "home_tenant (w_db ?v) t uid = t"
    using assms(5) by (simp add: home_tenant_def uid_def filter_empty_conv)
  have keys_x: "team_keys (w_db x)"
    using ensure_keys [of env t "Some j"] assms(3) x(1) by (metis keys_frame_def snd_conv state_io_rel_def)
  have owner: "fst (run_state (getUserRole t uid) x) = Inr ''owner''"
  proof -
    let ?s = "snd (run_state (setUserRole t uid ''owner'') ?v)"
    have "fst (run_state (getUserRole t uid) ?s) = Inr ''owner''"
      using setUserRole_effect [OF v(1,2,3) v(5), of t t "''owner''"] home by simp
    moreover have "fst (run_state (getUserRole t uid) x) = fst (run_state (getUserRole t uid) ?s)"
      using x(2,3,6) setUserRole_frame [OF v(1), of t uid "''owner''"] v(2) by (intro getUserRole_same) simp_all
    ultimately show ?thesis by simp
  qed
  have hit: "filter (\<lambda>u. us_email u = ?email \<and> us_tenant u = t) (tb_rows (users (w_db x))) = [?u]"
    using assms(4) by (auto simp: x(5) filter_empty_conv)
  note known = find_or_insert_known [OF x(2,3) hit]
  let ?y = "x\<lparr>w_sess := (w_sess x)\<lparr>ss_tenant := None\<rparr>\<rparr>"
  have y: "w_faults ?y = []" "\<not> ss_rls (w_sess ?y)" "has_key us_id (us_id ?u) (users (w_db ?y))"
    "w_rand ?y = Some b # rs" "team_keys (w_db ?y)"
    using x keys_x by (simp_all add: has_key_def)
  obtain token' csrf' z where z: "run_state (ensureWhatsAppUser env t (Some j)) x = (Some (?u, ''member'', token', csrf'), z)"
    "w_faults z = []" "\<not> ss_rls (w_sess z)"
    "users_extended (w_db z) = users_extended (w_db (snd (run_state (setUserRole t (us_id ?u) ''member'') ?y)))"
    using ensure_after [OF known y(1-4) tok] .
  have w2: "w2 = z" by (simp add: w2_def w1 z(1))
  have "filter (\<lambda>r. ue_user r = uid) (tb_rows (users_extended (w_db ?v))) = []"
    using assms(5) by (simp add: uid_def filter_empty_conv)
  then have home_y: "home_tenant (w_db ?y) t uid = t"
    using setUserRole_run(2) [OF v(1-3), of t "''owner''"] by (simp add: home_tenant_def x(6))
  let ?s = "snd (run_state (setUserRole t uid ''member'') ?y)"
  have "fst (run_state (getUserRole t uid) ?s) = Inr ''member''"
    using setUserRole_effect [OF y(1,2,3) y(5), of t t "''member''"] home_y by simp
  moreover have "fst (run_state (getUserRole t uid) z) = fst (run_state (getUserRole t uid) ?s)"
    using z(2-4) setUserRole_frame [OF y(1), of t uid "''member''"] y(2) by (intro getUserRole_same) simp_all
  ultimately show ?thesis using owner by (simp add: w1 w2)
qed

theorem whatsapp_owner_demoted_witness:
  "fst (run_state (getUserRole 5 8) (snd (run_state (ensureWhatsAppUser
      (sample_env ''k'' sample_claims\<lparr>ae_sign := (\<lambda>s c. Some ''t'')\<rparr>) 5 (Some ''491''))
     (auth_world\<lparr>w_rand := [Some [9], Some [1], Some [2]]\<rparr>)))) = Inr ''owner''"
proof -
  let ?env = "sample_env ''k'' sample_claims\<lparr>ae_sign := (\<lambda>s c. Some ''t'')\<rparr>"
  let ?w = "auth_world\<lparr>w_rand := [Some [9], Some [1], Some [2]]\<rparr>"
  have w: "w_faults ?w = []" "\<not> ss_rls (w_sess ?w)" "team_keys (w_db ?w)"
    "\<forall>u \<in> set (tb_rows (users (w_db ?w))). us_tenant u \<noteq> 5"
    "\<forall>x \<in> set (tb_rows (users_extended (w_db ?w))). ue_user x \<noteq> tb_seq (users (w_db ?w)) + 1"
    "w_rand ?w = [Some [9], Some [1], Some [2]]" "tb_seq (users (w_db auth_world)) = 7"
    using team_world_simps(4) by (simp_all add: auth_world_def team_world_def sample_world_def team_keys_def)
  have e: "ae_hash ?env (string_of [9]) = Some (''#'' @ string_of [9])" "\<forall>s c. ae_sign ?env s c \<noteq> None"
    by (simp_all add: sample_env_def)
  from whatsapp_owner_demoted [OF w(1-6) e, of "''491''"] show ?thesis by (simp add: w(7))
qed

end
