(* ===== verification/Queue.thy ===== *)
theory Queue
  imports AuthHandlers
begin

text \<open>
  The Redis queue of \<open>backend/internal/llm/queue.go\<close>: a list per tenant, pushed at the head
  (\<open>LPUSH\<close>) and popped at the tail (\<open>RPOP\<close>). The JSON of a message round-trips and is left out.
  Redis calls draw on the same schedule of faults as the database.
\<close>

definition queueKey :: "int \<Rightarrow> string" where
  "queueKey tenant = ''llm:queue:'' @ FormatInt tenant"

definition Enqueue :: "queue_message \<Rightarrow> (dberr + unit) act" where
  "Enqueue m = faulty (do {
     q \<leftarrow> get_mem w_queue;
     let key = queueKey (qm_tenant m);
     _ \<leftarrow> set_queue (q(key := m # q key));
     ok ()
   })"

text \<open>\<open>RPop\<close>: \<open>redis.Nil\<close> is the empty queue.\<close>

definition RPop :: "string \<Rightarrow> (dberr + queue_message option) act" where
  "RPop key = faulty (do {
     q \<leftarrow> get_mem w_queue;
     if q key = [] then ok None
     else do {
       _ \<leftarrow> set_queue (q(key := butlast (q key)));
       ok (Some (last (q key)))
     }
   })"

text \<open>The items popped so far and the error, if one stopped the loop.\<close>

fun pop_loop :: "string \<Rightarrow> nat \<Rightarrow> queue_message list \<Rightarrow> (queue_message list \<times> dberr option) act" where
  "pop_loop key 0 items = State_Monad.return (items, None)"
| "pop_loop key (Suc n) items = do {
     item \<leftarrow> RPop key;
     case item of
       Inl e \<Rightarrow> State_Monad.return (items, Some e)
     | Inr None \<Rightarrow> State_Monad.return (items, None)
     | Inr (Some m) \<Rightarrow> pop_loop key n (items @ [m])
   }"

definition DequeueBatch :: "int \<Rightarrow> int \<Rightarrow> (queue_message list \<times> dberr option) act" where
  "DequeueBatch tenant batch = pop_loop (queueKey tenant) (nat batch) []"

section \<open>First in, first out\<close>

lemma queueKey_inj: "is_int64 i \<Longrightarrow> is_int64 j \<Longrightarrow> queueKey i = queueKey j \<longleftrightarrow> i = j"
  using FormatInt_inj by (auto simp: queueKey_def)

lemma run_Enqueue [state_simps]:
  "w_faults w = [] \<Longrightarrow> run_state (Enqueue m) w =
     (Inr (), w\<lparr>w_queue := (w_queue w)(queueKey (qm_tenant m) := m # w_queue w (queueKey (qm_tenant m)))\<rparr>)"
  by (simp add: Enqueue_def Let_def)

lemma run_RPop:
  "w_faults w = [] \<Longrightarrow> run_state (RPop key) w =
     (if w_queue w key = [] then (Inr None, w)
      else (Inr (Some (last (w_queue w key))), w\<lparr>w_queue := (w_queue w)(key := butlast (w_queue w key))\<rparr>))"
  by (simp add: RPop_def)

text \<open>Without faults a batch is the oldest messages, oldest first, and they leave the queue.\<close>

lemma pop_loop_run:
  "w_faults w = [] \<Longrightarrow> run_state (pop_loop key n items) w =
     ((items @ take n (rev (w_queue w key)), None),
      w\<lparr>w_queue := (w_queue w)(key := rev (drop n (rev (w_queue w key))))\<rparr>)"
proof (induction n arbitrary: w items)
  case 0
  have "w\<lparr>w_queue := (w_queue w)(key := w_queue w key)\<rparr> = w" by simp
  then show ?case by simp
next
  case (Suc n)
  show ?case
  proof (cases "w_queue w key = []")
    case True
    then have "(w_queue w)(key := []) = w_queue w" by (metis fun_upd_triv)
    with True Suc.prems show ?thesis by (simp add: run_RPop del: fun_upd_apply)
  next
    case False
    then obtain xs x where q: "w_queue w key = xs @ [x]" by (metis append_butlast_last_id)
    let ?w = "w\<lparr>w_queue := (w_queue w)(key := xs)\<rparr>"
    have "run_state (pop_loop key (Suc n) items) w = run_state (pop_loop key n (items @ [x])) ?w"
      using Suc.prems q by (simp add: run_RPop)
    moreover have "w_faults ?w = []" using Suc.prems by simp
    ultimately show ?thesis using Suc.IH [of ?w "items @ [x]"] q by (simp add: fun_upd_same del: fun_upd_apply)
  qed
qed

fun enqueue_all :: "queue_message list \<Rightarrow> unit act" where
  "enqueue_all [] = State_Monad.return ()"
| "enqueue_all (m # ms) = do { _ \<leftarrow> Enqueue m; enqueue_all ms }"

lemma enqueue_all_run:
  "w_faults w = [] \<Longrightarrow> \<forall>m \<in> set ms. qm_tenant m = t \<Longrightarrow>
     run_state (enqueue_all ms) w =
       ((), w\<lparr>w_queue := (w_queue w)(queueKey t := rev ms @ w_queue w (queueKey t))\<rparr>)"
proof (induction ms arbitrary: w)
  case (Cons m ms)
  then show ?case by (simp add: run_Enqueue fun_upd_same del: fun_upd_apply)
qed (simp del: fun_upd_apply)

text \<open>
  C14. The analysis queue is first-in first-out per tenant. Without faults, the messages
  enqueued for a tenant on an empty queue are dequeued in the order they were enqueued, a
  batch at a time, none lost or repeated, and the queues of other tenants are not touched.
\<close>

theorem queue_fifo:
  assumes "w_faults w = []" "w_queue w (queueKey t) = []" "\<forall>m \<in> set ms. qm_tenant m = t"
    and "is_int64 t" "is_int64 t'" "t' \<noteq> t"
  defines "w1 \<equiv> snd (run_state (enqueue_all ms) w)"
  shows "\<exists>w2. run_state (DequeueBatch t n) w1 = ((take (nat n) ms, None), w2) \<and>
    fst (run_state (DequeueBatch t k) w2) = (take (nat k) (drop (nat n) ms), None) \<and>
    w_queue w2 (queueKey t') = w_queue w (queueKey t')"
proof -
  have key: "queueKey t' \<noteq> queueKey t" using queueKey_inj assms(4-6) by blast
  have w1: "w1 = w\<lparr>w_queue := (w_queue w)(queueKey t := rev ms)\<rparr>"
    using assms(2) by (simp add: w1_def enqueue_all_run [OF assms(1,3)] del: fun_upd_apply)
  let ?w2 = "w\<lparr>w_queue := (w_queue w)(queueKey t := rev (drop (nat n) ms))\<rparr>"
  have one: "run_state (DequeueBatch t n) w1 = ((take (nat n) ms, None), ?w2)"
    using assms(1) by (simp add: DequeueBatch_def pop_loop_run w1 fun_upd_same del: fun_upd_apply)
  have two: "fst (run_state (DequeueBatch t k) ?w2) = (take (nat k) (drop (nat n) ms), None)"
    using assms(1) by (simp add: DequeueBatch_def pop_loop_run)
  have "w_queue ?w2 (queueKey t') = w_queue w (queueKey t')" using key by simp
  with one two show ?thesis by blast
qed

theorem queue_fifo_witness:
  "fst (run_state (DequeueBatch 3 1) (snd (run_state
      (enqueue_all [\<lparr>qm_tenant = 3, qm_message = 1, qm_content = ''a'', qm_feature = '''', qm_created = 0\<rparr>,
                    \<lparr>qm_tenant = 3, qm_message = 2, qm_content = ''b'', qm_feature = '''', qm_created = 0\<rparr>])
      (sample_world ''admin''))))
   = ([\<lparr>qm_tenant = 3, qm_message = 1, qm_content = ''a'', qm_feature = '''', qm_created = 0\<rparr>], None)"
proof -
  let ?m = "\<lambda>i c. \<lparr>qm_tenant = 3, qm_message = i, qm_content = c, qm_feature = '''', qm_created = 0\<rparr>"
  have "w_faults (sample_world ''admin'') = []" "w_queue (sample_world ''admin'') (queueKey 3) = []"
    by (simp_all add: sample_world_def)
  from queue_fifo [OF this, of "[?m 1 ''a'', ?m 2 ''b'']" 4 1 1]
  show ?thesis by (auto simp: is_int64_def min_int64_def max_int64_def)
qed

text \<open>A fault in the middle of a batch: the items already popped are handed back with the error.\<close>

lemma pop_loop_fault:
  "w_faults w = replicate (length xs) False @ True # fs \<Longrightarrow> w_queue w key = ys @ rev xs \<Longrightarrow> length xs < n \<Longrightarrow>
     run_state (pop_loop key n items) w =
       ((items @ xs, Some Fault), w\<lparr>w_queue := (w_queue w)(key := ys), w_faults := fs\<rparr>)"
proof (induction xs arbitrary: w n items)
  case Nil
  then have "(w_queue w)(key := ys) = w_queue w" by auto
  with Nil show ?case by (cases n) (simp_all add: RPop_def faulty_def del: fun_upd_apply)
next
  case (Cons x xs)
  then obtain k where n: "n = Suc k" "length xs < k" by (cases n) auto
  let ?w = "w\<lparr>w_faults := replicate (length xs) False @ True # fs, w_queue := (w_queue w)(key := ys @ rev xs)\<rparr>"
  have "run_state (RPop key) w = (Inr (Some x), ?w)"
    using Cons.prems by (simp add: RPop_def faulty_def butlast_append del: fun_upd_apply)
  then have "run_state (pop_loop key n items) w = run_state (pop_loop key k (items @ [x])) ?w"
    by (simp add: n)
  also have "\<dots> = ((items @ x # xs, Some Fault), w\<lparr>w_queue := (w_queue w)(key := ys), w_faults := fs\<rparr>)"
    using Cons.IH [of ?w k "items @ [x]"] n(2) by (simp del: fun_upd_apply add: fun_upd_same)
  finally show ?case .
qed

end
