(* ===== verification/Syncer.thy ===== *)
theory Syncer
  imports Queue
begin

text \<open>
  What a WhatsApp event does to the tenant's data: \<open>backend/internal/whatsapp/sync.go\<close>. Messages
  and addresses are whatsmeow's; the records hold the parts the code reads through its getters
  (which give the empty value for an absent part). The client's look-ups (group and contact
  names, pictures) are functions of the record \<open>wa_client\<close>; \<open>j_text\<close> is an address's \<open>String()\<close>.
\<close>

record jid =
  j_user :: string
  j_server :: string
  j_text :: string

record contact =
  ct_full :: string
  ct_push :: string
  ct_first :: string

record media_part =
  mp_mime :: string
  mp_file :: string
  mp_caption :: string
  mp_length :: nat
  mp_seconds :: nat

record wa_message =
  wm_conversation :: string
  wm_extended :: string
  wm_image :: "media_part option"
  wm_video :: "media_part option"
  wm_audio :: "media_part option"
  wm_document :: "media_part option"
  wm_sticker :: "media_part option"
  wm_buttons :: string
  wm_list :: string
  wm_template :: string
  wm_poll :: string

record message_info =
  mi_id :: string
  mi_chat :: jid
  mi_sender :: jid
  mi_fromMe :: bool
  mi_push :: string
  mi_time :: int

record wa_event =
  ev_info :: message_info
  ev_message :: "wa_message option"

record wa_client =
  wc_id :: "string option"
  wc_group :: "jid \<Rightarrow> string option"
  wc_contact :: "jid \<Rightarrow> contact option"
  wc_picture :: "jid \<Rightarrow> string option"

section \<open>Texts and media\<close>

definition caption_of :: "media_part option \<Rightarrow> string" where
  "caption_of p = (case p of None \<Rightarrow> [] | Some m \<Rightarrow> mp_caption m)"

definition extractText :: "wa_message option \<Rightarrow> string" where
  "extractText msg =
     (case msg of
        None \<Rightarrow> []
      | Some m \<Rightarrow>
          if wm_conversation m \<noteq> [] then wm_conversation m
          else if wm_extended m \<noteq> [] then wm_extended m
          else if caption_of (wm_image m) \<noteq> [] then caption_of (wm_image m)
          else if caption_of (wm_video m) \<noteq> [] then caption_of (wm_video m)
          else if caption_of (wm_document m) \<noteq> [] then caption_of (wm_document m)
          else if wm_buttons m \<noteq> [] then wm_buttons m
          else if wm_list m \<noteq> [] then wm_list m
          else if wm_template m \<noteq> [] then wm_template m
          else if wm_poll m \<noteq> [] then wm_poll m
          else [])"

record media_info =
  me_type :: string
  me_mime :: string
  me_file :: string
  me_caption :: string
  me_size :: nat
  me_seconds :: nat

definition extractMediaInfo :: "wa_message option \<Rightarrow> media_info option" where
  "extractMediaInfo msg =
     (case msg of
        None \<Rightarrow> None
      | Some m \<Rightarrow>
          (case wm_image m of
             Some p \<Rightarrow> Some \<lparr>me_type = ''image'', me_mime = mp_mime p, me_file = [], me_caption = mp_caption p,
                              me_size = mp_length p, me_seconds = 0\<rparr>
           | None \<Rightarrow>
          (case wm_video m of
             Some p \<Rightarrow> Some \<lparr>me_type = ''video'', me_mime = mp_mime p, me_file = [], me_caption = mp_caption p,
                              me_size = mp_length p, me_seconds = mp_seconds p\<rparr>
           | None \<Rightarrow>
          (case wm_audio m of
             Some p \<Rightarrow> Some \<lparr>me_type = ''audio'', me_mime = mp_mime p, me_file = [], me_caption = [],
                              me_size = mp_length p, me_seconds = mp_seconds p\<rparr>
           | None \<Rightarrow>
          (case wm_document m of
             Some p \<Rightarrow> Some \<lparr>me_type = ''document'', me_mime = mp_mime p, me_file = mp_file p, me_caption = mp_caption p,
                              me_size = mp_length p, me_seconds = 0\<rparr>
           | None \<Rightarrow>
          (case wm_sticker m of
             Some p \<Rightarrow> Some \<lparr>me_type = ''sticker'', me_mime = mp_mime p, me_file = [], me_caption = [],
                              me_size = mp_length p, me_seconds = 0\<rparr>
           | None \<Rightarrow> None))))))"

text \<open>The JSON of \<open>MediaInfo\<close>, whose tags omit empty fields.\<close>

definition str_field :: "string \<Rightarrow> string \<Rightarrow> (string \<times> json) list" where
  "str_field k v = (if v = [] then [] else [(k, JStr v)])"

definition num_field :: "string \<Rightarrow> nat \<Rightarrow> (string \<times> json) list" where
  "num_field k n = (if n = 0 then [] else [(k, JInt (int n))])"

definition media_json :: "media_info \<Rightarrow> json" where
  "media_json m =
     JObj (str_field ''media_type'' (me_type m) @ str_field ''mime_type'' (me_mime m)
           @ str_field ''file_name'' (me_file m) @ str_field ''caption'' (me_caption m)
           @ num_field ''file_size'' (me_size m) @ num_field ''duration_seconds'' (me_seconds m)
           @ [(''has_media'', JBool True)])"

section \<open>Conversations\<close>

text \<open>The string after \<open>strings.Index(str, "@")\<close> cut it, or the whole string.\<close>

definition before_at :: "string \<Rightarrow> string" where
  "before_at s = takeWhile (\<lambda>c. c \<noteq> CHR ''@'') s"

definition contact_number :: "jid \<Rightarrow> string" where
  "contact_number chat = (if j_user chat = [] then before_at (j_text chat) else j_user chat)"

definition resolve_name :: "wa_client \<Rightarrow> jid \<Rightarrow> string \<Rightarrow> string" where
  "resolve_name client chat name =
     (if name = [] \<or> name = contact_number chat then
        if j_server chat = ''g.us'' then
          (case wc_group client chat of
             Some g \<Rightarrow> if g \<noteq> [] then g else name
           | None \<Rightarrow> name)
        else
          (case wc_contact client chat of
             Some info \<Rightarrow>
               if ct_full info \<noteq> [] then ct_full info
               else if ct_push info \<noteq> [] then ct_push info
               else if ct_first info \<noteq> [] then ct_first info
               else name
           | None \<Rightarrow> name)
      else name)"

definition greatest :: "int option \<Rightarrow> int \<Rightarrow> int" where
  "greatest old new = (case old of None \<Rightarrow> new | Some t \<Rightarrow> max t new)"

definition merge_text :: "string \<Rightarrow> string option \<Rightarrow> string option" where
  "merge_text new old = coalesce_null (nullif_empty new) old"

definition upsert_conversation ::
    "int \<Rightarrow> string \<Rightarrow> string \<Rightarrow> int \<Rightarrow> string \<Rightarrow> int \<Rightarrow> conversation_row sql" where
  "upsert_conversation tenant number name lastAt pic now =
     sql_upsert conversations conversations_update cv_tenant (\<lambda>d r. True)
       (\<lambda>i. \<lparr>cv_id = i, cv_tenant = tenant, cv_number = number, cv_name = Some name,
             cv_last = Some lastAt, cv_created = now, cv_pic = Some pic\<rparr>)
       (\<lambda>r. cv_tenant r = tenant \<and> cv_number r = number)
       (\<lambda>r. r\<lparr>cv_last := Some (greatest (cv_last r) lastAt), cv_name := merge_text name (cv_name r),
              cv_pic := merge_text pic (cv_pic r)\<rparr>)"

text \<open>
  \<open>conn.Begin\<close>, one statement, \<open>tx.Commit\<close>, with the deferred rollback: on an error of the
  statement or of the commit the table is as it was (a sequence is not rolled back).
\<close>

definition restore_conversations :: "conversation_row list \<Rightarrow> unit act" where
  "restore_conversations rows = State (\<lambda>w. ((),
     w\<lparr>w_db := (w_db w)\<lparr>conversations := (conversations (w_db w))\<lparr>tb_rows := rows\<rparr>\<rparr>\<rparr>))"

definition conversation_tx :: "conversation_row sql \<Rightarrow> (dberr + conversation_row) act" where
  "conversation_tx q =
     then_ok (faulty (ok ())) (\<lambda>_. do {
       before \<leftarrow> get_mem (\<lambda>w. tb_rows (conversations (w_db w)));
       res \<leftarrow> Exec q;
       case res of
         Inl e \<Rightarrow> do { _ \<leftarrow> restore_conversations before; err e }
       | Inr row \<Rightarrow> do {
           commit \<leftarrow> faulty (ok ());
           case commit of
             Inl e \<Rightarrow> do { _ \<leftarrow> restore_conversations before; err e }
           | Inr _ \<Rightarrow> ok row
         }
     })"

definition UpsertConversation :: "int \<Rightarrow> wa_client \<Rightarrow> jid \<Rightarrow> string \<Rightarrow> int \<Rightarrow> (dberr + int) act" where
  "UpsertConversation tenant client chat name lastAt = do {
     let contactName = resolve_name client chat name;
     let pic = (case wc_picture client chat of None \<Rightarrow> [] | Some url \<Rightarrow> url);
     now \<leftarrow> Now;
     WithTenantConn tenant
       (then_ok (conversation_tx (upsert_conversation tenant (contact_number chat) contactName lastAt pic now))
         (\<lambda>row. ok (cv_id row)))
   }"

section \<open>Messages\<close>

text \<open>\<open>metadata_json->>'whatsapp_id'\<close>.\<close>

definition whatsapp_id :: "message_row \<Rightarrow> string option" where
  "whatsapp_id m =
     (case ms_meta m of
        Some (JObj kvs) \<Rightarrow>
          (case map_of kvs ''whatsapp_id'' of
             Some (JStr s) \<Rightarrow> Some s
           | Some (JInt i) \<Rightarrow> Some (FormatInt i)
           | Some (JBool b) \<Rightarrow> Some (if b then ''true'' else ''false'')
           | _ \<Rightarrow> None)
      | _ \<Rightarrow> None)"

definition message_meta :: "message_info \<Rightarrow> jid \<Rightarrow> media_info option \<Rightarrow> string \<Rightarrow> json" where
  "message_meta info chat media sender =
     JObj ([(''chat'', JStr (j_text chat))]
           @ (case media of None \<Rightarrow> [] | Some m \<Rightarrow> [(''media'', media_json m)])
           @ [(''sender'', JStr sender), (''source'', JStr ''whatsapp''), (''whatsapp_id'', JStr (mi_id info))])"

definition select_message :: "int \<Rightarrow> string \<Rightarrow> message_row sql" where
  "select_message tenant wid =
     sql_row messages ms_tenant (\<lambda>m. ms_tenant m = tenant \<and> whatsapp_id m = Some wid)"

definition insert_message ::
    "int \<Rightarrow> int \<Rightarrow> string \<Rightarrow> string \<Rightarrow> int \<Rightarrow> json option \<Rightarrow> int \<Rightarrow> message_row sql" where
  "insert_message tenant conv sender content time meta now =
     sql_insert messages messages_update ms_tenant
       (\<lambda>d r. has_key cv_id conv (conversations d))
       (\<lambda>i. \<lparr>ms_id = i, ms_tenant = tenant, ms_conv = conv, ms_sender = sender, ms_content = content,
             ms_time = time, ms_meta = meta, ms_created = now\<rparr>)"

text \<open>
  The result is \<open>id\<close> and \<open>inserted\<close>: the code sets \<open>inserted\<close> whenever the callback returned no
  error, which it also does for a message it found.
\<close>

definition insertMessage ::
    "int \<Rightarrow> int \<Rightarrow> message_info \<Rightarrow> string \<Rightarrow> jid \<Rightarrow> media_info option \<Rightarrow> (dberr + int \<times> bool) act" where
  "insertMessage tenant conv info content chat media = do {
     now \<leftarrow> Now;
     res \<leftarrow> WithTenantConn tenant (do {
       found \<leftarrow> Exec (select_message tenant (mi_id info));
       case found of
         Inr m \<Rightarrow> ok (ms_id m)
       | Inl e \<Rightarrow>
           if e \<noteq> NoRows then err e
           else
             let sender = (if mi_fromMe info then ''me'' else j_text (mi_sender info)) in
             then_ok (Exec (insert_message tenant conv sender content (mi_time info)
                (Some (message_meta info chat media sender)) now)) (\<lambda>m. ok (ms_id m))
     });
     State_Monad.return (case res of Inl e \<Rightarrow> Inl e | Inr i \<Rightarrow> Inr (i, True))
   }"

definition received_payload :: "int \<Rightarrow> int \<Rightarrow> json" where
  "received_payload mid cid =
     JObj [(''conversation_id'', JInt cid), (''message_id'', JInt mid), (''type'', JStr ''message.received'')]"

definition handleMessage ::
    "bool \<Rightarrow> int \<Rightarrow> wa_client \<Rightarrow> message_info \<Rightarrow> wa_message option \<Rightarrow> jid \<Rightarrow> string \<Rightarrow> unit act" where
  "handleMessage hasQueue tenant client info msg chat contactName =
     (let text = extractText msg; media = extractMediaInfo msg in
      if (text = [] \<and> media = None) \<or> mi_id info = [] then State_Monad.return ()
      else
        let content = (case media of
                         Some m \<Rightarrow> if text = [] then ''['' @ me_type m @ '']'' else text
                       | None \<Rightarrow> text);
            name = (if contactName = [] then TrimSpace (mi_push info) else contactName)
        in do {
          conv \<leftarrow> UpsertConversation tenant client chat name (mi_time info);
          case conv of
            Inl _ \<Rightarrow> State_Monad.return ()
          | Inr cid \<Rightarrow>
              if cid = 0 then State_Monad.return ()
              else do {
                res \<leftarrow> insertMessage tenant cid info content chat media;
                case res of
                  Inl _ \<Rightarrow> State_Monad.return ()
                | Inr (mid, inserted) \<Rightarrow>
                    if \<not> inserted then State_Monad.return ()
                    else do {
                      now \<leftarrow> Now;
                      _ \<leftarrow> (if hasQueue then Enqueue \<lparr>qm_tenant = tenant, qm_message = mid,
                               qm_content = content, qm_feature = ''analysis'', qm_created = now\<rparr>
                            else ok ());
                      HubBroadcast tenant (received_payload mid cid)
                    }
              }
        })"

section \<open>Events\<close>

text \<open>
  An archived conversation: its id, its name and its messages, each already parsed by the
  client (\<open>None\<close> for a missing message or one it cannot parse).
\<close>

record wa_history =
  hi_chat :: "jid option"
  hi_name :: string
  hi_messages :: "wa_event option list"

fun history_messages :: "bool \<Rightarrow> int \<Rightarrow> wa_client \<Rightarrow> jid \<Rightarrow> string \<Rightarrow> wa_event option list \<Rightarrow> unit act" where
  "history_messages q tenant client chat name [] = State_Monad.return ()"
| "history_messages q tenant client chat name (None # ms) = history_messages q tenant client chat name ms"
| "history_messages q tenant client chat name (Some e # ms) = do {
     _ \<leftarrow> handleMessage q tenant client (ev_info e) (ev_message e) chat name;
     history_messages q tenant client chat name ms
   }"

fun handleHistorySync :: "bool \<Rightarrow> int \<Rightarrow> wa_client \<Rightarrow> wa_history list \<Rightarrow> unit act" where
  "handleHistorySync q tenant client [] = State_Monad.return ()"
| "handleHistorySync q tenant client (c # cs) = do {
     _ \<leftarrow> (case hi_chat c of
            None \<Rightarrow> State_Monad.return ()
          | Some chat \<Rightarrow> history_messages q tenant client chat (TrimSpace (hi_name c)) (hi_messages c));
     handleHistorySync q tenant client cs
   }"

datatype wa_evt = MessageEvt wa_event | HistoryEvt "wa_history list"

text \<open>The handler \<open>Attach\<close> registers.\<close>

fun on_event :: "bool \<Rightarrow> int \<Rightarrow> wa_client \<Rightarrow> wa_evt \<Rightarrow> unit act" where
  "on_event q tenant client (MessageEvt e) =
     handleMessage q tenant client (ev_info e) (ev_message e) (mi_chat (ev_info e)) (mi_push (ev_info e))"
| "on_event q tenant client (HistoryEvt h) = handleHistorySync q tenant client h"

fun on_events :: "bool \<Rightarrow> int \<Rightarrow> wa_client \<Rightarrow> wa_evt list \<Rightarrow> unit act" where
  "on_events q tenant client [] = State_Monad.return ()"
| "on_events q tenant client (e # es) = do { _ \<leftarrow> on_event q tenant client e; on_events q tenant client es }"

section \<open>Isolation and atomicity\<close>

lemma restore_run [state_simps, simp]:
  "run_state (restore_conversations rows) w =
     ((), w\<lparr>w_db := (w_db w)\<lparr>conversations := (conversations (w_db w))\<lparr>tb_rows := rows\<rparr>\<rparr>\<rparr>)"
  by (simp add: restore_conversations_def)

text \<open>An error of the transaction leaves the conversations as they were.\<close>

lemma conversation_tx_error:
  assumes "run_state (conversation_tx q) w = (Inl e, w')"
  shows "tb_rows (conversations (w_db w')) = tb_rows (conversations (w_db w))"
proof -
  have f: "w_db (snd (run_state (faulty (ok x)) v)) = w_db v" for x :: 'c and v
    by (auto simp: faulty_def split: list.split)
  show ?thesis
  proof (cases "run_state (faulty (ok ())) w")
    case (Pair b w1)
    have w1: "w_db w1 = w_db w" using f [of "()" w] Pair by simp
    show ?thesis
    proof (cases b)
      case (Inl e')
      with assms Pair w1 show ?thesis by (simp add: conversation_tx_def state_simps)
    next
      case (Inr u)
      with assms Pair have "run_state (do {
         res \<leftarrow> Exec q;
         case res of
           Inl e \<Rightarrow> do { _ \<leftarrow> restore_conversations (tb_rows (conversations (w_db w1))); err e }
         | Inr row \<Rightarrow> do {
             commit \<leftarrow> faulty (ok ());
             case commit of
               Inl e \<Rightarrow> do { _ \<leftarrow> restore_conversations (tb_rows (conversations (w_db w1))); err e }
             | Inr _ \<Rightarrow> ok row
           }
       }) w1 = (Inl e, w')"
        by (simp add: conversation_tx_def state_simps)
      then show ?thesis
        using w1 by (auto split: prod.splits sum.splits)
    qed
  qed
qed

lemma faulty_ok_db: "w_db (snd (run_state (faulty (ok x)) v)) = w_db v" "w_sess (snd (run_state (faulty (ok x)) v)) = w_sess v"
  by (auto simp: faulty_def split: list.split)

lemma Exec_Inr:
  assumes "run_state (Exec q) w = (Inr x, w')"
  shows "q (w_sess w) (w_db w) = (Inr x, w_db w')" "w_sess w' = w_sess w"
  using assms by (auto simp: Exec_def faulty_def split_beta prod_eq_iff split: list.splits if_splits)

lemma conversation_tx_done:
  assumes "run_state (conversation_tx q) w = (Inr row, w')"
  shows "q (w_sess w) (w_db w) = (Inr row, w_db w')"
proof -
  obtain b w1 where b: "run_state (faulty (ok ())) w = (b, w1)" by (cases "run_state (faulty (ok ())) w")
  then have w1: "w_db w1 = w_db w" "w_sess w1 = w_sess w"
    using faulty_ok_db(1) [of "()" w] faulty_ok_db(2) [of "()" w] by simp_all
  from assms b obtain w2 where e: "run_state (Exec q) w1 = (Inr row, w2)"
    and c: "\<exists>x. run_state (faulty (ok ())) w2 = (Inr x, w')"
    by (auto simp: conversation_tx_def state_simps split: prod.splits sum.splits)
  have "w_db w' = w_db w2" using c faulty_ok_db(1) [of "()" w2] by (metis snd_conv)
  with Exec_Inr(1) [OF e] w1 show ?thesis by simp
qed

text \<open>The transaction touches nothing but the conversations.\<close>

definition conv_only :: "world \<Rightarrow> world \<Rightarrow> bool" where
  "conv_only w w' \<longleftrightarrow> (\<exists>c. w_db w' = (w_db w)\<lparr>conversations := c\<rparr>)"

interpretation conv: frame_relation conv_only
proof
  fix u v w :: world
  have "\<exists>c. d = d\<lparr>conversations := c\<rparr>" for d :: db by (rule exI [of _ "conversations d"]) simp
  then show "conv_only w w" "conv_only w (w\<lparr>w_faults := fs\<rparr>)" "conv_only w (w\<lparr>w_rand := rs\<rparr>)"
    "conv_only w (w\<lparr>w_bcast := bs\<rparr>)" "conv_only w (w\<lparr>w_queue := qs\<rparr>)" "conv_only w (w\<lparr>w_instances := ins\<rparr>)"
    "conv_only w (w\<lparr>w_cache := cs\<rparr>)" "conv_only w (w\<lparr>w_monitors := ts\<rparr>)" "conv_only w (w\<lparr>w_workers := ts\<rparr>)"
    "conv_only w (w\<lparr>w_sess := (w_sess w)\<lparr>ss_tenant := t\<rparr>\<rparr>)" for fs rs bs qs ins cs ts t
    by (simp_all add: conv_only_def)
  show "conv_only u v \<Longrightarrow> conv_only v w \<Longrightarrow> conv_only u w" by (auto simp: conv_only_def)
qed

lemma sql_upsert_upd: "\<exists>f. snd (sql_upsert get upd ten good mk same f0 s d) = upd f d"
  by (auto simp: sql_upsert_def Let_def split: option.split)

lemma upsert_conversation_only: "state_io_rel conv_only (Exec (upsert_conversation t number name lastAt pic now))"
proof (rule conv.keeps_Exec)
  fix w :: world
  obtain f where "snd (upsert_conversation t number name lastAt pic now (w_sess w) (w_db w)) = conversations_update f (w_db w)"
    unfolding upsert_conversation_def using sql_upsert_upd by blast
  moreover have "conversations_update f d = d\<lparr>conversations := f (conversations d)\<rparr>" for d :: db by simp
  ultimately show "conv_only w (w\<lparr>w_db := snd (upsert_conversation t number name lastAt pic now (w_sess w) (w_db w))\<rparr>)"
    by (auto simp: conv_only_def)
qed

lemma restore_only: "state_io_rel conv_only (restore_conversations rows)"
  by (auto simp: state_io_rel_def conv_only_def)

lemma tx_only: "state_io_rel conv_only (conversation_tx (upsert_conversation t number name lastAt pic now))"
  unfolding conversation_tx_def
  by (intro conv.keeps_intros conv.keeps_faulty restore_only upsert_conversation_only)

lemma conv_only_frame:
  "conv_only w w' \<Longrightarrow> same_rows cv_tenant t (conversations (w_db w)) (conversations (w_db w')) \<Longrightarrow> tenant_frame t w w'"
  unfolding conv_only_def tenant_frame_def by (auto simp: db_frame_def)

lemma upsert_conversation_tenant: "state_io_rel (tenant_frame t) (Exec (upsert_conversation t number name lastAt pic now))"
  unfolding upsert_conversation_def by (intro keeps_stmts) auto

lemma conversation_tx_tenant:
  "state_io_rel (tenant_frame t) (conversation_tx (upsert_conversation t number name lastAt pic now))"
  unfolding state_io_rel_def
proof
  fix w
  let ?q = "upsert_conversation t number name lastAt pic now"
  obtain res w' where run: "run_state (conversation_tx ?q) w = (res, w')" by (cases "run_state (conversation_tx ?q) w")
  show "tenant_frame t w (snd (run_state (conversation_tx ?q) w))"
  proof (cases res)
    case (Inl e)
    have "conv_only w w'" using tx_only run by (metis snd_conv state_io_rel_def)
    moreover have "tb_rows (conversations (w_db w')) = tb_rows (conversations (w_db w))"
      using conversation_tx_error run Inl by blast
    ultimately have "tenant_frame t w w'" by (intro conv_only_frame) (simp_all add: same_rows_def)
    then show ?thesis by (simp add: run)
  next
    case (Inr row)
    have "?q (w_sess w) (w_db w) = (Inr row, w_db w')" using conversation_tx_done run Inr by blast
    moreover have "tenant_frame t (w\<lparr>w_faults := []\<rparr>) (snd (run_state (Exec ?q) (w\<lparr>w_faults := []\<rparr>)))"
      using upsert_conversation_tenant by (simp add: state_io_rel_def)
    ultimately show ?thesis by (simp add: run Exec_def tenant_frame_def)
  qed
qed

lemma UpsertConversation_tenant [intro]: "state_io_rel (tenant_frame t) (UpsertConversation t client chat name lastAt)"
  unfolding UpsertConversation_def Let_def
  by (intro tenant.keeps_intros conversation_tx_tenant)

lemma insertMessage_tenant [intro]: "state_io_rel (tenant_frame t) (insertMessage t conv info content chat media)"
  unfolding insertMessage_def select_message_def insert_message_def Let_def
  by (intro tenant.keeps_intros keeps_stmts) auto

lemma Enqueue_tenant [intro]: "state_io_rel (tenant_frame t) (Enqueue m)"
  unfolding Enqueue_def Let_def by (intro tenant.keeps_intros tenant.keeps_faulty)

lemma handleMessage_tenant [intro]: "state_io_rel (tenant_frame t) (handleMessage q t client info msg chat name)"
  unfolding handleMessage_def Let_def
  by (intro tenant.keeps_intros UpsertConversation_tenant insertMessage_tenant Enqueue_tenant)

lemma history_messages_tenant [intro]: "state_io_rel (tenant_frame t) (history_messages q t client chat name es)"
  by (induction q t client chat name es rule: history_messages.induct)
    (simp_all add: tenant.keeps_return tenant.keeps_bind handleMessage_tenant)

lemma handleHistorySync_tenant [intro]: "state_io_rel (tenant_frame t) (handleHistorySync q t client h)"
  by (induction q t client h rule: handleHistorySync.induct)
    (auto intro!: tenant.keeps_intros history_messages_tenant)

lemma on_event_tenant [intro]: "state_io_rel (tenant_frame t) (on_event q t client e)"
  by (cases e) auto

text \<open>
  Tenant isolation of the WhatsApp sync. Whatever events a device delivers, and whatever
  fails on the way, handling them for a tenant changes no row of another tenant in any table,
  with row-level security or without it.
\<close>

theorem sync_isolated:
  "db_frame t (w_db w) (w_db (snd (run_state (on_events q t client es) w)))"
proof -
  have "state_io_rel (tenant_frame t) (on_events q t client es)"
    by (induction q t client es rule: on_events.induct) (auto intro!: tenant.keeps_intros)
  then show ?thesis by (simp add: state_io_rel_def tenant_frame_def)
qed

section \<open>Invariants of the database\<close>

text \<open>
  A property of the database that every step keeps is a frame relation of its own; a callback
  may use that its session is the tenant's.
\<close>

definition inv_frame :: "(db \<Rightarrow> bool) \<Rightarrow> world \<Rightarrow> world \<Rightarrow> bool" where
  "inv_frame I w w' \<longleftrightarrow> (I (w_db w) \<longrightarrow> I (w_db w'))"

interpretation inv: frame_relation "inv_frame I" for I
  by unfold_locales (auto simp: inv_frame_def)

lemma inv_ExecI: "(\<And>s d. I d \<Longrightarrow> I (snd (q s d))) \<Longrightarrow> state_io_rel (inv_frame I) (Exec q)"
  by (rule inv.keeps_Exec) (simp add: inv_frame_def)

lemma WithTenantConn_session:
  assumes "\<And>v. ss_tenant (w_sess v) = Some t \<Longrightarrow> I (w_db v) \<Longrightarrow> I (w_db (snd (run_state fn v)))"
  shows "state_io_rel (inv_frame I) (WithTenantConn t fn)"
  unfolding state_io_rel_def
proof
  fix w
  have reset: "w_db (snd (run_state (SetTenant x) v)) = w_db v" for v x
    by (auto simp: SetTenant_def faulty_def split: list.split)
  obtain a u1 where a: "run_state Acquire w = (a, u1)" by (cases "run_state Acquire w")
  have u1: "w_db u1 = w_db w" using a by (auto simp: Acquire_def faulty_def split: list.splits if_splits)
  obtain b u2 where b: "run_state (SetTenant (Some t)) u1 = (b, u2)" by (cases "run_state (SetTenant (Some t)) u1")
  have u2: "w_db u2 = w_db w" "b = Inr () \<Longrightarrow> ss_tenant (w_sess u2) = Some t"
    using b u1 by (auto simp: SetTenant_def faulty_def split: list.splits if_splits)
  show "inv_frame I w (snd (run_state (WithTenantConn t fn) w))"
    using a b u1 u2 assms [of u2] by (auto simp: inv_frame_def WithTenantConn_def split_beta reset split: sum.splits)
qed

text \<open>
  One conversation per tenant and contact, one message per tenant and WhatsApp id, and every
  message in a conversation that exists.
\<close>

definition wa_keys :: "message_row list \<Rightarrow> (int \<times> string) list" where
  "wa_keys ms = concat (map (\<lambda>m. case whatsapp_id m of None \<Rightarrow> [] | Some s \<Rightarrow> [(ms_tenant m, s)]) ms)"

definition sync_inv :: "db \<Rightarrow> bool" where
  "sync_inv d \<longleftrightarrow>
     distinct (map (\<lambda>c. (cv_tenant c, cv_number c)) (tb_rows (conversations d))) \<and>
     distinct (wa_keys (tb_rows (messages d))) \<and>
     (\<forall>m \<in> set (tb_rows (messages d)). has_key cv_id (ms_conv m) (conversations d))"

lemma wa_keys_simps [simp]:
  "wa_keys [] = []"
  "wa_keys (ms @ [m]) = wa_keys ms @ (case whatsapp_id m of None \<Rightarrow> [] | Some s \<Rightarrow> [(ms_tenant m, s)])"
  by (simp_all add: wa_keys_def)

lemma in_wa_keys: "(t, s) \<in> set (wa_keys ms) \<longleftrightarrow> (\<exists>m \<in> set ms. ms_tenant m = t \<and> whatsapp_id m = Some s)"
proof (induction ms)
  case (Cons m ms)
  have "wa_keys (m # ms) = (case whatsapp_id m of None \<Rightarrow> [] | Some s \<Rightarrow> [(ms_tenant m, s)]) @ wa_keys ms"
    by (simp add: wa_keys_def)
  with Cons show ?case by (auto split: option.splits)
qed simp

lemma whatsapp_id_meta [simp]:
  "whatsapp_id \<lparr>ms_id = i, ms_tenant = t, ms_conv = c, ms_sender = s, ms_content = x, ms_time = n,
     ms_meta = Some (message_meta info chat media from), ms_created = now\<rparr> = Some (mi_id info)"
  by (cases media) (simp_all add: whatsapp_id_def message_meta_def)

lemma has_key_map: "has_key key i t \<longleftrightarrow> i \<in> set (map key (tb_rows t))"
  by (auto simp: has_key_def)

lemma upsert_conversation_inv:
  assumes "sync_inv d"
  shows "sync_inv (snd (upsert_conversation t number name lastAt pic now s d))"
proof -
  let ?d = "snd (upsert_conversation t number name lastAt pic now s d)"
  have "distinct (map (\<lambda>c. (cv_tenant c, cv_number c)) (tb_rows (conversations ?d)))"
    unfolding upsert_conversation_def using assms
    by (intro upsert_distinct [where get = conversations and key = "\<lambda>c. (cv_tenant c, cv_number c)" and k = "(t, number)"])
      (auto simp: sync_inv_def)
  moreover have "messages ?d = messages d"
    by (auto simp: upsert_conversation_def sql_upsert_def Let_def split: option.split)
  moreover have "map cv_id (tb_rows (conversations ?d)) = map cv_id (tb_rows (conversations d)) \<or>
      (\<exists>i. map cv_id (tb_rows (conversations ?d)) = map cv_id (tb_rows (conversations d)) @ [i])"
    by (simp add: upsert_conversation_def sql_upsert_def Let_def map_update_where split: option.split)
  then have "has_key cv_id i (conversations d) \<Longrightarrow> has_key cv_id i (conversations ?d)" for i
    unfolding has_key_map by (metis in_set_conv_decomp append_Cons append_assoc)
  ultimately show ?thesis using assms by (simp add: sync_inv_def)
qed

lemma conversation_tx_inv:
  "state_io_rel (inv_frame sync_inv) (conversation_tx (upsert_conversation t number name lastAt pic now))"
  unfolding state_io_rel_def
proof
  fix w
  let ?q = "upsert_conversation t number name lastAt pic now"
  obtain res w' where run: "run_state (conversation_tx ?q) w = (res, w')" by (cases "run_state (conversation_tx ?q) w")
  show "inv_frame sync_inv w (snd (run_state (conversation_tx ?q) w))"
  proof (cases res)
    case (Inl e)
    have "conv_only w w'" using tx_only run by (metis snd_conv state_io_rel_def)
    moreover have "tb_rows (conversations (w_db w')) = tb_rows (conversations (w_db w))"
      using conversation_tx_error run Inl by blast
    ultimately show ?thesis by (auto simp: run inv_frame_def sync_inv_def conv_only_def has_key_def)
  next
    case (Inr row)
    have "?q (w_sess w) (w_db w) = (Inr row, w_db w')" using conversation_tx_done run Inr by blast
    with upsert_conversation_inv [of "w_db w" t number name lastAt pic now "w_sess w"] show ?thesis
      by (simp add: run inv_frame_def)
  qed
qed

lemma insertMessage_inv: "state_io_rel (inv_frame sync_inv) (insertMessage t conv info content chat media)"
proof -
  let ?sender = "if mi_fromMe info then ''me'' else j_text (mi_sender info)"
  let ?ins = "\<lambda>now. insert_message t conv ?sender content (mi_time info) (Some (message_meta info chat media ?sender)) now"
  let ?fn = "\<lambda>now. do {
       found \<leftarrow> Exec (select_message t (mi_id info));
       case found of
         Inr m \<Rightarrow> ok (ms_id m)
       | Inl e \<Rightarrow>
           if e \<noteq> NoRows then err e
           else
             let sender = ?sender in
             then_ok (Exec (insert_message t conv sender content (mi_time info)
                (Some (message_meta info chat media sender)) now)) (\<lambda>m. ok (ms_id m))
     }"
  have "sync_inv (w_db (snd (run_state (?fn now) v)))"
    if v: "ss_tenant (w_sess v) = Some t" "sync_inv (w_db v)" for v now
  proof -
    obtain f v1 where f: "run_state (Exec (select_message t (mi_id info))) v = (f, v1)"
      by (cases "run_state (Exec (select_message t (mi_id info))) v")
    have v1: "w_db v1 = w_db v" "w_sess v1 = w_sess v"
      using f by (auto simp: Exec_def faulty_def split_beta select_message_def sql_row_def split: list.splits if_splits option.splits)
    have new: "(t, mi_id info) \<notin> set (wa_keys (tb_rows (messages (w_db v))))" if "f = Inl NoRows"
    proof -
      have "fst (select_message t (mi_id info) (w_sess v) (w_db v)) = Inl NoRows"
        using f that by (auto simp: Exec_def faulty_def split_beta split: list.splits if_splits)
      then show ?thesis
        using v(1) by (auto simp: select_message_def sql_row_def visible_def in_wa_keys filter_empty_conv split: option.splits)
    qed
    have "sync_inv (snd (?ins now (w_sess v) (w_db v)))" if "f = Inl NoRows"
      using v(2) new [OF that] by (auto simp: insert_message_def sql_insert_def Let_def sync_inv_def has_key_def)
    then have "f = Inl NoRows \<Longrightarrow> sync_inv (w_db (snd (run_state (Exec (?ins now)) v1)))"
      using v(2) by (auto simp: Exec_def faulty_def split_beta v1 split: list.split)
    with f v1 v(2) show ?thesis
      by (auto simp: state_simps Let_def split: sum.split prod.split)
  qed
  then have main: "state_io_rel (inv_frame sync_inv) (WithTenantConn t (?fn now))" for now
    by (rule WithTenantConn_session)
  show ?thesis
    unfolding insertMessage_def
    by (intro inv.keeps_bind inv.keeps_Now inv.keeps_return main)
qed

lemma handleMessage_inv: "state_io_rel (inv_frame sync_inv) (handleMessage q t client info msg chat name)"
  unfolding handleMessage_def UpsertConversation_def Enqueue_def Let_def
  by (intro inv.keeps_intros inv.keeps_faulty conversation_tx_inv insertMessage_inv)

lemma on_event_inv: "state_io_rel (inv_frame sync_inv) (on_event q t client e)"
proof (cases e)
  case (HistoryEvt h)
  have "state_io_rel (inv_frame sync_inv) (history_messages q t client chat name ms)" for chat name ms
    by (induction q t client chat name ms rule: history_messages.induct)
      (simp_all add: inv.keeps_return inv.keeps_bind handleMessage_inv)
  then have "state_io_rel (inv_frame sync_inv) (handleHistorySync q t client h)"
    by (induction q t client h rule: handleHistorySync.induct) (auto intro!: inv.keeps_intros)
  then show ?thesis by (simp add: HistoryEvt)
qed (simp add: handleMessage_inv)

text \<open>
  The sync stores every message once. Whatever events are delivered, in whatever order
  and however often, and whichever database calls fail, the tables keep one conversation per
  tenant and contact, one message per tenant and WhatsApp id, and no message without its
  conversation.
\<close>

theorem sync_stores_once:
  "sync_inv (w_db w) \<Longrightarrow> sync_inv (w_db (snd (run_state (on_events q t client es) w)))"
proof -
  have "state_io_rel (inv_frame sync_inv) (on_events q t client es)"
    by (induction q t client es rule: on_events.induct) (auto intro!: inv.keeps_intros on_event_inv)
  then show "sync_inv (w_db w) \<Longrightarrow> ?thesis" by (simp add: state_io_rel_def inv_frame_def)
qed

section \<open>What one message does\<close>

lemma visible_set [simp]: "visible (s\<lparr>ss_tenant := Some t\<rparr>) t"
  by (simp add: visible_def)

text \<open>The row the upsert returns, and the table it leaves.\<close>

lemma upsert_conversation_run:
  fixes name pic number :: string and now lastAt t :: int
  defines "new \<equiv> \<lambda>d. \<lparr>cv_id = tb_seq (conversations d) + 1, cv_tenant = t, cv_number = number, cv_name = Some name,
             cv_last = Some lastAt, cv_created = now, cv_pic = Some pic\<rparr>"
    and "merge \<equiv> \<lambda>r. r\<lparr>cv_last := Some (greatest (cv_last r) lastAt), cv_name := merge_text name (cv_name r),
              cv_pic := merge_text pic (cv_pic r)\<rparr>"
  shows "ss_tenant s = Some t \<Longrightarrow> upsert_conversation t number name lastAt pic now s d =
    (case first_of (filter (\<lambda>r. cv_tenant r = t \<and> cv_number r = number) (tb_rows (conversations d))) of
       None \<Rightarrow> (Inr (new d), conversations_update (\<lambda>T. T\<lparr>tb_rows := tb_rows T @ [new d], tb_seq := tb_seq (conversations d) + 1\<rparr>) d)
     | Some old \<Rightarrow> (Inr (merge old),
         conversations_update (\<lambda>T. T\<lparr>tb_rows := update_where (\<lambda>r. cv_tenant r = t \<and> cv_number r = number) merge (tb_rows T),
            tb_seq := tb_seq (conversations d) + 1\<rparr>) d))"
  unfolding new_def merge_def
  by (auto simp: upsert_conversation_def sql_upsert_def Let_def visible_def split: option.split
      dest: first_of_filter_SomeD)

lemma UpsertConversation_run:
  fixes t lastAt :: int and client :: wa_client and chat :: jid and name :: string
  assumes "w_faults w = []"
  defines "q \<equiv> upsert_conversation t (contact_number chat) (resolve_name client chat name) lastAt
      (case wc_picture client chat of None \<Rightarrow> [] | Some url \<Rightarrow> url) (w_now w) ((w_sess w)\<lparr>ss_tenant := Some t\<rparr>) (w_db w)"
  shows "run_state (UpsertConversation t client chat name lastAt) w =
    (map_sum id cv_id (fst q), w\<lparr>w_db := snd q, w_sess := (w_sess w)\<lparr>ss_tenant := None\<rparr>\<rparr>)"
proof -
  have "\<exists>row d. q = (Inr row, d)"
    unfolding q_def by (simp add: upsert_conversation_run split: option.split)
  then obtain row d where q: "q = (Inr row, d)" by blast
  then show ?thesis
    using assms(1)
    by (simp add: UpsertConversation_def state_simps conversation_tx_def q [unfolded q_def] Let_def split_beta)
qed

lemma insertMessage_known:
  assumes "w_faults w = []" "m \<in> set (tb_rows (messages (w_db w)))" "ms_tenant m = t"
    "whatsapp_id m = Some (mi_id info)"
  shows "\<exists>mid. run_state (insertMessage t conv info content chat media) w =
    (Inr (mid, True), w\<lparr>w_sess := (w_sess w)\<lparr>ss_tenant := None\<rparr>\<rparr>)"
proof -
  let ?s = "(w_sess w)\<lparr>ss_tenant := Some t\<rparr>"
  let ?P = "\<lambda>m. visible ?s (ms_tenant m) \<and> ms_tenant m = t \<and> whatsapp_id m = Some (mi_id info)"
  have "?P m" using assms(3,4) by simp
  then obtain m' where "first_of (filter ?P (tb_rows (messages (w_db w)))) = Some m'"
    using first_of_filter_NoneD [of ?P _ m] assms(2) by (cases "first_of (filter ?P (tb_rows (messages (w_db w))))") blast+
  then have "select_message t (mi_id info) ?s (w_db w) = (Inr m', w_db w)"
    by (simp add: select_message_def sql_row_def)
  then show ?thesis
    using assms(1) by (simp add: insertMessage_def state_simps)
qed

lemma insertMessage_new:
  assumes "w_faults w = []" "has_key cv_id conv (conversations (w_db w))"
    "\<forall>m \<in> set (tb_rows (messages (w_db w))). ms_tenant m = t \<longrightarrow> whatsapp_id m \<noteq> Some (mi_id info)"
  shows "\<exists>mid sender. run_state (insertMessage t conv info content chat media) w =
    (Inr (mid, True), w\<lparr>w_db := (w_db w)\<lparr>messages := \<lparr>tb_rows = tb_rows (messages (w_db w)) @
       [\<lparr>ms_id = mid, ms_tenant = t, ms_conv = conv, ms_sender = sender, ms_content = content, ms_time = mi_time info,
         ms_meta = Some (message_meta info chat media sender), ms_created = w_now w\<rparr>], tb_seq = mid\<rparr>\<rparr>,
       w_sess := (w_sess w)\<lparr>ss_tenant := None\<rparr>\<rparr>)"
proof -
  have "filter (\<lambda>m. visible s (ms_tenant m) \<and> ms_tenant m = t \<and> whatsapp_id m = Some (mi_id info))
      (tb_rows (messages (w_db w))) = []" for s
    using assms(3) by (auto simp: filter_empty_conv)
  then have none: "select_message t (mi_id info) s (w_db w) = (Inl NoRows, w_db w)" for s
    by (simp add: select_message_def sql_row_def)
  show ?thesis
    using assms(1,2) none
    by (intro exI [of _ "tb_seq (messages (w_db w)) + 1"] exI [of _ "if mi_fromMe info then ''me'' else j_text (mi_sender info)"])
      (simp add: insertMessage_def state_simps insert_message_def sql_insert_def Let_def)
qed

text \<open>
  A replayed message is processed again. When a message that is already stored is
  delivered once more (as the history sync does after every reconnect), nothing is stored,
  but it is queued for analysis and announced to the tenant's clients as if it were new:
  \<open>insertMessage\<close> reports \<open>inserted\<close> for a message it merely found.
\<close>

theorem replay_is_reprocessed:
  fixes client :: wa_client and chat :: jid and name :: string
  assumes "w_faults w = []" "w_hub w" "mi_id info \<noteq> []" "extractText msg \<noteq> []"
    and "m \<in> set (tb_rows (messages (w_db w)))" "ms_tenant m = t" "whatsapp_id m = Some (mi_id info)"
    and "0 \<le> tb_seq (conversations (w_db w))" "\<forall>c \<in> set (tb_rows (conversations (w_db w))). 0 < cv_id c"
  defines "w' \<equiv> snd (run_state (handleMessage True t client info msg chat name) w)"
  shows "messages (w_db w') = messages (w_db w) \<and>
    (\<exists>mid. w_queue w' (queueKey t) = \<lparr>qm_tenant = t, qm_message = mid, qm_content = extractText msg,
         qm_feature = ''analysis'', qm_created = w_now w\<rparr> # w_queue w (queueKey t)) \<and>
    (\<exists>payload. w_bcast w' = w_bcast w @ [(t, payload)])"
proof -
  let ?name = "if name = [] then TrimSpace (mi_push info) else name"
  define q where "q = upsert_conversation t (contact_number chat) (resolve_name client chat ?name) (mi_time info)
      (case wc_picture client chat of None \<Rightarrow> [] | Some url \<Rightarrow> url) (w_now w) ((w_sess w)\<lparr>ss_tenant := Some t\<rparr>) (w_db w)"
  have "\<exists>row. fst q = Inr row \<and> 0 < cv_id row \<and> messages (snd q) = messages (w_db w)"
    unfolding q_def using assms(8,9)
    by (auto simp: upsert_conversation_run split: option.split dest: first_of_filter_SomeD)
  then obtain row where row: "fst q = Inr row" "0 < cv_id row" "messages (snd q) = messages (w_db w)" by blast
  let ?w1 = "w\<lparr>w_db := snd q, w_sess := (w_sess w)\<lparr>ss_tenant := None\<rparr>\<rparr>"
  have up: "run_state (UpsertConversation t client chat ?name (mi_time info)) w = (Inr (cv_id row), ?w1)"
    using UpsertConversation_run [OF assms(1), of t client chat ?name "mi_time info"] row(1) by (simp add: q_def)
  have w1: "w_faults ?w1 = []" "m \<in> set (tb_rows (messages (w_db ?w1)))" using assms(1,5) row(3) by simp_all
  obtain mid where ins: "run_state (insertMessage t (cv_id row) info (extractText msg) chat (extractMediaInfo msg)) ?w1 =
      (Inr (mid, True), ?w1\<lparr>w_sess := (w_sess ?w1)\<lparr>ss_tenant := None\<rparr>\<rparr>)"
    using insertMessage_known [OF w1 assms(6,7)] by blast
  have content: "(case extractMediaInfo msg of Some m \<Rightarrow> if extractText msg = [] then ''['' @ me_type m @ '']'' else extractText msg
      | None \<Rightarrow> extractText msg) = extractText msg"
    using assms(4) by (simp split: option.split)
  have "run_state (handleMessage True t client info msg chat name) w =
     run_state (do {
       now \<leftarrow> Now;
       _ \<leftarrow> Enqueue \<lparr>qm_tenant = t, qm_message = mid, qm_content = extractText msg, qm_feature = ''analysis'', qm_created = now\<rparr>;
       HubBroadcast t (received_payload mid (cv_id row))
     }) (?w1\<lparr>w_sess := (w_sess ?w1)\<lparr>ss_tenant := None\<rparr>\<rparr>)"
    using assms(3,4) up ins row(2)
    unfolding handleMessage_def Let_def content by (simp del: world.simps)
  then show ?thesis
    unfolding w'_def using assms(1,2) row(3) by (simp add: run_Enqueue run_HubBroadcast)
qed

text \<open>A sample phone, message and world for the witnesses.\<close>

definition sample_client :: wa_client where
  "sample_client = \<lparr>wc_id = Some ''491'', wc_group = (\<lambda>_. Some ''Family''), wc_contact = (\<lambda>_. None),
     wc_picture = (\<lambda>_. None)\<rparr>"

definition sample_chat :: jid where
  "sample_chat = \<lparr>j_user = ''12036'', j_server = ''g.us'', j_text = ''12036@g.us''\<rparr>"

definition sample_info :: message_info where
  "sample_info = \<lparr>mi_id = ''A1'', mi_chat = sample_chat,
     mi_sender = \<lparr>j_user = ''492'', j_server = ''s.whatsapp.net'', j_text = ''492@s.whatsapp.net''\<rparr>,
     mi_fromMe = False, mi_push = ''Bob'', mi_time = 5\<rparr>"

definition sample_text :: "wa_message option" where
  "sample_text = Some \<lparr>wm_conversation = ''hi'', wm_extended = [], wm_image = None, wm_video = None,
     wm_audio = None, wm_document = None, wm_sticker = None, wm_buttons = [], wm_list = [],
     wm_template = [], wm_poll = []\<rparr>"

definition sync_row :: message_row where
  "sync_row = \<lparr>ms_id = 1, ms_tenant = 3, ms_conv = 1, ms_sender = ''492@s.whatsapp.net'', ms_content = ''hi'',
     ms_time = 5, ms_meta = Some (message_meta sample_info sample_chat None ''492@s.whatsapp.net''), ms_created = 5\<rparr>"

definition group_row :: conversation_row where
  "group_row = \<lparr>cv_id = 1, cv_tenant = 3, cv_number = ''12036'', cv_name = Some ''Family'', cv_last = Some 4,
     cv_created = 0, cv_pic = None\<rparr>"

definition sync_world :: "message_row list \<Rightarrow> world" where
  "sync_world ms = (sample_world ''admin'')\<lparr>w_db := (w_db (sample_world ''admin''))
     \<lparr>conversations := \<lparr>tb_rows = [group_row], tb_seq = 1\<rparr>, messages := \<lparr>tb_rows = ms, tb_seq = 1\<rparr>\<rparr>\<rparr>"

lemma sync_world_simps [simp]:
  "w_faults (sync_world ms) = []" "w_hub (sync_world ms)" "tb_rows (messages (w_db (sync_world ms))) = ms"
  "tb_seq (conversations (w_db (sync_world ms))) = 1"
  "tb_rows (conversations (w_db (sync_world ms))) = [group_row]"
  "w_bcast (sync_world ms) = []" "w_now (sync_world ms) = 0"
  by (simp_all add: sync_world_def sample_world_def)

theorem sync_stores_once_witness:
  "sync_inv (w_db (snd (run_state (on_events True 3 sample_client
     [MessageEvt \<lparr>ev_info = sample_info, ev_message = sample_text\<rparr>,
      MessageEvt \<lparr>ev_info = sample_info, ev_message = sample_text\<rparr>]) (sync_world []))))"
  by (rule sync_stores_once) (simp add: sync_inv_def group_row_def)

theorem replay_is_reprocessed_witness:
  "\<exists>payload. w_bcast (snd (run_state (handleMessage True 3 sample_client sample_info sample_text sample_chat ''Bob'')
     (sync_world [sync_row]))) = [(3, payload)]"
  using replay_is_reprocessed [of "sync_world [sync_row]" sample_info sample_text sync_row 3 sample_client sample_chat "''Bob''"]
  by (simp add: sample_info_def sample_text_def extractText_def sync_row_def group_row_def)

lemma upsert_conversation_facts:
  fixes name pic number :: string and now lastAt t :: int
  assumes "ss_tenant s = Some t" "0 \<le> tb_seq (conversations d)" "\<forall>c \<in> set (tb_rows (conversations d)). 0 < cv_id c"
  defines "q \<equiv> upsert_conversation t number name lastAt pic now s d"
  shows "\<exists>row. fst q = Inr row \<and> 0 < cv_id row \<and> messages (snd q) = messages d \<and>
      (\<exists>c \<in> set (tb_rows (conversations (snd q))). cv_id c = cv_id row \<and> cv_tenant c = t \<and> cv_number c = number)"
proof (cases "first_of (filter (\<lambda>r. cv_tenant r = t \<and> cv_number r = number) (tb_rows (conversations d)))")
  case None
  with assms(2) show ?thesis unfolding q_def by (simp add: upsert_conversation_run [OF assms(1)])
next
  case (Some old)
  then have old: "old \<in> set (tb_rows (conversations d))" "cv_tenant old = t" "cv_number old = number"
    by (auto dest: first_of_filter_SomeD)
  let ?m = "\<lambda>r. r\<lparr>cv_last := Some (greatest (cv_last r) lastAt), cv_name := merge_text name (cv_name r),
              cv_pic := merge_text pic (cv_pic r)\<rparr>"
  have "?m old \<in> set (update_where (\<lambda>r. cv_tenant r = t \<and> cv_number r = number) ?m (tb_rows (conversations d)))"
    unfolding in_update_where using old by (intro bexI [of _ old]) simp_all
  with old assms(3) Some show ?thesis
    unfolding q_def by (simp add: upsert_conversation_run [OF assms(1)]) (metis (lifting) conversation_row.select_convs(1-3) conversation_row.surjective conversation_row.update_convs(4,5,7))
qed

text \<open>
  A new message. Without faults, a message not seen before is stored as one row of the
  conversation of its chat (which exists afterwards), with its text, time and sender, queued
  for analysis under the id it was stored with, and announced once.
\<close>

lemma handleMessage_new:
  fixes client :: wa_client and chat :: jid and name :: string
  assumes "w_faults w = []" "w_hub w" "mi_id info \<noteq> []" "extractText msg \<noteq> []"
    and "\<forall>m \<in> set (tb_rows (messages (w_db w))). ms_tenant m = t \<longrightarrow> whatsapp_id m \<noteq> Some (mi_id info)"
    and "0 \<le> tb_seq (conversations (w_db w))" "\<forall>c \<in> set (tb_rows (conversations (w_db w))). 0 < cv_id c"
  defines "w' \<equiv> snd (run_state (handleMessage True t client info msg chat name) w)"
  shows "w_faults w' = [] \<and> w_hub w' \<and> (\<exists>row. tb_rows (messages (w_db w')) = tb_rows (messages (w_db w)) @ [row] \<and>
    ms_tenant row = t \<and> ms_content row = extractText msg \<and> ms_time row = mi_time info \<and>
    whatsapp_id row = Some (mi_id info) \<and>
    (\<exists>c \<in> set (tb_rows (conversations (w_db w'))). cv_id c = ms_conv row \<and> cv_tenant c = t \<and> cv_number c = contact_number chat) \<and>
    w_queue w' (queueKey t) = \<lparr>qm_tenant = t, qm_message = ms_id row, qm_content = extractText msg,
         qm_feature = ''analysis'', qm_created = w_now w\<rparr> # w_queue w (queueKey t) \<and>
    w_bcast w' = w_bcast w @ [(t, received_payload (ms_id row) (ms_conv row))])"
proof -
  let ?name = "if name = [] then TrimSpace (mi_push info) else name"
  define q where "q = upsert_conversation t (contact_number chat) (resolve_name client chat ?name) (mi_time info)
      (case wc_picture client chat of None \<Rightarrow> [] | Some url \<Rightarrow> url) (w_now w) ((w_sess w)\<lparr>ss_tenant := Some t\<rparr>) (w_db w)"
  have "\<exists>row. fst q = Inr row \<and> 0 < cv_id row \<and> messages (snd q) = messages (w_db w) \<and>
      (\<exists>c \<in> set (tb_rows (conversations (snd q))). cv_id c = cv_id row \<and> cv_tenant c = t \<and> cv_number c = contact_number chat)"
    unfolding q_def by (rule upsert_conversation_facts) (use assms(6,7) in simp_all)
  then obtain row where row: "fst q = Inr row" "0 < cv_id row" "messages (snd q) = messages (w_db w)"
    "\<exists>c \<in> set (tb_rows (conversations (snd q))). cv_id c = cv_id row \<and> cv_tenant c = t \<and> cv_number c = contact_number chat"
    by blast
  let ?w1 = "w\<lparr>w_db := snd q, w_sess := (w_sess w)\<lparr>ss_tenant := None\<rparr>\<rparr>"
  have up: "run_state (UpsertConversation t client chat ?name (mi_time info)) w = (Inr (cv_id row), ?w1)"
    using UpsertConversation_run [OF assms(1), of t client chat ?name "mi_time info"] row(1) by (simp add: q_def)
  have w1: "w_faults ?w1 = []" "has_key cv_id (cv_id row) (conversations (w_db ?w1))"
    "\<forall>m \<in> set (tb_rows (messages (w_db ?w1))). ms_tenant m = t \<longrightarrow> whatsapp_id m \<noteq> Some (mi_id info)"
    using assms(1,5) row(3,4) by (auto simp: has_key_def)
  obtain mid sender where ins: "run_state (insertMessage t (cv_id row) info (extractText msg) chat (extractMediaInfo msg)) ?w1 =
    (Inr (mid, True), ?w1\<lparr>w_db := (w_db ?w1)\<lparr>messages := \<lparr>tb_rows = tb_rows (messages (w_db ?w1)) @
       [\<lparr>ms_id = mid, ms_tenant = t, ms_conv = cv_id row, ms_sender = sender, ms_content = extractText msg, ms_time = mi_time info,
         ms_meta = Some (message_meta info chat (extractMediaInfo msg) sender), ms_created = w_now ?w1\<rparr>], tb_seq = mid\<rparr>\<rparr>,
       w_sess := (w_sess ?w1)\<lparr>ss_tenant := None\<rparr>\<rparr>)"
    using insertMessage_new [OF w1] by blast
  have content: "(case extractMediaInfo msg of Some m \<Rightarrow> if extractText msg = [] then ''['' @ me_type m @ '']'' else extractText msg
      | None \<Rightarrow> extractText msg) = extractText msg"
    using assms(4) by (simp split: option.split)
  let ?new = "\<lparr>ms_id = mid, ms_tenant = t, ms_conv = cv_id row, ms_sender = sender, ms_content = extractText msg, ms_time = mi_time info,
         ms_meta = Some (message_meta info chat (extractMediaInfo msg) sender), ms_created = w_now w\<rparr>"
  have "run_state (handleMessage True t client info msg chat name) w =
     run_state (do {
       now \<leftarrow> Now;
       _ \<leftarrow> Enqueue \<lparr>qm_tenant = t, qm_message = mid, qm_content = extractText msg, qm_feature = ''analysis'', qm_created = now\<rparr>;
       HubBroadcast t (received_payload mid (cv_id row))
     }) (?w1\<lparr>w_db := (w_db ?w1)\<lparr>messages := \<lparr>tb_rows = tb_rows (messages (w_db ?w1)) @ [?new], tb_seq = mid\<rparr>\<rparr>,
       w_sess := (w_sess ?w1)\<lparr>ss_tenant := None\<rparr>\<rparr>)"
    using assms(3,4) up ins row(2)
    unfolding handleMessage_def Let_def content by (simp del: world.simps)
  then show ?thesis
    unfolding w'_def using assms(1,2) row(3,4)
    by (intro conjI exI [of _ ?new]) (simp_all add: run_Enqueue run_HubBroadcast)
qed

section \<open>Names of conversations\<close>

definition same_convs :: "world \<Rightarrow> world \<Rightarrow> bool" where
  "same_convs w w' \<longleftrightarrow> tb_rows (conversations (w_db w')) = tb_rows (conversations (w_db w))"

interpretation samec: frame_relation same_convs
  by unfold_locales (auto simp: same_convs_def)

lemma insertMessage_convs: "state_io_rel same_convs (insertMessage t conv info content chat media)"
  unfolding insertMessage_def Let_def
  by (intro samec.keeps_intros samec.keeps_Exec)
    (auto simp: same_convs_def select_message_def sql_row_def insert_message_def sql_insert_def Let_def split: option.split)

lemma Enqueue_convs: "state_io_rel same_convs (Enqueue m)"
  unfolding Enqueue_def Let_def by (intro samec.keeps_intros samec.keeps_faulty)

text \<open>What \<open>handleMessage\<close> does to the conversations is what the upsert does.\<close>

lemma handleMessage_convs:
  fixes name :: string
  assumes "w_faults w = []" "extractText msg \<noteq> [] \<or> extractMediaInfo msg \<noteq> None" "mi_id info \<noteq> []"
  defines "nm \<equiv> if name = [] then TrimSpace (mi_push info) else name"
  shows "tb_rows (conversations (w_db (snd (run_state (handleMessage q t client info msg chat name) w)))) =
    tb_rows (conversations (snd (upsert_conversation t (contact_number chat) (resolve_name client chat nm) (mi_time info)
      (case wc_picture client chat of None \<Rightarrow> [] | Some url \<Rightarrow> url) (w_now w) ((w_sess w)\<lparr>ss_tenant := Some t\<rparr>) (w_db w))))"
proof -
  define u where "u = upsert_conversation t (contact_number chat) (resolve_name client chat nm) (mi_time info)
      (case wc_picture client chat of None \<Rightarrow> [] | Some url \<Rightarrow> url) (w_now w) ((w_sess w)\<lparr>ss_tenant := Some t\<rparr>) (w_db w)"
  let ?w1 = "w\<lparr>w_db := snd u, w_sess := (w_sess w)\<lparr>ss_tenant := None\<rparr>\<rparr>"
  have up: "run_state (UpsertConversation t client chat nm (mi_time info)) w = (map_sum id cv_id (fst u), ?w1)"
    using UpsertConversation_run [OF assms(1), of t client chat nm "mi_time info"] by (simp add: u_def)
  let ?content = "case extractMediaInfo msg of Some m \<Rightarrow> if extractText msg = [] then ''['' @ me_type m @ '']'' else extractText msg
      | None \<Rightarrow> extractText msg"
  let ?rest = "\<lambda>conv. case conv of
            Inl (_::dberr) \<Rightarrow> State_Monad.return ()
          | Inr cid \<Rightarrow>
              if cid = 0 then State_Monad.return ()
              else do {
                res \<leftarrow> insertMessage t cid info ?content chat (extractMediaInfo msg);
                case res of
                  Inl _ \<Rightarrow> State_Monad.return ()
                | Inr (mid, inserted) \<Rightarrow>
                    if \<not> inserted then State_Monad.return ()
                    else do {
                      now \<leftarrow> Now;
                      _ \<leftarrow> (if q then Enqueue \<lparr>qm_tenant = t, qm_message = mid,
                               qm_content = ?content, qm_feature = ''analysis'', qm_created = now\<rparr>
                            else ok ());
                      HubBroadcast t (received_payload mid cid)
                    }
              }"
  have rest: "state_io_rel same_convs (?rest conv)" for conv
    by (intro samec.keeps_intros insertMessage_convs Enqueue_convs)
  have "run_state (handleMessage q t client info msg chat name) w = run_state (?rest (map_sum id cv_id (fst u))) ?w1"
    using assms(2,3) unfolding handleMessage_def Let_def nm_def [symmetric] run_state_bind by (auto simp: up)
  with rest [of "map_sum id cv_id (fst u)"] show ?thesis
    unfolding state_io_rel_def same_convs_def u_def [symmetric] by simp
qed

text \<open>
  Names. A live message renames its conversation to the push name of its sender: for a
  group chat the name of the group, which the client knows, is replaced by the name of
  whoever wrote last (the look-up of a better name only happens for a missing name).
\<close>

theorem live_message_renames:
  assumes "w_faults w = []" "sync_inv (w_db w)" "extractText (ev_message e) \<noteq> []" "mi_id (ev_info e) \<noteq> []"
    and "c \<in> set (tb_rows (conversations (w_db w)))" "cv_tenant c = t" "cv_number c = contact_number (mi_chat (ev_info e))"
    and "mi_push (ev_info e) \<noteq> []" "mi_push (ev_info e) \<noteq> contact_number (mi_chat (ev_info e))"
  shows "\<exists>c' \<in> set (tb_rows (conversations (w_db (snd (run_state (on_event q t client (MessageEvt e)) w))))).
    cv_id c' = cv_id c \<and> cv_number c' = cv_number c \<and> cv_name c' = Some (mi_push (ev_info e)) \<and>
    cv_last c' = Some (greatest (cv_last c) (mi_time (ev_info e)))"
proof -
  let ?chat = "mi_chat (ev_info e)" and ?p = "mi_push (ev_info e)" and ?rows = "tb_rows (conversations (w_db w))"
  let ?P = "\<lambda>r. cv_tenant r = t \<and> cv_number r = contact_number ?chat"
  have name: "resolve_name client ?chat ?p = ?p" using assms(8,9) by (simp add: resolve_name_def)
  have "first_of (filter ?P ?rows) \<noteq> None" using assms(5-7) by (auto simp: filter_empty_conv)
  then obtain old where old: "first_of (filter ?P ?rows) = Some old" by blast
  then have "old \<in> set ?rows" "cv_tenant old = t" "cv_number old = contact_number ?chat" by (auto dest: first_of_filter_SomeD)
  then have "old = c"
    using assms(2,5-7) by (auto simp: sync_inv_def dest: distinct_map_unique)
  let ?pic = "case wc_picture client ?chat of None \<Rightarrow> [] | Some url \<Rightarrow> url"
  let ?m = "\<lambda>r. r\<lparr>cv_last := Some (greatest (cv_last r) (mi_time (ev_info e))), cv_name := merge_text ?p (cv_name r),
              cv_pic := merge_text ?pic (cv_pic r)\<rparr>"
  have "tb_rows (conversations (w_db (snd (run_state (on_event q t client (MessageEvt e)) w)))) = update_where ?P ?m ?rows"
    using handleMessage_convs [OF assms(1) _ assms(4), where msg = "ev_message e" and name = ?p and q = q and t = t
      and client = client and chat = ?chat] assms(3,8) old
    by (simp add: name upsert_conversation_run)
  moreover have "?m c \<in> set (update_where ?P ?m ?rows)"
    unfolding in_update_where using assms(5-7) by (intro bexI [of _ c]) simp_all
  ultimately show ?thesis
    by (intro bexI [of _ "?m c"]) (simp_all add: merge_text_def assms(8))
qed

theorem live_message_renames_witness:
  "\<exists>c' \<in> set (tb_rows (conversations (w_db (snd (run_state (on_event True 3 sample_client
      (MessageEvt \<lparr>ev_info = sample_info, ev_message = sample_text\<rparr>)) (sync_world [])))))).
    cv_id c' = 1 \<and> cv_name c' = Some ''Bob''"
  using live_message_renames [of "sync_world []" "\<lparr>ev_info = sample_info, ev_message = sample_text\<rparr>" group_row 3 True sample_client]
  by (auto simp: sample_info_def sample_text_def extractText_def group_row_def sync_inv_def sample_chat_def contact_number_def)

end
