(* ===== verification/Float64.thy ===== *)
theory Float64
  imports Prelude
begin

text \<open>
  \<open>float64\<close> addition as Go and PostgreSQL's \<open>DOUBLE PRECISION\<close> do it: the exact result rounded to
  the nearest number of 53 significant bits, a tie to the even one. A float is the rational it
  stands for; the range of the exponent is not bounded here, so there is no overflow, no subnormal
  number, no infinity and no NaN. Each operation is rounded on its own, as on amd64: no fused
  multiplication and addition.
\<close>

section \<open>Rounding\<close>

definition round_even :: "rat \<Rightarrow> int" where
  "round_even x =
     (let f = \<lfloor>x\<rfloor>; r = x - of_int f
      in if r < 1 / 2 then f else if 1 / 2 < r then f + 1 else if even f then f else f + 1)"

text \<open>The number of binary digits, and the exponent of the leading bit of a positive number.\<close>

function bits :: "int \<Rightarrow> nat" where
  "bits n = (if n \<le> 0 then 0 else Suc (bits (n div 2)))"
  by auto
termination by (relation "measure nat") auto

declare bits.simps [simp del]

definition leading_bit :: "rat \<Rightarrow> int" where
  "leading_bit x =
     (let (n, d) = quotient_of x; e = int (bits n) - int (bits d)
      in if 2 powi e \<le> x then e else e - 1)"

definition fl64 :: "rat \<Rightarrow> rat" where
  "fl64 x =
     (if x = 0 then 0
      else let unit = 2 powi (leading_bit \<bar>x\<bar> - 52)
           in sgn x * (of_int (round_even (\<bar>x\<bar> / unit)) * unit))"

text \<open>A sum as a loop over a variable that starts at zero.\<close>

definition fsum :: "rat list \<Rightarrow> rat" where
  "fsum xs = foldl (\<lambda>a x. fl64 (a + x)) 0 xs"

section \<open>How far a sum is off\<close>

definition eps64 :: rat where
  "eps64 = 1 / 2 ^ 53"

lemma round_even_near: "\<bar>of_int (round_even x) - x\<bar> \<le> 1 / 2"
proof -
  define f where "f = \<lfloor>x\<rfloor>"
  have "of_int f \<le> x" "x < of_int f + 1" unfolding f_def by linarith+
  then show ?thesis by (auto simp: round_even_def Let_def f_def [symmetric] abs_le_iff)
qed

lemma bits_bounds: "0 < n \<Longrightarrow> 0 < bits n \<and> 2 ^ (bits n - 1) \<le> n \<and> n < 2 ^ bits n"
proof (induction n rule: bits.induct)
  case (1 n)
  show ?case
  proof (cases "n = 1")
    case False
    with 1 have IH: "0 < bits (n div 2)" "2 ^ (bits (n div 2) - 1) \<le> n div 2" "n div 2 < 2 ^ bits (n div 2)" by simp_all
    have "bits n = Suc (bits (n div 2))" using 1 by (subst bits.simps) simp
    moreover have "2 ^ bits (n div 2) = 2 * (2 :: int) ^ (bits (n div 2) - 1)"
      using IH(1) by (cases "bits (n div 2)") simp_all
    moreover define k where "k = (2 :: int) ^ (bits (n div 2) - 1)"
    ultimately have "2 ^ (bits n - 1) = 2 * k" "2 ^ bits n = 4 * k" "0 < bits n" by simp_all
    moreover have "k \<le> n div 2" "n div 2 < 2 * k"
      using IH(2,3) \<open>2 ^ bits (n div 2) = 2 * (2 :: int) ^ (bits (n div 2) - 1)\<close> by (simp_all only: k_def)
    moreover have "n div 2 * 2 \<le> n" "n < n div 2 * 2 + 2" by linarith+
    ultimately show ?thesis by auto
  qed (simp add: bits.simps)
qed

lemma leading_bit_le:
  assumes "0 < x"
  shows "2 powi leading_bit x \<le> x"
proof -
  obtain n d where q: "quotient_of x = (n, d)" by (cases "quotient_of x")
  then have d: "0 < d" and x: "x = of_int n / of_int d" by (simp_all add: quotient_of_denom_pos quotient_of_div)
  then have n: "0 < n" using assms by (simp add: zero_less_divide_iff)
  let ?a = "bits n" and ?b = "bits d"
  have a: "2 ^ (?a - 1) \<le> n" "0 < ?a" and b: "d < 2 ^ ?b" using bits_bounds n d by auto
  have "rat_of_int (2 ^ (?a - 1)) \<le> rat_of_int n" "rat_of_int d \<le> rat_of_int (2 ^ ?b)"
    using a(1) b by (simp_all only: of_int_le_iff less_imp_le)
  then have "(2 :: rat) ^ (?a - 1) \<le> of_int n" "of_int d \<le> (2 :: rat) ^ ?b" by simp_all
  then have "(2 :: rat) ^ (?a - 1) / 2 ^ ?b \<le> x"
    unfolding x using n d by (intro frac_le) auto
  moreover have "(2 :: rat) powi (int (k - 1) - int b) = 2 ^ (k - 1) / 2 ^ b" for k b
    by (subst power_int_diff) simp_all
  moreover have "int ?a - int ?b - 1 = int (?a - 1) - int ?b" using a(2) by linarith
  ultimately have "(2 :: rat) powi (int ?a - int ?b - 1) \<le> x" by metis
  then show ?thesis by (auto simp: leading_bit_def q Let_def)
qed

lemma fl64_zero [simp]: "fl64 0 = 0"
  by (simp add: fl64_def)

text \<open>One rounding is off by at most one part in \<open>2 ^ 53\<close>.\<close>

lemma fl64_near: "\<bar>fl64 x - x\<bar> \<le> eps64 * \<bar>x\<bar>"
proof (cases "x = 0")
  case False
  define u :: rat where "u = 2 powi (leading_bit \<bar>x\<bar> - 52)"
  define m :: rat where "m = of_int (round_even (\<bar>x\<bar> / u))"
  have u: "0 < u" by (simp add: u_def)
  have "2 powi leading_bit \<bar>x\<bar> \<le> \<bar>x\<bar>" using False by (intro leading_bit_le) simp
  then have small: "u / 2 \<le> eps64 * \<bar>x\<bar>" by (simp add: u_def eps64_def power_int_diff field_simps)
  have "\<bar>m - \<bar>x\<bar> / u\<bar> * u \<le> 1 / 2 * u"
    unfolding m_def using round_even_near u by (intro mult_right_mono) auto
  moreover have "\<bar>m - \<bar>x\<bar> / u\<bar> * u = \<bar>(m - \<bar>x\<bar> / u) * u\<bar>" using u by (simp add: abs_mult)
  moreover have "(m - \<bar>x\<bar> / u) * u = m * u - \<bar>x\<bar>" using u by (simp add: left_diff_distrib)
  ultimately have "\<bar>m * u - \<bar>x\<bar>\<bar> \<le> eps64 * \<bar>x\<bar>" using small by simp
  moreover have "fl64 x - x = sgn x * (m * u - \<bar>x\<bar>)"
    using False by (simp add: fl64_def Let_def right_diff_distrib mult_sgn_abs u_def m_def)
  moreover have "\<bar>sgn x\<bar> = 1" using False by simp
  ultimately show ?thesis by (simp only: abs_mult mult_1_left)
qed simp

lemma fsum_snoc: "fsum (xs @ [x]) = fl64 (fsum xs + x)"
  by (simp add: fsum_def)

text \<open>
  A sum of terms that are themselves known up to a factor: each addition makes the error larger by
  one more factor.
\<close>

lemma fsum_error:
  assumes "1 \<le> g"
    and "\<And>y x a. (y, x, a) \<in> set ts \<Longrightarrow> \<bar>y - x\<bar> \<le> (g - 1) * a \<and> \<bar>x\<bar> \<le> a"
  shows "\<bar>fsum (map fst ts) - sum_list (map (fst \<circ> snd) ts)\<bar>
      \<le> (g * (1 + eps64) ^ length ts - 1) * sum_list (map (snd \<circ> snd) ts) \<and>
    \<bar>sum_list (map (fst \<circ> snd) ts)\<bar> \<le> sum_list (map (snd \<circ> snd) ts)"
  using assms(2)
proof (induction ts rule: rev_induct)
  case Nil
  show ?case by (simp add: fsum_def)
next
  case (snoc t ts)
  obtain y x a where t: "t = (y, x, a)" by (cases t)
  define s X A h where "s = fsum (map fst ts)" and "X = sum_list (map (fst \<circ> snd) ts)"
    and "A = sum_list (map (snd \<circ> snd) ts)" and "h = (1 + eps64) ^ length ts"
  have "\<bar>y - x\<bar> \<le> (g - 1) * a \<and> \<bar>x\<bar> \<le> a" if "(y, x, a) \<in> set ts" for y x a using snoc.prems [of y x a] that by simp
  note IH = snoc.IH [OF this, folded s_def X_def A_def h_def]
  have last: "\<bar>y - x\<bar> \<le> (g - 1) * a" "\<bar>x\<bar> \<le> a" using snoc.prems [of y x a] t by simp_all
  have e: "0 < eps64" by (simp add: eps64_def)
  then have h: "1 \<le> h" by (simp add: h_def)
  have A: "0 \<le> A" "0 \<le> a" using IH last(2) by linarith+
  have "\<bar>s\<bar> \<le> (g * h - 1) * A + A" using IH by linarith
  moreover have "\<bar>y\<bar> \<le> (g - 1) * a + a" using last by linarith
  ultimately have "\<bar>s + y\<bar> \<le> g * h * A + g * a" by (simp add: left_diff_distrib)
  from mult_left_mono [OF this, of eps64] fl64_near [of "s + y"] e
  have "\<bar>fl64 (s + y) - (s + y)\<bar> \<le> eps64 * (g * h * A + g * a)" by linarith
  moreover have "\<bar>s + y - (X + x)\<bar> \<le> (g * h - 1) * A + (g - 1) * a" using IH last(1) by linarith
  ultimately have "\<bar>fl64 (s + y) - (X + x)\<bar> \<le> eps64 * (g * h * A + g * a) + ((g * h - 1) * A + (g - 1) * a)"
    by linarith
  also have "\<dots> = (g * (h * (1 + eps64)) - 1) * A + (g * (1 * (1 + eps64)) - 1) * a" by (simp add: algebra_simps)
  also have "\<dots> \<le> (g * (h * (1 + eps64)) - 1) * A + (g * (h * (1 + eps64)) - 1) * a"
    using assms(1) A(2) e h by (intro add_left_mono mult_right_mono diff_right_mono mult_left_mono) auto
  finally have "\<bar>fl64 (s + y) - (X + x)\<bar> \<le> (g * (h * (1 + eps64)) - 1) * (A + a)" by (simp only: distrib_left)
  moreover have "\<bar>X + x\<bar> \<le> A + a" using IH last(2) by linarith
  moreover have "(1 + eps64) ^ length (ts @ [t]) = h * (1 + eps64)" by (simp add: h_def mult.commute)
  moreover have "fsum (map fst (ts @ [t])) = fl64 (s + y)" by (simp add: t fsum_snoc s_def)
  moreover have "sum_list (map (fst \<circ> snd) (ts @ [t])) = X + x" "sum_list (map (snd \<circ> snd) (ts @ [t])) = A + a"
    by (simp_all add: t X_def A_def)
  ultimately show ?case by (simp only:)
qed

text \<open>The same for terms that are exact.\<close>

lemma fsum_near: "\<bar>fsum xs - sum_list xs\<bar> \<le> ((1 + eps64) ^ length xs - 1) * sum_list (map abs xs)"
proof -
  define ts where "ts = map (\<lambda>x. (x, x, \<bar>x\<bar>)) xs"
  have "\<bar>fsum (map fst ts) - sum_list (map (fst \<circ> snd) ts)\<bar>
      \<le> (1 * (1 + eps64) ^ length ts - 1) * sum_list (map (snd \<circ> snd) ts)"
    by (rule fsum_error [THEN conjunct1]) (auto simp: ts_def)
  moreover have "map fst ts = xs" "map (fst \<circ> snd) ts = xs" "map (snd \<circ> snd) ts = map abs xs" "length ts = length xs"
    by (simp_all add: ts_def comp_def)
  ultimately show ?thesis by (simp only: mult_1_left)
qed

end
