(* ===== verification/Providers.thy ===== *)
theory Providers
  imports Tables Float64
begin

text \<open>
  The language-model clients of \<open>backend/internal/llm/providers\<close> and the values of
  \<open>backend/internal/llm/contract/contract.go\<close>. The vendors' SDKs are a parameter: a record of
  functions that says what the n-th attempt of a call answers, how long it takes and whether the
  caller's context ends in the wait after it. What the code adds is modelled here: the client
  options, the prompts, the retries with doubling delays, the usage counters and the cutting of
  the JSON out of an answer. Decoding that JSON is \<open>encoding/json\<close>'s, part of the same record.
\<close>

section \<open>The contract\<close>

record analysis =
  an_important :: bool
  an_priority :: string
  an_reason :: string
  an_has_action :: bool
  an_action :: string
  an_sentiment :: string
  an_score :: rat
  an_topics :: "string list"
  an_confidence :: rat

record summary_result =
  su_summary :: string
  su_points :: "string list"
  su_actions :: "string list"
  su_sentiment :: string
  su_topics :: "string list"

record health_result =
  hr_status :: string
  hr_latency :: int
  hr_cost :: rat
  hr_error :: string

record usage_record =
  uc_in :: int
  uc_out :: int
  uc_total :: int
  uc_latency :: int
  uc_success :: bool
  uc_error :: string
  uc_feature :: string

definition InputCost :: "usage_record \<Rightarrow> rat \<Rightarrow> rat" where
  "InputCost u costPer1K = fl64 (fl64 (fl64 (of_int (uc_in u)) / 1000) * costPer1K)"

definition OutputCost :: "usage_record \<Rightarrow> rat \<Rightarrow> rat" where
  "OutputCost u costPer1K = fl64 (fl64 (fl64 (of_int (uc_out u)) / 1000) * costPer1K)"

definition TotalCost :: "usage_record \<Rightarrow> rat \<Rightarrow> rat \<Rightarrow> rat" where
  "TotalCost u costIn costOut = fl64 (InputCost u costIn + OutputCost u costOut)"

text \<open>\<open>UsageStats\<close> with the last record: what an instance remembers of its calls.\<close>

record provider_state =
  ps_total :: int
  ps_ok :: int
  ps_failed :: int
  ps_cost :: rat
  ps_average :: int
  ps_last :: usage_record

section \<open>Helpers\<close>

definition newline :: string where
  "newline = [CHR 0x0A]"

definition joinLines :: "string list \<Rightarrow> string" where
  "joinLines msgs = join_with (CHR 0x0A) msgs"

definition averageLatency :: "int \<Rightarrow> int \<Rightarrow> int \<Rightarrow> int" where
  "averageLatency current new n =
     (if n \<le> 1 then new
      else go_div (wrap64 (wrap64 (current * wrap64 (n - 1)) + new)) n)"

definition extractJSON :: "string \<Rightarrow> string" where
  "extractJSON s =
     (case (IndexAny s ''{['', LastIndexAny s ''}]'') of
        (Some start, Some stop) \<Rightarrow>
          if stop \<le> start then s else take (stop + 1 - start) (drop start s)
      | _ \<Rightarrow> s)"

section \<open>Retries\<close>

text \<open>
  The loop of \<open>Retrier.Do\<close>: \<open>fn i\<close> is what the call answers at attempt \<open>i\<close>, \<open>ended i\<close> the
  context's error if the context ends before the wait after attempt \<open>i\<close> does. The result names
  the attempt that succeeded; the list holds the waits that were started.
\<close>

fun do_loop ::
    "(nat \<Rightarrow> string + 'a) \<Rightarrow> (nat \<Rightarrow> string option) \<Rightarrow> nat \<Rightarrow> nat \<Rightarrow> int \<Rightarrow> string option
       \<Rightarrow> (string + nat \<times> 'a) \<times> int list" where
  "do_loop fn ended 0 i delay lastErr =
     (Inl (case lastErr of None \<Rightarrow> ''retry failed'' | Some e \<Rightarrow> e), [])"
| "do_loop fn ended (Suc k) i delay lastErr =
     (case fn i of
        Inr x \<Rightarrow> (Inr (i, x), [])
      | Inl e \<Rightarrow>
          (case ended i of
             Some c \<Rightarrow> (Inl c, [delay])
           | None \<Rightarrow>
               let (r, waits) = do_loop fn ended k (Suc i) (wrap64 (delay * 2)) (Some e)
               in (r, delay # waits)))"

record retrier =
  rt_attempts :: int
  rt_delay :: int

definition Retrier_Do ::
    "retrier \<Rightarrow> (nat \<Rightarrow> string + 'a) \<Rightarrow> (nat \<Rightarrow> string option) \<Rightarrow> (string + nat \<times> 'a) \<times> int list" where
  "Retrier_Do r fn ended =
     (let attempts = (if rt_attempts r \<le> 0 then 1 else rt_attempts r);
          delay = (if rt_delay r \<le> 0 then 300000000 else rt_delay r)
      in do_loop fn ended (nat attempts) 0 delay None)"

section \<open>The SDKs\<close>

record sdk_client =
  sc_vendor :: string
  sc_key :: string
  sc_base :: "string option"
  sc_api_version :: "string option"
  sc_key_header :: "string option"
  sc_authorization :: bool

record llm_request =
  lr_model :: string
  lr_max :: "int option"
  lr_temp :: rat
  lr_json :: bool
  lr_prompt :: string

text \<open>An answer: the texts of its blocks, choices or generations and the tokens it reports.\<close>

record llm_reply =
  rp_texts :: "string list"
  rp_in :: int
  rp_out :: int
  rp_total :: int

text \<open>
  \<open>sdk_took i\<close> is the duration of attempt \<open>i\<close> and \<open>sdk_since i\<close> the time from the start of the
  operation to the end of attempt \<open>i\<close>.
\<close>

record sdk_env =
  sdk_call :: "sdk_client \<Rightarrow> llm_request \<Rightarrow> nat \<Rightarrow> string + llm_reply"
  sdk_took :: "nat \<Rightarrow> int"
  sdk_since :: "nat \<Rightarrow> int"
  sdk_ended :: "nat \<Rightarrow> string option"
  sdk_cohere_ok :: "string \<Rightarrow> bool"
  un_analysis :: "string \<Rightarrow> string + analysis"
  un_summary :: "string \<Rightarrow> string + summary_result"
  un_strings :: "string \<Rightarrow> string + string list"
  un_actions :: "string \<Rightarrow> string + string list"

definition captureUsage ::
    "provider_config \<Rightarrow> string \<Rightarrow> int \<Rightarrow> int \<Rightarrow> int \<Rightarrow> int \<Rightarrow> provider_state \<Rightarrow> provider_state" where
  "captureUsage cfg feature latency tin tout ttot st =
     (let record = \<lparr>uc_in = tin, uc_out = tout, uc_total = ttot, uc_latency = latency,
                    uc_success = True, uc_error = [], uc_feature = feature\<rparr>;
          oks = wrap64 (ps_ok st + 1)
      in st\<lparr>ps_last := record, ps_total := wrap64 (ps_total st + 1), ps_ok := oks,
            ps_cost := fl64 (ps_cost st + TotalCost record (pc_cin cfg) (pc_cout cfg)),
            ps_average := averageLatency (ps_average st) latency oks\<rparr>)"

definition analyze_prompt :: "string \<Rightarrow> string" where
  "analyze_prompt br =
     ''Analyze this WhatsApp message JSON-only response with: is_important(bool),'' @ br
     @ ''priority(high|medium|low), reason, has_action(bool), action_required,'' @ br
     @ ''sentiment(positive|neutral|negative), sentiment_score(-1 to 1),'' @ br
     @ ''topics[], confidence(0-1)''"

definition summarize_prompt :: string where
  "summarize_prompt = ''Summarize conversation with: summary, key_points[], action_items[], sentiment, topics[]''"

section \<open>Claude\<close>

definition claude_client :: "provider_config \<Rightarrow> sdk_client" where
  "claude_client cfg =
     \<lparr>sc_vendor = ''anthropic'', sc_key = pc_key cfg, sc_base = None, sc_api_version = None,
      sc_key_header = None, sc_authorization = True\<rparr>"

definition claude_retrier :: retrier where
  "claude_retrier = \<lparr>rt_attempts = 3, rt_delay = 500000000\<rparr>"

text \<open>
  The call the three operations share: the usage is captured inside the retried function, with
  the duration of the attempt that succeeded; the first text of the answer is decoded.
\<close>

definition claude_ask ::
    "sdk_env \<Rightarrow> provider_config \<Rightarrow> (string \<Rightarrow> string + 'a) \<Rightarrow> string \<Rightarrow> string \<Rightarrow> provider_state
       \<Rightarrow> (string + 'a) \<times> provider_state" where
  "claude_ask env cfg decode feature prompt st =
     (let req = \<lparr>lr_model = pc_model cfg, lr_max = Some (pc_max cfg), lr_temp = pc_temp cfg,
                 lr_json = False, lr_prompt = prompt\<rparr>
      in case fst (Retrier_Do claude_retrier (sdk_call env (claude_client cfg) req) (sdk_ended env)) of
           Inl e \<Rightarrow> (Inl e, st)
         | Inr (i, response) \<Rightarrow>
             let st' = captureUsage cfg feature (sdk_took env i) (rp_in response) (rp_out response)
                         (wrap64 (rp_in response + rp_out response)) st
             in (case rp_texts response of
                   [] \<Rightarrow> Inl ''empty response''
                 | t # _ \<Rightarrow> decode (extractJSON t), st'))"

definition claude_Analyze ::
    "sdk_env \<Rightarrow> provider_config \<Rightarrow> string \<Rightarrow> provider_state \<Rightarrow> (string + analysis) \<times> provider_state" where
  "claude_Analyze env cfg message =
     claude_ask env cfg (un_analysis env) ''analyze''
       (analyze_prompt newline @ newline @ newline @ ''Message: '' @ message)"

definition claude_Summarize ::
    "sdk_env \<Rightarrow> provider_config \<Rightarrow> string list \<Rightarrow> provider_state \<Rightarrow> (string + summary_result) \<times> provider_state" where
  "claude_Summarize env cfg msgs =
     claude_ask env cfg (un_summary env) ''summarize''
       (summarize_prompt @ newline @ newline @ ''Messages: '' @ joinLines msgs)"

definition claude_ExtractActions ::
    "sdk_env \<Rightarrow> provider_config \<Rightarrow> string \<Rightarrow> provider_state \<Rightarrow> (string + string list) \<times> provider_state" where
  "claude_ExtractActions env cfg s =
     claude_ask env cfg (un_strings env) ''extract_actions''
       (''Extract action items as JSON array of strings'' @ newline @ newline @ ''Text: '' @ s)"

text \<open>A health check is one call without retries; it returns its result beside the error.\<close>

definition health_of :: "string + llm_reply \<Rightarrow> int \<Rightarrow> health_result option \<times> string option" where
  "health_of answer latency =
     (case answer of
        Inl e \<Rightarrow> (Some \<lparr>hr_status = ''error'', hr_latency = latency, hr_cost = 0, hr_error = e\<rparr>, Some e)
      | Inr _ \<Rightarrow> (Some \<lparr>hr_status = ''ok'', hr_latency = latency, hr_cost = 0, hr_error = []\<rparr>, None))"

definition claude_HealthCheck :: "sdk_env \<Rightarrow> provider_config \<Rightarrow> health_result option \<times> string option" where
  "claude_HealthCheck env cfg =
     health_of (sdk_call env (claude_client cfg)
        \<lparr>lr_model = pc_model cfg, lr_max = Some 32, lr_temp = 0, lr_json = False,
         lr_prompt = ''Respond with: OK''\<rparr> 0) (sdk_took env 0)"

section \<open>Cohere\<close>

definition cohere_client :: "provider_config \<Rightarrow> sdk_client" where
  "cohere_client cfg = (claude_client cfg)\<lparr>sc_vendor := ''cohere''\<rparr>"

definition cohere_retrier :: retrier where
  "cohere_retrier = \<lparr>rt_attempts = 3, rt_delay = 400000000\<rparr>"

text \<open>\<open>CreateClient\<close> may give no client; the token limit is converted to \<open>uint\<close>.\<close>

definition cohere_ask ::
    "sdk_env \<Rightarrow> provider_config \<Rightarrow> (string \<Rightarrow> string + 'a) \<Rightarrow> string \<Rightarrow> string \<Rightarrow> provider_state
       \<Rightarrow> (string + 'a) \<times> provider_state" where
  "cohere_ask env cfg decode feature prompt st =
     (if \<not> sdk_cohere_ok env (pc_key cfg) then (Inl ''cohere client not initialized'', st)
      else
        let req = \<lparr>lr_model = pc_model cfg, lr_max = Some (pc_max cfg mod 2 ^ 64), lr_temp = pc_temp cfg,
                   lr_json = False, lr_prompt = prompt\<rparr>
        in case fst (Retrier_Do cohere_retrier (sdk_call env (cohere_client cfg) req) (sdk_ended env)) of
             Inl e \<Rightarrow> (Inl e, st)
           | Inr (i, response) \<Rightarrow>
               let st' = captureUsage cfg feature (sdk_took env i) 0 0 0 st
               in (case rp_texts response of
                     [] \<Rightarrow> Inl ''empty response''
                   | t # _ \<Rightarrow> decode (extractJSON t), st'))"

definition cohere_Analyze ::
    "sdk_env \<Rightarrow> provider_config \<Rightarrow> string \<Rightarrow> provider_state \<Rightarrow> (string + analysis) \<times> provider_state" where
  "cohere_Analyze env cfg message =
     cohere_ask env cfg (un_analysis env) ''analyze''
       (analyze_prompt '' '' @ ''.'' @ newline @ ''Message: '' @ message)"

definition cohere_Summarize ::
    "sdk_env \<Rightarrow> provider_config \<Rightarrow> string list \<Rightarrow> provider_state \<Rightarrow> (string + summary_result) \<times> provider_state" where
  "cohere_Summarize env cfg msgs =
     cohere_ask env cfg (un_summary env) ''summarize''
       (summarize_prompt @ newline @ ''Messages: '' @ joinLines msgs)"

definition cohere_ExtractActions ::
    "sdk_env \<Rightarrow> provider_config \<Rightarrow> string \<Rightarrow> provider_state \<Rightarrow> (string + string list) \<times> provider_state" where
  "cohere_ExtractActions env cfg s =
     cohere_ask env cfg (un_strings env) ''extract_actions''
       (''Extract action items as JSON array of strings'' @ newline @ ''Text: '' @ s)"

definition cohere_HealthCheck :: "sdk_env \<Rightarrow> provider_config \<Rightarrow> health_result option \<times> string option" where
  "cohere_HealthCheck env cfg =
     (if \<not> sdk_cohere_ok env (pc_key cfg)
      then (Some \<lparr>hr_status = ''error'', hr_latency = 0, hr_cost = 0,
                  hr_error = ''cohere client not initialized''\<rparr>,
            Some ''cohere client not initialized'')
      else health_of (sdk_call env (cohere_client cfg)
             \<lparr>lr_model = pc_model cfg, lr_max = Some 10, lr_temp = 0, lr_json = False,
              lr_prompt = ''Respond with: OK''\<rparr> 0) (sdk_took env 0))"

section \<open>OpenAI, Azure and compatible gateways\<close>

text \<open>The options are applied in order, so an Azure endpoint replaces a base URL.\<close>

definition buildOpenAIClient :: "provider_config \<Rightarrow> sdk_client" where
  "buildOpenAIClient cfg =
     (let base = (if pc_base cfg = [] then None else Some (pc_base cfg));
          plain = \<lparr>sc_vendor = ''openai'', sc_key = pc_key cfg, sc_base = base, sc_api_version = None,
                   sc_key_header = None, sc_authorization = True\<rparr>
      in if pc_name cfg = ''azure_openai'' \<or> pc_endpoint cfg \<noteq> []
         then
           let endpoint = TrimRight1 (pc_endpoint cfg) (CHR ''/'');
               deployment = (if pc_deployment cfg = [] then pc_model cfg else pc_deployment cfg);
               base' = (if endpoint \<noteq> [] \<and> deployment \<noteq> []
                        then Some (endpoint @ ''/openai/deployments/'' @ deployment) else base);
               apiVersion = (if pc_version cfg = [] then ''2024-02-15-preview'' else pc_version cfg)
           in plain\<lparr>sc_base := base', sc_api_version := Some apiVersion,
                    sc_key_header := Some (pc_key cfg), sc_authorization := False\<rparr>
         else plain)"

definition effectiveModel :: "provider_config \<Rightarrow> string" where
  "effectiveModel cfg = (if pc_deployment cfg \<noteq> [] then pc_deployment cfg else pc_model cfg)"

definition openai_retrier :: retrier where
  "openai_retrier = \<lparr>rt_attempts = 3, rt_delay = 400000000\<rparr>"

text \<open>
  The JSON response format is asked for and the content decoded as it is; the usage is captured
  once, with the time since the operation began. A rate-limit error is returned like any other.
\<close>

definition openai_ask ::
    "sdk_env \<Rightarrow> provider_config \<Rightarrow> (string \<Rightarrow> string + 'a) \<Rightarrow> string \<Rightarrow> string \<Rightarrow> provider_state
       \<Rightarrow> (string + 'a) \<times> provider_state" where
  "openai_ask env cfg decode feature prompt st =
     (let req = \<lparr>lr_model = effectiveModel cfg, lr_max = Some (pc_max cfg), lr_temp = pc_temp cfg,
                 lr_json = True, lr_prompt = prompt\<rparr>
      in case fst (Retrier_Do openai_retrier (sdk_call env (buildOpenAIClient cfg) req) (sdk_ended env)) of
           Inl e \<Rightarrow> (Inl e, st)
         | Inr (i, resp) \<Rightarrow>
             let st' = captureUsage cfg feature (sdk_since env i) (rp_in resp) (rp_out resp) (rp_total resp) st
             in (case rp_texts resp of
                   [] \<Rightarrow> Inl ''empty response''
                 | content # _ \<Rightarrow> decode content, st'))"

definition openai_Analyze ::
    "sdk_env \<Rightarrow> provider_config \<Rightarrow> string \<Rightarrow> provider_state \<Rightarrow> (string + analysis) \<times> provider_state" where
  "openai_Analyze env cfg message =
     openai_ask env cfg (un_analysis env) ''analyze''
       (analyze_prompt newline @ newline @ newline @ ''Message: '' @ message)"

definition openai_Summarize ::
    "sdk_env \<Rightarrow> provider_config \<Rightarrow> string list \<Rightarrow> provider_state \<Rightarrow> (string + summary_result) \<times> provider_state" where
  "openai_Summarize env cfg msgs =
     openai_ask env cfg (un_summary env) ''summarize''
       (summarize_prompt @ newline @ newline @ ''Messages: '' @ joinLines msgs)"

definition openai_ExtractActions ::
    "sdk_env \<Rightarrow> provider_config \<Rightarrow> string \<Rightarrow> provider_state \<Rightarrow> (string + string list) \<times> provider_state" where
  "openai_ExtractActions env cfg s =
     openai_ask env cfg (un_actions env) ''extract_actions''
       (''Extract action items as JSON object with actions array of strings'' @ newline @ newline @ ''Text: '' @ s)"

definition openai_HealthCheck :: "sdk_env \<Rightarrow> provider_config \<Rightarrow> health_result option \<times> string option" where
  "openai_HealthCheck env cfg =
     health_of (sdk_call env (buildOpenAIClient cfg)
        \<lparr>lr_model = effectiveModel cfg, lr_max = None, lr_temp = 0, lr_json = False,
         lr_prompt = ''Respond with: OK''\<rparr> 0) (sdk_took env 0)"

section \<open>The kinds of providers\<close>

text \<open>
  The \<open>switch\<close> of \<open>Factory.CreateProvider\<close> on the lower-cased name, and the operations of the
  \<open>Provider\<close> interface of an instance created with a configuration.
\<close>

datatype provider_kind = Claude | OpenAI | Cohere

definition provider_kind_of :: "string \<Rightarrow> provider_kind option" where
  "provider_kind_of provider =
     (let name = ToLower provider in
      if name = ''claude'' \<or> name = ''anthropic'' then Some Claude
      else if name = ''openai'' then Some OpenAI
      else if name = ''azure_openai'' \<or> name = ''azureopenai'' then Some OpenAI
      else if name = ''cohere'' then Some Cohere
      else if name = ''google'' \<or> name = ''gemini'' then Some OpenAI
      else None)"

definition fresh_state :: provider_state where
  "fresh_state =
     \<lparr>ps_total = 0, ps_ok = 0, ps_failed = 0, ps_cost = 0, ps_average = 0,
      ps_last = \<lparr>uc_in = 0, uc_out = 0, uc_total = 0, uc_latency = 0, uc_success = False,
                 uc_error = [], uc_feature = []\<rparr>\<rparr>"

definition provider_Analyze ::
    "sdk_env \<Rightarrow> provider_config \<Rightarrow> string \<Rightarrow> provider_state \<Rightarrow> (string + analysis) \<times> provider_state" where
  "provider_Analyze env cfg message =
     (case provider_kind_of (pc_name cfg) of
        Some OpenAI \<Rightarrow> openai_Analyze env cfg message
      | Some Cohere \<Rightarrow> cohere_Analyze env cfg message
      | _ \<Rightarrow> claude_Analyze env cfg message)"

definition provider_Summarize ::
    "sdk_env \<Rightarrow> provider_config \<Rightarrow> string list \<Rightarrow> provider_state \<Rightarrow> (string + summary_result) \<times> provider_state" where
  "provider_Summarize env cfg msgs =
     (case provider_kind_of (pc_name cfg) of
        Some OpenAI \<Rightarrow> openai_Summarize env cfg msgs
      | Some Cohere \<Rightarrow> cohere_Summarize env cfg msgs
      | _ \<Rightarrow> claude_Summarize env cfg msgs)"

definition provider_ExtractActions ::
    "sdk_env \<Rightarrow> provider_config \<Rightarrow> string \<Rightarrow> provider_state \<Rightarrow> (string + string list) \<times> provider_state" where
  "provider_ExtractActions env cfg s =
     (case provider_kind_of (pc_name cfg) of
        Some OpenAI \<Rightarrow> openai_ExtractActions env cfg s
      | Some Cohere \<Rightarrow> cohere_ExtractActions env cfg s
      | _ \<Rightarrow> claude_ExtractActions env cfg s)"

definition provider_HealthCheck :: "sdk_env \<Rightarrow> provider_config \<Rightarrow> health_result option \<times> string option" where
  "provider_HealthCheck env cfg =
     (case provider_kind_of (pc_name cfg) of
        Some OpenAI \<Rightarrow> openai_HealthCheck env cfg
      | Some Cohere \<Rightarrow> cohere_HealthCheck env cfg
      | _ \<Rightarrow> claude_HealthCheck env cfg)"

section \<open>What the retries do\<close>

lemma find_in_set: "find P xs = Some x \<Longrightarrow> x \<in> set xs"
  by (auto simp: find_Some_iff)

lemma do_loop_run:
  assumes "0 < d" "d * 2 ^ k \<le> max_int64" "\<forall>j \<in> {i..<i + k}. ended j = None"
  shows "do_loop fn ended k i d lastErr =
    (case find (\<lambda>j. \<not> isl (fn j)) [i..<i + k] of
       Some j \<Rightarrow> (Inr (j, projr (fn j)), map (\<lambda>m. d * 2 ^ m) [0..<j - i])
     | None \<Rightarrow> (Inl (if k = 0 then (case lastErr of None \<Rightarrow> ''retry failed'' | Some e \<Rightarrow> e)
                     else projl (fn (i + k - 1))), map (\<lambda>m. d * 2 ^ m) [0..<k]))"
  using assms
proof (induction k arbitrary: i d lastErr)
  case 0
  then show ?case by simp
next
  case (Suc k)
  show ?case
  proof (cases "fn i")
    case (Inr x)
    then show ?thesis by (simp add: upt_conv_Cons del: upt_Suc)
  next
    case (Inl e)
    have ended: "ended i = None" "\<forall>j \<in> {Suc i..<Suc i + k}. ended j = None" using Suc.prems by auto
    have "d * 2 \<le> d * 2 ^ Suc k" using Suc.prems(1) by simp
    from order_trans [OF this Suc.prems(2)] have d2: "wrap64 (d * 2) = d * 2" using Suc.prems(1)
      by (intro wrap64_id is_int64I) (simp_all add: min_int64_def)
    have cons: "d # map (\<lambda>m. d * 2 * 2 ^ m) [0..<n] = map (\<lambda>m. d * 2 ^ m) [0..<Suc n]" for n
      by (simp add: upt_conv_Cons map_Suc_upt [symmetric] o_def del: upt_Suc)
    have one: "map (\<lambda>m. d * 2 ^ m) [0..<Suc 0] = [d]" by simp
    have upt: "[i..<i + Suc k] = i # [Suc i..<Suc i + k]" by (simp add: upt_conv_Cons)
    have "do_loop fn ended k (Suc i) (d * 2) (Some e) =
      (case find (\<lambda>j. \<not> isl (fn j)) [Suc i..<Suc i + k] of
         Some j \<Rightarrow> (Inr (j, projr (fn j)), map (\<lambda>m. d * 2 * 2 ^ m) [0..<j - Suc i])
       | None \<Rightarrow> (Inl (if k = 0 then e else projl (fn (Suc i + k - 1))), map (\<lambda>m. d * 2 * 2 ^ m) [0..<k]))"
      using Suc.IH [of "d * 2" "Suc i" "Some e"] Suc.prems ended by (simp add: mult.assoc)
    moreover have "find (\<lambda>j. \<not> isl (fn j)) [Suc i..<Suc i + k] = Some j \<Longrightarrow> Suc (j - Suc i) = j - i" for j
      by (drule find_in_set) auto
    ultimately show ?thesis
      using Inl ended cons d2 unfolding upt by (auto simp: one split_beta split: option.split simp del: upt_Suc)
  qed
qed

text \<open>
  C32. Retries. While the caller's context lives, \<open>Retrier.Do\<close> with a positive number of attempts
  answers what the first successful attempt answers, or the last error when all fail, and it
  waits \<open>delay * 2^k\<close> after the \<open>k\<close>-th failure: also after the last one, when no attempt follows.
\<close>

theorem retry_outcome:
  assumes "rt_attempts r = int n" "0 < n" "0 < rt_delay r" "rt_delay r * 2 ^ n \<le> max_int64"
    and "\<forall>i < n. ended i = None"
  shows "Retrier_Do r fn ended =
    (case find (\<lambda>j. \<not> isl (fn j)) [0..<n] of
       Some j \<Rightarrow> (Inr (j, projr (fn j)), map (\<lambda>m. rt_delay r * 2 ^ m) [0..<j])
     | None \<Rightarrow> (Inl (projl (fn (n - 1))), map (\<lambda>m. rt_delay r * 2 ^ m) [0..<n]))"
  using assms do_loop_run [of "rt_delay r" n 0 ended fn None]
  by (simp add: Retrier_Do_def split: option.split)

theorem retry_outcome_witness:
  "Retrier_Do claude_retrier (\<lambda>i. if i = 2 then Inr True else Inl ''busy'') (\<lambda>i. None) =
     (Inr (2, True), [500000000, 1000000000]) \<and>
   Retrier_Do claude_retrier (\<lambda>i. Inl ''down'' :: string + bool) (\<lambda>i. None) =
     (Inl ''down'', [500000000, 1000000000, 2000000000])"
proof -
  have "rt_attempts claude_retrier = int 3" "0 < (3::nat)" "0 < rt_delay claude_retrier"
    "rt_delay claude_retrier * 2 ^ 3 \<le> max_int64" "\<forall>i < (3::nat). (\<lambda>i. None :: string option) i = None"
    by (simp_all add: claude_retrier_def max_int64_def)
  note r = retry_outcome [OF this]
  show ?thesis unfolding r by (simp add: claude_retrier_def upt_rec numeral_3_eq_3 numeral_2_eq_2)
qed

lemma retrier_success:
  assumes "rt_attempts r = 3" "0 < rt_delay r" "rt_delay r \<le> 500000000" "\<forall>i. ended i = None"
    and "fst (Retrier_Do r fn ended) = Inr (i, x)"
  shows "i < 3 \<and> fn i = Inr x \<and> (\<forall>j < i. isl (fn j))"
proof -
  have "fst (do_loop fn ended 3 0 (rt_delay r) None) = Inr (i, x)"
    using assms by (simp add: Retrier_Do_def)
  moreover have "rt_delay r * 2 ^ 3 \<le> max_int64" using assms(3) by (simp add: max_int64_def)
  ultimately have "find (\<lambda>j. \<not> isl (fn j)) [0..<3] = Some i" "x = projr (fn i)"
    using do_loop_run [of "rt_delay r" 3 0 ended fn None] assms by (auto split: option.splits)
  then show ?thesis by (auto simp: find_Some_iff)
qed

section \<open>The JSON in an answer\<close>

lemma IndexAny_append: "set p \<inter> set cs = {} \<Longrightarrow> c \<in> set cs \<Longrightarrow> IndexAny (p @ c # s) cs = Some (length p)"
  by (induction p) auto

lemma LastIndexAny_append:
  "c \<in> set cs \<Longrightarrow> set q \<inter> set cs = {} \<Longrightarrow> LastIndexAny (p @ c # q) cs = Some (length p)"
  by (induction p) (auto simp: LastIndexAny_None [symmetric])

text \<open>
  Cutting the JSON out of an answer. A value that begins with a bracket and ends with one is
  recovered whole from the text a model wraps around it, provided the text before it has no
  opening and the text after it no closing bracket; a text without brackets is passed on as it is.
\<close>

theorem extractJSON_unwraps:
  assumes "set pre \<inter> set ''{['' = {}" "set post \<inter> set ''}]'' = {}"
    and "json = a # body @ [b]" "a \<in> set ''{[''" "b \<in> set ''}]''"
    and "set plain \<inter> set ''{[}]'' = {}"
  shows "extractJSON (pre @ json @ post) = json \<and> extractJSON plain = plain"
proof -
  have "IndexAny (pre @ a # (body @ b # post)) ''{['' = Some (length pre)"
    by (rule IndexAny_append) (use assms in auto)
  moreover have "LastIndexAny ((pre @ a # body) @ b # post) ''}]'' = Some (length (pre @ a # body))"
    by (rule LastIndexAny_append) (use assms in auto)
  moreover have "IndexAny plain ''{['' = None" using assms by (auto simp: IndexAny_None)
  ultimately show ?thesis using assms(3) by (simp add: extractJSON_def)
qed

theorem extractJSON_unwraps_witness:
  "extractJSON ''Sure: {\"priority\":\"low\"} Anything else?'' = ''{\"priority\":\"low\"}'' \<and> extractJSON ''none'' = ''none''"
  using extractJSON_unwraps [where pre = "''Sure: ''" and post = "'' Anything else?''" and json = "''{\"priority\":\"low\"}''"
    and a = "CHR ''{''" and b = "CHR ''}''" and body = "''\"priority\":\"low\"''" and plain = "''none''"]
  by simp

section \<open>Where an answer comes from\<close>

lemma retriers_good [simp]:
  "rt_attempts claude_retrier = 3" "rt_delay claude_retrier = 500000000"
  "rt_attempts cohere_retrier = 3" "rt_delay cohere_retrier = 400000000"
  "rt_attempts openai_retrier = 3" "rt_delay openai_retrier = 400000000"
  by (simp_all add: claude_retrier_def cohere_retrier_def openai_retrier_def)

text \<open>
  The call behind a successful operation: at most three attempts with the same request, the
  first that answered, and its first text decoded, after cutting out the JSON or as it is.
\<close>

definition answered_by ::
    "sdk_env \<Rightarrow> sdk_client \<Rightarrow> llm_request \<Rightarrow> (string \<Rightarrow> string + 'a) \<Rightarrow> 'a \<Rightarrow> bool" where
  "answered_by env client req decode a \<longleftrightarrow>
     (\<exists>i reply t. i < 3 \<and> (\<forall>j < i. isl (sdk_call env client req j)) \<and> sdk_call env client req i = Inr reply \<and>
        first_of (rp_texts reply) = Some t \<and> (decode t = Inr a \<or> decode (extractJSON t) = Inr a))"

lemma captureUsage_counts [simp]:
  "ps_total (captureUsage cfg feature latency tin tout ttot st) = wrap64 (ps_total st + 1)"
  "uc_feature (ps_last (captureUsage cfg feature latency tin tout ttot st)) = feature"
  by (simp_all add: captureUsage_def Let_def)

lemma claude_ask_answered:
  assumes "\<forall>i. sdk_ended env i = None" "claude_ask env cfg decode feature prompt st = (Inr a, st')"
  shows "answered_by env (claude_client cfg) \<lparr>lr_model = pc_model cfg, lr_max = Some (pc_max cfg),
      lr_temp = pc_temp cfg, lr_json = False, lr_prompt = prompt\<rparr> decode a
    \<and> ps_total st' = wrap64 (ps_total st + 1)"
  using assms retrier_success [where r = claude_retrier and ended = "sdk_ended env"]
  by (fastforce simp: claude_ask_def answered_by_def split: sum.splits list.splits)

lemma cohere_ask_answered:
  assumes "\<forall>i. sdk_ended env i = None" "cohere_ask env cfg decode feature prompt st = (Inr a, st')"
  shows "answered_by env (cohere_client cfg) \<lparr>lr_model = pc_model cfg, lr_max = Some (pc_max cfg mod 2 ^ 64),
      lr_temp = pc_temp cfg, lr_json = False, lr_prompt = prompt\<rparr> decode a
    \<and> ps_total st' = wrap64 (ps_total st + 1)"
  using assms retrier_success [where r = cohere_retrier and ended = "sdk_ended env"]
  by (fastforce simp: cohere_ask_def Let_def answered_by_def split: sum.splits list.splits if_splits)

lemma openai_ask_answered:
  assumes "\<forall>i. sdk_ended env i = None" "openai_ask env cfg decode feature prompt st = (Inr a, st')"
  shows "answered_by env (buildOpenAIClient cfg) \<lparr>lr_model = effectiveModel cfg, lr_max = Some (pc_max cfg),
      lr_temp = pc_temp cfg, lr_json = True, lr_prompt = prompt\<rparr> decode a
    \<and> ps_total st' = wrap64 (ps_total st + 1)"
  using assms retrier_success [where r = openai_retrier and ended = "sdk_ended env"]
  by (fastforce simp: openai_ask_def answered_by_def split: sum.splits list.splits)

lemma buildOpenAIClient_key [simp]: "sc_key (buildOpenAIClient cfg) = pc_key cfg"
  by (simp add: buildOpenAIClient_def Let_def)

text \<open>
  C33. An analysis a provider returns is the decoded first text of the first of at most three
  identical SDK calls that answered; every call carries the API key of the instance's
  configuration and a prompt that ends in the message, and the instance counts one request.
\<close>

theorem analyze_first_answer:
  assumes "\<forall>i. sdk_ended env i = None" "provider_Analyze env cfg message st = (Inr a, st')"
  shows "(\<exists>client req. answered_by env client req (un_analysis env) a \<and>
      sc_key client = pc_key cfg \<and> HasSuffix (lr_prompt req) message) \<and>
    ps_total st' = wrap64 (ps_total st + 1)"
proof -
  have suffix: "HasSuffix (p @ message) message" for p by (simp add: HasSuffix_iff)
  have suffix5: "HasSuffix (a @ b @ c @ d @ message) message" for a b c d
    using suffix [of "a @ b @ c @ d"] by simp
  have keys: "sc_key (claude_client cfg) = pc_key cfg" "sc_key (cohere_client cfg) = pc_key cfg"
    by (simp_all add: claude_client_def cohere_client_def)
  consider "openai_Analyze env cfg message st = (Inr a, st')" | "cohere_Analyze env cfg message st = (Inr a, st')"
    | "claude_Analyze env cfg message st = (Inr a, st')"
    using assms(2) by (auto simp: provider_Analyze_def split: option.splits provider_kind.splits)
  then show ?thesis
  proof cases
    case 1
    from openai_ask_answered [OF assms(1) this [unfolded openai_Analyze_def]] show ?thesis
      using buildOpenAIClient_key suffix5 by (metis llm_request.select_convs(5))
  next
    case 2
    from cohere_ask_answered [OF assms(1) this [unfolded cohere_Analyze_def]] show ?thesis
      using keys suffix5 by (metis llm_request.select_convs(5))
  next
    case 3
    from claude_ask_answered [OF assms(1) this [unfolded claude_Analyze_def]] show ?thesis
      using keys suffix5 by (metis llm_request.select_convs(5))
  qed
qed

definition sample_analysis :: analysis where
  "sample_analysis =
     \<lparr>an_important = True, an_priority = ''high'', an_reason = ''due'', an_has_action = True,
      an_action = ''call'', an_sentiment = ''neutral'', an_score = 0, an_topics = [], an_confidence = 1\<rparr>"

definition sample_config :: "string \<Rightarrow> provider_config" where
  "sample_config name =
     \<lparr>pc_id = 1, pc_name = name, pc_key = ''k1'', pc_model = ''m'', pc_base = [], pc_endpoint = [],
      pc_deployment = [], pc_version = [], pc_temp = 0, pc_max = 100, pc_cin = 0, pc_cout = 0, pc_rpm = 60\<rparr>"

text \<open>An SDK whose first attempt is turned away and whose second answers \<open>{}\<close>.\<close>

definition sample_sdk :: sdk_env where
  "sample_sdk =
     \<lparr>sdk_call = (\<lambda>client req i. if i = 0 then Inl ''429''
        else Inr \<lparr>rp_texts = [''{}''], rp_in = 7, rp_out = 2, rp_total = 9\<rparr>),
      sdk_took = (\<lambda>i. 1000), sdk_since = (\<lambda>i. 2000), sdk_ended = (\<lambda>i. None), sdk_cohere_ok = (\<lambda>k. True),
      un_analysis = (\<lambda>s. if s = ''{}'' then Inr sample_analysis else Inl ''bad''),
      un_summary = (\<lambda>s. Inl ''bad''), un_strings = (\<lambda>s. Inl ''bad''), un_actions = (\<lambda>s. Inl ''bad'')\<rparr>"

lemma sample_kind: "provider_kind_of ''OpenAI'' = Some OpenAI"
  by code_simp

lemma sample_analyze:
  "provider_kind_of (pc_name c) = Some OpenAI \<Longrightarrow> fst (provider_Analyze sample_sdk c m st) = Inr sample_analysis"
  by (simp add: provider_Analyze_def openai_Analyze_def openai_ask_def
      Retrier_Do_def numeral_3_eq_3 sample_sdk_def Let_def)

theorem analyze_first_answer_witness:
  "ps_total (snd (provider_Analyze sample_sdk (sample_config ''OpenAI'') ''hi'' fresh_state)) = 1"
proof -
  let ?r = "provider_Analyze sample_sdk (sample_config ''OpenAI'') ''hi'' fresh_state"
  have "\<forall>i. sdk_ended sample_sdk i = None" by (simp add: sample_sdk_def)
  moreover have "?r = (Inr sample_analysis, snd ?r)"
    using sample_analyze [of "sample_config ''OpenAI''"] by (simp add: prod_eq_iff sample_config_def sample_kind)
  ultimately have "ps_total (snd ?r) = wrap64 (ps_total fresh_state + 1)"
    using analyze_first_answer by blast
  then show ?thesis by (simp add: fresh_state_def is_int64_def min_int64_def max_int64_def)
qed

end
