(* ===== verification/LlmStore.thy ===== *)
theory LlmStore
  imports Syncer Providers
begin

text \<open>
  The rows behind the language-model router (\<open>backend/internal/llm/store.go\<close>), the factory of
  provider instances (\<open>factory.go\<close>) and the router with its cache (\<open>router.go\<close>). An instance is
  the configuration it was created with: its answers are those of theory \<open>Providers\<close>, which do not
  depend on the counters an instance keeps. The instances and the cache live in the world.
\<close>

text \<open>
  What the process brings along: the SDKs, AES-GCM's opening function, the master key, and how
  long a call to a provider takes.
\<close>

record llm_env =
  le_sdk :: sdk_env
  le_unseal :: "bytes \<Rightarrow> bytes \<Rightarrow> bytes \<Rightarrow> bytes option"
  le_master :: string
  le_elapsed :: "provider_config \<Rightarrow> int"

section \<open>Reading providers\<close>

text \<open>A row as a configuration: \<open>COALESCE(..., '')\<close>, and the key decrypted or, failing that, as it is.\<close>

definition config_of_row :: "llm_env \<Rightarrow> provider_row \<Rightarrow> provider_config" where
  "config_of_row env r =
     \<lparr>pc_id = pv_id r, pc_name = pv_name r,
      pc_key = (case Decrypt (le_unseal env) (le_master env) (pv_key r) of Inr k \<Rightarrow> k | Inl _ \<Rightarrow> pv_key r),
      pc_model = pv_model r, pc_base = coalesce (pv_base r) [], pc_endpoint = coalesce (pv_endpoint r) [],
      pc_deployment = coalesce (pv_deployment r) [], pc_version = coalesce (pv_version r) [],
      pc_temp = pv_temp r, pc_max = pv_max r, pc_cin = pv_cin r, pc_cout = pv_cout r, pc_rpm = pv_rpm r\<rparr>"

text \<open>\<open>ORDER BY is_default DESC, id ASC\<close>.\<close>

definition default_first :: "provider_row list \<Rightarrow> provider_row list" where
  "default_first rows =
     (let s = sort_key pv_id rows in filter pv_default s @ filter (\<lambda>r. \<not> pv_default r) s)"

definition active_providers :: "int \<Rightarrow> provider_row list sql" where
  "active_providers tenant = sql_select llm_providers pv_tenant (\<lambda>r. pv_tenant r = tenant \<and> pv_active r)"

definition Store_ListProviders :: "llm_env \<Rightarrow> int \<Rightarrow> (dberr + provider_config list) act" where
  "Store_ListProviders env tenant =
     WithTenantConn tenant
       (then_ok (Exec (active_providers tenant)) (\<lambda>rows. ok (map (config_of_row env) (default_first rows))))"

definition Store_GetDefaultProvider :: "llm_env \<Rightarrow> int \<Rightarrow> (dberr + provider_config) act" where
  "Store_GetDefaultProvider env tenant =
     WithTenantConn tenant
       (then_ok (Exec (sql_row llm_providers pv_tenant (\<lambda>r. pv_tenant r = tenant \<and> pv_default r \<and> pv_active r)))
         (\<lambda>r. ok (config_of_row env r)))"

definition Store_GetProviderByID :: "llm_env \<Rightarrow> int \<Rightarrow> int \<Rightarrow> (dberr + provider_config) act" where
  "Store_GetProviderByID env tenant provider =
     WithTenantConn tenant
       (then_ok (Exec (sql_row llm_providers pv_tenant (\<lambda>r. pv_tenant r = tenant \<and> pv_id r = provider)))
         (\<lambda>r. ok (config_of_row env r)))"

definition ListProviderIDs :: "int \<Rightarrow> (dberr + int list) act" where
  "ListProviderIDs tenant =
     WithTenantConn tenant (then_ok (Exec (active_providers tenant)) (\<lambda>rows. ok (map pv_id rows)))"

section \<open>Usage and health\<close>

definition Milliseconds :: "int \<Rightarrow> int" where
  "Milliseconds d = go_div d 1000000"

definition insert_usage ::
    "int \<Rightarrow> int \<Rightarrow> int option \<Rightarrow> usage_record \<Rightarrow> rat \<Rightarrow> rat \<Rightarrow> int \<Rightarrow> usage_row sql" where
  "insert_usage tenant provider mid rec costIn costOut now =
     sql_insert llm_usage_logs llm_usage_logs_update ug_tenant
       (\<lambda>d r. has_key pv_id provider (llm_providers d))
       (\<lambda>i. \<lparr>ug_id = i, ug_tenant = tenant, ug_provider = provider, ug_msg = mid, ug_in = uc_in rec,
             ug_out = uc_out rec, ug_total = uc_total rec, ug_cin = InputCost rec costIn,
             ug_cout = OutputCost rec costOut, ug_cost = TotalCost rec costIn costOut,
             ug_ms = Milliseconds (uc_latency rec), ug_ok = uc_success rec, ug_error = uc_error rec,
             ug_feature = uc_feature rec, ug_created = now\<rparr>)"

definition InsertUsage ::
    "int \<Rightarrow> int \<Rightarrow> int option \<Rightarrow> usage_record \<Rightarrow> rat \<Rightarrow> rat \<Rightarrow> (dberr + unit) act" where
  "InsertUsage tenant provider mid rec costIn costOut = do {
     now \<leftarrow> Now;
     WithTenantConn tenant
       (then_ok (Exec (insert_usage tenant provider mid rec costIn costOut now)) (\<lambda>_. ok ()))
   }"

definition mark_health :: "int \<Rightarrow> int \<Rightarrow> string \<Rightarrow> int \<Rightarrow> provider_row list sql" where
  "mark_health tenant provider status now =
     sql_update llm_providers llm_providers_update pv_tenant
       (\<lambda>r. pv_id r = provider \<and> pv_tenant r = tenant)
       (\<lambda>r. r\<lparr>pv_health := status, pv_checked := Some now\<rparr>)"

definition insert_health :: "int \<Rightarrow> int \<Rightarrow> string \<Rightarrow> int \<Rightarrow> string option \<Rightarrow> int \<Rightarrow> health_row sql" where
  "insert_health tenant provider status latency errorMessage now =
     sql_insert llm_provider_health llm_provider_health_update hl_tenant
       (\<lambda>d r. has_key pv_id provider (llm_providers d))
       (\<lambda>i. \<lparr>hl_id = i, hl_provider = provider, hl_tenant = tenant, hl_time = now, hl_status = status,
             hl_ms = Milliseconds latency, hl_error = errorMessage, hl_created = now\<rparr>)"

definition InsertHealth :: "int \<Rightarrow> int \<Rightarrow> string \<Rightarrow> int \<Rightarrow> string option \<Rightarrow> (dberr + unit) act" where
  "InsertHealth tenant provider status latency errorMessage = do {
     now \<leftarrow> Now;
     WithTenantConn tenant
       (then_ok (Exec (insert_health tenant provider status latency errorMessage now)) (\<lambda>_.
        then_ok (Exec (mark_health tenant provider status now)) (\<lambda>_. ok ())))
   }"

definition RecentHealthFailures :: "int \<Rightarrow> int \<Rightarrow> (dberr + nat) act" where
  "RecentHealthFailures tenant provider =
     WithTenantConn tenant
       (then_ok (Exec (sql_select llm_provider_health hl_tenant
            (\<lambda>h. hl_provider h = provider \<and> hl_tenant h = tenant)))
         (\<lambda>rows. ok (length (filter (\<lambda>h. hl_status h \<noteq> ''ok'') (take 3 (newest_first hl_time rows))))))"

definition SetProviderHealth :: "int \<Rightarrow> int \<Rightarrow> string \<Rightarrow> (dberr + unit) act" where
  "SetProviderHealth tenant provider status = do {
     now \<leftarrow> Now;
     WithTenantConn tenant (then_ok (Exec (mark_health tenant provider status now)) (\<lambda>_. ok ()))
   }"

section \<open>Instances\<close>

definition instance_key :: "provider_config \<Rightarrow> string" where
  "instance_key c =
     pc_name c @ '':'' @ pc_model c @ '':'' @ pc_base c @ '':'' @ pc_endpoint c @ '':'' @ pc_deployment c"

definition Factory_CreateProvider :: "provider_config \<Rightarrow> provider_config option act" where
  "Factory_CreateProvider c = do {
     instances \<leftarrow> get_mem w_instances;
     case instances (instance_key c) of
       Some provider \<Rightarrow> State_Monad.return (Some provider)
     | None \<Rightarrow>
         if provider_kind_of (pc_name c) = None then State_Monad.return None
         else do {
           _ \<leftarrow> set_instances (instances(instance_key c \<mapsto> c));
           State_Monad.return (Some c)
         }
   }"

section \<open>The router\<close>

definition cacheKey :: "int \<Rightarrow> int \<Rightarrow> string" where
  "cacheKey tenant provider = FormatInt tenant @ '':'' @ FormatInt provider"

definition cache_ttl :: int where
  "cache_ttl = 300000000000"

definition cache_get :: "string \<Rightarrow> provider_config option act" where
  "cache_get key = do {
     now \<leftarrow> Now;
     c \<leftarrow> get_mem w_cache;
     case c key of
       None \<Rightarrow> State_Monad.return None
     | Some (provider, expires) \<Rightarrow>
         if now > expires then do {
           _ \<leftarrow> set_cache (c(key := None));
           State_Monad.return None
         }
         else State_Monad.return (Some provider)
   }"

definition cache_put :: "string \<Rightarrow> provider_config \<Rightarrow> unit act" where
  "cache_put key provider = do {
     now \<leftarrow> Now;
     c \<leftarrow> get_mem w_cache;
     set_cache (c(key \<mapsto> (provider, now + cache_ttl)))
   }"

definition Router_GetProvider :: "llm_env \<Rightarrow> int \<Rightarrow> int \<Rightarrow> (string + provider_config) act" where
  "Router_GetProvider env tenant provider = do {
     let key = cacheKey tenant provider;
     hit \<leftarrow> cache_get key;
     case hit of
       Some p \<Rightarrow> State_Monad.return (Inr p)
     | None \<Rightarrow> do {
         config \<leftarrow> Store_GetProviderByID env tenant provider;
         case config of
           Inl _ \<Rightarrow> State_Monad.return (Inl ''provider not found'')
         | Inr c \<Rightarrow> do {
             created \<leftarrow> Factory_CreateProvider c;
             case created of
               None \<Rightarrow> State_Monad.return (Inl ''provider not supported'')
             | Some p \<Rightarrow> do { _ \<leftarrow> cache_put key p; State_Monad.return (Inr p) }
           }
       }
   }"

definition Router_GetDefaultProvider :: "llm_env \<Rightarrow> int \<Rightarrow> (string + provider_config) act" where
  "Router_GetDefaultProvider env tenant = do {
     let key = cacheKey tenant 0;
     hit \<leftarrow> cache_get key;
     case hit of
       Some p \<Rightarrow> State_Monad.return (Inr p)
     | None \<Rightarrow> do {
         config \<leftarrow> Store_GetDefaultProvider env tenant;
         chosen \<leftarrow> (case config of
             Inr c \<Rightarrow> State_Monad.return (Inr c)
           | Inl _ \<Rightarrow> do {
               listed \<leftarrow> Store_ListProviders env tenant;
               State_Monad.return (case listed of
                   Inr (c # cs) \<Rightarrow> Inr c
                 | _ \<Rightarrow> Inl ''no providers available'')
             });
         case chosen of
           Inl e \<Rightarrow> State_Monad.return (Inl e)
         | Inr c \<Rightarrow> do {
             created \<leftarrow> Factory_CreateProvider c;
             case created of
               None \<Rightarrow> State_Monad.return (Inl ''provider not supported'')
             | Some p \<Rightarrow> do { _ \<leftarrow> cache_put key p; State_Monad.return (Inr p) }
           }
       }
   }"

definition GetProviderForFeature :: "llm_env \<Rightarrow> int \<Rightarrow> string \<Rightarrow> (string + provider_config) act" where
  "GetProviderForFeature env tenant feature = Router_GetDefaultProvider env tenant"

section \<open>Isolation and quietness\<close>

lemmas store_defs =
  Store_ListProviders_def Store_GetDefaultProvider_def Store_GetProviderByID_def ListProviderIDs_def
  InsertUsage_def InsertHealth_def RecentHealthFailures_def SetProviderHealth_def active_providers_def
  insert_usage_def insert_health_def mark_health_def

lemma store_tenant [intro]:
  "state_io_rel (tenant_frame t) (Store_ListProviders env t)"
  "state_io_rel (tenant_frame t) (Store_GetDefaultProvider env t)"
  "state_io_rel (tenant_frame t) (Store_GetProviderByID env t i)"
  "state_io_rel (tenant_frame t) (ListProviderIDs t)"
  "state_io_rel (tenant_frame t) (InsertUsage t i mid rec ci co)"
  "state_io_rel (tenant_frame t) (InsertHealth t i status latency e)"
  "state_io_rel (tenant_frame t) (RecentHealthFailures t i)"
  "state_io_rel (tenant_frame t) (SetProviderHealth t i status)"
  unfolding store_defs by (intro tenant.keeps_intros keeps_stmts; simp)+

text \<open>
  The factory and the cache are the process's own: no relation on worlds sees them. A relation
  that does not look at the database is kept by all of it.
\<close>

context step_core
begin

lemma keeps_memory [intro]:
  "state_io_rel R (Factory_CreateProvider c)" "state_io_rel R (cache_get key)" "state_io_rel R (cache_put key p)"
  unfolding Factory_CreateProvider_def cache_get_def cache_put_def by (intro keeps_core)+

lemma keeps_router:
  assumes "state_io_rel R (Store_GetProviderByID env t i)"
  shows "state_io_rel R (Router_GetProvider env t i)"
  unfolding Router_GetProvider_def Let_def using assms by (intro keeps_core keeps_memory)

lemma keeps_default:
  assumes "state_io_rel R (Store_GetDefaultProvider env t)" "state_io_rel R (Store_ListProviders env t)"
  shows "state_io_rel R (Router_GetDefaultProvider env t)"
  unfolding Router_GetDefaultProvider_def Let_def using assms by (intro keeps_core keeps_memory)

end

context exec_relation
begin

lemma keeps_store [intro]:
  "state_io_rel R (Store_ListProviders env t)"
  "state_io_rel R (Store_GetDefaultProvider env t)"
  "state_io_rel R (Store_GetProviderByID env t i)"
  "state_io_rel R (ListProviderIDs t)"
  "state_io_rel R (InsertUsage t i mid rec ci co)"
  "state_io_rel R (InsertHealth t i status latency e)"
  "state_io_rel R (RecentHealthFailures t i)"
  "state_io_rel R (SetProviderHealth t i status)"
  unfolding Store_ListProviders_def Store_GetDefaultProvider_def Store_GetProviderByID_def ListProviderIDs_def
    InsertUsage_def InsertHealth_def RecentHealthFailures_def SetProviderHealth_def
  by (intro keeps_all)+

lemmas keeps_routing = keeps_router [OF keeps_store(3)] keeps_default [OF keeps_store(2,1)]

end

lemmas router_tenant [intro] = tenant.keeps_router [OF store_tenant(3)] tenant.keeps_default [OF store_tenant(2,1)]

section \<open>Without faults\<close>

lemma run_Factory:
  "run_state (Factory_CreateProvider c) w =
     (case w_instances w (instance_key c) of
        Some p \<Rightarrow> (Some p, w)
      | None \<Rightarrow> if provider_kind_of (pc_name c) = None then (None, w)
                else (Some c, w\<lparr>w_instances := (w_instances w)(instance_key c \<mapsto> c)\<rparr>))"
  by (simp add: Factory_CreateProvider_def split: option.split)

lemma run_cache_get_None: "w_cache w key = None \<Longrightarrow> run_state (cache_get key) w = (None, w)"
  by (simp add: cache_get_def state_simps)

lemma run_cache_get_fresh:
  "w_cache w key = Some (p, e) \<Longrightarrow> w_now w \<le> e \<Longrightarrow> run_state (cache_get key) w = (Some p, w)"
  by (simp add: cache_get_def state_simps)

lemma run_cache_put:
  "run_state (cache_put key p) w = ((), w\<lparr>w_cache := (w_cache w)(key \<mapsto> (p, w_now w + cache_ttl))\<rparr>)"
  by (simp add: cache_put_def state_simps)

text \<open>The session after a tenant connection: its tenant is reset.\<close>

abbreviation reset_sess :: "world \<Rightarrow> world" where
  "reset_sess w \<equiv> w\<lparr>w_sess := (w_sess w)\<lparr>ss_tenant := None\<rparr>\<rparr>"

definition as_tenant :: "int \<Rightarrow> world \<Rightarrow> session" where
  "as_tenant t w = (w_sess w)\<lparr>ss_tenant := Some t\<rparr>"

lemma visible_as_tenant [simp]: "visible (as_tenant t w) t"
  by (simp add: visible_def as_tenant_def)

text \<open>One statement in a tenant connection.\<close>

lemma run_conn_Exec:
  assumes "w_faults w = []"
  shows "run_state (WithTenantConn t (then_ok (Exec q) (\<lambda>x. ok (f x)))) w =
    (case q (as_tenant t w) (w_db w) of
       (Inl e, d) \<Rightarrow> (Inl e, reset_sess w\<lparr>w_db := d\<rparr>)
     | (Inr x, d) \<Rightarrow> (Inr (f x), reset_sess w\<lparr>w_db := d\<rparr>))"
proof -
  have q: "state_io_rel no_faults (then_ok (Exec q) (\<lambda>x. ok (f x)))"
    by (intro quiet.keeps_intros quiet_Exec)
  show ?thesis
    using assms by (simp add: run_WithTenantConn_quiet [OF assms q] run_then_ok run_Exec_nil as_tenant_def
        split: prod.split sum.split)
qed

lemma run_GetProviderByID:
  assumes "w_faults w = []"
  shows "run_state (Store_GetProviderByID env t i) w =
    ((case first_of (filter (\<lambda>r. pv_tenant r = t \<and> pv_id r = i) (tb_rows (llm_providers (w_db w)))) of
        None \<Rightarrow> Inl NoRows | Some r \<Rightarrow> Inr (config_of_row env r)), reset_sess w)"
proof -
  have f: "filter (\<lambda>r. visible (as_tenant t w) (pv_tenant r) \<and> pv_tenant r = t \<and> pv_id r = i) rows =
    filter (\<lambda>r. pv_tenant r = t \<and> pv_id r = i) rows" for rows
    by (intro filter_cong) auto
  show ?thesis
    by (simp add: Store_GetProviderByID_def run_conn_Exec [OF assms] sql_row_def f split: option.split)
qed

lemma run_ListProviders:
  assumes "w_faults w = []"
  shows "run_state (Store_ListProviders env t) w =
    (Inr (map (config_of_row env) (default_first
        (filter (\<lambda>r. pv_tenant r = t \<and> pv_active r) (tb_rows (llm_providers (w_db w)))))), reset_sess w)"
proof -
  have f: "filter (\<lambda>r. visible (as_tenant t w) (pv_tenant r) \<and> pv_tenant r = t \<and> pv_active r) rows =
    filter (\<lambda>r. pv_tenant r = t \<and> pv_active r) rows" for rows
    by (intro filter_cong) auto
  show ?thesis
    by (simp add: Store_ListProviders_def run_conn_Exec [OF assms] active_providers_def sql_select_def f)
qed

lemma run_Router_GetProvider:
  fixes env :: llm_env
  assumes "w_faults w = []" "w_cache w (cacheKey t i) = None"
    and "first_of (filter (\<lambda>r. pv_tenant r = t \<and> pv_id r = i) (tb_rows (llm_providers (w_db w)))) = Some r"
    and "provider_kind_of (pv_name r) \<noteq> None"
  defines "c \<equiv> config_of_row env r"
  shows "run_state (Router_GetProvider env t i) w =
    (case w_instances w (instance_key c) of
       Some p \<Rightarrow> (Inr p, reset_sess w\<lparr>w_cache := (w_cache w)(cacheKey t i \<mapsto> (p, w_now w + cache_ttl))\<rparr>)
     | None \<Rightarrow> (Inr c, reset_sess w\<lparr>w_instances := (w_instances w)(instance_key c \<mapsto> c),
                        w_cache := (w_cache w)(cacheKey t i \<mapsto> (c, w_now w + cache_ttl))\<rparr>))"
proof -
  have "pc_name c = pv_name r" by (simp add: c_def config_of_row_def)
  then show ?thesis
    using assms(4) unfolding c_def
    by (simp add: Router_GetProvider_def Let_def run_cache_get_None [where w = w, OF assms(2)]
        run_GetProviderByID [OF assms(1)] assms(3) run_Factory run_cache_put split: option.split)
qed

lemma cacheKey_inj:
  assumes "is_int64 t" "is_int64 i" "is_int64 t'" "is_int64 i'" "cacheKey t i = cacheKey t' i'"
  shows "t = t' \<and> i = i'"
proof -
  have sep: "CHR '':'' \<notin> set (FormatInt x)" for x
    using FormatInt_chars [of "CHR '':''" x] by (auto simp: is_digit_def)
  have "takeWhile (\<lambda>c. c \<noteq> CHR '':'') (FormatInt x @ CHR '':'' # s) = FormatInt x" for x s
    using sep [of x] by (subst takeWhile_append2) auto
  with assms(5) have "FormatInt t = FormatInt t'" unfolding cacheKey_def by (metis append_Cons append_Nil)
  moreover from this assms(5) have "FormatInt i = FormatInt i'" by (simp add: cacheKey_def)
  ultimately show ?thesis using FormatInt_inj assms(1-4) by blast
qed

text \<open>
  C39. Instances are shared between tenants. The factory knows an instance by the provider's name,
  model and addresses only: without faults, in a process that has used no provider yet, when two
  tenants have configured such a provider, each with its own API key, the tenant that asks second
  is served by the first one's instance, with the first one's key and limits.
\<close>

theorem instances_shared:
  assumes "w_faults w = []" "w_instances w = Map.empty" "w_cache w = Map.empty"
    and "is_int64 t" "is_int64 i" "is_int64 t'" "is_int64 i'" "t \<noteq> t'"
    and "first_of (filter (\<lambda>r. pv_tenant r = t \<and> pv_id r = i) (tb_rows (llm_providers (w_db w)))) = Some r"
    and "first_of (filter (\<lambda>r. pv_tenant r = t' \<and> pv_id r = i') (tb_rows (llm_providers (w_db w)))) = Some r'"
    and "provider_kind_of (pv_name r) \<noteq> None"
    and "instance_key (config_of_row env r) = instance_key (config_of_row env r')" "pv_name r' = pv_name r"
  shows "fst (run_state (Router_GetProvider env t' i') (snd (run_state (Router_GetProvider env t i) w)))
    = Inr (config_of_row env r)"
proof -
  let ?c = "config_of_row env r"
  let ?w = "reset_sess w\<lparr>w_instances := [instance_key ?c \<mapsto> ?c],
    w_cache := [cacheKey t i \<mapsto> (?c, w_now w + cache_ttl)]\<rparr>"
  have one: "run_state (Router_GetProvider env t i) w = (Inr ?c, ?w)"
    using run_Router_GetProvider [of w t i r env] assms by simp
  have "cacheKey t' i' \<noteq> cacheKey t i" using cacheKey_inj assms(4-8) by blast
  then have "w_cache ?w (cacheKey t' i') = None" by simp
  from run_Router_GetProvider [of ?w t' i' r' env, OF _ this] show ?thesis
    using assms one by simp
qed

definition sample_provider :: "int \<Rightarrow> int \<Rightarrow> string \<Rightarrow> provider_row" where
  "sample_provider i t key =
     \<lparr>pv_id = i, pv_tenant = t, pv_name = ''OpenAI'', pv_key = key, pv_model = ''m'', pv_display = None,
      pv_base = None, pv_endpoint = None, pv_deployment = None, pv_version = None, pv_temp = 0, pv_max = 100,
      pv_cin = 1, pv_cout = 2, pv_rpm = 60, pv_rpd = 100, pv_budget = None, pv_active = True,
      pv_default = False, pv_fallback = False, pv_health = ''unknown'', pv_checked = None, pv_created = 0\<rparr>"

definition sample_llm :: llm_env where
  "sample_llm =
     \<lparr>le_sdk = sample_sdk, le_unseal = (\<lambda>k n c. None), le_master = [], le_elapsed = (\<lambda>c. 5000000)\<rparr>"

lemma sample_config_key:
  "pc_key (config_of_row sample_llm (sample_provider i t key)) = key"
  "instance_key (config_of_row sample_llm (sample_provider i t key)) = ''OpenAI:m:::''"
  by (simp_all add: config_of_row_def sample_llm_def Decrypt_def sample_provider_def instance_key_def)

definition llm_world :: world where
  "llm_world =
     (sample_world ''admin'')\<lparr>w_db := empty_db\<lparr>llm_providers :=
        \<lparr>tb_rows = [sample_provider 1 10 ''key-of-10'', sample_provider 2 20 ''key-of-20''], tb_seq = 2\<rparr>\<rparr>,
      w_instances := Map.empty, w_cache := Map.empty\<rparr>"

lemma llm_world_simps [simp]:
  "w_faults llm_world = []" "w_instances llm_world = Map.empty" "w_cache llm_world = Map.empty"
  "tb_rows (llm_providers (w_db llm_world)) = [sample_provider 1 10 ''key-of-10'', sample_provider 2 20 ''key-of-20'']"
  "pv_tenant (sample_provider i t k) = t" "pv_id (sample_provider i t k) = i" "pv_name (sample_provider i t k) = ''OpenAI''"
  "pv_active (sample_provider i t k)" "\<not> pv_default (sample_provider i t k)"
  by (simp_all add: llm_world_def sample_world_def sample_provider_def)

theorem instances_shared_witness:
  "\<exists>c. fst (run_state (Router_GetProvider sample_llm 20 2) (snd (run_state (Router_GetProvider sample_llm 10 1) llm_world)))
     = Inr c \<and> pc_key c = ''key-of-10''"
proof -
  have "is_int64 10" "is_int64 1" "is_int64 20" "is_int64 2" "(10::int) \<noteq> 20"
    by (simp_all add: is_int64_def min_int64_def max_int64_def)
  note s = instances_shared [where w = llm_world, OF llm_world_simps(1-3) this]
  have "fst (run_state (Router_GetProvider sample_llm 20 2) (snd (run_state (Router_GetProvider sample_llm 10 1) llm_world)))
     = Inr (config_of_row sample_llm (sample_provider 1 10 ''key-of-10''))"
    by (rule s [where r' = "sample_provider 2 20 ''key-of-20''"]) (simp_all add: sample_kind sample_config_key)
  then show ?thesis by (simp add: sample_config_key)
qed

text \<open>
  A provider stays in use for five minutes. Once \<open>GetProvider\<close> has answered, it gives the same
  instance for the whole time to live of the cache, whatever happens to the database meanwhile:
  a provider that was deleted, or whose API key was replaced, is still called with the old key.
\<close>

theorem provider_kept_for_ttl:
  assumes "w_faults w = []" "w_cache w (cacheKey t i) = None"
    and "run_state (Router_GetProvider env t i) w = (Inr p, w1)"
    and "w_cache w2 = w_cache w1" "w_now w2 \<le> w_now w + cache_ttl"
  shows "run_state (Router_GetProvider env t i) w2 = (Inr p, w2)"
proof -
  obtain r where r: "first_of (filter (\<lambda>r. pv_tenant r = t \<and> pv_id r = i) (tb_rows (llm_providers (w_db w)))) = Some r"
    using assms(3) by (cases "first_of (filter (\<lambda>r. pv_tenant r = t \<and> pv_id r = i) (tb_rows (llm_providers (w_db w))))")
      (auto simp: Router_GetProvider_def Let_def run_cache_get_None [where w = w, OF assms(2)]
        run_GetProviderByID [OF assms(1)])
  have "w_cache w1 (cacheKey t i) = Some (p, w_now w + cache_ttl)"
    using assms(3) by (auto simp: Router_GetProvider_def Let_def run_cache_get_None [where w = w, OF assms(2)]
        run_GetProviderByID [OF assms(1)] r run_Factory run_cache_put split: option.splits if_splits)
  then show ?thesis
    using assms(4,5) by (simp add: Router_GetProvider_def Let_def run_cache_get_fresh)
qed

theorem provider_kept_for_ttl_witness:
  "\<exists>p. fst (run_state (Router_GetProvider sample_llm 10 1)
      ((snd (run_state (Router_GetProvider sample_llm 10 1) llm_world))\<lparr>w_db := empty_db\<rparr>)) = Inr p
    \<and> pc_key p = ''key-of-10''"
proof -
  have f: "first_of (filter (\<lambda>r. pv_tenant r = 10 \<and> pv_id r = 1) (tb_rows (llm_providers (w_db llm_world))))
    = Some (sample_provider 1 10 ''key-of-10'')" by simp
  obtain w1 where run: "run_state (Router_GetProvider sample_llm 10 1) llm_world =
      (Inr (config_of_row sample_llm (sample_provider 1 10 ''key-of-10'')), w1)"
    and now: "w_now w1 = w_now llm_world"
    using run_Router_GetProvider [OF _ _ f, where env = sample_llm] by (simp add: sample_kind)
  have "run_state (Router_GetProvider sample_llm 10 1) (w1\<lparr>w_db := empty_db\<rparr>) =
      (Inr (config_of_row sample_llm (sample_provider 1 10 ''key-of-10'')), w1\<lparr>w_db := empty_db\<rparr>)"
    by (rule provider_kept_for_ttl [OF _ _ run]) (simp_all add: now cache_ttl_def)
  then show ?thesis by (simp add: run sample_config_key)
qed

end
