(* ===== verification/LlmService.thy ===== *)
theory LlmService
  imports LlmStore "HOL-Library.AList"
begin

text \<open>
  What is done with the providers: the keyword fallback (\<open>backend/internal/llm/fallback.go\<close>), the
  service (\<open>service.go\<close>), the storing of an analysis (\<open>pipeline.go\<close>), the queue's worker
  (\<open>queue.go\<close>), the health monitor (\<open>health.go\<close>) and the two schedulers that start them per tenant.
\<close>

section \<open>The keyword fallback\<close>

definition containsAny :: "string \<Rightarrow> string list \<Rightarrow> bool" where
  "containsAny s ws \<longleftrightarrow> list_ex (Contains s) ws"

definition fallbackAnalysis :: "string \<Rightarrow> analysis" where
  "fallbackAnalysis message =
     (let lowered = ToLower message;
          urgent = containsAny lowered [''urgent'', ''asap'', ''deadline'', ''important''];
          sentiment =
            (if containsAny lowered [''angry'', ''upset'', ''frustrated'', ''issue''] then ''negative''
             else if containsAny lowered [''happy'', ''excited'', ''great'', ''thanks''] then ''positive''
             else ''neutral'');
          priority = (if urgent then ''high'' else ''low'');
          raised = Count1 message (CHR ''!'') \<ge> 2 \<and> priority \<noteq> ''high'';
          important = urgent \<or> raised
      in \<lparr>an_important = important,
          an_priority = (if raised then ''medium'' else priority),
          an_reason = ''keyword fallback'',
          an_has_action = (important \<or> Count1 message (CHR ''?'') > 0),
          an_action = ''review'', an_sentiment = sentiment, an_score = 0, an_topics = [],
          an_confidence = 3 / 10\<rparr>)"

section \<open>Asking the providers in turn\<close>

definition api_analyze :: "llm_env \<Rightarrow> provider_config \<Rightarrow> string \<Rightarrow> string + analysis" where
  "api_analyze env c message = fst (provider_Analyze (le_sdk env) c message fresh_state)"

fun try_providers ::
    "llm_env \<Rightarrow> string \<Rightarrow> provider_config list \<Rightarrow> (analysis \<times> provider_config \<times> int) option act" where
  "try_providers env message [] = State_Monad.return None"
| "try_providers env message (c # cs) = do {
     created \<leftarrow> Factory_CreateProvider c;
     case created of
       None \<Rightarrow> try_providers env message cs
     | Some provider \<Rightarrow>
         (case api_analyze env provider message of
            Inr result \<Rightarrow> State_Monad.return (Some (result, provider, pc_id c))
          | Inl _ \<Rightarrow> try_providers env message cs)
   }"

text \<open>The analysis, the provider and its id when one answered, and the error otherwise.\<close>

definition Router_AnalyzeWithFallback ::
    "llm_env \<Rightarrow> int \<Rightarrow> string \<Rightarrow> (analysis \<times> (provider_config \<times> int) option \<times> string option) act" where
  "Router_AnalyzeWithFallback env tenant message = do {
     listed \<leftarrow> Store_ListProviders env tenant;
     case listed of
       Inl _ \<Rightarrow> State_Monad.return (fallbackAnalysis message, None, Some ''list failed'')
     | Inr configs \<Rightarrow> do {
         found \<leftarrow> try_providers env message configs;
         State_Monad.return
           (case found of
              Some (result, provider, i) \<Rightarrow> (result, Some (provider, i), None)
            | None \<Rightarrow> (fallbackAnalysis message, None, Some ''all providers failed''))
       }
   }"

section \<open>The service\<close>

text \<open>
  \<open>usageFromProvider\<close>: the interface \<open>usageAware\<close> has an unexported method of package \<open>llm\<close>, which
  no type of package \<open>providers\<close> can implement, so only its last branch runs: no tokens are known.
\<close>

definition usageFromProvider :: "int \<Rightarrow> string option \<Rightarrow> string \<Rightarrow> usage_record" where
  "usageFromProvider latency e feature =
     \<lparr>uc_in = 0, uc_out = 0, uc_total = 0, uc_latency = latency, uc_success = (e = None),
      uc_error = coalesce e [], uc_feature = feature\<rparr>"

definition error_of :: "string + 'a \<Rightarrow> string option" where
  "error_of r = (case r of Inl e \<Rightarrow> Some e | Inr _ \<Rightarrow> None)"

text \<open>
  The call and its usage row, as \<open>Analyze\<close>, \<open>Summarize\<close> and \<open>ExtractActions\<close> share them. An error
  of the row is dropped.
\<close>

definition ask_provider ::
    "llm_env \<Rightarrow> int \<Rightarrow> int \<Rightarrow> int option \<Rightarrow> string \<Rightarrow> (provider_config \<Rightarrow> string + 'a) \<Rightarrow> (string + 'a) act" where
  "ask_provider env tenant pid mid feature call = do {
     found \<leftarrow> Router_GetProvider env tenant pid;
     case found of
       Inl e \<Rightarrow> State_Monad.return (Inl e)
     | Inr provider \<Rightarrow> do {
         let result = call provider;
         _ \<leftarrow> InsertUsage tenant pid mid (usageFromProvider (le_elapsed env provider) (error_of result) feature)
                (pc_cin provider) (pc_cout provider);
         State_Monad.return result
       }
   }"

definition Service_Analyze :: "llm_env \<Rightarrow> int \<Rightarrow> int \<Rightarrow> string \<Rightarrow> int option \<Rightarrow> (string + analysis) act" where
  "Service_Analyze env tenant pid message mid =
     ask_provider env tenant pid mid ''analyze'' (\<lambda>c. api_analyze env c message)"

definition Service_Summarize :: "llm_env \<Rightarrow> int \<Rightarrow> int \<Rightarrow> string list \<Rightarrow> (string + summary_result) act" where
  "Service_Summarize env tenant pid msgs =
     ask_provider env tenant pid None ''summarize''
       (\<lambda>c. fst (provider_Summarize (le_sdk env) c msgs fresh_state))"

definition Service_ExtractActions :: "llm_env \<Rightarrow> int \<Rightarrow> int \<Rightarrow> string \<Rightarrow> (string + string list) act" where
  "Service_ExtractActions env tenant pid s =
     ask_provider env tenant pid None ''extract_actions''
       (\<lambda>c. fst (provider_ExtractActions (le_sdk env) c s fresh_state))"

text \<open>The clock is read when the answer is already there, so the latency is none.\<close>

definition Service_AnalyzeWithFallback ::
    "llm_env \<Rightarrow> int \<Rightarrow> string \<Rightarrow> int option \<Rightarrow> (string + analysis) act" where
  "Service_AnalyzeWithFallback env tenant message mid = do {
     (result, provider, e) \<leftarrow> Router_AnalyzeWithFallback env tenant message;
     _ \<leftarrow> (case provider of
            Some (c, pid) \<Rightarrow>
              InsertUsage tenant pid mid (usageFromProvider 0 e ''analyze'') (pc_cin c) (pc_cout c)
          | None \<Rightarrow> ok ());
     State_Monad.return (Inr result)
   }"

definition Service_HealthCheck :: "llm_env \<Rightarrow> int \<Rightarrow> int \<Rightarrow> (health_result option \<times> string option) act" where
  "Service_HealthCheck env tenant pid = do {
     found \<leftarrow> Router_GetProvider env tenant pid;
     State_Monad.return
       (case found of
          Inl e \<Rightarrow> (None, Some e)
        | Inr c \<Rightarrow>
            (let (result, e) = provider_HealthCheck (le_sdk env) c
             in if e \<noteq> None then (result, e)
                else if result = None then (None, Some ''no health result'')
                else (result, None)))
   }"

section \<open>Storing an analysis\<close>

text \<open>
  An analysis as JSON. A nil slice and an empty one are the same list here; \<open>encoding/json\<close> writes
  \<open>null\<close> for the nil one.
\<close>

definition analysis_json :: "analysis \<Rightarrow> json" where
  "analysis_json a =
     JObj [(''is_important'', JBool (an_important a)), (''priority'', JStr (an_priority a)),
           (''reason'', JStr (an_reason a)), (''has_action'', JBool (an_has_action a)),
           (''action_required'', JStr (an_action a)), (''sentiment'', JStr (an_sentiment a)),
           (''sentiment_score'', JNum (an_score a)), (''topics'', JArr (map JStr (an_topics a))),
           (''confidence'', JNum (an_confidence a))]"

text \<open>
  \<open>payload["analysis"] = result\<close> on the decoded metadata. Anything but an object leaves the empty
  map (a stored literal \<open>null\<close> would make the map nil; every writer of the column stores an object).
\<close>

definition merge_analysis :: "json option \<Rightarrow> analysis \<Rightarrow> json" where
  "merge_analysis existing a =
     JObj (AList.update ''analysis'' (analysis_json a)
       (case existing of Some (JObj kvs) \<Rightarrow> kvs | _ \<Rightarrow> []))"

definition flag_important :: "int \<Rightarrow> int \<Rightarrow> analysis \<Rightarrow> int \<Rightarrow> unit sql" where
  "flag_important tenant mid a now =
     sql_insert_ignore important_messages important_messages_update im_tenant
       (\<lambda>d r. has_key ms_id mid (messages d))
       (\<lambda>i. \<lparr>im_id = i, im_tenant = tenant, im_msg = mid, im_priority = an_priority a,
             im_reason = Some (an_reason a), im_created = now\<rparr>)
       (\<lambda>r. im_msg r = mid)"

definition own_message :: "int \<Rightarrow> int \<Rightarrow> message_row \<Rightarrow> bool" where
  "own_message tenant mid m \<longleftrightarrow> ms_id m = mid \<and> ms_tenant m = tenant"

definition write_meta :: "int \<Rightarrow> int \<Rightarrow> json \<Rightarrow> message_row list sql" where
  "write_meta tenant mid meta =
     sql_update messages messages_update ms_tenant (own_message tenant mid) (\<lambda>m. m\<lparr>ms_meta := Some meta\<rparr>)"

text \<open>An error of the first query leaves the metadata empty; the update then writes that back.\<close>

definition store_callback :: "int \<Rightarrow> int \<Rightarrow> analysis \<Rightarrow> int \<Rightarrow> (dberr + unit) act" where
  "store_callback tenant mid a now = do {
     row \<leftarrow> Exec (sql_row messages ms_tenant (own_message tenant mid));
     let existing = (case row of Inr m \<Rightarrow> ms_meta m | Inl _ \<Rightarrow> None);
     then_ok (Exec (write_meta tenant mid (merge_analysis existing a))) (\<lambda>_.
       if an_important a then then_ok (Exec (flag_important tenant mid a now)) (\<lambda>_. ok ()) else ok ())
   }"

definition StoreAnalysis :: "int \<Rightarrow> int \<Rightarrow> analysis \<Rightarrow> (dberr + unit) act" where
  "StoreAnalysis tenant mid a = do {
     now \<leftarrow> Now;
     WithTenantConn tenant (store_callback tenant mid a now)
   }"

section \<open>The worker\<close>

definition analysis_event :: "int \<Rightarrow> json" where
  "analysis_event mid = JObj [(''message_id'', JInt mid), (''type'', JStr ''message.analysis'')]"

definition worker_item :: "llm_env \<Rightarrow> queue_message \<Rightarrow> unit act" where
  "worker_item env m = do {
     result \<leftarrow> Service_AnalyzeWithFallback env (qm_tenant m) (qm_content m) (Some (qm_message m));
     case result of
       Inl _ \<Rightarrow> State_Monad.return ()
     | Inr a \<Rightarrow> do {
         _ \<leftarrow> StoreAnalysis (qm_tenant m) (qm_message m) a;
         HubBroadcast (qm_tenant m) (analysis_event (qm_message m))
       }
   }"

fun worker_items :: "llm_env \<Rightarrow> queue_message list \<Rightarrow> unit act" where
  "worker_items env [] = State_Monad.return ()"
| "worker_items env (m # ms) = do { _ \<leftarrow> worker_item env m; worker_items env ms }"

text \<open>One turn of the loop in \<open>Worker.Start\<close>: sleep after an error or on an empty queue.\<close>

datatype worker_turn = SleepError | SleepIdle | Worked nat

definition worker_round :: "llm_env \<Rightarrow> int \<Rightarrow> int \<Rightarrow> worker_turn act" where
  "worker_round env tenant batchSize = do {
     let batch = (if batchSize \<le> 0 then 100 else batchSize);
     (items, e) \<leftarrow> DequeueBatch tenant batch;
     if e \<noteq> None then State_Monad.return SleepError
     else if items = [] then State_Monad.return SleepIdle
     else do {
       _ \<leftarrow> worker_items env items;
       State_Monad.return (Worked (length items))
     }
   }"

text \<open>The loop, cut off after some turns.\<close>

fun worker_loop :: "llm_env \<Rightarrow> int \<Rightarrow> int \<Rightarrow> nat \<Rightarrow> unit act" where
  "worker_loop env tenant batchSize 0 = State_Monad.return ()"
| "worker_loop env tenant batchSize (Suc turns) = do {
     _ \<leftarrow> worker_round env tenant batchSize;
     worker_loop env tenant batchSize turns
   }"

section \<open>The health monitor\<close>

definition health_status :: "health_result option \<times> string option \<Rightarrow> string" where
  "health_status r =
     (case r of
        (Some h, None) \<Rightarrow> if hr_latency h > 3000000000 then ''slow'' else ''ok''
      | _ \<Rightarrow> ''error'')"

definition check_provider :: "llm_env \<Rightarrow> int \<Rightarrow> int \<Rightarrow> unit act" where
  "check_provider env tenant pid = do {
     found \<leftarrow> Router_GetProvider env tenant pid;
     case found of
       Inl _ \<Rightarrow> State_Monad.return ()
     | Inr c \<Rightarrow> do {
         let r = provider_HealthCheck (le_sdk env) c;
         let status = health_status r;
         let latency = (case fst r of None \<Rightarrow> 0 | Some h \<Rightarrow> hr_latency h);
         _ \<leftarrow> InsertHealth tenant pid status latency (snd r);
         if status \<noteq> ''error'' then State_Monad.return ()
         else do {
           failures \<leftarrow> RecentHealthFailures tenant pid;
           case failures of
             Inl _ \<Rightarrow> State_Monad.return ()
           | Inr n \<Rightarrow>
               if n < 3 then State_Monad.return ()
               else do { _ \<leftarrow> SetProviderHealth tenant pid ''unhealthy''; State_Monad.return () }
         }
       }
   }"

fun check_providers :: "llm_env \<Rightarrow> int \<Rightarrow> int list \<Rightarrow> unit act" where
  "check_providers env tenant [] = State_Monad.return ()"
| "check_providers env tenant (i # is) = do { _ \<leftarrow> check_provider env tenant i; check_providers env tenant is }"

definition health_runOnce :: "llm_env \<Rightarrow> int \<Rightarrow> unit act" where
  "health_runOnce env tenant = do {
     listed \<leftarrow> ListProviderIDs tenant;
     case listed of
       Inl _ \<Rightarrow> State_Monad.return ()
     | Inr ids \<Rightarrow> check_providers env tenant ids
   }"

section \<open>The schedulers\<close>

text \<open>The tenants with a running goroutine, and whether this call starts one.\<close>

definition EnsureTenant :: "int \<Rightarrow> int set \<Rightarrow> int set \<times> bool" where
  "EnsureTenant tenant workers =
     (if tenant \<in> workers then (workers, False) else (insert tenant workers, True))"

section \<open>Isolation and quietness\<close>

context step_core
begin

lemma keeps_try [intro]: "state_io_rel R (try_providers env m cs)"
  by (induction cs) (auto intro!: keeps_core keeps_memory)

end

lemma service_tenant [intro]:
  "state_io_rel (tenant_frame t) (Service_AnalyzeWithFallback env t m mid)"
  "state_io_rel (tenant_frame t) (StoreAnalysis t i a)"
  "state_io_rel (tenant_frame t) (ask_provider env t pid mid feature call)"
  unfolding Service_AnalyzeWithFallback_def Router_AnalyzeWithFallback_def StoreAnalysis_def store_callback_def ask_provider_def
    write_meta_def flag_important_def own_message_def Let_def
  by (intro tenant.keeps_intros store_tenant router_tenant tenant.keeps_try keeps_stmts; simp)+

context exec_relation
begin

lemma keeps_service [intro]:
  "state_io_rel R (Service_AnalyzeWithFallback env t m mid)"
  "state_io_rel R (StoreAnalysis t i a)"
  "state_io_rel R (ask_provider env t pid mid feature call)"
  unfolding Service_AnalyzeWithFallback_def Router_AnalyzeWithFallback_def StoreAnalysis_def store_callback_def ask_provider_def Let_def
  by (intro keeps_all keeps_store keeps_routing keeps_try)+

end

lemma worker_item_frame [intro]:
  "state_io_rel (tenant_frame (qm_tenant m)) (worker_item env m)" "state_io_rel no_faults (worker_item env m)"
  unfolding worker_item_def
  by (intro tenant.keeps_intros service_tenant)
    (intro quiet.keeps_intros quiet_exec.keeps_service)

lemma check_provider_tenant [intro]: "state_io_rel (tenant_frame t) (check_provider env t i)"
  unfolding check_provider_def Let_def by (intro tenant.keeps_intros router_tenant store_tenant)

lemma check_providers_tenant: "state_io_rel (tenant_frame t) (check_providers env t ids)"
  by (induction ids) (auto intro!: tenant.keeps_intros)

lemma health_runOnce_tenant: "state_io_rel (tenant_frame t) (health_runOnce env t)"
  unfolding health_runOnce_def by (intro tenant.keeps_intros store_tenant check_providers_tenant)

text \<open>Only the worker and its callers touch the queue and the hub.\<close>

definition comm_frame :: "world \<Rightarrow> world \<Rightarrow> bool" where
  "comm_frame w w' \<longleftrightarrow> w_queue w' = w_queue w \<and> w_bcast w' = w_bcast w \<and> w_hub w' = w_hub w"

interpretation comm: exec_relation comm_frame
  by unfold_locales (simp_all add: comm_frame_def)

section \<open>Analyses\<close>

lemma fallback_words:
  "an_priority (fallbackAnalysis m) \<in> {''high'', ''medium'', ''low''}"
  "an_important (fallbackAnalysis m) \<longleftrightarrow> an_priority (fallbackAnalysis m) \<noteq> ''low''"
  by (auto simp: fallbackAnalysis_def Let_def)

text \<open>The instances agree with the configurations: no other one sits under the key of one of them.\<close>

definition instances_agree :: "(string \<rightharpoonup> provider_config) \<Rightarrow> provider_config list \<Rightarrow> bool" where
  "instances_agree insts cs \<longleftrightarrow>
     (\<forall>c \<in> set cs. insts (instance_key c) = None \<or> insts (instance_key c) = Some c) \<and>
     (\<forall>c \<in> set cs. \<forall>c' \<in> set cs. instance_key c = instance_key c' \<longrightarrow> c = c') \<and>
     (\<forall>c \<in> set cs. insts (instance_key c) = Some c \<longrightarrow> provider_kind_of (pc_name c) \<noteq> None)"

definition answers :: "llm_env \<Rightarrow> string \<Rightarrow> provider_config \<Rightarrow> bool" where
  "answers env m c \<longleftrightarrow> provider_kind_of (pc_name c) \<noteq> None \<and> \<not> isl (api_analyze env c m)"

lemma try_providers_first:
  "instances_agree (w_instances w) cs \<Longrightarrow>
     fst (run_state (try_providers env m cs) w) =
       map_option (\<lambda>c. (projr (api_analyze env c m), c, pc_id c)) (find (answers env m) cs) \<and>
     w_db (snd (run_state (try_providers env m cs) w)) = w_db w"
proof (induction cs arbitrary: w)
  case (Cons c cs)
  show ?case
  proof (cases "provider_kind_of (pc_name c)")
    case None
    with Cons.prems have "w_instances w (instance_key c) = None" by (auto simp: instances_agree_def)
    moreover have "instances_agree (w_instances w) cs" using Cons.prems by (auto simp: instances_agree_def)
    ultimately show ?thesis using None Cons.IH [of w] by (simp add: run_Factory answers_def)
  next
    case (Some k)
    obtain w' where f: "run_state (Factory_CreateProvider c) w = (Some c, w')" "w_db w' = w_db w"
      and ok: "instances_agree (w_instances w') cs"
    proof (cases "w_instances w (instance_key c)")
      case None
      have "instances_agree ((w_instances w)(instance_key c \<mapsto> c)) cs"
        using Cons.prems Some by (auto simp: instances_agree_def)
      with None Some that show ?thesis by (simp add: run_Factory)
    next
      case (Some p)
      then have "p = c" using Cons.prems by (auto simp: instances_agree_def)
      moreover have "instances_agree (w_instances w) cs" using Cons.prems by (auto simp: instances_agree_def)
      ultimately show ?thesis using Some that by (simp add: run_Factory)
    qed
    show ?thesis
      using f Cons.IH [OF ok] Some by (cases "api_analyze env c m") (simp_all add: answers_def)
  qed
qed simp

lemma run_AnalyzeWithFallback:
  assumes "w_faults w = []"
    and "cs = map (config_of_row env) (default_first
        (filter (\<lambda>r. pv_tenant r = t \<and> pv_active r) (tb_rows (llm_providers (w_db w)))))"
    and "instances_agree (w_instances w) cs"
  shows "fst (run_state (Router_AnalyzeWithFallback env t m) w) =
    (case find (answers env m) cs of
       Some c \<Rightarrow> (projr (api_analyze env c m), Some (c, pc_id c), None)
     | None \<Rightarrow> (fallbackAnalysis m, None, Some ''all providers failed''))"
proof -
  have "instances_agree (w_instances (reset_sess w)) cs" using assms(3) by simp
  from try_providers_first [where env = env and m = m, OF this] show ?thesis
    by (simp add: Router_AnalyzeWithFallback_def run_ListProviders [OF assms(1)] assms(2) split_beta split: option.split)
qed


lemma default_first_set: "set (default_first rows) = set rows"
  by (auto simp: default_first_def Let_def)

lemma le_sdk_sample: "le_sdk sample_llm = sample_sdk"
  by (simp add: sample_llm_def)


section \<open>No usage is ever counted\<close>

definition usage_frame :: "world \<Rightarrow> world \<Rightarrow> bool" where
  "usage_frame w w' \<longleftrightarrow>
     (\<exists>added. tb_rows (llm_usage_logs (w_db w')) = tb_rows (llm_usage_logs (w_db w)) @ added \<and>
        (\<forall>u \<in> set added. ug_in u = 0 \<and> ug_out u = 0 \<and> ug_total u = 0 \<and> ug_cost u = 0))"

interpretation usage: frame_relation usage_frame
proof
  fix u v w :: world
  show "usage_frame u v \<Longrightarrow> usage_frame v w \<Longrightarrow> usage_frame u w"
    unfolding usage_frame_def by (elim exE conjE) (rule_tac x = "added @ addeda" in exI, auto)
qed (auto simp: usage_frame_def)

lemma usage_other:
  "(\<And>s d. llm_usage_logs (snd (q s d)) = llm_usage_logs d) \<Longrightarrow> state_io_rel usage_frame (Exec q)"
  by (rule usage.keeps_Exec) (simp add: usage_frame_def)

lemma usage_stmts [intro]:
  "state_io_rel usage_frame (Exec (active_providers t))"
  "state_io_rel usage_frame (Exec (sql_row llm_providers pv_tenant P))"
  "state_io_rel usage_frame (Exec (sql_row messages ms_tenant Q))"
  "state_io_rel usage_frame (Exec (write_meta t i meta))"
  "state_io_rel usage_frame (Exec (flag_important t i a now))"
  by (rule usage_other, simp add: active_providers_def sql_select_def sql_row_def write_meta_def sql_update_def
      flag_important_def sql_insert_ignore_def Let_def split: option.split)+

lemma usage_insert [intro]:
  "state_io_rel usage_frame (InsertUsage t pid mid (usageFromProvider latency e feature) ci co)"
proof -
  have "state_io_rel usage_frame (Exec (insert_usage t pid mid (usageFromProvider latency e feature) ci co now))" for now
    by (rule usage.keeps_Exec)
      (simp add: usage_frame_def insert_usage_def sql_insert_def Let_def usageFromProvider_def TotalCost_def
        InputCost_def OutputCost_def)
  then show ?thesis unfolding InsertUsage_def by (intro usage.keeps_intros)
qed

lemma usage_store [intro]:
  "state_io_rel usage_frame (Store_ListProviders env t)"
  "state_io_rel usage_frame (Store_GetProviderByID env t i)"
  unfolding Store_ListProviders_def Store_GetProviderByID_def by (intro usage.keeps_intros usage_stmts)+

lemma usage_ask [intro]: "state_io_rel usage_frame (ask_provider env t pid mid feature call)"
  unfolding ask_provider_def Let_def
  by (intro usage.keeps_intros usage.keeps_router usage_store usage_insert)

text \<open>
  Usage is never counted. Whatever the providers report and whatever fails, every row the
  service adds to the usage log has no tokens and no cost, so every cost report built on it is
  zero: the record a provider keeps of its last call never reaches the service.
\<close>

theorem usage_without_tokens:
  "state_io_rel usage_frame (Service_Analyze env t pid m mid) \<and>
   state_io_rel usage_frame (Service_Summarize env t pid ms) \<and>
   state_io_rel usage_frame (Service_ExtractActions env t pid m) \<and>
   state_io_rel usage_frame (Service_AnalyzeWithFallback env t m mid)"
proof -
  have "state_io_rel usage_frame (Service_AnalyzeWithFallback env t m mid)"
    unfolding Service_AnalyzeWithFallback_def Router_AnalyzeWithFallback_def
    by (intro usage.keeps_intros usage.keeps_try usage_store usage_insert)
  then show ?thesis
    unfolding Service_Analyze_def Service_Summarize_def Service_ExtractActions_def by (intro conjI usage_ask)
qed

section \<open>What storing an analysis keeps\<close>

lemma whatsapp_id_merge [simp]:
  "whatsapp_id (m\<lparr>ms_meta := Some (merge_analysis (ms_meta m) a)\<rparr>) = whatsapp_id m"
  by (simp add: whatsapp_id_def merge_analysis_def update_conv' split: option.split json.split)

lemma write_meta_run:
  "write_meta t i meta s d =
     (Inr (map (\<lambda>m. m\<lparr>ms_meta := Some meta\<rparr>)
        (filter (\<lambda>m. visible s (ms_tenant m) \<and> own_message t i m) (tb_rows (messages d)))),
      d\<lparr>messages := (messages d)\<lparr>tb_rows := update_where (\<lambda>m. visible s (ms_tenant m) \<and> own_message t i m)
         (\<lambda>m. m\<lparr>ms_meta := Some meta\<rparr>) (tb_rows (messages d))\<rparr>\<rparr>)"
  by (simp add: write_meta_def sql_update_def Let_def)

lemma own_visible: "(\<lambda>m. visible (as_tenant t w) (ms_tenant m) \<and> own_message t i m) = own_message t i"
  by (auto simp: own_message_def)

lemma own_visible_row:
  "sql_row messages ms_tenant (own_message t i) (as_tenant t w) d =
     ((case first_of (filter (own_message t i) (tb_rows (messages d))) of None \<Rightarrow> Inl NoRows | Some m \<Rightarrow> Inr m), d)"
  by (simp add: sql_row_def own_visible split: option.split)

text \<open>
  The whole run without faults: the message rows, the flag, and everything else as it was.
\<close>

definition metas_written :: "int \<Rightarrow> int \<Rightarrow> analysis \<Rightarrow> db \<Rightarrow> db" where
  "metas_written t i a d =
     (let rows = tb_rows (messages d);
          existing = (case first_of (filter (own_message t i) rows) of None \<Rightarrow> None | Some m \<Rightarrow> ms_meta m)
      in d\<lparr>messages := (messages d)\<lparr>tb_rows := update_where (own_message t i)
            (\<lambda>m. m\<lparr>ms_meta := Some (merge_analysis existing a)\<rparr>) rows\<rparr>\<rparr>)"

lemma run_StoreAnalysis:
  assumes "w_faults w = []"
  shows "run_state (StoreAnalysis t i a) w =
    (let d = metas_written t i a (w_db w);
         (res, d') = (if an_important a then flag_important t i a (w_now w) (as_tenant t w) d else (Inr (), d))
     in (res, w\<lparr>w_db := d', w_sess := (w_sess w)\<lparr>ss_tenant := None\<rparr>\<rparr>))"
proof -
  let ?w = "w\<lparr>w_sess := as_tenant t w\<rparr>"
  have q: "state_io_rel no_faults (store_callback t i a now)" for now
    unfolding store_callback_def Let_def by (intro quiet_exec.keeps_all)
  have e: "(case (case first_of xs of None \<Rightarrow> Inl NoRows | Some m \<Rightarrow> Inr m) of Inl _ \<Rightarrow> None | Inr m \<Rightarrow> ms_meta m)
    = (case first_of xs of None \<Rightarrow> None | Some m \<Rightarrow> ms_meta m)" for xs by (simp split: option.split)
  have run: "run_state (store_callback t i a now) ?w =
    (let d = metas_written t i a (w_db w);
         (res, d') = (if an_important a then flag_important t i a now (as_tenant t w) d else (Inr (), d))
     in (res, ?w\<lparr>w_db := d'\<rparr>))" for now
    using assms
    by (simp add: store_callback_def run_Exec_nil own_visible_row write_meta_run own_visible run_then_ok e
        metas_written_def Let_def split: prod.split sum.split)
  have "(as_tenant t w)\<lparr>ss_tenant := None\<rparr> = (w_sess w)\<lparr>ss_tenant := None\<rparr>" by (simp add: as_tenant_def)
  then show ?thesis
    using run [of "w_now w"]
    by (simp add: StoreAnalysis_def run_WithTenantConn_quiet [OF assms q] as_tenant_def [symmetric] split_beta Let_def
        split del: if_split)
qed

lemma flag_important_messages [simp]:
  "messages (snd (flag_important t i a now s d)) = messages d"
  "conversations (snd (flag_important t i a now s d)) = conversations d"
  by (simp_all add: flag_important_def sql_insert_ignore_def Let_def)

lemma run_StoreAnalysis_messages:
  assumes "w_faults w = []" "distinct (map ms_id (tb_rows (messages (w_db w))))"
  shows "tb_rows (messages (w_db (snd (run_state (StoreAnalysis t i a) w)))) =
      update_where (own_message t i) (\<lambda>m. m\<lparr>ms_meta := Some (merge_analysis (ms_meta m) a)\<rparr>) (tb_rows (messages (w_db w)))"
    (is "?new = ?old'")
    and "conversations (w_db (snd (run_state (StoreAnalysis t i a) w))) = conversations (w_db w)"
proof -
  let ?rows = "tb_rows (messages (w_db w))"
  have "update_where (own_message t i) (\<lambda>m. m\<lparr>ms_meta := Some (merge_analysis
      (case first_of (filter (own_message t i) ?rows) of None \<Rightarrow> None | Some m \<Rightarrow> ms_meta m) a)\<rparr>) ?rows = ?old'"
  proof -
    have "first_of (filter (own_message t i) ?rows) = Some m" if "m \<in> set ?rows" "own_message t i m" for m
    proof (cases "first_of (filter (own_message t i) ?rows)")
      case None
      with that show ?thesis by (auto simp: filter_empty_conv)
    next
      case (Some m')
      then have "m' \<in> set ?rows" "own_message t i m'" using first_of_filter_SomeD by metis+
      with that assms(2) have "m' = m" by (intro distinct_map_unique [of ms_id ?rows]) (auto simp: own_message_def)
      with Some show ?thesis by simp
    qed
    then show ?thesis unfolding update_where_def by (intro map_cong) auto
  qed
  then show "?new = ?old'" "conversations (w_db (snd (run_state (StoreAnalysis t i a) w))) = conversations (w_db w)"
    by (simp_all add: run_StoreAnalysis [OF assms(1)] metas_written_def Let_def split_beta)
qed

lemma has_key_update_where: "(\<And>r. key (f r) = key r) \<Longrightarrow> has_key key k (T\<lparr>tb_rows := update_where P f (tb_rows T)\<rparr>) = has_key key k T"
  by (simp add: has_key_map map_update_where)

text \<open>What becomes of the flags, and of everything that is neither a message nor a flag.\<close>

lemma StoreAnalysis_elsewhere:
  fixes w :: world and t i :: int and a :: analysis
  assumes "w_faults w = []"
  defines "after \<equiv> w_db (snd (run_state (StoreAnalysis t i a) w))"
  shows "tb_rows (important_messages after) = tb_rows (important_messages (w_db w)) @
      (if an_important a \<and> has_key ms_id i (messages (w_db w)) \<and> \<not> has_key im_msg i (important_messages (w_db w))
       then [\<lparr>im_id = tb_seq (important_messages (w_db w)) + 1, im_tenant = t, im_msg = i, im_priority = an_priority a,
              im_reason = Some (an_reason a), im_created = w_now w\<rparr>] else [])"
    and "after\<lparr>messages := messages (w_db w), important_messages := important_messages (w_db w)\<rparr> = w_db w"
proof -
  let ?d = "metas_written t i a (w_db w)"
  have d: "important_messages ?d = important_messages (w_db w)" "has_key ms_id i (messages ?d) = has_key ms_id i (messages (w_db w))"
    "?d\<lparr>messages := messages (w_db w)\<rparr> = w_db w"
    by (simp_all add: metas_written_def Let_def has_key_update_where)
  have after: "after = (if an_important a then snd (flag_important t i a (w_now w) (as_tenant t w) ?d) else ?d)"
    unfolding after_def run_StoreAnalysis [OF assms(1)] by (simp add: split_beta Let_def)
  show "tb_rows (important_messages after) = tb_rows (important_messages (w_db w)) @
      (if an_important a \<and> has_key ms_id i (messages (w_db w)) \<and> \<not> has_key im_msg i (important_messages (w_db w))
       then [\<lparr>im_id = tb_seq (important_messages (w_db w)) + 1, im_tenant = t, im_msg = i, im_priority = an_priority a,
              im_reason = Some (an_reason a), im_created = w_now w\<rparr>] else [])"
    by (auto simp: after flag_important_def sql_insert_ignore_def Let_def d has_key_def [of im_msg] )
  have "(snd (flag_important t i a now (as_tenant t w) e))\<lparr>messages := m, important_messages := important_messages e\<rparr> =
      e\<lparr>messages := m\<rparr>" for now m and e :: db
    by (auto simp: flag_important_def sql_insert_ignore_def Let_def)
  from this [where now = "w_now w" and e = ?d and m = "messages (w_db w)"] d(3)
  show "after\<lparr>messages := messages (w_db w), important_messages := important_messages (w_db w)\<rparr> = w_db w"
    by (simp add: after d(1))
qed

text \<open>
  C30. Storing an analysis. Without faults, and with the message ids distinct as the primary key has
  them, the analysis is written under the key \<open>analysis\<close> of the message's metadata; if it says that
  the message is important, and a message with the id exists and is not flagged yet, one flag is
  added at the end of the flagged messages. Nothing else in the database changes (but for the number
  that the attempt to flag draws from its sequence): the other rows, and the message's text, place and WhatsApp id are as they were, so what the WhatsApp sync relies
  on still holds.
\<close>

theorem analysis_keeps_messages:
  fixes w :: world and t i :: int and a :: analysis
  assumes "w_faults w = []" "distinct (map ms_id (tb_rows (messages (w_db w))))"
  defines "after \<equiv> snd (run_state (StoreAnalysis t i a) w)"
  shows "tb_rows (messages (w_db after)) =
      update_where (own_message t i) (\<lambda>m. m\<lparr>ms_meta := Some (merge_analysis (ms_meta m) a)\<rparr>) (tb_rows (messages (w_db w))) \<and>
    map whatsapp_id (tb_rows (messages (w_db after))) = map whatsapp_id (tb_rows (messages (w_db w))) \<and>
    tb_rows (important_messages (w_db after)) = tb_rows (important_messages (w_db w)) @
      (if an_important a \<and> has_key ms_id i (messages (w_db w)) \<and> \<not> has_key im_msg i (important_messages (w_db w))
       then [\<lparr>im_id = tb_seq (important_messages (w_db w)) + 1, im_tenant = t, im_msg = i, im_priority = an_priority a,
              im_reason = Some (an_reason a), im_created = w_now w\<rparr>] else []) \<and>
    (w_db after)\<lparr>messages := messages (w_db w), important_messages := important_messages (w_db w)\<rparr> = w_db w \<and>
    (sync_inv (w_db w) \<longrightarrow> sync_inv (w_db after))"
proof -
  let ?f = "\<lambda>m. m\<lparr>ms_meta := Some (merge_analysis (ms_meta m) a)\<rparr>"
  let ?old = "tb_rows (messages (w_db w))"
  have rows: "tb_rows (messages (w_db after)) = update_where (own_message t i) ?f ?old"
    and convs: "conversations (w_db after) = conversations (w_db w)"
    unfolding after_def by (rule run_StoreAnalysis_messages [OF assms(1,2)])+
  have ids: "map whatsapp_id (update_where (own_message t i) ?f ?old) = map whatsapp_id ?old"
    by (rule map_update_where) simp
  have "wa_keys (update_where (own_message t i) ?f xs) = wa_keys xs" for xs
    unfolding wa_keys_def by (induction xs) (auto cong: option.case_cong)
  moreover have "ms_conv m \<in> ms_conv ` set ?old" if "m \<in> set (update_where (own_message t i) ?f ?old)" for m
    using that by (auto simp: in_update_where split: if_splits)
  ultimately have "sync_inv (w_db w) \<longrightarrow> sync_inv (w_db after)"
    unfolding sync_inv_def rows convs by (metis (no_types, lifting) imageE)
  moreover note StoreAnalysis_elsewhere [OF assms(1), of t i a, folded after_def]
  ultimately show ?thesis using rows ids by simp
qed

definition sample_row :: message_row where
  "sample_row =
     \<lparr>ms_id = 5, ms_tenant = 10, ms_conv = 1, ms_sender = ''me'', ms_content = ''hi'', ms_time = 0,
      ms_meta = Some (JObj [(''whatsapp_id'', JStr ''W'')]), ms_created = 0\<rparr>"

definition message_world :: "bool list \<Rightarrow> world" where
  "message_world fs =
     (sample_world ''admin'')\<lparr>w_db := empty_db\<lparr>messages := \<lparr>tb_rows = [sample_row], tb_seq = 5\<rparr>\<rparr>, w_faults := fs\<rparr>"

lemma message_world_simps [simp]:
  "w_faults (message_world fs) = fs" "tb_rows (messages (w_db (message_world fs))) = [sample_row]"
  "important_messages (w_db (message_world fs)) = empty_table"
  "ss_rls (w_sess (message_world fs)) = ss_rls (w_sess (sample_world ''admin''))"
  by (simp_all add: message_world_def empty_db_def)

lemma sample_row_id: "whatsapp_id sample_row = Some ''W''"
  by (simp add: whatsapp_id_def sample_row_def)

theorem analysis_keeps_messages_witness:
  "map whatsapp_id (tb_rows (messages (w_db (snd (run_state (StoreAnalysis 10 5 sample_analysis) (message_world []))))))
     = [Some ''W'']"
  using analysis_keeps_messages [of "message_world []" 10 5 sample_analysis]
  by (simp add: sample_row_id)

text \<open>
  A read error erases the metadata. When the query for the metadata fails and the update does
  not, \<open>StoreAnalysis\<close> reports success and leaves the message with the analysis alone: its WhatsApp
  id is gone, so a later delivery of the same message is stored a second time.
\<close>

theorem read_fault_erases_id:
  assumes "w_faults w = [False, False, True]" "m \<in> set (tb_rows (messages (w_db w)))" "own_message t i m"
    and "\<not> an_important a"
  shows "fst (run_state (StoreAnalysis t i a) w) = Inr () \<and>
    (\<exists>m' \<in> set (tb_rows (messages (w_db (snd (run_state (StoreAnalysis t i a) w))))).
       own_message t i m' \<and> ms_content m' = ms_content m \<and>
       ms_meta m' = Some (JObj [(''analysis'', analysis_json a)]) \<and> whatsapp_id m' = None)"
proof -
  let ?w = "w\<lparr>w_faults := [True], w_sess := as_tenant t w\<rparr>"
  let ?v = "w\<lparr>w_faults := [], w_sess := as_tenant t w\<rparr>"
  let ?meta = "merge_analysis None a"
  have meta: "?meta = JObj [(''analysis'', analysis_json a)]" by (simp add: merge_analysis_def)
  let ?d = "(w_db w)\<lparr>messages := (messages (w_db w))\<lparr>tb_rows := update_where (own_message t i)
         (\<lambda>m. m\<lparr>ms_meta := Some ?meta\<rparr>) (tb_rows (messages (w_db w)))\<rparr>\<rparr>"
  have "run_state (Exec (sql_row messages ms_tenant (own_message t i))) ?w = (Inl Fault, ?v)"
    by (simp add: Exec_def faulty_def)
  then have cb: "run_state (store_callback t i a (w_now w)) ?w = (Inr (), ?v\<lparr>w_db := ?d\<rparr>)"
    using assms(4) by (simp add: store_callback_def run_then_ok run_Exec_nil write_meta_run own_visible)
  have "run_state (StoreAnalysis t i a) w = (Inr (), ?v\<lparr>w_db := ?d, w_sess := (as_tenant t w)\<lparr>ss_tenant := None\<rparr>\<rparr>)"
    using assms(1) cb
    by (simp add: StoreAnalysis_def WithTenantConn_def Acquire_def SetTenant_def faulty_def as_tenant_def)
  moreover have "m\<lparr>ms_meta := Some ?meta\<rparr> \<in> set (tb_rows (messages ?d))"
    using assms(2,3) by (auto simp: in_update_where intro!: bexI [of _ m])
  moreover have "own_message t i (m\<lparr>ms_meta := Some ?meta\<rparr>)" using assms(3) by (simp add: own_message_def)
  ultimately show ?thesis
    by (intro conjI bexI [of _ "m\<lparr>ms_meta := Some ?meta\<rparr>"]) (simp_all add: meta whatsapp_id_def)
qed

theorem read_fault_erases_id_witness:
  "\<exists>m' \<in> set (tb_rows (messages (w_db (snd (run_state (StoreAnalysis 10 5 (fallbackAnalysis ''hi''))
       (message_world [False, False, True])))))). whatsapp_id m' = None"
proof -
  have "own_message 10 5 sample_row" by (simp add: own_message_def sample_row_def)
  moreover have "\<not> an_important (fallbackAnalysis ''hi'')" by code_simp
  ultimately show ?thesis
    using read_fault_erases_id [of "message_world [False, False, True]" sample_row 10 5] by fastforce
qed

text \<open>
  Flagging another tenant's message. The flag of an important analysis is inserted for any
  message id, whoever owns the message: without faults, an analysis stored for tenant \<open>t\<close> with the
  id of a message of tenant \<open>t'\<close> leaves that message as it is but puts a flag of \<open>t\<close> on it, and
  because a message has one flag at most, the owner's own flag is silently dropped from then on.
\<close>

theorem foreign_flag_blocks_owner:
  fixes w :: world and t t' i :: int and a a' :: analysis
  assumes "w_faults w = []" "m \<in> set (tb_rows (messages (w_db w)))" "ms_id m = i" "ms_tenant m = t'" "t \<noteq> t'"
    and "distinct (map ms_id (tb_rows (messages (w_db w))))"
    and "\<forall>f \<in> set (tb_rows (important_messages (w_db w))). im_msg f \<noteq> i"
    and "an_important a" "an_important a'"
  defines "w1 \<equiv> snd (run_state (StoreAnalysis t i a) w)"
  defines "w2 \<equiv> snd (run_state (StoreAnalysis t' i a') w1)"
  shows "messages (w_db w1) = messages (w_db w) \<and>
    (\<exists>f. tb_rows (important_messages (w_db w2)) = tb_rows (important_messages (w_db w)) @ [f] \<and>
         im_tenant f = t \<and> im_msg f = i) \<and>
    fst (run_state (StoreAnalysis t' i a') w1) = Inr ()"
proof -
  let ?rows = "tb_rows (messages (w_db w))"
  have other: "\<not> own_message t i x" if "x \<in> set ?rows" for x
    using distinct_map_unique [OF assms(6) that assms(2)] assms(3-5) by (auto simp: own_message_def)
  then have same: "update_where (own_message t i) f ?rows = ?rows" for f by simp
  have d1: "metas_written t i a (w_db w) = (w_db w)\<lparr>messages := messages (w_db w)\<rparr>"
    by (simp add: metas_written_def Let_def same)
  let ?f = "\<lparr>im_id = tb_seq (important_messages (w_db w)) + 1, im_tenant = t, im_msg = i,
    im_priority = an_priority a, im_reason = Some (an_reason a), im_created = w_now w\<rparr>"
  have key: "has_key ms_id i (messages (w_db w))" using assms(2,3) by (auto simp: has_key_def)
  have w1: "w_db w1 = (w_db w)\<lparr>important_messages := \<lparr>tb_rows = tb_rows (important_messages (w_db w)) @ [?f],
      tb_seq = tb_seq (important_messages (w_db w)) + 1\<rparr>\<rparr>" "w_faults w1 = []"
    using assms(1,7,8) key unfolding w1_def
    by (simp_all add: run_StoreAnalysis [OF assms(1)] d1 flag_important_def sql_insert_ignore_def Let_def split_beta)
  from run_StoreAnalysis [OF w1(2), of t' i a'] assms(9) show ?thesis
    unfolding w2_def by (simp add: w1 flag_important_def sql_insert_ignore_def Let_def split_beta metas_written_def)
qed

theorem foreign_flag_blocks_owner_witness:
  "\<exists>f. tb_rows (important_messages (w_db (snd (run_state (StoreAnalysis 10 5 sample_analysis)
       (snd (run_state (StoreAnalysis 99 5 sample_analysis) (message_world []))))))) = [f] \<and> im_tenant f = 99"
  using foreign_flag_blocks_owner [of "message_world []" sample_row 5 10 99 sample_analysis sample_analysis]
  by (auto simp: sample_row_def sample_analysis_def)

section \<open>Batches\<close>

lemma service_answers: "\<exists>a. fst (run_state (Service_AnalyzeWithFallback env t m mid) w) = Inr a"
  by (auto simp: Service_AnalyzeWithFallback_def split_beta)

lemma commD: "state_io_rel comm_frame m \<Longrightarrow>
    w_queue (snd (run_state m w)) = w_queue w \<and> w_bcast (snd (run_state m w)) = w_bcast w \<and>
    w_hub (snd (run_state m w)) = w_hub w"
  by (simp add: state_io_rel_def comm_frame_def)

lemma worker_item_run:
  fixes w :: world and env :: llm_env and m :: queue_message
  assumes "w_faults w = []" "w_hub w"
  defines "w' \<equiv> snd (run_state (worker_item env m) w)"
  shows "w_faults w' = [] \<and> w_hub w' \<and> w_queue w' = w_queue w \<and>
    w_bcast w' = w_bcast w @ [(qm_tenant m, analysis_event (qm_message m))]"
proof -
  obtain a w1 where s: "run_state (Service_AnalyzeWithFallback env (qm_tenant m) (qm_content m) (Some (qm_message m))) w = (Inr a, w1)"
    using service_answers by (metis prod.collapse)
  define w2 where "w2 = snd (run_state (StoreAnalysis (qm_tenant m) (qm_message m) a) w1)"
  have "w_queue w2 = w_queue w" "w_bcast w2 = w_bcast w" "w_hub w2 = w_hub w"
    using commD [OF comm.keeps_service(1), of env "qm_tenant m" "qm_content m" "Some (qm_message m)" w]
      commD [OF comm.keeps_service(2), of "qm_tenant m" "qm_message m" a w1] s by (simp_all add: w2_def)
  moreover have "w' = snd (run_state (HubBroadcast (qm_tenant m) (analysis_event (qm_message m))) w2)"
    unfolding w'_def worker_item_def w2_def by (simp add: s split_beta)
  moreover have "w_faults w' = []"
    unfolding w'_def by (rule quietD [OF worker_item_frame(2) assms(1)])
  ultimately show ?thesis using assms(2) by (simp add: run_HubBroadcast)
qed

lemma worker_items_run:
  "w_faults w = [] \<Longrightarrow> w_hub w \<Longrightarrow>
     w_faults (snd (run_state (worker_items env ms) w)) = [] \<and> w_hub (snd (run_state (worker_items env ms) w)) \<and>
     w_queue (snd (run_state (worker_items env ms) w)) = w_queue w \<and>
     w_bcast (snd (run_state (worker_items env ms) w)) =
       w_bcast w @ map (\<lambda>m. (qm_tenant m, analysis_event (qm_message m))) ms"
proof (induction ms arbitrary: w)
  case (Cons m ms)
  define w1 where "w1 = snd (run_state (worker_item env m) w)"
  have "w_faults w1 = [] \<and> w_hub w1 \<and> w_queue w1 = w_queue w \<and>
    w_bcast w1 = w_bcast w @ [(qm_tenant m, analysis_event (qm_message m))]"
    unfolding w1_def by (rule worker_item_run [OF Cons.prems])
  moreover have "run_state (worker_items env (m # ms)) w = run_state (worker_items env ms) w1"
    by (simp add: w1_def split_beta)
  ultimately show ?case using Cons.IH [of w1] by simp
qed simp

text \<open>
  One turn takes the oldest messages of the tenant's queue, as many as the batch size allows (100
  when none is set), and announces each of them once, oldest first.
\<close>

definition batch_size :: "int \<Rightarrow> nat" where
  "batch_size batch = (if batch \<le> 0 then 100 else nat batch)"

definition announcements :: "queue_message list \<Rightarrow> (int \<times> json) list" where
  "announcements ms = map (\<lambda>m. (qm_tenant m, analysis_event (qm_message m))) ms"

lemma worker_dequeue:
  assumes "w_faults w = []"
  shows "run_state (DequeueBatch t (if batch \<le> 0 then 100 else batch)) w =
    ((take (batch_size batch) (rev (w_queue w (queueKey t))), None),
     w\<lparr>w_queue := (w_queue w)(queueKey t := rev (drop (batch_size batch) (rev (w_queue w (queueKey t)))))\<rparr>)"
proof -
  have n: "nat (if batch \<le> 0 then 100 else batch) = batch_size batch" by (simp add: batch_size_def)
  show ?thesis
    using pop_loop_run [OF assms, of "queueKey t" "batch_size batch" "[]"] by (simp add: DequeueBatch_def n)
qed

lemma worker_round_idle:
  assumes "w_faults w = []" "w_queue w (queueKey t) = []"
  shows "run_state (worker_round env t batch) w = (SleepIdle, w)"
proof -
  have "(w_queue w)(queueKey t := []) = w_queue w" using assms(2) by (simp add: fun_upd_idem)
  with assms show ?thesis by (simp add: worker_round_def Let_def worker_dequeue)
qed

lemma worker_round_run:
  assumes "w_faults w = []" "w_hub w" "w_queue w (queueKey t) \<noteq> []"
  shows "\<exists>w'. run_state (worker_round env t batch) w = (Worked (min (batch_size batch) (length (w_queue w (queueKey t)))), w') \<and>
    w_faults w' = [] \<and> w_hub w' \<and>
    w_queue w' = (w_queue w)(queueKey t := rev (drop (batch_size batch) (rev (w_queue w (queueKey t))))) \<and>
    w_bcast w' = w_bcast w @ announcements (take (batch_size batch) (rev (w_queue w (queueKey t))))"
proof -
  let ?n = "batch_size batch"
  let ?q = "w_queue w (queueKey t)"
  let ?items = "take ?n (rev ?q)"
  let ?w1 = "w\<lparr>w_queue := (w_queue w)(queueKey t := rev (drop ?n (rev ?q)))\<rparr>"
  have ne: "?items \<noteq> []" using assms(3) by (simp add: batch_size_def)
  have "run_state (worker_round env t batch) w =
      (Worked (length ?items), snd (run_state (worker_items env ?items) ?w1))"
    using ne by (simp add: worker_round_def Let_def worker_dequeue [OF assms(1)] split_beta del: take_eq_Nil fun_upd_apply
        split: prod.split)
  then show ?thesis
    using worker_items_run [of ?w1 env ?items] assms(1,2) by (simp add: min.commute announcements_def)
qed

lemma worker_loop_drains:
  assumes "w_faults w = []" "w_hub w" "length (w_queue w (queueKey t)) \<le> turns * batch_size batch"
  shows "w_queue (snd (run_state (worker_loop env t batch turns) w)) = (w_queue w)(queueKey t := []) \<and>
    w_bcast (snd (run_state (worker_loop env t batch turns) w)) =
      w_bcast w @ announcements (rev (w_queue w (queueKey t)))"
  using assms
proof (induction turns arbitrary: w)
  case 0
  then show ?case by (simp add: announcements_def fun_upd_idem)
next
  case (Suc turns)
  show ?case
  proof (cases "w_queue w (queueKey t) = []")
    case True
    with Suc.prems Suc.IH [of w] show ?thesis by (simp add: worker_round_idle)
  next
    case False
    let ?q = "w_queue w (queueKey t)"
    obtain x w' where r: "run_state (worker_round env t batch) w = (x, w')"
      and w': "w_faults w' = []" "w_hub w'" "w_queue w' = (w_queue w)(queueKey t := rev (drop (batch_size batch) (rev ?q)))"
        "w_bcast w' = w_bcast w @ announcements (take (batch_size batch) (rev ?q))"
      using worker_round_run [OF Suc.prems(1,2) False] by blast
    have "length (w_queue w' (queueKey t)) \<le> turns * batch_size batch" using Suc.prems(3) by (simp add: w'(3))
    from Suc.IH [OF w'(1,2) this] have "w_queue (snd (run_state (worker_loop env t batch turns) w')) = (w_queue w)(queueKey t := [])"
      "w_bcast (snd (run_state (worker_loop env t batch turns) w')) =
         w_bcast w @ announcements (take (batch_size batch) (rev ?q)) @ announcements (drop (batch_size batch) (rev ?q))"
      by (simp_all add: w'(3,4) fun_eq_iff)
    then show ?thesis by (simp add: r announcements_def flip: map_append)
  qed
qed

text \<open>
  C9. The worker empties the queue. Without faults, when nothing else is queued meanwhile, enough
  turns of the worker's loop take every message off the tenant's queue and announce each of them
  exactly once, oldest first; the other queues stay as they are.
\<close>

theorem worker_drains_queue:
  assumes "w_faults w = []" "w_hub w" "length (w_queue w (queueKey t)) \<le> turns * batch_size batch"
  shows "w_queue (snd (run_state (worker_loop env t batch turns) w)) = (w_queue w)(queueKey t := []) \<and>
    w_bcast (snd (run_state (worker_loop env t batch turns) w)) =
      w_bcast w @ announcements (rev (w_queue w (queueKey t)))"
  using assms by (rule worker_loop_drains)

definition queued :: "int \<Rightarrow> int \<Rightarrow> string \<Rightarrow> queue_message" where
  "queued t i s = \<lparr>qm_tenant = t, qm_message = i, qm_content = s, qm_feature = ''analysis'', qm_created = 0\<rparr>"

definition queue_world :: "bool list \<Rightarrow> world" where
  "queue_world fs = (message_world fs)\<lparr>w_hub := True, w_bcast := [],
     w_queue := (\<lambda>_. [])(queueKey 10 := [queued 10 6 ''later'', queued 10 5 ''hi''])\<rparr>"

lemma queue_world_simps [simp]:
  "w_faults (queue_world fs) = fs" "w_hub (queue_world fs)" "w_bcast (queue_world fs) = []"
  "w_queue (queue_world fs) (queueKey 10) = [queued 10 6 ''later'', queued 10 5 ''hi'']"
  by (simp_all add: queue_world_def)

theorem worker_drains_queue_witness:
  "w_bcast (snd (run_state (worker_loop sample_llm 10 1 2) (queue_world [])))
     = [(10, analysis_event 5), (10, analysis_event 6)]"
  using worker_drains_queue [of "queue_world []" 10 2 1 sample_llm]
  by (simp add: queued_def batch_size_def announcements_def)

text \<open>
  A Redis error in the middle of a batch loses messages. The messages popped before the error
  are handed back with it, but the worker only looks at the error: they are off the queue, not
  analysed, stored or announced, and nothing else has changed.
\<close>

theorem worker_drops_popped:
  assumes "w_faults w = replicate (length xs) False @ [True]" "w_queue w (queueKey t) = ys @ rev xs"
    and "length xs < (if batch \<le> 0 then 100 else nat batch)"
  shows "run_state (worker_round env t batch) w =
    (SleepError, w\<lparr>w_queue := (w_queue w)(queueKey t := ys), w_faults := []\<rparr>)"
proof -
  have "nat (if batch \<le> 0 then 100 else batch) = (if batch \<le> 0 then 100 else nat batch)" by simp
  then have "run_state (DequeueBatch t (if batch \<le> 0 then 100 else batch)) w =
      ((xs, Some Fault), w\<lparr>w_queue := (w_queue w)(queueKey t := ys), w_faults := []\<rparr>)"
    using pop_loop_fault [OF assms(1,2), of "nat (if batch \<le> 0 then 100 else batch)" "[]"] assms(3)
    by (simp add: DequeueBatch_def)
  then show ?thesis by (simp add: worker_round_def Let_def)
qed

theorem worker_drops_popped_witness:
  "w_queue (snd (run_state (worker_round sample_llm 10 0) (queue_world [False, True]))) (queueKey 10) = [queued 10 6 ''later'']"
  using worker_drops_popped [of "queue_world [False, True]" "[queued 10 5 ''hi'']" 10 "[queued 10 6 ''later'']" 0 sample_llm]
  by simp

section \<open>The worker keeps to its tenant\<close>

lemma pop_loop_items:
  "set (fst (fst (run_state (pop_loop key n items) w))) \<subseteq> set items \<union> set (w_queue w key)"
proof (induction n arbitrary: w items)
  case (Suc n)
  obtain r w1 where r: "run_state (RPop key) w = (r, w1)" by (cases "run_state (RPop key) w")
  have q: "(\<forall>x. r = Inr (Some x) \<longrightarrow> x \<in> set (w_queue w key)) \<and> set (w_queue w1 key) \<subseteq> set (w_queue w key)"
    using r by (auto simp: RPop_def faulty_def Let_def dest: in_set_butlastD split: list.splits if_splits)
  show ?case
  proof (cases "\<exists>x. r = Inr (Some x)")
    case True
    then obtain x where x: "r = Inr (Some x)" by blast
    with r have "run_state (pop_loop key (Suc n) items) w = run_state (pop_loop key n (items @ [x])) w1" by simp
    with x q Suc.IH [of "items @ [x]" w1] show ?thesis by auto
  next
    case False
    with r show ?thesis by (auto split: sum.split option.split)
  qed
qed simp

text \<open>
  Tenant isolation of the worker. If the messages in a tenant's queue are that tenant's, a
  turn of its worker changes no row of another tenant, whatever fails and whatever the providers
  answer.
\<close>

theorem worker_isolated:
  assumes "\<forall>m \<in> set (w_queue w (queueKey t)). qm_tenant m = t"
  shows "db_frame t (w_db w) (w_db (snd (run_state (worker_round env t batch) w)))"
proof -
  have items: "state_io_rel (tenant_frame t) (worker_items env ms)" if "\<forall>m \<in> set ms. qm_tenant m = t" for ms
    using that
  proof (induction ms)
    case (Cons m ms)
    then have "state_io_rel (tenant_frame t) (worker_item env m)" using worker_item_frame(1) [of m env] by simp
    with Cons show ?case by (auto intro!: tenant.keeps_intros)
  qed (simp add: tenant.keeps_return)
  have pop: "state_io_rel (tenant_frame t) (pop_loop key n xs)" for key n xs
  proof (induction n arbitrary: xs)
    case (Suc n)
    have "state_io_rel (tenant_frame t) (RPop key)"
      unfolding RPop_def Let_def by (intro tenant.keeps_intros tenant.keeps_faulty)
    with Suc show ?case unfolding pop_loop.simps by (intro tenant.keeps_intros)
  qed (simp add: tenant.keeps_return)
  let ?b = "if batch \<le> 0 then 100 else batch"
  obtain ms e w1 where d: "run_state (DequeueBatch t ?b) w = ((ms, e), w1)"
    by (metis prod.collapse)
  have "tenant_frame t w w1" using pop d by (metis DequeueBatch_def snd_conv state_io_rel_def)
  moreover have "\<forall>m \<in> set ms. qm_tenant m = t"
    using pop_loop_items [of "queueKey t" "nat ?b" "[]" w] assms d by (auto simp: DequeueBatch_def)
  then have "tenant_frame t w1 (snd (run_state (worker_items env ms) w1))"
    using items by (simp add: state_io_rel_def)
  ultimately have both: "tenant_frame t w w1" "tenant_frame t w (snd (run_state (worker_items env ms) w1))"
    by (auto intro: tenant.trans)
  have "snd (run_state (worker_round env t batch) w) =
      (if e \<noteq> None \<or> ms = [] then w1 else snd (run_state (worker_items env ms) w1))"
    by (cases e) (simp_all add: worker_round_def Let_def d split_beta)
  with both have "tenant_frame t w (snd (run_state (worker_round env t batch) w))" by simp
  then show ?thesis by (simp add: tenant_frame_def)
qed

theorem worker_isolated_witness:
  "db_frame 10 (w_db (queue_world [True])) (w_db (snd (run_state (worker_round sample_llm 10 0) (queue_world [True]))))"
  using worker_isolated [of "queue_world [True]" 10] by (simp add: queued_def)

section \<open>When a provider counts as unhealthy\<close>

lemma sort_key_snoc_least: "\<forall>y \<in> set xs. f x < f y \<Longrightarrow> sort_key f (xs @ [x]) = x # sort_key f xs"
  by (induction xs) (auto dest: leD)

lemma newest_first_snoc: "\<forall>y \<in> set xs. f y < f x \<Longrightarrow> newest_first f (xs @ [x]) = x # newest_first f xs"
  unfolding newest_first_def by (rule sort_key_snoc_least) simp

definition provider_checks :: "int \<Rightarrow> int \<Rightarrow> db \<Rightarrow> health_row list" where
  "provider_checks t i d =
     filter (\<lambda>h. hl_provider h = i \<and> hl_tenant h = t) (tb_rows (llm_provider_health d))"

definition with_health :: "int \<Rightarrow> int \<Rightarrow> string \<Rightarrow> int \<Rightarrow> db \<Rightarrow> db" where
  "with_health t i status now d =
     d\<lparr>llm_providers := (llm_providers d)\<lparr>tb_rows := update_where (\<lambda>r. pv_id r = i \<and> pv_tenant r = t)
        (\<lambda>r. r\<lparr>pv_health := status, pv_checked := Some now\<rparr>) (tb_rows (llm_providers d))\<rparr>\<rparr>"

lemma visible_own: "visible (as_tenant t w) x \<and> Q \<and> x = t \<longleftrightarrow> Q \<and> x = t"
  by auto

lemma mark_health_run:
  "mark_health t i status now (as_tenant t w) d =
     (Inr (map (\<lambda>r. r\<lparr>pv_health := status, pv_checked := Some now\<rparr>)
        (filter (\<lambda>r. pv_id r = i \<and> pv_tenant r = t) (tb_rows (llm_providers d)))), with_health t i status now d)"
  by (simp add: mark_health_def sql_update_def Let_def visible_own with_health_def)

definition health_entry :: "int \<Rightarrow> int \<Rightarrow> string \<Rightarrow> int \<Rightarrow> string option \<Rightarrow> int \<Rightarrow> db \<Rightarrow> health_row" where
  "health_entry t i status latency e now d =
     \<lparr>hl_id = tb_seq (llm_provider_health d) + 1, hl_provider = i, hl_tenant = t, hl_time = now, hl_status = status,
      hl_ms = Milliseconds latency, hl_error = e, hl_created = now\<rparr>"

lemma insert_health_run:
  "has_key pv_id i (llm_providers d) \<Longrightarrow> insert_health t i status latency e now (as_tenant t w) d =
     (Inr (health_entry t i status latency e now d), d\<lparr>llm_provider_health :=
        \<lparr>tb_rows = tb_rows (llm_provider_health d) @ [health_entry t i status latency e now d],
         tb_seq = tb_seq (llm_provider_health d) + 1\<rparr>\<rparr>)"
  by (simp add: insert_health_def sql_insert_def Let_def health_entry_def)

lemma run_InsertHealth:
  assumes "w_faults w = []" "has_key pv_id i (llm_providers (w_db w))"
  shows "run_state (InsertHealth t i status latency e) w =
    (Inr (), w\<lparr>w_db := with_health t i status (w_now w) ((w_db w)\<lparr>llm_provider_health :=
        \<lparr>tb_rows = tb_rows (llm_provider_health (w_db w)) @ [health_entry t i status latency e (w_now w) (w_db w)],
         tb_seq = tb_seq (llm_provider_health (w_db w)) + 1\<rparr>\<rparr>),
      w_sess := (w_sess w)\<lparr>ss_tenant := None\<rparr>\<rparr>)"
proof -
  let ?fn = "then_ok (Exec (insert_health t i status latency e (w_now w))) (\<lambda>_.
        then_ok (Exec (mark_health t i status (w_now w))) (\<lambda>_. ok ()))"
  have q: "state_io_rel no_faults ?fn" by (intro quiet_exec.keeps_all)
  have "(as_tenant t w)\<lparr>ss_tenant := None\<rparr> = (w_sess w)\<lparr>ss_tenant := None\<rparr>" by (simp add: as_tenant_def)
  then show ?thesis
    using assms by (simp add: InsertHealth_def run_WithTenantConn_quiet [OF assms(1) q] as_tenant_def [symmetric]
        run_then_ok run_Exec_nil insert_health_run mark_health_run)
qed

lemma run_RecentHealthFailures:
  assumes "w_faults w = []"
  shows "run_state (RecentHealthFailures t i) w =
    (Inr (length (filter (\<lambda>h. hl_status h \<noteq> ''ok'') (take 3 (newest_first hl_time (provider_checks t i (w_db w)))))),
     reset_sess w)"
  by (simp add: RecentHealthFailures_def run_conn_Exec [OF assms] sql_select_def provider_checks_def visible_own)

lemma run_SetProviderHealth:
  assumes "w_faults w = []"
  shows "run_state (SetProviderHealth t i status) w =
    (Inr (), reset_sess w\<lparr>w_db := with_health t i status (w_now w) (w_db w)\<rparr>)"
  by (simp add: SetProviderHealth_def run_conn_Exec [OF assms] mark_health_run)

text \<open>Finding the provider writes nothing to the database, whether the router has it or reads it.\<close>

definition same_data :: "world \<Rightarrow> world \<Rightarrow> bool" where
  "same_data w w' \<longleftrightarrow> w_db w' = w_db w \<and> w_now w' = w_now w"

interpretation data: frame_relation same_data
  by unfold_locales (auto simp: same_data_def)

lemma Router_GetProvider_reads:
  assumes "run_state (Router_GetProvider env t i) w = (x, w1)" "w_faults w = []"
  shows "w_db w1 = w_db w" "w_now w1 = w_now w" "w_faults w1 = []"
proof -
  have row: "state_io_rel same_data (Exec (sql_row llm_providers pv_tenant P))" for P
    by (rule data.keeps_Exec) (simp add: same_data_def sql_row_def split: option.split)
  have "state_io_rel same_data (Router_GetProvider env t i)"
    by (rule data.keeps_router) (unfold Store_GetProviderByID_def, intro data.keeps_intros row)
  then have "same_data w w1" using assms(1) by (metis state_io_rel_def snd_conv)
  then show "w_db w1 = w_db w" "w_now w1 = w_now w" by (simp_all add: same_data_def)
  have "state_io_rel no_faults (Router_GetProvider env t i)"
    by (rule quiet.keeps_router) (unfold Store_GetProviderByID_def, intro quiet_exec.keeps_all)
  from quietD [OF this assms(2)] assms(1) show "w_faults w1 = []" by simp
qed

lemma bad_count:
  assumes "length xs \<le> 2"
  shows "length (filter P xs) < 2 \<longleftrightarrow> \<not> (length xs = 2 \<and> (\<forall>x \<in> set xs. P x))"
proof (cases "length xs = 2 \<and> (\<forall>x \<in> set xs. P x)")
  case True
  then show ?thesis by simp
next
  case False
  have "length (filter P xs) \<le> length xs" "length (filter P xs) = length xs \<longleftrightarrow> (\<forall>x \<in> set xs. P x)"
    by (simp, metis filter_True filter_id_conv length_filter_less less_irrefl)
  with False assms show ?thesis by linarith
qed

text \<open>
  C31. Three bad checks in a row. Without faults, when the health check of a provider that the
  router finds (in its cache or in the database) fails, the failed check is recorded, and the
  provider is marked \<open>unhealthy\<close> if there were at least two checks of it before and the last two
  of them were not \<open>ok\<close> either, where a slow answer counts like an error; otherwise, and so at
  its first two checks, it is marked \<open>error\<close>. The checks before it are taken to be at different
  times, and earlier than this one.
\<close>

theorem failed_check_marks_provider:
  assumes "w_faults w = []" "run_state (Router_GetProvider env t i) w = (Inr c, w1)"
    and "health_status (provider_HealthCheck (le_sdk env) c) = ''error''"
    and "p \<in> set (tb_rows (llm_providers (w_db w)))" "pv_id p = i" "pv_tenant p = t"
    and "\<forall>h \<in> set (provider_checks t i (w_db w)). hl_time h < w_now w"
    and "distinct (map hl_time (provider_checks t i (w_db w)))"
  defines "before \<equiv> take 2 (newest_first hl_time (provider_checks t i (w_db w)))"
    and "w' \<equiv> snd (run_state (check_provider env t i) w)"
  shows "(\<exists>h. provider_checks t i (w_db w') = provider_checks t i (w_db w) @ [h] \<and> hl_status h = ''error'' \<and> hl_time h = w_now w) \<and>
    (\<forall>r \<in> set (tb_rows (llm_providers (w_db w'))). pv_id r = i \<and> pv_tenant r = t \<longrightarrow>
       pv_health r = (if length before = 2 \<and> (\<forall>h \<in> set before. hl_status h \<noteq> ''ok'') then ''unhealthy'' else ''error''))"
proof -
  note router = assms(2)
  note same0 = Router_GetProvider_reads [OF router assms(1)]
  let ?r = "provider_HealthCheck (le_sdk env) c"
  let ?l = "case fst ?r of None \<Rightarrow> 0 | Some h \<Rightarrow> hr_latency h"
  let ?h = "health_entry t i ''error'' ?l (snd ?r) (w_now w) (w_db w)"
  define w2 where "w2 = snd (run_state (InsertHealth t i ''error'' ?l (snd ?r)) w1)"
  have key: "has_key pv_id i (llm_providers (w_db w1))" using assms(4,5) by (auto simp: has_key_def same0)
  have w2: "w_faults w2 = []" "provider_checks t i (w_db w2) = provider_checks t i (w_db w) @ [?h]"
    using same0(3) unfolding w2_def run_InsertHealth [OF same0(3) key]
    by (simp_all add: with_health_def provider_checks_def health_entry_def same0)
  have w2p: "\<exists>d. w_db w2 = with_health t i ''error'' (w_now w) d"
    unfolding w2_def run_InsertHealth [OF same0(3) key] by (auto simp: same0)
  have "newest_first hl_time (provider_checks t i (w_db w2)) = ?h # newest_first hl_time (provider_checks t i (w_db w))"
    unfolding w2(2) by (rule newest_first_snoc) (use assms(7) in \<open>simp add: health_entry_def\<close>)
  then have three: "take 3 (newest_first hl_time (provider_checks t i (w_db w2))) = ?h # before"
    by (simp add: before_def numeral_3_eq_3 numeral_2_eq_2)
  let ?all = "length before = 2 \<and> (\<forall>h \<in> set before. hl_status h \<noteq> ''ok'')"
  let ?n = "length (filter (\<lambda>h. hl_status h \<noteq> ''ok'') (?h # before))"
  have "length before \<le> 2" by (simp add: before_def)
  then have fails: "?n < 3 \<longleftrightarrow> \<not> ?all"
    using bad_count [of before "\<lambda>h. hl_status h \<noteq> ''ok''"] by (simp add: health_entry_def)
  have rec: "run_state (RecentHealthFailures t i) w2 = (Inr ?n, reset_sess w2)"
    by (simp only: run_RecentHealthFailures [OF w2(1)] three)
  have ins: "run_state (InsertHealth t i ''error'' ?l (snd ?r)) w1 = (Inr (), w2)"
    unfolding w2_def by (simp add: run_InsertHealth [OF same0(3) key])
  have w': "w' = (if ?all then snd (run_state (SetProviderHealth t i ''unhealthy'') (reset_sess w2)) else reset_sess w2)"
    unfolding w'_def check_provider_def Let_def
    by (simp add: router assms(3) ins rec fails split_beta del: filter.simps split del: if_split)
      (simp add: split_beta)
  have checks: "provider_checks t i (with_health t i s now d) = provider_checks t i d" for s now d
    by (simp add: provider_checks_def with_health_def)
  have marked: "\<forall>r \<in> set (tb_rows (llm_providers (with_health t i s now d))). pv_id r = i \<and> pv_tenant r = t \<longrightarrow> pv_health r = s"
    for s now d
    by (intro ballI impI, rule update_where_hit [where Q = "\<lambda>r. pv_health r = s" and P = "\<lambda>r. pv_id r = i \<and> pv_tenant r = t"
        and f = "\<lambda>r. r\<lparr>pv_health := s, pv_checked := Some now\<rparr>"]) (simp_all add: with_health_def)
  obtain d where d: "w_db w2 = with_health t i ''error'' (w_now w) d" using w2p by blast
  define s where "s = (if ?all then ''unhealthy'' else ''error'')"
  obtain now d' where db: "w_db w' = with_health t i s now d'"
    and same: "provider_checks t i (w_db w') = provider_checks t i (w_db w2)"
  proof (cases ?all)
    case True
    then have "w_db w' = with_health t i s (w_now w2) (w_db w2)"
      using w2(1) by (simp add: w' run_SetProviderHealth s_def)
    with that checks show ?thesis by metis
  next
    case False
    then have "w_db w' = w_db w2" by (simp only: w' if_False) simp
    moreover have "s = ''error''" using False by (simp only: s_def if_False)
    ultimately show ?thesis using that d by metis
  qed
  have "\<forall>r \<in> set (tb_rows (llm_providers (w_db w'))). pv_id r = i \<and> pv_tenant r = t \<longrightarrow> pv_health r = s"
    unfolding db by (rule marked)
  moreover have "provider_checks t i (w_db w') = provider_checks t i (w_db w) @ [?h]" using same w2(2) by simp
  moreover have "hl_status ?h = ''error'' \<and> hl_time ?h = w_now w" by (simp add: health_entry_def)
  ultimately show ?thesis unfolding s_def by blast
qed

definition bad_check :: "int \<Rightarrow> string \<Rightarrow> health_row" where
  "bad_check n status =
     \<lparr>hl_id = n, hl_provider = 1, hl_tenant = 10, hl_time = n, hl_status = status, hl_ms = 4000,
      hl_error = None, hl_created = n\<rparr>"

definition health_world :: world where
  "health_world = llm_world\<lparr>w_now := 50, w_cache := [cacheKey 10 1 \<mapsto> (sample_config ''OpenAI'', 100)],
     w_db := (w_db llm_world)\<lparr>llm_provider_health := \<lparr>tb_rows = [bad_check 1 ''slow'', bad_check 2 ''error''], tb_seq = 2\<rparr>\<rparr>\<rparr>"

lemma health_world_simps [simp]:
  "w_faults health_world = []" "w_now health_world = 50"
  "w_cache health_world (cacheKey 10 1) = Some (sample_config ''OpenAI'', 100)"
  "tb_rows (llm_providers (w_db health_world)) = [sample_provider 1 10 ''key-of-10'', sample_provider 2 20 ''key-of-20'']"
  "provider_checks 10 1 (w_db health_world) = [bad_check 1 ''slow'', bad_check 2 ''error'']"
  by (simp_all add: health_world_def provider_checks_def bad_check_def)

theorem failed_check_marks_provider_witness:
  "pv_health ` {r \<in> set (tb_rows (llm_providers (w_db (snd (run_state (check_provider sample_llm 10 1) health_world))))).
     pv_id r = 1 \<and> pv_tenant r = 10} \<subseteq> {''unhealthy''}"
proof -
  have "health_status (provider_HealthCheck (le_sdk sample_llm) (sample_config ''OpenAI'')) = ''error''"
    by (simp add: le_sdk_sample provider_HealthCheck_def sample_config_def sample_kind openai_HealthCheck_def
        sample_sdk_def health_of_def health_status_def)
  moreover have "take 2 (newest_first hl_time (provider_checks 10 1 (w_db health_world))) =
      [bad_check 2 ''error'', bad_check 1 ''slow'']"
    by (simp add: newest_first_def bad_check_def)
  moreover have "\<forall>h \<in> set (provider_checks 10 1 (w_db health_world)). hl_time h < w_now health_world"
    by (simp add: bad_check_def)
  moreover have "run_state (Router_GetProvider sample_llm 10 1) health_world = (Inr (sample_config ''OpenAI''), health_world)"
    by (simp add: Router_GetProvider_def Let_def run_cache_get_fresh [of health_world "cacheKey 10 1"])
  moreover have "distinct (map hl_time (provider_checks 10 1 (w_db health_world)))"
    by (simp add: bad_check_def)
  ultimately show ?thesis
    using failed_check_marks_provider [of health_world sample_llm 10 1 "sample_config ''OpenAI''" health_world
      "sample_provider 1 10 ''key-of-10''"]
    by (auto simp: bad_check_def)
qed

section \<open>One worker per tenant\<close>

fun ensure_all :: "int list \<Rightarrow> int set \<Rightarrow> int set \<times> int list" where
  "ensure_all [] workers = (workers, [])"
| "ensure_all (t # ts) workers =
     (let (workers', started) = EnsureTenant t workers; (all, more) = ensure_all ts workers'
      in (all, if started then t # more else more))"

lemma ensure_all_once:
  "ensure_all ts workers = (all, started) \<Longrightarrow>
     distinct started \<and> set started = set ts - workers \<and> all = workers \<union> set ts"
  by (induction ts arbitrary: workers all started)
    (auto simp: EnsureTenant_def split: prod.splits if_splits)

end
