(* ===== verification/LlmApi.thy ===== *)
theory LlmApi
  imports LlmService
begin

text \<open>
  The HTTP handlers that manage and use the language-model providers: the first half of
  \<open>backend/internal/handlers/llm.go\<close>, the feature assignments included. A request's JSON body is
  its decoded form, \<open>None\<close> when it does not decode. Reports are in theory \<open>LlmReports\<close>.
\<close>

record provider_request =
  pq_name :: string
  pq_key :: string
  pq_display :: "string option"
  pq_model :: string
  pq_base :: "string option"
  pq_endpoint :: "string option"
  pq_deployment :: "string option"
  pq_version :: "string option"
  pq_temp :: "rat option"
  pq_max :: "int option"
  pq_cin :: "rat option"
  pq_cout :: "rat option"
  pq_rpm :: "int option"
  pq_rpd :: "int option"
  pq_budget :: "rat option"
  pq_active :: "bool option"
  pq_default :: "bool option"
  pq_fallback :: "bool option"

text \<open>The environment of the handlers: the service's, AES-GCM's sealing function, and whether Redis is there.\<close>

record api_env =
  ap_llm :: llm_env
  ap_seal :: "bytes \<Rightarrow> bytes \<Rightarrow> bytes \<Rightarrow> bytes"
  ap_queue :: bool

section \<open>Defaults\<close>

definition plain_config :: "string \<Rightarrow> string \<Rightarrow> string \<Rightarrow> rat \<Rightarrow> rat \<Rightarrow> provider_config" where
  "plain_config name model version cin cout =
     \<lparr>pc_id = 0, pc_name = name, pc_key = [], pc_model = model, pc_base = [], pc_endpoint = [],
      pc_deployment = [], pc_version = version, pc_temp = 1 / 5, pc_max = 1024, pc_cin = cin, pc_cout = cout,
      pc_rpm = 60\<rparr>"

definition defaultProviderConfig :: "string \<Rightarrow> provider_config option" where
  "defaultProviderConfig p =
     (if p = ''claude'' then Some (plain_config ''claude'' ''claude-3-opus-20240229'' [] (3 / 1000) (15 / 1000))
      else if p = ''openai'' then Some (plain_config ''openai'' ''gpt-4-turbo'' [] (1 / 100) (3 / 100))
      else if p = ''azure_openai'' then
        Some (plain_config ''azure_openai'' ''gpt-4o'' ''2024-02-15-preview'' (1 / 100) (3 / 100))
      else if p = ''cohere'' then Some (plain_config ''cohere'' ''command-r-plus'' [] (3 / 10000) (3 / 10000))
      else None)"

section \<open>History\<close>

definition opt_json :: "('a \<Rightarrow> json) \<Rightarrow> 'a option \<Rightarrow> json" where
  "opt_json f x = (case x of None \<Rightarrow> JNull | Some v \<Rightarrow> f v)"

definition providerSnapshot :: "provider_row \<Rightarrow> json" where
  "providerSnapshot p =
     JObj [(''azure_api_version'', opt_json JStr (pv_version p)),
           (''azure_deployment'', opt_json JStr (pv_deployment p)),
           (''azure_endpoint'', opt_json JStr (pv_endpoint p)), (''base_url'', opt_json JStr (pv_base p)),
           (''cost_per_1k_input'', JNum (pv_cin p)), (''cost_per_1k_output'', JNum (pv_cout p)),
           (''display_name'', opt_json JStr (pv_display p)), (''health_status'', JStr (pv_health p)),
           (''is_active'', JBool (pv_active p)), (''is_default'', JBool (pv_default p)),
           (''is_fallback'', JBool (pv_fallback p)), (''max_requests_per_day'', JInt (pv_rpd p)),
           (''max_requests_per_minute'', JInt (pv_rpm p)), (''max_tokens'', JInt (pv_max p)),
           (''model_name'', JStr (pv_model p)), (''monthly_budget'', opt_json JNum (pv_budget p)),
           (''provider_name'', JStr (pv_name p)), (''temperature'', JNum (pv_temp p))]"

definition insert_history :: "int \<Rightarrow> int \<Rightarrow> int option \<Rightarrow> json \<Rightarrow> int \<Rightarrow> history_row sql" where
  "insert_history tenant provider by payload now =
     sql_insert llm_provider_history llm_provider_history_update hs_tenant
       (\<lambda>d r. has_key pv_id provider (llm_providers d))
       (\<lambda>i. \<lparr>hs_id = i, hs_tenant = tenant, hs_provider = provider, hs_change = payload, hs_by = by,
             hs_created = now\<rparr>)"

definition writeProviderHistory :: "int \<Rightarrow> int \<Rightarrow> int option \<Rightarrow> json \<Rightarrow> (dberr + unit) act" where
  "writeProviderHistory tenant provider by payload = do {
     now \<leftarrow> Now;
     WithTenantConn tenant
       (then_ok (Exec (insert_history tenant provider by payload now)) (\<lambda>_. ok ()))
   }"

section \<open>Creating and changing providers\<close>

text \<open>
  The constraints of \<open>llm_providers\<close>: one default per tenant, and \<open>INTEGER\<close> columns of 32 bits.
\<close>

definition is_int32 :: "int \<Rightarrow> bool" where
  "is_int32 i \<longleftrightarrow> - 2147483648 \<le> i \<and> i \<le> 2147483647"

definition fits_int32 :: "provider_row \<Rightarrow> bool" where
  "fits_int32 p \<longleftrightarrow> is_int32 (pv_max p) \<and> is_int32 (pv_rpm p) \<and> is_int32 (pv_rpd p)"

definition default_tenants :: "db \<Rightarrow> int list" where
  "default_tenants d = map pv_tenant (filter pv_default (tb_rows (llm_providers d)))"

definition clear_default :: "int \<Rightarrow> provider_row list sql" where
  "clear_default tenant =
     sql_update llm_providers llm_providers_update pv_tenant (\<lambda>p. pv_tenant p = tenant) (\<lambda>p. p\<lparr>pv_default := False\<rparr>)"

definition insert_provider :: "int \<Rightarrow> (int \<Rightarrow> provider_row) \<Rightarrow> provider_row sql" where
  "insert_provider tenant mk =
     sql_insert llm_providers llm_providers_update pv_tenant
       (\<lambda>d r. fits_int32 r \<and> (pv_default r \<longrightarrow> pv_tenant r \<notin> set (default_tenants d))) mk"

text \<open>\<open>UPDATE\<close> under the constraints: the statement fails as a whole.\<close>

definition update_provider :: "int \<Rightarrow> int \<Rightarrow> (provider_row \<Rightarrow> provider_row) \<Rightarrow> provider_row list sql" where
  "update_provider tenant provider f s d =
     (let (res, d') = sql_update llm_providers llm_providers_update pv_tenant
                        (\<lambda>p. pv_tenant p = tenant \<and> pv_id p = provider) f s d
      in if distinct (default_tenants d') \<and> list_all fits_int32 (tb_rows (llm_providers d'))
         then (res, d') else (Inl Violation, d))"

text \<open>\<open>crypto.Encrypt\<close> draws its nonce from the system.\<close>

definition encrypt_key :: "api_env \<Rightarrow> string \<Rightarrow> (crypto_error + string) act" where
  "encrypt_key env key =
     (if length (le_master (ap_llm env)) < 32 then State_Monad.return (Inl ShortKey)
      else do {
        nonce \<leftarrow> RandRead;
        State_Monad.return (Encrypt (ap_seal env) nonce (le_master (ap_llm env)) key)
      })"

definition masked :: "provider_row \<Rightarrow> provider_row" where
  "masked p = p\<lparr>pv_key := ''****''\<rparr>"

definition new_provider ::
    "provider_request \<Rightarrow> provider_config \<Rightarrow> string \<Rightarrow> int \<Rightarrow> int \<Rightarrow> int \<Rightarrow> provider_row" where
  "new_provider req config encrypted tenant now i =
     \<lparr>pv_id = i, pv_tenant = tenant, pv_name = pc_name config, pv_key = encrypted,
      pv_model = (if pq_model req = [] then pc_model config else pq_model req), pv_display = pq_display req,
      pv_base = pq_base req, pv_endpoint = pq_endpoint req, pv_deployment = pq_deployment req,
      pv_version = pq_version req, pv_temp = coalesce (pq_temp req) (pc_temp config),
      pv_max = coalesce (pq_max req) (pc_max config), pv_cin = coalesce (pq_cin req) (pc_cin config),
      pv_cout = coalesce (pq_cout req) (pc_cout config), pv_rpm = coalesce (pq_rpm req) (pc_rpm config),
      pv_rpd = coalesce (pq_rpd req) 10000, pv_budget = pq_budget req, pv_active = coalesce (pq_active req) True,
      pv_default = coalesce (pq_default req) False, pv_fallback = coalesce (pq_fallback req) False,
      pv_health = ''unknown'', pv_checked = None, pv_created = now\<rparr>"

definition start_monitor :: "int \<Rightarrow> unit act" where
  "start_monitor tenant = do {
     ts \<leftarrow> get_mem w_monitors;
     set_monitors (fst (EnsureTenant tenant ts))
   }"

text \<open>The error of clearing the default is dropped.\<close>

definition CreateProvider :: "api_env \<Rightarrow> request \<Rightarrow> provider_request option \<Rightarrow> provider_row response act" where
  "CreateProvider env r body =
     (case body of
        None \<Rightarrow> State_Monad.return (Fail 400 ''invalid request'')
      | Some req \<Rightarrow>
          if pq_name req = [] \<or> pq_key req = [] then
            State_Monad.return (Fail 400 ''provider_name and api_key are required'')
          else if le_master (ap_llm env) = [] then
            State_Monad.return (Fail 500 ''master key not configured'')
          else
            case defaultProviderConfig (pq_name req) of
              None \<Rightarrow> State_Monad.return (Fail 400 ''unsupported provider'')
            | Some config \<Rightarrow> do {
                let tenant = tenantID r;
                encrypted \<leftarrow> encrypt_key env (pq_key req);
                case encrypted of
                  Inl _ \<Rightarrow> State_Monad.return (Fail 500 ''failed to encrypt api key'')
                | Inr key \<Rightarrow> do {
                    now \<leftarrow> Now;
                    made \<leftarrow> WithTenantConn tenant (do {
                      _ \<leftarrow> (if coalesce (pq_default req) False
                           then then_ok (Exec (clear_default tenant)) (\<lambda>_. ok ()) else ok ());
                      Exec (insert_provider tenant (new_provider req config key tenant now))
                    });
                    case made of
                      Inl _ \<Rightarrow> State_Monad.return (Fail 500 ''failed to create provider'')
                    | Inr p \<Rightarrow> do {
                        _ \<leftarrow> start_monitor tenant;
                        _ \<leftarrow> writeProviderHistory tenant (pv_id p) (authUserIDPtr r)
                               (JObj [(''config'', providerSnapshot (masked p)), (''event'', JStr ''created''),
                                      (''provider_id'', JInt (pv_id p))]);
                        State_Monad.return (Reply 201 (masked p))
                      }
                  }
              })"

definition ListProviders :: "request \<Rightarrow> provider_row list response act" where
  "ListProviders r = do {
     let tenant = tenantID r;
     res \<leftarrow> WithTenantConn tenant (Exec (sql_select llm_providers pv_tenant (\<lambda>p. pv_tenant p = tenant)));
     State_Monad.return
       (case res of Inl _ \<Rightarrow> Fail 500 ''failed to list providers''
        | Inr rows \<Rightarrow> Reply 200 (map masked (newest_first pv_id rows)))
   }"

definition GetProvider :: "request \<Rightarrow> int \<Rightarrow> provider_row response act" where
  "GetProvider r provider = do {
     let tenant = tenantID r;
     res \<leftarrow> WithTenantConn tenant
       (Exec (sql_row llm_providers pv_tenant (\<lambda>p. pv_tenant p = tenant \<and> pv_id p = provider)));
     State_Monad.return
       (case res of Inl _ \<Rightarrow> Fail 404 ''provider not found'' | Inr p \<Rightarrow> Reply 200 (masked p))
   }"

definition changed_provider :: "provider_request \<Rightarrow> string option \<Rightarrow> provider_row \<Rightarrow> provider_row" where
  "changed_provider req encrypted p =
     p\<lparr>pv_name := coalesce (nullif_empty (pq_name req)) (pv_name p), pv_key := coalesce encrypted (pv_key p),
       pv_model := coalesce (nullif_empty (pq_model req)) (pv_model p),
       pv_display := coalesce_null (pq_display req) (pv_display p),
       pv_base := coalesce_null (pq_base req) (pv_base p),
       pv_endpoint := coalesce_null (pq_endpoint req) (pv_endpoint p),
       pv_deployment := coalesce_null (pq_deployment req) (pv_deployment p),
       pv_version := coalesce_null (pq_version req) (pv_version p),
       pv_temp := coalesce (pq_temp req) (pv_temp p), pv_max := coalesce (pq_max req) (pv_max p),
       pv_cin := coalesce (pq_cin req) (pv_cin p), pv_cout := coalesce (pq_cout req) (pv_cout p),
       pv_rpm := coalesce (pq_rpm req) (pv_rpm p), pv_rpd := coalesce (pq_rpd req) (pv_rpd p),
       pv_budget := coalesce_null (pq_budget req) (pv_budget p),
       pv_active := coalesce (pq_active req) (pv_active p), pv_default := coalesce (pq_default req) (pv_default p),
       pv_fallback := coalesce (pq_fallback req) (pv_fallback p)\<rparr>"

text \<open>The texts of the row returned are coalesced to the empty string.\<close>

definition shown_provider :: "provider_row \<Rightarrow> provider_row" where
  "shown_provider p =
     (masked p)\<lparr>pv_display := Some (coalesce (pv_display p) []), pv_base := Some (coalesce (pv_base p) []),
       pv_endpoint := Some (coalesce (pv_endpoint p) []), pv_deployment := Some (coalesce (pv_deployment p) []),
       pv_version := Some (coalesce (pv_version p) [])\<rparr>"

text \<open>The callback of the update; clearing the default comes first and its error is dropped.\<close>

definition update_callback ::
    "provider_request \<Rightarrow> string option \<Rightarrow> int \<Rightarrow> int \<Rightarrow> (dberr + provider_row) act" where
  "update_callback req encrypted tenant provider = do {
     _ \<leftarrow> (if pq_default req = Some True
          then then_ok (Exec (clear_default tenant)) (\<lambda>_. ok ()) else ok ());
     then_ok (Exec (update_provider tenant provider (changed_provider req encrypted))) (\<lambda>rows.
       case rows of [] \<Rightarrow> err NoRows | p # _ \<Rightarrow> ok p)
   }"

definition UpdateProvider ::
    "api_env \<Rightarrow> request \<Rightarrow> provider_request option \<Rightarrow> int \<Rightarrow> provider_row response act" where
  "UpdateProvider env r body provider =
     (case body of
        None \<Rightarrow> State_Monad.return (Fail 400 ''invalid request'')
      | Some req \<Rightarrow>
          if pq_name req \<noteq> [] \<and> defaultProviderConfig (pq_name req) = None then
            State_Monad.return (Fail 400 ''unsupported provider'')
          else if pq_key req \<noteq> [] \<and> le_master (ap_llm env) = [] then
            State_Monad.return (Fail 500 ''master key not configured'')
          else do {
            let tenant = tenantID r;
            encrypted \<leftarrow> (if pq_key req = [] then State_Monad.return (Inr None)
                          else do {
                            e \<leftarrow> encrypt_key env (pq_key req);
                            State_Monad.return (map_sum id Some e)
                          });
            case encrypted of
              Inl _ \<Rightarrow> State_Monad.return (Fail 500 ''failed to encrypt api key'')
            | Inr key \<Rightarrow> do {
                res \<leftarrow> WithTenantConn tenant (update_callback req key tenant provider);
                State_Monad.return
                  (case res of Inl _ \<Rightarrow> Fail 404 ''provider not found'' | Inr p \<Rightarrow> Reply 200 (shown_provider p))
              }
          })"

text \<open>\<open>ON DELETE CASCADE\<close> of the four tables that reference a provider.\<close>

definition cascade_providers :: "provider_row list \<Rightarrow> db \<Rightarrow> db" where
  "cascade_providers gone d =
     (let dead = (\<lambda>i. i \<in> pv_id ` set gone)
      in d\<lparr>llm_usage_logs := (llm_usage_logs d)\<lparr>tb_rows := filter (\<lambda>u. \<not> dead (ug_provider u)) (tb_rows (llm_usage_logs d))\<rparr>,
           llm_provider_health := (llm_provider_health d)\<lparr>tb_rows := filter (\<lambda>h. \<not> dead (hl_provider h)) (tb_rows (llm_provider_health d))\<rparr>,
           llm_provider_history := (llm_provider_history d)\<lparr>tb_rows := filter (\<lambda>h. \<not> dead (hs_provider h)) (tb_rows (llm_provider_history d))\<rparr>,
           llm_feature_assignments := (llm_feature_assignments d)\<lparr>tb_rows := filter (\<lambda>a. \<not> dead (fa_provider a)) (tb_rows (llm_feature_assignments d))\<rparr>\<rparr>)"

definition delete_provider :: "int \<Rightarrow> int \<Rightarrow> nat sql" where
  "delete_provider tenant provider =
     sql_delete llm_providers llm_providers_update pv_tenant cascade_providers
       (\<lambda>p. pv_tenant p = tenant \<and> pv_id p = provider)"

definition DeleteProvider :: "request \<Rightarrow> int \<Rightarrow> string response act" where
  "DeleteProvider r provider = do {
     let tenant = tenantID r;
     done \<leftarrow> WithTenantConn tenant
       (then_ok (Exec (delete_provider tenant provider)) (\<lambda>n. if n = 0 then err NotFound else ok ()));
     case done of
       Inl _ \<Rightarrow> State_Monad.return (Fail 404 ''provider not found'')
     | Inr _ \<Rightarrow> do {
         _ \<leftarrow> writeProviderHistory tenant provider (authUserIDPtr r)
                (JObj [(''event'', JStr ''deleted''), (''provider_id'', JInt provider)]);
         State_Monad.return (Reply 200 ''deleted'')
       }
   }"

section \<open>Using providers\<close>

definition TestProvider :: "api_env \<Rightarrow> request \<Rightarrow> int \<Rightarrow> health_result response act" where
  "TestProvider env r provider = do {
     let tenant = tenantID r;
     (result, e) \<leftarrow> Service_HealthCheck (ap_llm env) tenant provider;
     let status = (if e = None then ''ok'' else ''error'');
     let latency = (case result of None \<Rightarrow> 0 | Some h \<Rightarrow> hr_latency h);
     _ \<leftarrow> InsertHealth tenant provider status latency e;
     State_Monad.return
       (case result of None \<Rightarrow> Fail 500 ''health check failed'' | Some h \<Rightarrow> Reply 200 h)
   }"

record analyze_request =
  aq_provider :: int
  aq_message_id :: "int option"
  aq_message :: string

definition AnalyzeMessage :: "api_env \<Rightarrow> request \<Rightarrow> analyze_request option \<Rightarrow> analysis response act" where
  "AnalyzeMessage env r body =
     (case body of
        None \<Rightarrow> State_Monad.return (Fail 400 ''invalid request'')
      | Some req \<Rightarrow>
          if aq_provider req = 0 \<or> aq_message req = [] then
            State_Monad.return (Fail 400 ''provider_id and message are required'')
          else do {
            let tenant = tenantID r;
            res \<leftarrow> Service_Analyze (ap_llm env) tenant (aq_provider req) (aq_message req) (aq_message_id req);
            case res of
              Inl _ \<Rightarrow> State_Monad.return (Fail 500 ''analysis failed'')
            | Inr a \<Rightarrow> do {
                _ \<leftarrow> (case aq_message_id req of None \<Rightarrow> ok () | Some mid \<Rightarrow> StoreAnalysis tenant mid a);
                State_Monad.return (Reply 200 a)
              }
          })"

datatype batch_reply = Queued nat | Analysed "(int \<times> (string + analysis)) list"

definition start_worker :: "int \<Rightarrow> unit act" where
  "start_worker tenant = do {
     ts \<leftarrow> get_mem w_workers;
     set_workers (fst (EnsureTenant tenant ts))
   }"

fun enqueue_batch :: "int \<Rightarrow> (int \<times> string) list \<Rightarrow> unit act" where
  "enqueue_batch tenant [] = State_Monad.return ()"
| "enqueue_batch tenant ((mid, content) # ms) = do {
     now \<leftarrow> Now;
     _ \<leftarrow> Enqueue \<lparr>qm_tenant = tenant, qm_message = mid, qm_content = content, qm_feature = ''analyze'',
                   qm_created = now\<rparr>;
     enqueue_batch tenant ms
   }"

fun analyse_batch :: "llm_env \<Rightarrow> int \<Rightarrow> (int \<times> string) list \<Rightarrow> (int \<times> (string + analysis)) list act" where
  "analyse_batch env tenant [] = State_Monad.return []"
| "analyse_batch env tenant ((mid, content) # ms) = do {
     res \<leftarrow> Service_AnalyzeWithFallback env tenant content (Some mid);
     _ \<leftarrow> (case res of Inl _ \<Rightarrow> ok () | Inr a \<Rightarrow> StoreAnalysis tenant mid a);
     rest \<leftarrow> analyse_batch env tenant ms;
     State_Monad.return ((mid, res) # rest)
   }"

text \<open>A worker scheduler exists exactly when there is a queue (\<open>cmd/server/main.go\<close>).\<close>

definition BatchAnalyze :: "api_env \<Rightarrow> request \<Rightarrow> (int \<times> string) list option \<Rightarrow> batch_reply response act" where
  "BatchAnalyze env r body =
     (case body of
        None \<Rightarrow> State_Monad.return (Fail 400 ''invalid request'')
      | Some msgs \<Rightarrow>
          if msgs = [] then State_Monad.return (Fail 400 ''messages are required'')
          else if length msgs > 100 then State_Monad.return (Fail 400 ''batch size limit 100'')
          else
            let tenant = tenantID r
            in if ap_queue env then do {
                 _ \<leftarrow> start_worker tenant;
                 _ \<leftarrow> enqueue_batch tenant msgs;
                 State_Monad.return (Reply 202 (Queued (length msgs)))
               }
               else do {
                 results \<leftarrow> analyse_batch (ap_llm env) tenant msgs;
                 State_Monad.return (Reply 200 (Analysed results))
               })"

record summarize_request =
  sq_provider :: "int option"
  sq_conversation :: "int option"
  sq_messages :: "string list"

definition fallback_summary :: summary_result where
  "fallback_summary =
     \<lparr>su_summary = ''This conversation discusses various topics. Due to a temporary service issue, an AI-generated summary is not available at this time.'',
      su_points = [''Multiple messages exchanged'', ''Topics discussed include general conversation''],
      su_actions = [], su_sentiment = ''neutral'', su_topics = [''general'']\<rparr>"

definition conversation_texts :: "int \<Rightarrow> int \<Rightarrow> message_row list sql" where
  "conversation_texts tenant conv =
     sql_select messages ms_tenant (\<lambda>m. ms_tenant m = tenant \<and> ms_conv m = conv)"

text \<open>As in \<open>analysis_json\<close>, a nil list is written as an empty one.\<close>

definition summary_json :: "summary_result \<Rightarrow> json" where
  "summary_json s =
     JObj [(''action_items'', JArr (map JStr (su_actions s))), (''key_points'', JArr (map JStr (su_points s))),
           (''sentiment'', JStr (su_sentiment s)), (''topics'', JArr (map JStr (su_topics s)))]"

definition insert_summary :: "int \<Rightarrow> int \<Rightarrow> summary_result \<Rightarrow> int \<Rightarrow> summary_row sql" where
  "insert_summary tenant conv s now =
     sql_insert daily_summaries daily_summaries_update ds_tenant
       (\<lambda>d r. has_key cv_id conv (conversations d))
       (\<lambda>i. \<lparr>ds_id = i, ds_tenant = tenant, ds_conv = conv, ds_text = su_summary s,
             ds_points = Some (summary_json s), ds_created = now\<rparr>)"

text \<open>The texts to summarise: the request's, or the conversation's in the order of time.\<close>

definition load_texts :: "int \<Rightarrow> summarize_request \<Rightarrow> (dberr + string list) act" where
  "load_texts tenant req =
     (case sq_conversation req of
        Some conv \<Rightarrow>
          if sq_messages req = [] then
            WithTenantConn tenant
              (then_ok (Exec (conversation_texts tenant conv)) (\<lambda>rows. ok (map ms_content (sort_key ms_time rows))))
          else ok (sq_messages req)
      | None \<Rightarrow> ok (sq_messages req))"

text \<open>The provider asked for, else the id in the configuration of the default instance, else 0.\<close>

definition summary_provider :: "llm_env \<Rightarrow> int \<Rightarrow> summarize_request \<Rightarrow> int act" where
  "summary_provider env tenant req =
     (let asked = coalesce (sq_provider req) 0
      in if asked \<noteq> 0 then State_Monad.return asked
         else do {
           found \<leftarrow> Router_GetDefaultProvider env tenant;
           State_Monad.return (case found of Inl _ \<Rightarrow> 0 | Inr c \<Rightarrow> pc_id c)
         })"

definition SummarizeConversation ::
    "api_env \<Rightarrow> request \<Rightarrow> summarize_request option \<Rightarrow> summary_result response act" where
  "SummarizeConversation env r body =
     (case body of
        None \<Rightarrow> State_Monad.return (Fail 400 ''invalid request'')
      | Some req \<Rightarrow> do {
          let tenant = tenantID r;
          loaded \<leftarrow> load_texts tenant req;
          case loaded of
            Inl _ \<Rightarrow> State_Monad.return (Fail 500 ''failed to load messages'')
          | Inr texts \<Rightarrow>
              if texts = [] then State_Monad.return (Fail 400 ''messages or conversation_id required'')
              else do {
                pid \<leftarrow> summary_provider (ap_llm env) tenant req;
                res \<leftarrow> (if pid \<noteq> 0 then Service_Summarize (ap_llm env) tenant pid texts
                       else State_Monad.return (Inl ''no provider available''));
                let result = (case res of Inl _ \<Rightarrow> fallback_summary | Inr s \<Rightarrow> s);
                now \<leftarrow> Now;
                _ \<leftarrow> (case sq_conversation req of
                       None \<Rightarrow> ok ()
                     | Some conv \<Rightarrow>
                         WithTenantConn tenant (then_ok (Exec (insert_summary tenant conv result now)) (\<lambda>_. ok ())));
                State_Monad.return (Reply 200 result)
              }
        })"

record test_line =
  tl_provider :: int
  tl_name :: string
  tl_model :: string
  tl_status :: string
  tl_latency :: int
  tl_error :: string

definition latencyMs :: "health_result option \<Rightarrow> int" where
  "latencyMs result = (case result of None \<Rightarrow> 0 | Some h \<Rightarrow> Milliseconds (hr_latency h))"

fun bulk_test :: "llm_env \<Rightarrow> int \<Rightarrow> provider_row list \<Rightarrow> test_line list act" where
  "bulk_test env tenant [] = State_Monad.return []"
| "bulk_test env tenant (p # ps) = do {
     (result, e) \<leftarrow> Service_HealthCheck env tenant (pv_id p);
     rest \<leftarrow> bulk_test env tenant ps;
     State_Monad.return
       (\<lparr>tl_provider = pv_id p, tl_name = pv_name p, tl_model = pv_model p,
         tl_status = (if e = None then ''ok'' else ''error''), tl_latency = latencyMs result,
         tl_error = coalesce e []\<rparr> # rest)
   }"

definition BulkTestProviders :: "api_env \<Rightarrow> request \<Rightarrow> test_line list response act" where
  "BulkTestProviders env r = do {
     let tenant = tenantID r;
     listed \<leftarrow> WithTenantConn tenant (Exec (active_providers tenant));
     case listed of
       Inl _ \<Rightarrow> State_Monad.return (Fail 500 ''failed to load providers'')
     | Inr ps \<Rightarrow> do {
         results \<leftarrow> bulk_test (ap_llm env) tenant ps;
         State_Monad.return (Reply 200 results)
       }
   }"

section \<open>Providers of a feature\<close>

definition defaultFeatures :: "string list" where
  "defaultFeatures =
     [''importance_detection'', ''summarization'', ''action_extraction'', ''daily_summary'', ''conversation_scoring'']"

text \<open>\<open>ORDER BY feature_name, priority\<close> groups by feature; within one the order is by priority.\<close>

definition GetFeatures :: "request \<Rightarrow> (string \<times> (int \<times> int) list) list response act" where
  "GetFeatures r = do {
     let tenant = tenantID r;
     res \<leftarrow> WithTenantConn tenant
       (Exec (sql_select llm_feature_assignments fa_tenant (\<lambda>a. fa_tenant a = tenant)));
     State_Monad.return
       (case res of
          Inl _ \<Rightarrow> Fail 500 ''failed to load features''
        | Inr rows \<Rightarrow> Reply 200 (map (\<lambda>f. (f, map (\<lambda>a. (fa_provider a, fa_priority a))
            (sort_key fa_priority (filter (\<lambda>a. fa_feature a = f) rows)))) defaultFeatures))
   }"

definition upsert_feature :: "int \<Rightarrow> string \<Rightarrow> int \<Rightarrow> int \<Rightarrow> int \<Rightarrow> feature_row sql" where
  "upsert_feature tenant feature provider priority now =
     sql_upsert llm_feature_assignments llm_feature_assignments_update fa_tenant
       (\<lambda>d r. is_int32 (fa_priority r) \<and> has_key pv_id (fa_provider r) (llm_providers d))
       (\<lambda>i. \<lparr>fa_id = i, fa_tenant = tenant, fa_feature = feature, fa_provider = provider,
             fa_priority = priority, fa_created = now\<rparr>)
       (\<lambda>a. fa_tenant a = tenant \<and> fa_feature a = feature \<and> fa_provider a = provider)
       (\<lambda>a. a\<lparr>fa_priority := priority\<rparr>)"

definition AssignProviderToFeature ::
    "request \<Rightarrow> (int \<times> int) option \<Rightarrow> string \<Rightarrow> string response act" where
  "AssignProviderToFeature r body feature =
     (case body of
        None \<Rightarrow> State_Monad.return (Fail 400 ''invalid request'')
      | Some (provider, priority) \<Rightarrow>
          if provider = 0 then State_Monad.return (Fail 400 ''provider_id required'')
          else do {
            let tenant = tenantID r;
            now \<leftarrow> Now;
            res \<leftarrow> WithTenantConn tenant
              (then_ok (Exec (upsert_feature tenant feature provider (if priority = 0 then 1 else priority) now))
                (\<lambda>_. ok ()));
            State_Monad.return
              (case res of Inl _ \<Rightarrow> Fail 500 ''failed to assign provider'' | Inr _ \<Rightarrow> Reply 200 ''assigned'')
          })"

record feature_line =
  fl_provider :: int
  fl_priority :: int
  fl_name :: string
  fl_model :: string
  fl_health :: string

text \<open>The join with the providers is on the id alone.\<close>

definition feature_providers :: "int \<Rightarrow> string \<Rightarrow> feature_line list sql" where
  "feature_providers tenant feature s d =
     (Inr (map (\<lambda>(a, p). \<lparr>fl_provider = fa_provider a, fl_priority = fa_priority a, fl_name = pv_name p,
                         fl_model = pv_model p, fl_health = pv_health p\<rparr>)
            (sort_key (\<lambda>(a, p). fa_priority a)
              (concat (map (\<lambda>a. map (\<lambda>p. (a, p))
                  (filter (\<lambda>p. visible s (pv_tenant p) \<and> pv_id p = fa_provider a) (tb_rows (llm_providers d))))
                (filter (\<lambda>a. visible s (fa_tenant a) \<and> fa_tenant a = tenant \<and> fa_feature a = feature)
                  (tb_rows (llm_feature_assignments d))))))), d)"

definition GetFeatureProviders :: "request \<Rightarrow> string \<Rightarrow> feature_line list response act" where
  "GetFeatureProviders r feature = do {
     let tenant = tenantID r;
     res \<leftarrow> WithTenantConn tenant (Exec (feature_providers tenant feature));
     State_Monad.return
       (case res of Inl _ \<Rightarrow> Fail 500 ''failed to load feature providers'' | Inr xs \<Rightarrow> Reply 200 xs)
   }"

definition delete_feature :: "int \<Rightarrow> string \<Rightarrow> int \<Rightarrow> nat sql" where
  "delete_feature tenant feature provider =
     sql_delete llm_feature_assignments llm_feature_assignments_update fa_tenant (\<lambda>gone d. d)
       (\<lambda>a. fa_tenant a = tenant \<and> fa_feature a = feature \<and> fa_provider a = provider)"

definition DeleteFeatureProvider :: "request \<Rightarrow> string \<Rightarrow> int \<Rightarrow> string response act" where
  "DeleteFeatureProvider r feature provider = do {
     let tenant = tenantID r;
     done \<leftarrow> WithTenantConn tenant
       (then_ok (Exec (delete_feature tenant feature provider)) (\<lambda>n. if n = 0 then err NotFound else ok ()));
     State_Monad.return
       (case done of Inl _ \<Rightarrow> Fail 404 ''assignment not found'' | Inr _ \<Rightarrow> Reply 200 ''deleted'')
   }"

definition GetProviderHistory :: "request \<Rightarrow> int \<Rightarrow> history_row list response act" where
  "GetProviderHistory r provider = do {
     let tenant = tenantID r;
     res \<leftarrow> WithTenantConn tenant
       (Exec (sql_select llm_provider_history hs_tenant (\<lambda>h. hs_tenant h = tenant \<and> hs_provider h = provider)));
     State_Monad.return
       (case res of Inl _ \<Rightarrow> Fail 500 ''failed to load history''
        | Inr rows \<Rightarrow> Reply 200 (take 5 (newest_first hs_created rows)))
   }"

section \<open>Isolation\<close>

lemma provider_stmts_tenant [intro]:
  "state_io_rel (tenant_frame t) (Exec (clear_default t))"
  "(\<And>i. pv_tenant (mk i) = t) \<Longrightarrow> state_io_rel (tenant_frame t) (Exec (insert_provider t mk))"
  "state_io_rel (tenant_frame t) (Exec (insert_history t p by payload now))"
  "state_io_rel (tenant_frame t) (Exec (conversation_texts t conv))"
  "state_io_rel (tenant_frame t) (Exec (insert_summary t conv s now))"
  "state_io_rel (tenant_frame t) (Exec (upsert_feature t feature p prio now))"
  "state_io_rel (tenant_frame t) (Exec (delete_feature t feature p))"
  unfolding clear_default_def insert_provider_def insert_history_def conversation_texts_def insert_summary_def
    upsert_feature_def delete_feature_def
  by (intro keeps_stmts; simp)+

lemma update_provider_tenant [intro]:
  assumes "\<And>p. pv_tenant (f p) = pv_tenant p"
  shows "state_io_rel (tenant_frame t) (Exec (update_provider t i f))"
proof (rule tenant.keeps_Exec)
  fix w
  let ?q = "sql_update llm_providers llm_providers_update pv_tenant (\<lambda>p. pv_tenant p = t \<and> pv_id p = i) f"
  have "state_io_rel (tenant_frame t) (Exec ?q)" by (intro keeps_stmts) (use assms in auto)
  then have "tenant_frame t (w\<lparr>w_faults := []\<rparr>) (snd (run_state (Exec ?q) (w\<lparr>w_faults := []\<rparr>)))"
    by (simp add: state_io_rel_def)
  then show "tenant_frame t w (w\<lparr>w_db := snd (update_provider t i f (w_sess w) (w_db w))\<rparr>)"
    by (simp add: tenant_frame_def update_provider_def split_beta run_Exec_nil)
qed

lemma cascade_frame: "db_frame t d (cascade_providers gone d)"
  by (simp add: db_frame_def cascade_providers_def Let_def shrunk_filter)

lemma delete_provider_tenant [intro]: "state_io_rel (tenant_frame t) (Exec (delete_provider t i))"
  unfolding delete_provider_def by (intro keeps_stmts) (auto simp: cascade_frame)

lemma feature_providers_tenant [intro]: "state_io_rel (tenant_frame t) (Exec (feature_providers t' feature))"
  by (rule tenant.keeps_Exec) (simp add: feature_providers_def tenant_frame_def)

lemma writeProviderHistory_tenant [intro]: "state_io_rel (tenant_frame t) (writeProviderHistory t i by payload)"
  unfolding writeProviderHistory_def by (intro tenant.keeps_intros provider_stmts_tenant)

lemma changed_provider_simps [simp]:
  "pv_tenant (changed_provider req e p) = pv_tenant p" "pv_id (changed_provider req e p) = pv_id p"
  "pv_default (changed_provider req e p) = coalesce (pq_default req) (pv_default p)"
  "pv_tenant (new_provider req c k t now i) = t" "pv_id (new_provider req c k t now i) = i"
  by (simp_all add: changed_provider_def new_provider_def)

context step_core
begin

lemma keeps_list [intro]:
  "state_io_rel R f \<Longrightarrow> (\<And>x xs. state_io_rel R (g x xs)) \<Longrightarrow>
     state_io_rel R (case r of [] \<Rightarrow> f | x # xs \<Rightarrow> g x xs)"
  by (cases r) auto

lemma keeps_start [intro]:
  "state_io_rel R (start_monitor t)" "state_io_rel R (start_worker t)" "state_io_rel R (encrypt_key env key)"
  unfolding start_monitor_def start_worker_def encrypt_key_def by (intro keeps_core)+

end

lemma health_check_tenant [intro]: "state_io_rel (tenant_frame t) (Service_HealthCheck env t i)"
  unfolding Service_HealthCheck_def by (intro tenant.keeps_intros router_tenant)

lemma enqueue_batch_tenant: "state_io_rel (tenant_frame t) (enqueue_batch t' ms)"
  by (induction t' ms rule: enqueue_batch.induct) (auto intro!: tenant.keeps_intros)

lemma analyse_batch_tenant: "state_io_rel (tenant_frame t) (analyse_batch env t ms)"
  by (induction env t ms rule: analyse_batch.induct) (auto intro!: tenant.keeps_intros)

lemma bulk_test_tenant: "state_io_rel (tenant_frame t) (bulk_test env t ps)"
  by (induction env t ps rule: bulk_test.induct) (auto intro!: tenant.keeps_intros)

lemma llm_writers_tenant:
  "state_io_rel (tenant_frame (tenantID r)) (CreateProvider env r body1)"
  "state_io_rel (tenant_frame (tenantID r)) (UpdateProvider env r body2 i)"
  "state_io_rel (tenant_frame (tenantID r)) (DeleteProvider r i)"
  "state_io_rel (tenant_frame (tenantID r)) (TestProvider env r i)"
  "state_io_rel (tenant_frame (tenantID r)) (AnalyzeMessage env r body3)"
  "state_io_rel (tenant_frame (tenantID r)) (BatchAnalyze env r body4)"
  "state_io_rel (tenant_frame (tenantID r)) (SummarizeConversation env r body5)"
  "state_io_rel (tenant_frame (tenantID r)) (AssignProviderToFeature r body6 feature)"
  "state_io_rel (tenant_frame (tenantID r)) (DeleteFeatureProvider r feature i)"
  unfolding CreateProvider_def UpdateProvider_def update_callback_def DeleteProvider_def TestProvider_def AnalyzeMessage_def
    BatchAnalyze_def SummarizeConversation_def AssignProviderToFeature_def DeleteFeatureProvider_def
    load_texts_def summary_provider_def Service_Analyze_def Service_Summarize_def Let_def
  by ((intro tenant.keeps_intros tenant.keeps_start tenant.keeps_list provider_stmts_tenant update_provider_tenant delete_provider_tenant
      writeProviderHistory_tenant health_check_tenant store_tenant service_tenant router_tenant
      enqueue_batch_tenant analyse_batch_tenant; simp)+)

section \<open>API keys\<close>

fun shows_no_key :: "provider_row response \<Rightarrow> bool" where
  "shows_no_key (Reply s p) = (pv_key p = ''****'')"
| "shows_no_key (Fail s msg) = True"

fun show_no_keys :: "provider_row list response \<Rightarrow> bool" where
  "show_no_keys (Reply s ps) = list_all (\<lambda>p. pv_key p = ''****'') ps"
| "show_no_keys (Fail s msg) = True"

lemma masked_key [simp]: "pv_key (masked p) = ''****''" "pv_key (shown_provider p) = ''****''"
  by (simp_all add: masked_def shown_provider_def)

section \<open>The default provider\<close>

lemma clear_default_run:
  "clear_default t (as_tenant t w) d =
     (Inr (map (\<lambda>p. p\<lparr>pv_default := False\<rparr>) (filter (\<lambda>p. pv_tenant p = t) (tb_rows (llm_providers d)))),
      d\<lparr>llm_providers := (llm_providers d)\<lparr>tb_rows := update_where (\<lambda>p. pv_tenant p = t)
         (\<lambda>p. p\<lparr>pv_default := False\<rparr>) (tb_rows (llm_providers d))\<rparr>\<rparr>)"
proof -
  have "(visible (as_tenant t w) x \<and> x = t) = (x = t)" for x by auto
  then show ?thesis by (simp add: clear_default_def sql_update_def Let_def)
qed

lemma cleared_rows:
  "p \<in> set (update_where (\<lambda>p. pv_tenant p = t) (\<lambda>p. p\<lparr>pv_default := False\<rparr>) rows) \<Longrightarrow> pv_default p \<Longrightarrow>
     pv_tenant p \<noteq> t"
  by (induction rows) (auto split: if_splits)

lemma cleared_ids:
  "p \<in> set (update_where (\<lambda>p. pv_tenant p = t) (\<lambda>p. p\<lparr>pv_default := False\<rparr>) rows) \<Longrightarrow>
     \<exists>q \<in> set rows. pv_tenant q = pv_tenant p \<and> pv_id q = pv_id p"
  by (induction rows) (auto split: if_splits)

lemma run_conn_start:
  assumes "w_faults w = []" "state_io_rel no_faults fn"
    and "run_state fn (w\<lparr>w_sess := as_tenant t w\<rparr>) = (x, v)"
  shows "run_state (WithTenantConn t fn) w = (x, reset_sess v)"
  using assms run_WithTenantConn_quiet [OF assms(1,2), of t] by (simp add: as_tenant_def)

lemma update_callback_quiet: "state_io_rel no_faults (update_callback req e t i)"
  unfolding update_callback_def
  by (intro quiet_exec.keeps_all quiet.keeps_list)

lemma clear_then_update:
  assumes "w_faults w = []" "pq_default req = Some True"
  shows "\<exists>x d. run_state (update_callback req e t i) (w\<lparr>w_sess := as_tenant t w\<rparr>) =
      (x, w\<lparr>w_sess := as_tenant t w, w_db := d\<rparr>) \<and>
    ((\<forall>p \<in> set (tb_rows (llm_providers (w_db w))). \<not> (pv_tenant p = t \<and> pv_id p = i)) \<longrightarrow>
       x = Inl NoRows \<and> t \<notin> set (default_tenants d) \<or> x = Inl Violation \<and> t \<notin> set (default_tenants d))"
proof -
  let ?d = "(w_db w)\<lparr>llm_providers := (llm_providers (w_db w))\<lparr>tb_rows := update_where (\<lambda>p. pv_tenant p = t)
         (\<lambda>p. p\<lparr>pv_default := False\<rparr>) (tb_rows (llm_providers (w_db w)))\<rparr>\<rparr>"
  obtain res d where u: "update_provider t i (changed_provider req e) (as_tenant t w) ?d = (res, d)"
    by (cases "update_provider t i (changed_provider req e) (as_tenant t w) ?d")
  have run: "run_state (update_callback req e t i) (w\<lparr>w_sess := as_tenant t w\<rparr>) =
      ((case res of Inl e \<Rightarrow> Inl e | Inr [] \<Rightarrow> Inl NoRows | Inr (p # ps) \<Rightarrow> Inr p), w\<lparr>w_sess := as_tenant t w, w_db := d\<rparr>)"
    using assms u
    by (simp add: update_callback_def run_then_ok run_Exec_nil clear_default_run split: sum.split list.split)
  have cleared: "t \<notin> set (default_tenants ?d)"
    using cleared_rows [where t = t] by (fastforce simp: default_tenants_def)
  have "res = Inr [] \<and> d = ?d \<or> res = Inl Violation \<and> d = ?d"
    if "\<forall>p \<in> set (tb_rows (llm_providers (w_db w))). \<not> (pv_tenant p = t \<and> pv_id p = i)"
  proof -
    have none: "\<forall>p \<in> set (tb_rows (llm_providers ?d)). \<not> (visible (as_tenant t w) (pv_tenant p) \<and> pv_tenant p = t \<and> pv_id p = i)"
      using that by (auto dest!: cleared_ids)
    then have "filter (\<lambda>p. visible (as_tenant t w) (pv_tenant p) \<and> pv_tenant p = t \<and> pv_id p = i) (tb_rows (llm_providers ?d)) = []"
      by (simp add: filter_empty_conv)
    moreover from none have "update_where (\<lambda>p. visible (as_tenant t w) (pv_tenant p) \<and> pv_tenant p = t \<and> pv_id p = i)
        (changed_provider req e) (tb_rows (llm_providers ?d)) = tb_rows (llm_providers ?d)"
      by (rule update_where_none)
    ultimately show ?thesis
      using u by (auto simp: update_provider_def sql_update_def Let_def split: if_splits)
  qed
  with run cleared show ?thesis by (auto split: sum.split list.split)
qed

text \<open>
  A failed update takes the default away. Without faults, an update that makes a provider the
  default but names an id the tenant does not have is answered with 404, and after it the tenant
  has no default provider at all: the old one was cleared first.
\<close>

theorem failed_update_clears_default:
  assumes "w_faults w = []" "pq_default req = Some True" "pq_name req = []" "pq_key req = []"
    and "\<forall>p \<in> set (tb_rows (llm_providers (w_db w))). \<not> (pv_tenant p = tenantID r \<and> pv_id p = i)"
  shows "\<exists>w'. run_state (UpdateProvider env r (Some req) i) w = (Fail 404 ''provider not found'', w') \<and>
    tenantID r \<notin> set (default_tenants (w_db w'))"
proof -
  let ?t = "tenantID r"
  obtain x d where c: "run_state (update_callback req None ?t i) (w\<lparr>w_sess := as_tenant ?t w\<rparr>) =
      (x, w\<lparr>w_sess := as_tenant ?t w, w_db := d\<rparr>)" and x: "\<exists>e. x = Inl e" "?t \<notin> set (default_tenants d)"
    using clear_then_update [OF assms(1,2), of None ?t i] assms(5) by blast
  from run_conn_start [OF assms(1) update_callback_quiet c] x show ?thesis
    by (auto simp: UpdateProvider_def Let_def assms(3,4))
qed

definition empty_request :: provider_request where
  "empty_request =
     \<lparr>pq_name = [], pq_key = [], pq_display = None, pq_model = [], pq_base = None, pq_endpoint = None,
      pq_deployment = None, pq_version = None, pq_temp = None, pq_max = None, pq_cin = None, pq_cout = None,
      pq_rpm = None, pq_rpd = None, pq_budget = None, pq_active = None, pq_default = None, pq_fallback = None\<rparr>"

definition admin_of :: "int \<Rightarrow> request" where
  "admin_of t = (sample_request ''POST'' ''/'')\<lparr>rq_user := Some \<lparr>u_id = 1, u_tenant = t, u_email = [], u_csrf = []\<rparr>\<rparr>"

lemma admin_tenant [simp]: "tenantID (admin_of t) = t"
  by (simp add: admin_of_def tenantID_def UserFromContext_def)

definition default_world :: world where
  "default_world = llm_world\<lparr>w_db := (w_db llm_world)\<lparr>llm_providers :=
     \<lparr>tb_rows = [(sample_provider 1 10 ''key-of-10'')\<lparr>pv_default := True\<rparr>], tb_seq = 1\<rparr>\<rparr>\<rparr>"

definition sample_api :: api_env where
  "sample_api = \<lparr>ap_llm = sample_llm, ap_seal = sample_seal, ap_queue = True\<rparr>"

theorem failed_update_clears_default_witness:
  "default_tenants (w_db default_world) = [10] \<and>
   10 \<notin> set (default_tenants (w_db (snd (run_state
     (UpdateProvider sample_api (admin_of 10) (Some (empty_request\<lparr>pq_default := Some True\<rparr>)) 99) default_world))))"
proof -
  have "w_faults default_world = []" by (simp add: default_world_def)
  moreover have "\<forall>p \<in> set (tb_rows (llm_providers (w_db default_world))). \<not> (pv_tenant p = tenantID (admin_of 10) \<and> pv_id p = 99)"
    by (simp add: default_world_def sample_provider_def)
  ultimately have "10 \<notin> set (default_tenants (w_db (snd (run_state
     (UpdateProvider sample_api (admin_of 10) (Some (empty_request\<lparr>pq_default := Some True\<rparr>)) 99) default_world))))"
    using failed_update_clears_default [of default_world "empty_request\<lparr>pq_default := Some True\<rparr>" "admin_of 10" 99 sample_api]
    by (force simp: empty_request_def)
  then show ?thesis by (simp add: default_tenants_def default_world_def)
qed

section \<open>Deleting a provider\<close>

text \<open>Everything that names a provider belongs to one that exists.\<close>

definition provider_refs :: "db \<Rightarrow> int set" where
  "provider_refs d =
     ug_provider ` set (tb_rows (llm_usage_logs d)) \<union> hl_provider ` set (tb_rows (llm_provider_health d)) \<union>
     hs_provider ` set (tb_rows (llm_provider_history d)) \<union> fa_provider ` set (tb_rows (llm_feature_assignments d))"

definition provider_ids :: "db \<Rightarrow> int set" where
  "provider_ids d = pv_id ` set (tb_rows (llm_providers d))"

definition llm_inv :: "db \<Rightarrow> bool" where
  "llm_inv d \<longleftrightarrow>
     distinct (map pv_id (tb_rows (llm_providers d))) \<and>
     (\<forall>i \<in> provider_ids d. i \<le> tb_seq (llm_providers d)) \<and>
     distinct (default_tenants d) \<and> provider_refs d \<subseteq> provider_ids d"

lemma image_dead: "f ` {r \<in> S. f r \<notin> A} = f ` S - A"
  by auto

lemma cascade_refs: "provider_refs (cascade_providers gone d) = provider_refs d - pv_id ` set gone"
  by (simp add: provider_refs_def cascade_providers_def Let_def image_dead Un_Diff)

lemma cascade_providers_same [simp]: "llm_providers (cascade_providers gone d) = llm_providers d"
  by (simp add: cascade_providers_def Let_def)

lemma ids_kept:
  "distinct (map f xs) \<Longrightarrow> f ` set (filter (\<lambda>y. \<not> P y) xs) = f ` set xs - f ` set (filter P xs)"
  by (auto simp: distinct_map inj_on_def)

abbreviation of_provider :: "int \<Rightarrow> int \<Rightarrow> session \<Rightarrow> provider_row \<Rightarrow> bool" where
  "of_provider t i s p \<equiv> visible s (pv_tenant p) \<and> pv_tenant p = t \<and> pv_id p = i"

lemma delete_provider_effect:
  fixes t i s d
  defines "d' \<equiv> snd (delete_provider t i s d)"
  shows "tb_rows (llm_providers d') = filter (\<lambda>p. \<not> of_provider t i s p) (tb_rows (llm_providers d))"
    and "tb_seq (llm_providers d') = tb_seq (llm_providers d)"
    and "provider_refs d' = provider_refs d - pv_id ` set (filter (of_provider t i s) (tb_rows (llm_providers d)))"
proof -
  have "provider_refs (llm_providers_update f d) = provider_refs d" for f by (simp add: provider_refs_def)
  then show "provider_refs d' = provider_refs d - pv_id ` set (filter (of_provider t i s) (tb_rows (llm_providers d)))"
    by (simp add: d'_def delete_provider_def sql_delete_def Let_def cascade_refs)
qed (simp_all add: d'_def delete_provider_def sql_delete_def Let_def)

lemma delete_provider_inv:
  assumes "llm_inv d"
  shows "llm_inv (snd (delete_provider t i s d))"
proof -
  let ?rows = "tb_rows (llm_providers d)" and ?d' = "snd (delete_provider t i s d)"
  note eff = delete_provider_effect [of t i s d]
  have d: "distinct (map pv_id ?rows)" using assms by (simp add: llm_inv_def)
  have "provider_ids ?d' = provider_ids d - pv_id ` set (filter (of_provider t i s) ?rows)"
    unfolding provider_ids_def eff(1) by (rule ids_kept [OF d])
  moreover have "distinct (default_tenants ?d')"
  proof -
    have "default_tenants ?d' = map pv_tenant (filter (\<lambda>p. \<not> of_provider t i s p) (filter pv_default ?rows))"
      unfolding default_tenants_def eff(1) filter_filter by (simp add: conj_commute)
    moreover have "distinct (map pv_tenant (filter pv_default ?rows))"
      using assms by (simp only: llm_inv_def default_tenants_def)
    ultimately show ?thesis by (simp only: distinct_map_filter)
  qed
  ultimately show ?thesis
    using assms distinct_map_filter [OF d] unfolding llm_inv_def eff by blast
qed

text \<open>
  Deleting a provider leaves no trace of it. Without faults, and with references intact
  before, a successful \<open>DeleteProvider\<close> leaves no usage, health, assignment or history row of the
  provider, not even the entry \<open>deleted\<close> it writes itself: the provider that entry refers to is
  gone by then, so the foreign key refuses it and the error is dropped.
\<close>

theorem delete_leaves_no_trace:
  assumes "w_faults w = []" "llm_inv (w_db w)"
    and "p \<in> set (tb_rows (llm_providers (w_db w)))" "pv_id p = i" "pv_tenant p = tenantID r"
  shows "\<exists>w'. run_state (DeleteProvider r i) w = (Reply 200 ''deleted'', w') \<and>
    i \<notin> provider_ids (w_db w') \<and> i \<notin> provider_refs (w_db w')"
proof -
  let ?t = "tenantID r"
  let ?P = "\<lambda>p. pv_tenant p = ?t \<and> pv_id p = i"
  let ?rows = "tb_rows (llm_providers (w_db w))"
  have vis: "of_provider ?t i (as_tenant ?t w) = ?P" by (auto simp: fun_eq_iff)
  obtain d where res: "delete_provider ?t i (as_tenant ?t w) (w_db w) = (Inr (length (filter ?P ?rows)), d)"
    using vis by (simp add: delete_provider_def sql_delete_def Let_def fun_eq_iff)
  note eff = delete_provider_effect [of ?t i "as_tenant ?t w" "w_db w", unfolded vis res snd_conv]
  have pin: "p \<in> set (filter ?P ?rows)" using assms(3-5) by simp
  then obtain k where n: "length (filter ?P ?rows) = Suc k" by (cases "filter ?P ?rows") auto
  have gone: "i \<notin> provider_ids d"
  proof -
    have "pv_tenant q = ?t" if "q \<in> set ?rows" "pv_id q = i" for q
      using distinct_map_unique [of pv_id ?rows q p] that assms by (auto simp: llm_inv_def)
    then show ?thesis by (auto simp: provider_ids_def eff(1))
  qed
  have norefs: "i \<notin> provider_refs d" using pin assms(4) unfolding eff(3) by blast
  let ?cb = "then_ok (Exec (delete_provider ?t i)) (\<lambda>n. if n = 0 then err NotFound else ok ())"
  have cb: "run_state ?cb (w\<lparr>w_sess := as_tenant ?t w\<rparr>) = (Inr (), w\<lparr>w_sess := as_tenant ?t w, w_db := d\<rparr>)"
    by (simp add: run_then_ok run_Exec_nil assms(1) res n)
  have q: "state_io_rel no_faults ?cb" by (intro quiet_exec.keeps_all)
  let ?v = "reset_sess (w\<lparr>w_sess := as_tenant ?t w, w_db := d\<rparr>)"
  have one: "run_state (WithTenantConn ?t ?cb) w = (Inr (), ?v)" by (rule run_conn_start [OF assms(1) q cb])
  let ?ev = "JObj [(''event'', JStr ''deleted''), (''provider_id'', JInt i)]"
  have "\<not> has_key pv_id i (llm_providers d)" using gone by (auto simp: has_key_def provider_ids_def)
  then have hist: "insert_history ?t i u ?ev now s d =
      (Inl Violation, d\<lparr>llm_provider_history := (llm_provider_history d)\<lparr>tb_seq := tb_seq (llm_provider_history d) + 1\<rparr>\<rparr>)" for u now s
    by (simp add: insert_history_def sql_insert_def Let_def)
  have v: "w_faults ?v = []" "w_db ?v = d" using assms(1) by simp_all
  obtain res2 w2 where h: "run_state (writeProviderHistory ?t i (authUserIDPtr r) ?ev) ?v = (res2, w2)"
    and w2: "w_db w2 = d\<lparr>llm_provider_history := (llm_provider_history d)\<lparr>tb_seq := tb_seq (llm_provider_history d) + 1\<rparr>\<rparr>"
    unfolding writeProviderHistory_def
    using run_conn_Exec [OF v(1), of ?t "insert_history ?t i (authUserIDPtr r) ?ev (w_now ?v)" "\<lambda>_. ()"]
    by (simp add: hist)
  have "run_state (DeleteProvider r i) w = (Reply 200 ''deleted'', w2)"
    using h by (simp add: DeleteProvider_def Let_def one)
  moreover have "i \<notin> provider_ids (w_db w2) \<and> i \<notin> provider_refs (w_db w2)"
    using gone norefs unfolding w2 by (simp add: provider_ids_def provider_refs_def)
  ultimately show ?thesis by blast
qed

theorem delete_leaves_no_trace_witness:
  "provider_ids (w_db default_world) = {1} \<and>
   (\<exists>w'. run_state (DeleteProvider (admin_of 10) 1) default_world = (Reply 200 ''deleted'', w') \<and>
     1 \<notin> provider_ids (w_db w') \<and> 1 \<notin> provider_refs (w_db w'))"
proof -
  let ?p = "(sample_provider 1 10 ''key-of-10'')\<lparr>pv_default := True\<rparr>"
  have "?p \<in> set (tb_rows (llm_providers (w_db default_world)))" by (simp add: default_world_def)
  moreover have "llm_inv (w_db default_world)"
    by (simp add: default_world_def llm_inv_def provider_ids_def provider_refs_def default_tenants_def
        llm_world_def sample_provider_def empty_db_def)
  moreover have "w_faults default_world = []" by (simp add: default_world_def)
  ultimately have "\<exists>w'. run_state (DeleteProvider (admin_of 10) 1) default_world = (Reply 200 ''deleted'', w') \<and>
     1 \<notin> provider_ids (w_db w') \<and> 1 \<notin> provider_refs (w_db w')"
    using delete_leaves_no_trace [of default_world ?p 1 "admin_of 10"] by simp
  then show ?thesis by (simp add: default_world_def provider_ids_def)
qed

section \<open>Creating a provider\<close>

lemma default_config_name: "defaultProviderConfig p = Some c \<Longrightarrow> pc_name c = p"
  by (auto simp: defaultProviderConfig_def plain_config_def split: if_splits)

definition ids_below :: "db \<Rightarrow> bool" where
  "ids_below d \<longleftrightarrow> (\<forall>i \<in> provider_ids d. i \<le> tb_seq (llm_providers d))"

text \<open>Clearing the default, when asked for, keeps the identifiers.\<close>

lemma clear_step:
  assumes "w_faults w = []"
  shows "\<exists>d. run_state (if b then then_ok (Exec (clear_default t)) (\<lambda>_. ok ()) else ok ())
        (w\<lparr>w_sess := as_tenant t w\<rparr>) = (Inr (), w\<lparr>w_sess := as_tenant t w, w_db := d\<rparr>) \<and>
      (b \<longrightarrow> t \<notin> set (default_tenants d)) \<and> provider_ids d = provider_ids (w_db w) \<and>
      tb_seq (llm_providers d) = tb_seq (llm_providers (w_db w))"
proof (cases b)
  case False
  then show ?thesis by (intro exI [of _ "w_db w"]) simp
next
  case True
  let ?rows = "update_where (\<lambda>p. pv_tenant p = t) (\<lambda>p. p\<lparr>pv_default := False\<rparr>) (tb_rows (llm_providers (w_db w)))"
  let ?d = "(w_db w)\<lparr>llm_providers := (llm_providers (w_db w))\<lparr>tb_rows := ?rows\<rparr>\<rparr>"
  have "run_state (then_ok (Exec (clear_default t)) (\<lambda>_. ok ())) (w\<lparr>w_sess := as_tenant t w\<rparr>) =
      (Inr (), w\<lparr>w_sess := as_tenant t w, w_db := ?d\<rparr>)"
    using assms by (simp add: run_then_ok run_Exec_nil clear_default_run)
  moreover have "t \<notin> set (default_tenants ?d)"
    using cleared_rows [where t = t] by (fastforce simp: default_tenants_def)
  moreover have "map pv_id ?rows = map pv_id (tb_rows (llm_providers (w_db w)))"
    by (rule map_update_where) simp
  then have "set (map pv_id ?rows) = set (map pv_id (tb_rows (llm_providers (w_db w))))" by (rule arg_cong)
  then have "provider_ids ?d = provider_ids (w_db w)" by (simp add: provider_ids_def)
  ultimately show ?thesis using True by (intro exI [of _ ?d]) simp
qed

lemma insert_provider_run:
  assumes "ids_below d" "fits_int32 (mk (tb_seq (llm_providers d) + 1))"
    and "\<And>i. pv_tenant (mk i) = t" "\<And>i. pv_id (mk i) = i"
    and "pv_default (mk (tb_seq (llm_providers d) + 1)) \<longrightarrow> t \<notin> set (default_tenants d)"
  shows "\<exists>d'. insert_provider t mk (as_tenant t w) d = (Inr (mk (tb_seq (llm_providers d) + 1)), d') \<and>
      filter (\<lambda>p. pv_tenant p = t \<and> pv_id p = tb_seq (llm_providers d) + 1) (tb_rows (llm_providers d')) =
        [mk (tb_seq (llm_providers d) + 1)]"
proof -
  let ?i = "tb_seq (llm_providers d) + 1"
  let ?d = "d\<lparr>llm_providers := \<lparr>tb_rows = tb_rows (llm_providers d) @ [mk ?i], tb_seq = ?i\<rparr>\<rparr>"
  have "insert_provider t mk (as_tenant t w) d = (Inr (mk ?i), ?d)"
    using assms by (simp add: insert_provider_def sql_insert_def Let_def)
  moreover have "\<forall>p \<in> set (tb_rows (llm_providers d)). pv_id p \<noteq> ?i"
    using assms(1) by (auto simp: ids_below_def provider_ids_def)
  then have "filter (\<lambda>p. pv_tenant p = t \<and> pv_id p = ?i) (tb_rows (llm_providers ?d)) = [mk ?i]"
    using assms(3,4) by (simp add: filter_empty_conv)
  ultimately show ?thesis by blast
qed

lemma encrypt_key_run:
  assumes "w_rand w = Some n # rs" "32 \<le> length (le_master (ap_llm env))"
  shows "\<exists>c. run_state (encrypt_key env key) w = (Inr c, w\<lparr>w_rand := rs\<rparr>) \<and>
    Encrypt (ap_seal env) (Some n) (le_master (ap_llm env)) key = Inr c"
proof -
  have "\<not> length (le_master (ap_llm env)) < 32" using assms(2) by simp
  then show ?thesis using assms(1) by (simp add: encrypt_key_def run_RandRead Encrypt_def Let_def)
qed

lemma history_keeps_providers:
  assumes "w_faults w = []"
  shows "\<exists>res v. run_state (writeProviderHistory t i u payload) w = (res, v) \<and>
    llm_providers (w_db v) = llm_providers (w_db w) \<and> w_faults v = []"
proof -
  have "llm_providers (snd (insert_history t i u payload now s d)) = llm_providers d" for now s d
    by (simp add: insert_history_def sql_insert_def Let_def)
  then show ?thesis
    unfolding writeProviderHistory_def
    using run_conn_Exec [OF assms, of t "insert_history t i u payload (w_now w)" "\<lambda>_. ()"] assms
    by (cases "insert_history t i u payload (w_now w) (as_tenant t w) (w_db w)")
      (auto split: sum.splits, metis snd_conv, metis snd_conv)
qed

lemma default_config_bounds: "defaultProviderConfig p = Some c \<Longrightarrow> is_int32 (pc_max c) \<and> is_int32 (pc_rpm c)"
  by (auto simp: defaultProviderConfig_def plain_config_def is_int32_def split: if_splits)

lemma new_provider_fits:
  assumes "defaultProviderConfig (pq_name req) = Some c"
    and "is_int32 (coalesce (pq_max req) 0)" "is_int32 (coalesce (pq_rpm req) 0)" "is_int32 (coalesce (pq_rpd req) 0)"
  shows "fits_int32 (new_provider req c key t now i)"
  using assms default_config_bounds [OF assms(1)]
  by (auto simp: fits_int32_def new_provider_def coalesce_def is_int32_def split: option.splits)

lemma create_statements:
  assumes "w_faults w = []" "ids_below (w_db w)" "fits_int32 (mk (tb_seq (llm_providers (w_db w)) + 1))"
    and "\<And>i. pv_tenant (mk i) = t" "\<And>i. pv_id (mk i) = i" "\<And>i. pv_default (mk i) = b"
  shows "\<exists>d. run_state (WithTenantConn t (do {
        _ \<leftarrow> (if b then then_ok (Exec (clear_default t)) (\<lambda>_. ok ()) else ok ());
        Exec (insert_provider t mk)
      })) w = (Inr (mk (tb_seq (llm_providers (w_db w)) + 1)), reset_sess (w\<lparr>w_sess := as_tenant t w, w_db := d\<rparr>)) \<and>
      filter (\<lambda>p. pv_tenant p = t \<and> pv_id p = tb_seq (llm_providers (w_db w)) + 1) (tb_rows (llm_providers d)) =
        [mk (tb_seq (llm_providers (w_db w)) + 1)]"
proof -
  let ?cb = "do {
        _ \<leftarrow> (if b then then_ok (Exec (clear_default t)) (\<lambda>_. ok ()) else ok ());
        Exec (insert_provider t mk)
      }"
  obtain d where c: "run_state (if b then then_ok (Exec (clear_default t)) (\<lambda>_. ok ()) else ok ())
        (w\<lparr>w_sess := as_tenant t w\<rparr>) = (Inr (), w\<lparr>w_sess := as_tenant t w, w_db := d\<rparr>)"
    and d: "b \<longrightarrow> t \<notin> set (default_tenants d)" "provider_ids d = provider_ids (w_db w)"
      "tb_seq (llm_providers d) = tb_seq (llm_providers (w_db w))"
    using clear_step [OF assms(1), of b t] by blast
  have "ids_below d" using assms(2) by (simp add: ids_below_def d)
  then obtain d' where i: "insert_provider t mk (as_tenant t w) d = (Inr (mk (tb_seq (llm_providers (w_db w)) + 1)), d')"
    and rows: "filter (\<lambda>p. pv_tenant p = t \<and> pv_id p = tb_seq (llm_providers (w_db w)) + 1) (tb_rows (llm_providers d')) =
        [mk (tb_seq (llm_providers (w_db w)) + 1)]"
    using insert_provider_run [of d mk t w] assms(3-6) d unfolding d(3) by blast
  have run: "run_state ?cb (w\<lparr>w_sess := as_tenant t w\<rparr>) =
      (Inr (mk (tb_seq (llm_providers (w_db w)) + 1)), w\<lparr>w_sess := as_tenant t w, w_db := d'\<rparr>)"
    using assms(1) by (simp only: run_state_bind c prod.case run_Exec_nil) (simp add: run_Exec_nil i)
  have "state_io_rel no_faults ?cb" by (intro quiet_exec.keeps_all)
  from run_conn_start [OF assms(1) this run] rows show ?thesis by blast
qed

text \<open>
  C8. A key stored through the API comes back to the router. Without faults, for a master key of
  32 bytes or more, a supported provider and limits within the columns' range, \<open>CreateProvider\<close>
  answers 201, and reading the provider back by the id of the answer gives a configuration with
  the request's name and, decrypted, the request's API key.
\<close>

theorem created_provider_usable:
  assumes "w_faults w = []" "ids_below (w_db w)" "w_rand w = Some n # rs"
    and "aead_law (ap_seal env) (le_unseal (ap_llm env))" "is_bytes n" "length n = nonce_size"
    and "32 \<le> length (le_master (ap_llm env))"
    and "pq_name req \<noteq> []" "pq_key req \<noteq> []" "defaultProviderConfig (pq_name req) = Some config"
    and "is_int32 (coalesce (pq_max req) 0)" "is_int32 (coalesce (pq_rpm req) 0)" "is_int32 (coalesce (pq_rpd req) 0)"
  shows "\<exists>p w' c w''. run_state (CreateProvider env r (Some req)) w = (Reply 201 p, w') \<and>
    run_state (Store_GetProviderByID (ap_llm env) (tenantID r) (pv_id p)) w' = (Inr c, w'') \<and>
    pc_id c = pv_id p \<and> pc_name c = pq_name req \<and> pc_key c = pq_key req"
proof -
  let ?t = "tenantID r" and ?b = "coalesce (pq_default req) False"
  obtain key where key: "run_state (encrypt_key env (pq_key req)) w = (Inr key, w\<lparr>w_rand := rs\<rparr>)"
    and enc: "Encrypt (ap_seal env) (Some n) (le_master (ap_llm env)) (pq_key req) = Inr key"
    using encrypt_key_run [OF assms(3,7)] by blast
  let ?w = "w\<lparr>w_rand := rs\<rparr>"
  let ?i = "tb_seq (llm_providers (w_db ?w)) + 1" and ?mk = "new_provider req config key ?t (w_now ?w)"
  have default: "pv_default (?mk i) = ?b" for i by (simp add: new_provider_def)
  obtain d where run: "run_state (WithTenantConn ?t (do {
        _ \<leftarrow> (if ?b then then_ok (Exec (clear_default ?t)) (\<lambda>_. ok ()) else ok ());
        Exec (insert_provider ?t ?mk)
      })) ?w = (Inr (?mk ?i), reset_sess (?w\<lparr>w_sess := as_tenant ?t ?w, w_db := d\<rparr>))"
    and rows: "filter (\<lambda>p. pv_tenant p = ?t \<and> pv_id p = ?i) (tb_rows (llm_providers d)) = [?mk ?i]"
    using create_statements [of ?w ?mk ?t ?b, OF _ _ new_provider_fits [OF assms(10-13)]
        changed_provider_simps(4,5) default] assms(1,2) by fastforce
  let ?v = "reset_sess (?w\<lparr>w_sess := as_tenant ?t ?w, w_db := d\<rparr>)"
  let ?u = "?v\<lparr>w_monitors := fst (EnsureTenant ?t (w_monitors ?v))\<rparr>"
  let ?ev = "JObj [(''config'', providerSnapshot (masked (?mk ?i))), (''event'', JStr ''created''), (''provider_id'', JInt ?i)]"
  have u: "w_faults ?u = []" "llm_providers (w_db ?u) = llm_providers d" using assms(1) by simp_all
  obtain res v where h: "run_state (writeProviderHistory ?t ?i (authUserIDPtr r) ?ev) ?u = (res, v)"
    and v: "llm_providers (w_db v) = llm_providers d" "w_faults v = []"
    using history_keeps_providers [OF u(1)] u(2) by metis
  have master: "le_master (ap_llm env) \<noteq> []" using assms(7) by auto
  have mon: "run_state (start_monitor ?t) ?v = ((), ?u)" by (simp add: start_monitor_def)
  have "run_state (CreateProvider env r (Some req)) w = (Reply 201 (masked (?mk ?i)), v)"
    unfolding CreateProvider_def Let_def option.case assms(10) using assms(8,9) master
    by (simp only: simp_thms if_False run_state_bind key prod.case sum.case run_Now run mon
        changed_provider_simps h run_state_return)
  moreover have "run_state (Store_GetProviderByID (ap_llm env) ?t ?i) v = (Inr (config_of_row (ap_llm env) (?mk ?i)), reset_sess v)"
    by (simp only: run_GetProviderByID [OF v(2)] v(1) rows first_of_simps option.case)
  moreover have "pc_key (config_of_row (ap_llm env) (?mk ?i)) = pq_key req"
    using sealed_opens [OF assms(4-6) enc] by (simp add: config_of_row_def new_provider_def)
  moreover have "pc_name (config_of_row (ap_llm env) (?mk ?i)) = pq_name req"
    using default_config_name [OF assms(10)] by (simp add: config_of_row_def new_provider_def)
  ultimately show ?thesis
    by (intro exI [of _ "masked (?mk ?i)"]) (simp add: masked_def config_of_row_def)
qed

definition fresh_world :: world where
  "fresh_world = llm_world\<lparr>w_rand := [Some (replicate 12 7)]\<rparr>"

definition keyed_api :: api_env where
  "keyed_api =
     sample_api\<lparr>ap_llm := sample_llm\<lparr>le_unseal := sample_unseal, le_master := replicate 32 CHR ''k''\<rparr>\<rparr>"

theorem created_provider_usable_witness:
  "\<exists>p w' c w''. run_state (CreateProvider keyed_api (admin_of 10)
        (Some (empty_request\<lparr>pq_name := ''openai'', pq_key := ''sk-1''\<rparr>))) fresh_world = (Reply 201 p, w') \<and>
    run_state (Store_GetProviderByID (ap_llm keyed_api) 10 (pv_id p)) w' = (Inr c, w'') \<and>
    pc_id c = pv_id p \<and> pc_name c = ''openai'' \<and> pc_key c = ''sk-1''"
proof -
  have law: "aead_law (ap_seal keyed_api) (le_unseal (ap_llm keyed_api))"
    by (simp add: aead_law_def keyed_api_def sample_api_def sample_seal_def sample_unseal_def)
  have "w_faults fresh_world = []" "w_rand fresh_world = Some (replicate 12 7) # []"
    by (simp_all add: fresh_world_def)
  moreover have "ids_below (w_db fresh_world)"
    by (simp add: fresh_world_def ids_below_def provider_ids_def llm_world_def)
  moreover have "is_bytes (replicate 12 7)" "length (replicate 12 (7::nat)) = nonce_size"
    by (simp_all add: is_bytes_def nonce_size_def)
  moreover have "32 \<le> length (le_master (ap_llm keyed_api))" by (simp add: keyed_api_def)
  ultimately show ?thesis
    using created_provider_usable [of fresh_world "replicate 12 7" "[]" keyed_api
        "empty_request\<lparr>pq_name := ''openai'', pq_key := ''sk-1''\<rparr>"
        "plain_config ''openai'' ''gpt-4-turbo'' [] (1 / 100) (3 / 100)" "admin_of 10"] law
    by (simp add: empty_request_def defaultProviderConfig_def is_int32_def)
qed

section \<open>Providers and what refers to them\<close>

text \<open>What the statements do to the five tables; every other statement leaves them alone.\<close>

definition llm_part where
  "llm_part d = (llm_providers d, tb_rows (llm_usage_logs d), tb_rows (llm_provider_health d),
     tb_rows (llm_provider_history d), tb_rows (llm_feature_assignments d))"

lemma llm_inv_part: "llm_part d' = llm_part d \<Longrightarrow> llm_inv d' = llm_inv d"
  by (simp add: llm_part_def llm_inv_def provider_ids_def provider_refs_def default_tenants_def)

lemma llm_inv_rows:
  assumes "llm_inv d"
    and "map pv_id (tb_rows (llm_providers d')) = map pv_id (tb_rows (llm_providers d))"
    and "tb_seq (llm_providers d') = tb_seq (llm_providers d)"
    and "distinct (default_tenants d')" "provider_refs d' = provider_refs d"
  shows "llm_inv d'"
proof -
  have "provider_ids d' = provider_ids d" unfolding provider_ids_def using arg_cong [OF assms(2), of set] by simp
  with assms show ?thesis by (simp add: llm_inv_def)
qed

lemma defaults_fewer:
  "distinct (map t (filter P xs)) \<Longrightarrow> (\<And>x. t (f x) = t x) \<Longrightarrow> (\<And>x. P (f x) \<Longrightarrow> P x) \<Longrightarrow>
     distinct (map t (filter P (update_where Q f xs)))"
proof (induction xs)
  case (Cons x xs)
  have "t ` {y \<in> set (update_where Q f xs). P y} \<subseteq> t ` {y \<in> set xs. P y}"
    using Cons.prems(2,3) by (fastforce simp: in_update_where image_iff split: if_splits)
  with Cons show ?case by (auto split: if_splits)
qed simp

lemma clear_default_inv: "llm_inv d \<Longrightarrow> llm_inv (snd (clear_default t s d))"
  by (rule llm_inv_rows) (auto simp: clear_default_def sql_update_def Let_def map_update_where default_tenants_def
      provider_refs_def llm_inv_def intro!: defaults_fewer)

lemma mark_health_inv: "llm_inv d \<Longrightarrow> llm_inv (snd (mark_health t i status now s d))"
  by (rule llm_inv_rows) (auto simp: mark_health_def sql_update_def Let_def map_update_where default_tenants_def
      provider_refs_def llm_inv_def intro!: defaults_fewer)

lemma insert_provider_inv:
  assumes "\<And>i. pv_id (mk i) = i" "llm_inv d"
  shows "llm_inv (snd (insert_provider t mk s d))"
proof (cases "visible s (pv_tenant (mk (tb_seq (llm_providers d) + 1))) \<and>
    fits_int32 (mk (tb_seq (llm_providers d) + 1)) \<and> (pv_default (mk (tb_seq (llm_providers d) + 1)) \<longrightarrow>
      pv_tenant (mk (tb_seq (llm_providers d) + 1)) \<notin> set (default_tenants d))")
  case True
  let ?r = "mk (tb_seq (llm_providers d) + 1)"
  let ?d = "snd (insert_provider t mk s d)"
  have eq: "llm_providers ?d = \<lparr>tb_rows = tb_rows (llm_providers d) @ [?r], tb_seq = tb_seq (llm_providers d) + 1\<rparr>"
    using True by (simp add: insert_provider_def sql_insert_def Let_def)
  have refs: "provider_refs ?d = provider_refs d"
    using True by (simp add: insert_provider_def sql_insert_def Let_def provider_refs_def)
  have new: "tb_seq (llm_providers d) + 1 \<notin> provider_ids d" using assms(2) by (force simp: llm_inv_def)
  have "distinct (default_tenants ?d)"
    using True assms(2) by (auto simp: default_tenants_def eq llm_inv_def)
  moreover have "provider_ids ?d = insert (tb_seq (llm_providers d) + 1) (provider_ids d)"
    using assms(1) by (simp add: provider_ids_def eq)
  moreover have "distinct (map pv_id (tb_rows (llm_providers ?d)))"
    using assms new by (simp add: eq llm_inv_def provider_ids_def)
  ultimately show ?thesis using assms(2) by (auto simp: llm_inv_def refs eq)
next
  case False
  then have "snd (insert_provider t mk s d) = llm_providers_update (\<lambda>t. t\<lparr>tb_seq := tb_seq t + 1\<rparr>) d"
    by (auto simp: insert_provider_def sql_insert_def Let_def)
  with assms(2) show ?thesis
    by (force simp: llm_inv_def provider_ids_def provider_refs_def default_tenants_def)
qed

lemma update_provider_inv:
  assumes "\<And>p. pv_id (f p) = pv_id p" "llm_inv d"
  shows "llm_inv (snd (update_provider t i f s d))"
  by (rule llm_inv_rows [OF assms(2)])
    (use assms in \<open>auto simp: update_provider_def sql_update_def Let_def map_update_where provider_refs_def llm_inv_def\<close>)

lemma child_rows_inv:
  assumes "llm_inv d" "llm_providers d' = llm_providers d"
    and "provider_refs d' \<subseteq> provider_refs d \<union> (if has_key pv_id i (llm_providers d) then {i} else {})"
  shows "llm_inv d'"
proof -
  have "provider_ids d' = provider_ids d" "default_tenants d' = default_tenants d"
    by (simp_all add: provider_ids_def default_tenants_def assms(2))
  moreover have "has_key pv_id i (llm_providers d) \<Longrightarrow> i \<in> provider_ids d" by (auto simp: has_key_def provider_ids_def)
  then have "provider_refs d' \<subseteq> provider_ids d" using assms(1,3) by (auto simp: llm_inv_def split: if_splits)
  ultimately show ?thesis using assms(1) by (simp add: llm_inv_def assms(2))
qed

lemma insert_children_inv:
  "llm_inv d \<Longrightarrow> llm_inv (snd (insert_usage t i mid rec ci co now s d))"
  "llm_inv d \<Longrightarrow> llm_inv (snd (insert_health t i status latency e now s d))"
  "llm_inv d \<Longrightarrow> llm_inv (snd (insert_history t i u payload now s d))"
proof -
  assume inv: "llm_inv d"
  note child = child_rows_inv [where i = i, OF inv]
  show "llm_inv (snd (insert_usage t i mid rec ci co now s d))"
    by (rule child) (auto simp: insert_usage_def sql_insert_def Let_def provider_refs_def)
  show "llm_inv (snd (insert_health t i status latency e now s d))"
    by (rule child) (auto simp: insert_health_def sql_insert_def Let_def provider_refs_def)
  show "llm_inv (snd (insert_history t i u payload now s d))"
    by (rule child) (auto simp: insert_history_def sql_insert_def Let_def provider_refs_def)
qed

lemma feature_rows_inv:
  "llm_inv d \<Longrightarrow> llm_inv (snd (upsert_feature t feature i prio now s d))"
  "llm_inv d \<Longrightarrow> llm_inv (snd (delete_feature t feature i s d))"
proof -
  assume inv: "llm_inv d"
  let ?f = "\<lambda>a. a\<lparr>fa_priority := prio\<rparr>"
  have upd: "x \<in> set (update_where P ?f rows) \<Longrightarrow> fa_provider x \<in> fa_provider ` set rows" for x P rows
    by (induction rows) (auto split: if_splits)
  show "llm_inv (snd (upsert_feature t feature i prio now s d))"
    by (intro child_rows_inv [where i = i, OF inv])
      (auto simp: upsert_feature_def sql_upsert_def Let_def provider_refs_def dest!: upd split: option.split)
  show "llm_inv (snd (delete_feature t feature i s d))"
    by (rule child_rows_inv [where i = i, OF inv]) (auto simp: delete_feature_def sql_delete_def Let_def provider_refs_def)
qed

section \<open>What the answers say of the keys\<close>

text \<open>
  Two worlds that differ in the stored keys only, and two actions that cannot tell them apart: run
  on such worlds they give related results and leave such worlds.
\<close>

definition same_but_keys :: "db \<Rightarrow> db \<Rightarrow> bool" where
  "same_but_keys d d' \<longleftrightarrow>
     d'\<lparr>llm_providers := llm_providers d\<rparr> = d \<and> tb_seq (llm_providers d') = tb_seq (llm_providers d) \<and>
     map masked (tb_rows (llm_providers d')) = map masked (tb_rows (llm_providers d))"

definition keys_apart :: "world \<Rightarrow> world \<Rightarrow> bool" where
  "keys_apart w w' \<longleftrightarrow> w'\<lparr>w_db := w_db w\<rparr> = w \<and> same_but_keys (w_db w) (w_db w')"

definition blind :: "('a \<Rightarrow> 'a \<Rightarrow> bool) \<Rightarrow> 'a act \<Rightarrow> 'a act \<Rightarrow> bool" where
  "blind Q m m' \<longleftrightarrow> (\<forall>w w'. keys_apart w w' \<longrightarrow>
     Q (fst (run_state m w)) (fst (run_state m' w')) \<and> keys_apart (snd (run_state m w)) (snd (run_state m' w')))"

lemma keys_apartD:
  assumes "keys_apart w w'"
  shows "w_faults w' = w_faults w" "w_now w' = w_now w" "w_rand w' = w_rand w" "w_sess w' = w_sess w"
    "w_monitors w' = w_monitors w" "same_but_keys (w_db w) (w_db w')"
  using assms by (auto simp: keys_apart_def elim!: subst)

lemma keys_apart_upd:
  assumes "keys_apart w w'"
  shows "keys_apart (w\<lparr>w_faults := fs\<rparr>) (w'\<lparr>w_faults := fs\<rparr>)" "keys_apart (w\<lparr>w_rand := rs\<rparr>) (w'\<lparr>w_rand := rs\<rparr>)"
    "keys_apart (w\<lparr>w_sess := x\<rparr>) (w'\<lparr>w_sess := x\<rparr>)" "keys_apart (w\<lparr>w_monitors := ts\<rparr>) (w'\<lparr>w_monitors := ts\<rparr>)"
    "same_but_keys d d' \<Longrightarrow> keys_apart (w\<lparr>w_db := d\<rparr>) (w'\<lparr>w_db := d'\<rparr>)"
  using assms by (auto simp: keys_apart_def elim!: subst)

lemma blind_return: "Q x y \<Longrightarrow> blind Q (State_Monad.return x) (State_Monad.return y)"
  by (simp add: blind_def)

lemma blind_bind:
  assumes "blind P m m'" "\<And>x y. P x y \<Longrightarrow> blind Q (f x) (g y)"
  shows "blind Q (State_Monad.bind m f) (State_Monad.bind m' g)"
  using assms unfolding blind_def by (simp add: split_beta)

lemma blind_faulty: "blind Q m m' \<Longrightarrow> Q (Inl Fault) (Inl Fault) \<Longrightarrow> blind Q (faulty m) (faulty m')"
  unfolding blind_def faulty_def
  by (auto simp: keys_apartD(1) keys_apart_upd(1) split: list.split)

lemma blind_Exec:
  assumes "\<And>s d d'. same_but_keys d d' \<Longrightarrow> Q (fst (q s d)) (fst (q' s d')) \<and> same_but_keys (snd (q s d)) (snd (q' s d'))"
    and "Q (Inl Fault) (Inl Fault)"
  shows "blind Q (Exec q) (Exec q')"
  unfolding Exec_def
proof (rule blind_faulty)
  show "Q (Inl Fault) (Inl Fault)" by (rule assms(2))
  show "blind Q (State (\<lambda>w. let (r, d) = q (w_sess w) (w_db w) in (r, w\<lparr>w_db := d\<rparr>)))
     (State (\<lambda>w. let (r, d) = q' (w_sess w) (w_db w) in (r, w\<lparr>w_db := d\<rparr>)))"
    unfolding blind_def
  proof (intro allI impI)
    fix w w' assume a: "keys_apart w w'"
    note both = assms(1) [OF keys_apartD(6) [OF a], of "w_sess w"]
    show "Q (fst (run_state (State (\<lambda>w. let (r, d) = q (w_sess w) (w_db w) in (r, w\<lparr>w_db := d\<rparr>))) w))
         (fst (run_state (State (\<lambda>w. let (r, d) = q' (w_sess w) (w_db w) in (r, w\<lparr>w_db := d\<rparr>))) w')) \<and>
       keys_apart (snd (run_state (State (\<lambda>w. let (r, d) = q (w_sess w) (w_db w) in (r, w\<lparr>w_db := d\<rparr>))) w))
         (snd (run_state (State (\<lambda>w. let (r, d) = q' (w_sess w) (w_db w) in (r, w\<lparr>w_db := d\<rparr>))) w'))"
      using both keys_apart_upd(5) [OF a] by (simp add: split_beta keys_apartD(4) [OF a])
  qed
qed

abbreviation alike :: "('a \<Rightarrow> 'a \<Rightarrow> bool) \<Rightarrow> 'e + 'a \<Rightarrow> 'e + 'a \<Rightarrow> bool" where
  "alike \<equiv> rel_sum (=)"

lemma blind_conn:
  assumes "blind (alike Q) fn fn'"
  shows "blind (alike Q) (WithTenantConn t fn) (WithTenantConn t fn')"
proof -
  have set: "blind (alike (=)) (SetTenant x) (SetTenant x)" for x
    unfolding SetTenant_def by (rule blind_faulty) (auto simp: blind_def keys_apartD(4) intro: keys_apart_upd)
  have acq: "blind (alike (=)) Acquire Acquire"
    unfolding Acquire_def by (rule blind_faulty) (auto intro: blind_return)
  show ?thesis
    unfolding WithTenantConn_def
    by (rule blind_bind [OF acq], auto intro!: blind_return elim!: rel_sum.cases)
      (rule blind_bind [OF set], auto intro!: blind_return blind_bind [OF assms] blind_bind [OF set] elim!: rel_sum.cases)
qed

lemma blind_then_ok:
  "blind (alike P) m m' \<Longrightarrow> (\<And>x y. P x y \<Longrightarrow> blind (alike Q) (f x) (g y)) \<Longrightarrow> blind (alike Q) (then_ok m f) (then_ok m' g)"
  unfolding then_ok_def by (rule blind_bind [where P = "alike P"]) (auto intro!: blind_return elim!: rel_sum.cases)

lemma blind_ok: "Q x y \<Longrightarrow> blind (alike Q) (ok x) (ok y)"
  unfolding ok_def by (rule blind_return) simp

lemma blind_Now: "blind (=) Now Now"
  by (simp add: blind_def keys_apartD(2))

text \<open>The statements on providers, and the rows they return but for their keys.\<close>

definition same_shown :: "provider_row \<Rightarrow> provider_row \<Rightarrow> bool" where
  "same_shown p p' \<longleftrightarrow> (\<exists>k. p' = p\<lparr>pv_key := k\<rparr>)"

lemma same_shown_masked: "same_shown p p' \<longleftrightarrow> masked p' = masked p"
  by (cases p; cases p') (auto simp: same_shown_def masked_def)

lemma masked_fields [simp]:
  "pv_id (masked p) = pv_id p" "pv_tenant (masked p) = pv_tenant p" "pv_default (masked p) = pv_default p"
  "fits_int32 (masked p) = fits_int32 p" "masked (masked p) = masked p"
  by (simp_all add: masked_def fits_int32_def)

lemma same_shownD:
  "same_shown p p' \<Longrightarrow> pv_id p' = pv_id p \<and> pv_tenant p' = pv_tenant p \<and> pv_default p' = pv_default p \<and> fits_int32 p' = fits_int32 p"
  by (auto simp: same_shown_def fits_int32_def)

lemma same_keys_rows:
  "same_but_keys d d' \<longleftrightarrow> d'\<lparr>llm_providers := llm_providers d\<rparr> = d \<and> tb_seq (llm_providers d') = tb_seq (llm_providers d) \<and>
     list_all2 same_shown (tb_rows (llm_providers d)) (tb_rows (llm_providers d'))"
proof -
  have "map masked ys = map masked xs \<longleftrightarrow> list_all2 same_shown xs ys" for xs ys
    by (auto simp: same_shown_masked list_all2_conv_all_nth list_eq_iff_nth_eq)
  then show ?thesis by (simp add: same_but_keys_def)
qed

lemma alike_filter:
  "list_all2 same_shown xs ys \<Longrightarrow> (\<And>p p'. same_shown p p' \<Longrightarrow> P p' = P p) \<Longrightarrow> list_all2 same_shown (filter P xs) (filter P ys)"
  by (induction rule: list_all2_induct) auto

lemma alike_map:
  "list_all2 same_shown xs ys \<Longrightarrow> (\<And>p p'. same_shown p p' \<Longrightarrow> same_shown (f p) (g p')) \<Longrightarrow> list_all2 same_shown (map f xs) (map g ys)"
  by (induction rule: list_all2_induct) auto

lemma alike_update:
  "list_all2 same_shown xs ys \<Longrightarrow> (\<And>p p'. same_shown p p' \<Longrightarrow> P p' = P p \<and> same_shown (f p) (g p')) \<Longrightarrow>
     list_all2 same_shown (update_where P f xs) (update_where P g ys)"
  by (induction rule: list_all2_induct) auto

lemma alike_images: "list_all2 same_shown xs ys \<Longrightarrow> map pv_id ys = map pv_id xs"
  "list_all2 same_shown xs ys \<Longrightarrow> map pv_tenant (filter pv_default ys) = map pv_tenant (filter pv_default xs)"
  "list_all2 same_shown xs ys \<Longrightarrow> list_all fits_int32 ys = list_all fits_int32 xs"
  by (induction rule: list_all2_induct) (auto dest: same_shownD)

lemma same_keys_defaults: "same_but_keys d d' \<Longrightarrow> default_tenants d' = default_tenants d"
  by (simp add: same_keys_rows default_tenants_def alike_images)

lemma same_keys_put:
  assumes "same_but_keys d d'" "list_all2 same_shown (tb_rows (f (llm_providers d))) (tb_rows (g (llm_providers d')))"
    "tb_seq (g (llm_providers d')) = tb_seq (f (llm_providers d))"
  shows "same_but_keys (llm_providers_update f d) (llm_providers_update g d')"
proof -
  have "d'\<lparr>llm_providers := llm_providers d\<rparr> = d" using assms(1) by (simp add: same_keys_rows)
  from arg_cong [OF this, of "\<lambda>x. x\<lparr>llm_providers := f (llm_providers d)\<rparr>"]
  have "d'\<lparr>llm_providers := f (llm_providers d)\<rparr> = llm_providers_update f d" by (cases d) simp
  then show ?thesis using assms(2,3) by (simp add: same_keys_rows)
qed

lemma blind_update:
  assumes "\<And>p p'. same_shown p p' \<Longrightarrow> P p' = P p \<and> same_shown (f p) (g p')"
    "same_but_keys d d'"
  shows "rel_sum (=) (list_all2 same_shown) (fst (sql_update llm_providers llm_providers_update pv_tenant P f s d))
      (fst (sql_update llm_providers llm_providers_update pv_tenant P g s d')) \<and>
    same_but_keys (snd (sql_update llm_providers llm_providers_update pv_tenant P f s d))
      (snd (sql_update llm_providers llm_providers_update pv_tenant P g s d'))"
proof -
  have rows: "list_all2 same_shown (tb_rows (llm_providers d)) (tb_rows (llm_providers d'))"
    using assms(2) by (simp add: same_keys_rows)
  have ten: "same_shown p p' \<Longrightarrow> pv_tenant p' = pv_tenant p" for p p' using same_shownD by blast
  have seq: "tb_seq (llm_providers d') = tb_seq (llm_providers d)" using assms(2) by (simp add: same_keys_rows)
  show ?thesis
    unfolding sql_update_def Let_def
    using rows seq assms(1)
    by (auto simp: ten intro!: alike_map alike_filter same_keys_put [OF assms(2)] alike_update)
qed

lemma blind_clear: "blind (alike (\<lambda>_ _. True)) (Exec (clear_default t)) (Exec (clear_default t))"
proof (rule blind_Exec)
  fix s d d' assume "same_but_keys d d'"
  note u = blind_update [where P = "\<lambda>p. pv_tenant p = t" and f = "\<lambda>p. p\<lparr>pv_default := False\<rparr>" and g = "\<lambda>p. p\<lparr>pv_default := False\<rparr>" and s = s, OF _ this]
  have *: "(pv_tenant p' = t) = (pv_tenant p = t) \<and> same_shown (p\<lparr>pv_default := False\<rparr>) (p'\<lparr>pv_default := False\<rparr>)"
    if "same_shown p p'" for p p' using that by (cases p) (auto simp: same_shown_def)
  from u [OF *]
  show "alike (\<lambda>_ _. True) (fst (clear_default t s d)) (fst (clear_default t s d')) \<and> same_but_keys (snd (clear_default t s d)) (snd (clear_default t s d'))"
    unfolding clear_default_def by (auto elim!: rel_sum.cases)
qed simp

lemma blind_changed:
  assumes "\<And>p p'. same_shown p p' \<Longrightarrow> same_shown (f p) (g p')"
  shows "blind (alike (list_all2 same_shown)) (Exec (update_provider t i f)) (Exec (update_provider t i g))"
proof (rule blind_Exec)
  fix s d d' assume a: "same_but_keys d d'"
  let ?P = "\<lambda>p. pv_tenant p = t \<and> pv_id p = i"
  let ?u = "\<lambda>f. sql_update llm_providers llm_providers_update pv_tenant ?P f s"
  have "?P p' = ?P p \<and> same_shown (f p) (g p')" if "same_shown p p'" for p p'
    using assms [OF that] same_shownD [OF that] by simp
  from blind_update [where P = ?P and f = f and g = g and s = s, OF this a]
  have u: "rel_sum (=) (list_all2 same_shown) (fst (?u f d)) (fst (?u g d'))" "same_but_keys (snd (?u f d)) (snd (?u g d'))"
    by simp_all
  then have "default_tenants (snd (?u g d')) = default_tenants (snd (?u f d))"
    "list_all fits_int32 (tb_rows (llm_providers (snd (?u g d')))) = list_all fits_int32 (tb_rows (llm_providers (snd (?u f d))))"
    by (simp_all add: same_keys_defaults same_keys_rows alike_images)
  with u a show "alike (list_all2 same_shown) (fst (update_provider t i f s d)) (fst (update_provider t i g s d')) \<and>
      same_but_keys (snd (update_provider t i f s d)) (snd (update_provider t i g s d'))"
    by (simp add: update_provider_def split_beta Let_def)
qed simp

lemma blind_insert:
  assumes "\<And>n. same_shown (mk n) (mk' n)" "\<And>n. pv_tenant (mk n) = t"
  shows "blind (alike same_shown) (Exec (insert_provider t mk)) (Exec (insert_provider t mk'))"
proof (rule blind_Exec)
  fix s d d' assume a: "same_but_keys d d'"
  then have seq: "tb_seq (llm_providers d') = tb_seq (llm_providers d)" by (simp add: same_keys_rows)
  have rows: "list_all2 same_shown (tb_rows (llm_providers d)) (tb_rows (llm_providers d'))"
    using a by (simp add: same_keys_rows)
  show "alike same_shown (fst (insert_provider t mk s d)) (fst (insert_provider t mk' s d')) \<and>
      same_but_keys (snd (insert_provider t mk s d)) (snd (insert_provider t mk' s d'))"
    using same_shownD [OF assms(1)] assms(1)
    by (auto simp: insert_provider_def sql_insert_def Let_def seq same_keys_defaults [OF a] rows list_all2_appendI
        intro!: same_keys_put [OF a])
qed simp

lemma blind_history:
  "blind (alike (=)) (Exec (insert_history t i b payload now)) (Exec (insert_history t i b payload now))"
proof (rule blind_Exec)
  fix s d d' assume a: "same_but_keys d d'"
  then have "map pv_id (tb_rows (llm_providers d')) = map pv_id (tb_rows (llm_providers d))"
    by (simp add: same_keys_rows alike_images)
  then have "has_key pv_id i (llm_providers d') = has_key pv_id i (llm_providers d)" by (simp add: has_key_map)
  moreover have d: "d'\<lparr>llm_providers := llm_providers d\<rparr> = d" using a by (simp add: same_but_keys_def)
  from arg_cong [OF this, of llm_provider_history] have "llm_provider_history d' = llm_provider_history d" by simp
  moreover have "same_but_keys (llm_provider_history_update h d) (llm_provider_history_update h d')" for h
    using a by (cases d; cases d') (auto simp: same_but_keys_def)
  ultimately show "alike (=) (fst (insert_history t i b payload now s d)) (fst (insert_history t i b payload now s d')) \<and>
      same_but_keys (snd (insert_history t i b payload now s d)) (snd (insert_history t i b payload now s d'))"
    by (simp add: insert_history_def sql_insert_def Let_def)
qed simp

text \<open>The endpoints.\<close>

lemma blind_cases:
  "rel_sum (=) P x y \<Longrightarrow> (\<And>e. blind Q (f e) (f' e)) \<Longrightarrow> (\<And>a b. P a b \<Longrightarrow> blind Q (g a) (g' b)) \<Longrightarrow>
     blind Q (case x of Inl e \<Rightarrow> f e | Inr a \<Rightarrow> g a) (case y of Inl e \<Rightarrow> f' e | Inr b \<Rightarrow> g' b)"
  "blind Q m m' \<Longrightarrow> blind Q n n' \<Longrightarrow> blind Q (if c then m else n) (if c then m' else n')"
  "blind Q h h' \<Longrightarrow> (\<And>a. blind Q (k a) (k' a)) \<Longrightarrow>
     blind Q (case z of None \<Rightarrow> h | Some a \<Rightarrow> k a) (case z of None \<Rightarrow> h' | Some a \<Rightarrow> k' a)"
  by (auto elim!: rel_sum.cases split: option.split)

lemma blind_const: "blind (=) (State_Monad.return x) (State_Monad.return x)"
  by (rule blind_return) simp

lemma blind_list: "blind (=) (ListProviders r) (ListProviders r)"
proof -
  have sorted: "map masked (newest_first pv_id xs) = newest_first pv_id (map masked xs)" for xs
  proof -
    have "map masked (insort_key f x ys) = insort_key f (masked x) (map masked ys)" if "\<And>p. f (masked p) = f p" for f :: "provider_row \<Rightarrow> int" and x ys
      using that by (induction ys) auto
    then show ?thesis unfolding newest_first_def by (induction xs) auto
  qed
  have sel: "blind (alike (list_all2 same_shown)) (Exec (sql_select llm_providers pv_tenant (\<lambda>p. pv_tenant p = tenantID r)))
      (Exec (sql_select llm_providers pv_tenant (\<lambda>p. pv_tenant p = tenantID r)))"
    by (rule blind_Exec) (auto simp: sql_select_def same_keys_rows dest: same_shownD intro!: alike_filter)
  have "map masked (newest_first pv_id ys) = map masked (newest_first pv_id xs)" if "list_all2 same_shown xs ys" for xs ys
  proof -
    from that have "map masked ys = map masked xs" by (induction rule: list_all2_induct) (auto simp: same_shown_masked)
    then show ?thesis by (simp add: sorted)
  qed
  then show ?thesis
    unfolding ListProviders_def Let_def
    by (intro blind_bind [OF blind_conn [OF sel]] blind_return) (auto elim!: rel_sum.cases)
qed

lemma blind_get: "blind (=) (GetProvider r i) (GetProvider r i)"
proof -
  let ?P = "\<lambda>p. pv_tenant p = tenantID r \<and> pv_id p = i"
  have "blind (alike same_shown) (Exec (sql_row llm_providers pv_tenant ?P)) (Exec (sql_row llm_providers pv_tenant ?P))"
  proof (rule blind_Exec)
    fix s d d' assume a: "same_but_keys d d'"
    let ?f = "\<lambda>d. filter (\<lambda>p. visible s (pv_tenant p) \<and> ?P p) (tb_rows (llm_providers d))"
    have "list_all2 same_shown (?f d) (?f d')"
      using a by (auto simp: same_keys_rows dest: same_shownD intro!: alike_filter)
    then show "alike same_shown (fst (sql_row llm_providers pv_tenant ?P s d)) (fst (sql_row llm_providers pv_tenant ?P s d')) \<and>
        same_but_keys (snd (sql_row llm_providers pv_tenant ?P s d)) (snd (sql_row llm_providers pv_tenant ?P s d'))"
      using a by (cases "?f d"; cases "?f d'") (simp_all add: sql_row_def)
  qed simp
  then show ?thesis
    unfolding GetProvider_def Let_def
    by (intro blind_bind [OF blind_conn] blind_return) (auto simp: same_shown_masked elim!: rel_sum.cases)
qed

text \<open>A body with other keys where it has one.\<close>

definition with_key :: "string \<Rightarrow> provider_request \<Rightarrow> provider_request" where
  "with_key k req = (if pq_key req = [] then req else req\<lparr>pq_key := k\<rparr>)"

lemma blind_encrypt:
  "blind (alike (\<lambda>_ _. True)) (encrypt_key env key) (encrypt_key env key')"
proof -
  have "blind (=) RandRead RandRead"
    by (auto simp: blind_def RandRead_def keys_apartD(3) intro: keys_apart_upd split: list.split)
  then show ?thesis
    unfolding encrypt_key_def
    by (auto intro!: blind_return blind_bind [where P = "(=)"] simp: Encrypt_def Let_def split: option.split)
qed

lemma blind_write_history:
  "blind (\<lambda>_ _. True) (writeProviderHistory t i b payload) (writeProviderHistory t i b payload)"
proof -
  have "blind (alike (=)) (writeProviderHistory t i b payload) (writeProviderHistory t i b payload)"
    unfolding writeProviderHistory_def
    by (auto intro!: blind_bind [OF blind_Now] blind_conn blind_then_ok [OF blind_history] blind_ok)
  then show ?thesis by (simp add: blind_def)
qed

lemma blind_create:
  assumes "k \<noteq> []"
  shows "blind (=) (CreateProvider env r body) (CreateProvider env r (map_option (with_key k) body))"
proof (cases body)
  case (Some req)
  let ?req = "with_key k req"
  have same: "pq_name ?req = pq_name req" "pq_default ?req = pq_default req" "pq_key ?req = [] \<longleftrightarrow> pq_key req = []"
    using assms by (simp_all add: with_key_def)
  have new: "same_shown (new_provider req config key t now n) (new_provider ?req config key' t now n)" for config key key' t now n
    by (auto simp: new_provider_def with_key_def same_shown_def)
  have mon: "blind (=) (start_monitor t) (start_monitor t)" for t
    by (auto simp: blind_def start_monitor_def get_mem_def set_monitors_def keys_apartD(5) intro: keys_apart_upd)
  have ten: "pv_tenant (new_provider q config key t now n) = t" for q config key t now n by (simp add: new_provider_def)
  have clear: "blind (alike (\<lambda>_ _. True)) (if b then then_ok (Exec (clear_default t)) (\<lambda>_. ok ()) else ok ())
      (if b then then_ok (Exec (clear_default t)) (\<lambda>_. ok ()) else ok ())" for b t
    by (auto intro!: blind_then_ok [OF blind_clear] blind_ok)
  have made: "blind (alike same_shown)
      (WithTenantConn t (do { _ \<leftarrow> (if coalesce (pq_default req) False then then_ok (Exec (clear_default t)) (\<lambda>_. ok ()) else ok ());
                      Exec (insert_provider t (new_provider req config key t now)) }))
      (WithTenantConn t (do { _ \<leftarrow> (if coalesce (pq_default req) False then then_ok (Exec (clear_default t)) (\<lambda>_. ok ()) else ok ());
                      Exec (insert_provider t (new_provider ?req config key' t now)) }))" for t config key key' now
    by (intro blind_conn blind_bind [OF clear] blind_insert new ten)
  have tail: "blind (=) (do {_ \<leftarrow> start_monitor t; _ \<leftarrow> writeProviderHistory t (pv_id p) b (pay p); State_Monad.return (Reply 201 (masked p))})
      (do {_ \<leftarrow> start_monitor t; _ \<leftarrow> writeProviderHistory t (pv_id p') b (pay p'); State_Monad.return (Reply 201 (masked p'))})"
    if "same_shown p p'" "pay p' = pay p" for t p p' b and pay :: "provider_row \<Rightarrow> json"
    using that same_shownD [OF that(1)]
    by (auto simp: same_shown_masked intro!: blind_bind [OF mon] blind_bind [OF blind_write_history] blind_return)
  show ?thesis
    unfolding CreateProvider_def Let_def Some option.map option.case same
    by (intro blind_cases(2,3) blind_const blind_bind [OF blind_encrypt], erule blind_cases(1), rule blind_const,
        rule blind_bind [OF blind_Now], erule subst, rule blind_bind [OF made], erule blind_cases(1), rule blind_const,
        rule tail, assumption, frule same_shownD, simp add: same_shown_masked)
qed (auto simp: CreateProvider_def intro: blind_return)

lemma blind_update_provider:
  assumes "k \<noteq> []"
  shows "blind (=) (UpdateProvider env r body i) (UpdateProvider env r (map_option (with_key k) body) i)"
proof (cases body)
  case (Some req)
  let ?req = "with_key k req"
  have same: "pq_name ?req = pq_name req" "pq_default ?req = pq_default req" "pq_key ?req = [] \<longleftrightarrow> pq_key req = []"
    using assms by (simp_all add: with_key_def)
  have changed: "same_shown (changed_provider req e p) (changed_provider ?req e' p')"
    if "same_shown p p'" "e = None \<longleftrightarrow> e' = None" for e e' p p'
    using that by (cases p; cases e; cases e') (auto simp: same_shown_def changed_provider_def with_key_def)
  have first: "blind (alike same_shown) (case xs of [] \<Rightarrow> err NoRows | p # _ \<Rightarrow> ok p) (case ys of [] \<Rightarrow> err NoRows | p # _ \<Rightarrow> ok p)"
    if "list_all2 same_shown xs ys" for xs ys
    using that by (cases xs; cases ys) (auto simp: err_def intro!: blind_return blind_ok)
  have clear: "blind (alike (\<lambda>_ _. True)) (if b then then_ok (Exec (clear_default t)) (\<lambda>_. ok ()) else ok ())
      (if b then then_ok (Exec (clear_default t)) (\<lambda>_. ok ()) else ok ())" for b t
    by (auto intro!: blind_then_ok [OF blind_clear] blind_ok)
  have cb: "blind (alike same_shown) (update_callback req e t i) (update_callback ?req e' t i)" if "e = None \<longleftrightarrow> e' = None" for e e' t
    unfolding update_callback_def same
    by (intro blind_bind [OF clear] blind_then_ok [OF blind_changed] changed first) (use that in auto)
  let ?key = "\<lambda>q. if pq_key q = [] then State_Monad.return (Inr None)
      else do { e \<leftarrow> encrypt_key env (pq_key q); State_Monad.return (map_sum id Some e) }"
  have key: "blind (alike (\<lambda>e e'. e = None \<longleftrightarrow> e' = None)) (?key req) (?key ?req)"
    unfolding same by (auto intro!: blind_return blind_bind [OF blind_encrypt] elim!: rel_sum.cases)
  have shown: "shown_provider p' = shown_provider p" if "same_shown p p'" for p p'
    using that by (auto simp: same_shown_def shown_provider_def masked_def)
  show ?thesis
    unfolding UpdateProvider_def Let_def Some option.map option.case
    unfolding same(1) same(3)
    by (intro blind_cases(2) blind_const blind_bind [OF key [unfolded same(3)]], erule blind_cases(1), rule blind_const,
        rule blind_bind [OF blind_conn [OF cb]], assumption, rule blind_return) (auto elim!: rel_sum.cases simp: shown)
qed (auto simp: UpdateProvider_def intro: blind_return)

text \<open>
  C22. API keys do not leave the server in a provider. Whatever the request, the state and the
  faults, the four endpoints that answer with providers (create, update, get and list) put
  \<open>****\<close> in the place of the key, and nothing else of their answers depends on a key: in two
  states that differ in the stored keys only, and for two request bodies that differ in the key
  they bring only, the answers are the same. (\<open>TestProvider\<close> and \<open>BulkTestProviders\<close> answer with what
  the SDK of a provider reports, and are not covered.)
\<close>

theorem api_keys_hidden:
  assumes "keys_apart w w'" "k \<noteq> []"
  shows "shows_no_key (fst (run_state (CreateProvider env r body) w)) \<and>
    shows_no_key (fst (run_state (UpdateProvider env r body i) w)) \<and>
    shows_no_key (fst (run_state (GetProvider r i) w)) \<and>
    show_no_keys (fst (run_state (ListProviders r) w)) \<and>
    fst (run_state (CreateProvider env r (map_option (with_key k) body)) w') = fst (run_state (CreateProvider env r body) w) \<and>
    fst (run_state (UpdateProvider env r (map_option (with_key k) body) i) w') = fst (run_state (UpdateProvider env r body i) w) \<and>
    fst (run_state (GetProvider r i) w') = fst (run_state (GetProvider r i) w) \<and>
    fst (run_state (ListProviders r) w') = fst (run_state (ListProviders r) w)"
proof (intro conjI)
  show "shows_no_key (fst (run_state (CreateProvider env r body) w))"
    unfolding CreateProvider_def Let_def
    by (simp split: option.split sum.split prod.split add: split_beta)
  show "shows_no_key (fst (run_state (UpdateProvider env r body i) w))"
    unfolding UpdateProvider_def Let_def
    by (simp split: option.split sum.split prod.split add: split_beta)
  show "shows_no_key (fst (run_state (GetProvider r i) w))"
    unfolding GetProvider_def Let_def by (simp split: sum.split prod.split add: split_beta)
  show "show_no_keys (fst (run_state (ListProviders r) w))"
    unfolding ListProviders_def Let_def by (simp split: sum.split prod.split add: split_beta list_all_iff)
qed (use assms(1) blind_create [OF assms(2)] blind_update_provider [OF assms(2)] blind_get blind_list in
    \<open>unfold blind_def, metis+\<close>)

theorem api_keys_hidden_witness:
  "fst (run_state (GetProvider (admin_of 10) 1) (llm_world\<lparr>w_db := (w_db llm_world)\<lparr>llm_providers :=
      \<lparr>tb_rows = [sample_provider 1 10 ''another-key'', sample_provider 2 20 ''key-of-20''],
       tb_seq = tb_seq (llm_providers (w_db llm_world))\<rparr>\<rparr>\<rparr>)) =
    Reply 200 (masked (sample_provider 1 10 ''key-of-10''))"
proof -
  let ?w = "llm_world\<lparr>w_db := (w_db llm_world)\<lparr>llm_providers :=
      \<lparr>tb_rows = [sample_provider 1 10 ''another-key'', sample_provider 2 20 ''key-of-20''],
       tb_seq = tb_seq (llm_providers (w_db llm_world))\<rparr>\<rparr>\<rparr>"
  have "keys_apart llm_world ?w"
    by (simp add: keys_apart_def same_but_keys_def llm_world_def masked_def sample_provider_def)
  moreover have "fst (run_state (GetProvider (admin_of 10) 1) llm_world) = Reply 200 (masked (sample_provider 1 10 ''key-of-10''))"
    by (simp add: GetProvider_def Let_def WithTenantConn_def Acquire_def SetTenant_def Exec_def faulty_def sql_row_def visible_def
        llm_world_def sample_world_def sample_provider_def)
  ultimately show ?thesis
    using api_keys_hidden [of llm_world ?w "''k''" sample_api "admin_of 10" None 1] by simp
qed

end
