(* ===== verification/LlmReports.thy ===== *)
theory LlmReports
  imports LlmApi "HOL-Library.Multiset"
begin

text \<open>
  The reports over usage and health: the second half of \<open>backend/internal/handlers/llm.go\<close>.
  Sums and products of \<open>float64\<close> values are rounded as theory \<open>Float64\<close> has it, each sum in the order
  of its rows; averages, which the database computes as decimal numbers, are exact. Rows that SQL
  leaves unordered, ties of an \<open>ORDER BY\<close> among them, come in the order their group was first met.
  Days are UTC days of the nanosecond clock. A fault while rows are streamed is one of the statement.
\<close>

section \<open>Aggregates\<close>

definition group_rows :: "('r \<Rightarrow> 'k) \<Rightarrow> 'r list \<Rightarrow> ('k \<times> 'r list) list" where
  "group_rows key rows = map (\<lambda>k. (k, filter (\<lambda>r. key r = k) rows)) (remdups (map key rows))"

definition cost_of :: "usage_row list \<Rightarrow> rat" where
  "cost_of us = fsum (map ug_cost us)"

text \<open>\<open>COALESCE(AVG(...), 0)\<close>.\<close>

definition average :: "int list \<Rightarrow> rat" where
  "average xs = (if xs = [] then 0 else of_int (sum_list xs) / of_nat (length xs))"

definition biggest_first :: "('k \<times> rat) list \<Rightarrow> ('k \<times> rat) list" where
  "biggest_first xs = sort_key (\<lambda>x. - snd x) xs"

definition day_of :: "int \<Rightarrow> int" where
  "day_of t = t div 86400000000000"

text \<open>\<open>time.Duration(f)\<close> drops the fraction.\<close>

definition truncate_rat :: "rat \<Rightarrow> int" where
  "truncate_rat x = (if 0 \<le> x then \<lfloor>x\<rfloor> else \<lceil>x\<rceil>)"

section \<open>Usage\<close>

definition usage_of :: "int \<Rightarrow> usage_row list sql" where
  "usage_of tenant = sql_select llm_usage_logs ug_tenant (\<lambda>u. ug_tenant u = tenant)"

record usage_stats =
  st_total :: nat
  st_success :: nat
  st_failed :: nat
  st_cost :: rat
  st_latency :: int

definition stats_of :: "usage_row list \<Rightarrow> usage_stats" where
  "stats_of us =
     \<lparr>st_total = length us, st_success = length (filter ug_ok us), st_failed = length (filter (\<lambda>u. \<not> ug_ok u) us),
      st_cost = cost_of us, st_latency = wrap64 (truncate_rat (average (map ug_ms us)) * 1000000)\<rparr>"

definition GetUsageStats :: "request \<Rightarrow> usage_stats response act" where
  "GetUsageStats r = do {
     let tenant = tenantID r;
     res \<leftarrow> WithTenantConn tenant (then_ok (Exec (usage_of tenant)) (\<lambda>us. ok (stats_of us)));
     State_Monad.return
       (case res of Inl _ \<Rightarrow> Fail 500 ''failed to load usage stats'' | Inr st \<Rightarrow> Reply 200 st)
   }"

record feature_usage =
  fu_feature :: string
  fu_tokens :: int
  fu_cost :: rat
  fu_latency :: rat

definition usage_line :: "string \<times> usage_row list \<Rightarrow> feature_usage" where
  "usage_line g =
     \<lparr>fu_feature = fst g, fu_tokens = sum_list (map ug_total (snd g)), fu_cost = cost_of (snd g),
      fu_latency = average (map ug_ms (snd g))\<rparr>"

definition GetUsageByFeature :: "request \<Rightarrow> feature_usage list response act" where
  "GetUsageByFeature r = do {
     let tenant = tenantID r;
     res \<leftarrow> WithTenantConn tenant
       (then_ok (Exec (usage_of tenant)) (\<lambda>us. ok (map usage_line (group_rows ug_feature us))));
     State_Monad.return
       (case res of Inl _ \<Rightarrow> Fail 500 ''failed to load usage by feature'' | Inr xs \<Rightarrow> Reply 200 xs)
   }"

section \<open>Costs\<close>

text \<open>Costs by a key of the usage row.\<close>

definition costs_by :: "(usage_row \<Rightarrow> 'k) \<Rightarrow> usage_row list \<Rightarrow> ('k \<times> rat) list" where
  "costs_by key us = map (\<lambda>(k, g). (k, cost_of g)) (group_rows key us)"

definition feature_costs :: "int \<Rightarrow> (string \<times> rat) list sql" where
  "feature_costs tenant s d = map_prod (map_sum id (\<lambda>us. biggest_first (costs_by ug_feature us))) id (usage_of tenant s d)"

definition daily_costs :: "int \<Rightarrow> (int \<times> rat) list sql" where
  "daily_costs tenant s d =
     map_prod (map_sum id (\<lambda>us. take 30 (sort_key (\<lambda>x. - fst x) (costs_by (\<lambda>u. day_of (ug_created u)) us)))) id
       (usage_of tenant s d)"

text \<open>\<open>JOIN\<close> of the usage rows with another table: every pair that matches.\<close>

definition joined :: "usage_row list \<Rightarrow> (usage_row \<Rightarrow> 'b list) \<Rightarrow> (usage_row \<times> 'b) list" where
  "joined us mates = concat (map (\<lambda>u. map (\<lambda>b. (u, b)) (mates u)) us)"

definition pair_costs :: "('b \<Rightarrow> 'k) \<Rightarrow> (usage_row \<times> 'b) list \<Rightarrow> ('k \<times> rat) list" where
  "pair_costs key ps = map (\<lambda>(k, g). (k, cost_of (map fst g))) (group_rows (\<lambda>p. key (snd p)) ps)"

definition providers_of :: "session \<Rightarrow> db \<Rightarrow> usage_row \<Rightarrow> provider_row list" where
  "providers_of s d u = filter (\<lambda>p. visible s (pv_tenant p) \<and> pv_id p = ug_provider u) (tb_rows (llm_providers d))"

definition messages_of :: "session \<Rightarrow> db \<Rightarrow> usage_row \<Rightarrow> message_row list" where
  "messages_of s d u = filter (\<lambda>m. visible s (ms_tenant m) \<and> ug_msg u = Some (ms_id m)) (tb_rows (messages d))"

definition provider_costs :: "int \<Rightarrow> (string \<times> rat) list sql" where
  "provider_costs tenant s d =
     map_prod (map_sum id (\<lambda>us. biggest_first (pair_costs pv_name (joined us (providers_of s d))))) id (usage_of tenant s d)"

definition conversation_costs :: "int \<Rightarrow> (int \<times> rat) list sql" where
  "conversation_costs tenant s d =
     map_prod (map_sum id (\<lambda>us. take 20 (biggest_first (pair_costs ms_conv (joined us (messages_of s d)))))) id
       (usage_of tenant s d)"

record costs =
  co_total :: rat
  co_provider :: "(string \<times> rat) list"
  co_feature :: "(string \<times> rat) list"
  co_day :: "(int \<times> rat) list"
  co_conversation :: "(int \<times> rat) list"
  co_alert :: bool

definition total_cost :: "('k \<times> rat) list \<Rightarrow> rat" where
  "total_cost xs = fsum (map snd xs)"

text \<open>\<open>limit\<close> is the number the query's \<open>budget\<close> parses to, 0 when it parses to none.\<close>

definition GetCosts :: "request \<Rightarrow> rat \<Rightarrow> costs response act" where
  "GetCosts r limit = do {
     let tenant = tenantID r;
     res \<leftarrow> WithTenantConn tenant
       (then_ok (Exec (provider_costs tenant)) (\<lambda>ps.
        then_ok (Exec (feature_costs tenant)) (\<lambda>fs.
        then_ok (Exec (daily_costs tenant)) (\<lambda>ds.
        then_ok (Exec (conversation_costs tenant)) (\<lambda>cs. ok (ps, fs, ds, cs))))));
     State_Monad.return
       (case res of
          Inl _ \<Rightarrow> Fail 500 ''failed to load costs''
        | Inr (ps, fs, ds, cs) \<Rightarrow>
            Reply 200 \<lparr>co_total = total_cost ps, co_provider = ps, co_feature = fs, co_day = ds,
              co_conversation = cs, co_alert = (limit > 0 \<and> total_cost ps \<ge> fl64 (limit * fl64 (8 / 10)))\<rparr>)
   }"

definition GetCostBreakdown ::
    "request \<Rightarrow> ((string \<times> rat) list \<times> (string \<times> rat) list \<times> (int \<times> rat) list) response act" where
  "GetCostBreakdown r = do {
     let tenant = tenantID r;
     res \<leftarrow> WithTenantConn tenant
       (then_ok (Exec (provider_costs tenant)) (\<lambda>ps.
        then_ok (Exec (feature_costs tenant)) (\<lambda>fs.
        then_ok (Exec (daily_costs tenant)) (\<lambda>ds. ok (ps, fs, ds)))));
     State_Monad.return
       (case res of Inl _ \<Rightarrow> Fail 500 ''failed to load cost breakdown'' | Inr x \<Rightarrow> Reply 200 x)
   }"

section \<open>Providers compared\<close>

record health_line =
  he_provider :: int
  he_name :: string
  he_status :: string
  he_checked :: "int option"
  he_latency :: rat

text \<open>The \<open>LEFT JOIN\<close> with the checks, grouped by the provider, whose id is its key.\<close>

definition health_lines :: "int \<Rightarrow> health_line list sql" where
  "health_lines tenant s d =
     (Inr (map (\<lambda>p. \<lparr>he_provider = pv_id p, he_name = pv_name p, he_status = pv_health p, he_checked = pv_checked p,
            he_latency = average (map hl_ms (filter (\<lambda>h. visible s (hl_tenant h) \<and> hl_provider h = pv_id p)
              (tb_rows (llm_provider_health d))))\<rparr>)
        (newest_first pv_id (filter (\<lambda>p. visible s (pv_tenant p) \<and> pv_tenant p = tenant) (tb_rows (llm_providers d))))), d)"

definition GetHealthStatus :: "request \<Rightarrow> health_line list response act" where
  "GetHealthStatus r = do {
     let tenant = tenantID r;
     res \<leftarrow> WithTenantConn tenant (Exec (health_lines tenant));
     State_Monad.return
       (case res of Inl _ \<Rightarrow> Fail 500 ''failed to load health'' | Inr xs \<Rightarrow> Reply 200 xs)
   }"

definition uses_of :: "session \<Rightarrow> db \<Rightarrow> provider_row \<Rightarrow> usage_row list" where
  "uses_of s d p = filter (\<lambda>u. visible s (ug_tenant u) \<and> ug_provider u = pv_id p) (tb_rows (llm_usage_logs d))"

definition success_rate :: "usage_row list \<Rightarrow> rat" where
  "success_rate us = (if us = [] then 0 else fl64 (fl64 (of_nat (length (filter ug_ok us)) / of_nat (length us)) * 100))"

record comparison_line =
  cl_provider :: int
  cl_name :: string
  cl_model :: string
  cl_latency :: rat
  cl_success :: rat
  cl_cost :: rat
  cl_requests :: nat

definition comparison_lines :: "int \<Rightarrow> comparison_line list sql" where
  "comparison_lines tenant s d =
     (Inr (map (\<lambda>p. let us = uses_of s d p in
          \<lparr>cl_provider = pv_id p, cl_name = pv_name p, cl_model = pv_model p, cl_latency = average (map ug_ms us),
           cl_success = success_rate us, cl_cost = cost_of us, cl_requests = length us\<rparr>)
        (newest_first pv_id (filter (\<lambda>p. visible s (pv_tenant p) \<and> pv_tenant p = tenant) (tb_rows (llm_providers d))))), d)"

definition GetProviderComparison :: "request \<Rightarrow> comparison_line list response act" where
  "GetProviderComparison r = do {
     let tenant = tenantID r;
     res \<leftarrow> WithTenantConn tenant (Exec (comparison_lines tenant));
     State_Monad.return
       (case res of Inl _ \<Rightarrow> Fail 500 ''failed to load comparison'' | Inr xs \<Rightarrow> Reply 200 xs)
   }"

section \<open>Recommendations\<close>

record provider_stats =
  ps_name :: string
  ps_latency :: rat
  ps_success :: rat
  ps_cost :: rat

definition stats_line :: "string \<times> usage_row list \<Rightarrow> provider_stats" where
  "stats_line g =
     \<lparr>ps_name = fst g, ps_latency = average (map ug_ms (snd g)), ps_success = success_rate (snd g),
      ps_cost = cost_of (snd g)\<rparr>"

text \<open>Providers of one name are one group; a provider without usage adds no rows to it.\<close>

definition provider_stats_of :: "int \<Rightarrow> provider_stats list sql" where
  "provider_stats_of tenant s d =
     (Inr (map (\<lambda>(name, ps). stats_line (name, concat (map (uses_of s d) ps)))
        (group_rows pv_name
          (filter (\<lambda>p. visible s (pv_tenant p) \<and> pv_tenant p = tenant) (tb_rows (llm_providers d))))), d)"

text \<open>The loop that keeps the best so far, starting from the first.\<close>

fun best_of :: "('a \<Rightarrow> 'a \<Rightarrow> bool) \<Rightarrow> 'a \<Rightarrow> 'a list \<Rightarrow> 'a" where
  "best_of better best [] = best"
| "best_of better best (x # xs) = best_of better (if better x best then x else best) xs"

definition recommend :: "provider_stats list \<Rightarrow> string list" where
  "recommend stats =
     (case stats of
        [] \<Rightarrow> []
      | x # xs \<Rightarrow>
          [ps_name (best_of (\<lambda>a b. ps_latency a < ps_latency b) x xs) @ '' is fastest by latency'',
           ps_name (best_of (\<lambda>a b. ps_success a > ps_success b) x xs) @ '' has the best success rate'',
           ps_name (best_of (\<lambda>a b. ps_cost a < ps_cost b) x xs) @ '' is most cost-effective''])"

definition GetRecommendations :: "request \<Rightarrow> string list response act" where
  "GetRecommendations r = do {
     let tenant = tenantID r;
     res \<leftarrow> WithTenantConn tenant (Exec (provider_stats_of tenant));
     State_Monad.return
       (case res of Inl _ \<Rightarrow> Fail 500 ''failed to load recommendations'' | Inr st \<Rightarrow> Reply 200 (recommend st))
   }"

section \<open>Sums of groups\<close>

lemma sum_of_groups:
  assumes "distinct ks" "key ` set rows \<subseteq> set ks"
  shows "sum_list (map (\<lambda>k. sum_list (map h (filter (\<lambda>r. key r = k) rows))) ks) = (sum_list (map h rows) :: rat)"
  using assms(2)
proof (induction rows)
  case (Cons r rows)
  have one: "sum_list (map (\<lambda>k. if key r = k then x + f k else f k) ks) = x + sum_list (map f ks)"
    if "distinct ks" "key r \<in> set ks" for ks and x :: rat and f
    using that
  proof (induction ks)
    case (Cons k ks)
    have same: "sum_list (map (\<lambda>k. if key r = k then x + f k else f k) ks) = sum_list (map f ks)"
      if "key r \<notin> set ks"
      by (rule arg_cong [of _ _ sum_list], intro map_cong) (use that in auto)
    with Cons show ?case by (cases "key r = k") (auto simp: same)
  qed simp
  have "sum_list (map (\<lambda>k. sum_list (map h (filter (\<lambda>r. key r = k) (r # rows)))) ks) =
      sum_list (map (\<lambda>k. if key r = k then h r + sum_list (map h (filter (\<lambda>r. key r = k) rows))
        else sum_list (map h (filter (\<lambda>r. key r = k) rows))) ks)"
    by (intro arg_cong [of _ _ sum_list] map_cong) auto
  with Cons one [OF assms(1), of "h r"] show ?case by simp
qed (induction ks, auto)

text \<open>
  Lines of costs, one per group, in any order: their exact sum, and the sum that is rounded at each
  step, are off the exact sum of all rows by at most one rounding per row within the groups and one
  per line.
\<close>

definition sum_error :: "nat \<Rightarrow> rat list \<Rightarrow> rat" where
  "sum_error n xs = ((1 + eps64) ^ n - 1) * sum_list (map abs xs)"

lemma powers_le: "a \<le> b \<Longrightarrow> (1 + eps64) ^ a \<le> (1 + eps64) ^ b"
  by (intro power_increasing) (simp_all add: eps64_def)

lemma lines_near:
  fixes h :: "'r \<Rightarrow> rat" and key :: "'r \<Rightarrow> 'k"
  assumes "mset ls = mset (map (\<lambda>(k, g). (k, fsum (map h g))) (group_rows key rows))"
  shows "\<bar>total_cost ls - sum_list (map h rows)\<bar> \<le> sum_error (2 * length rows) (map h rows) \<and>
    \<bar>sum_list (map snd ls) - sum_list (map h rows)\<bar> \<le> sum_error (2 * length rows) (map h rows)"
proof -
  let ?n = "length rows" and ?g = "\<lambda>k. filter (\<lambda>r. key r = k) rows"
  let ?x = "\<lambda>k. sum_list (map h (?g k))" and ?a = "\<lambda>k. sum_list (map (\<lambda>r. \<bar>h r\<bar>) (?g k))"
  define G where "G = (1 + eps64) ^ ?n"
  have G: "1 \<le> G" by (simp add: G_def eps64_def)
  define ts where "ts = map (\<lambda>l. (snd l, ?x (fst l), ?a (fst l))) ls"
  let ?lines = "map (\<lambda>(k, g). (k, fsum (map h g))) (group_rows key rows)"
  have over: "sum_list (map f ls) = sum_list (map (\<lambda>k. f (k, fsum (map h (?g k)))) (remdups (map key rows)))"
    for f :: "'k \<times> rat \<Rightarrow> rat"
  proof -
    have "mset (map f ls) = mset (map f ?lines)" using assms by (simp only: mset_map)
    then have "sum_list (map f ls) = sum_list (map f ?lines)" by (metis sum_mset_sum_list)
    then show ?thesis by (simp add: group_rows_def comp_def)
  qed
  have X: "sum_list (map (fst \<circ> snd) ts) = sum_list (map h rows)"
    using over [of "\<lambda>l. ?x (fst l)"] sum_of_groups [of "remdups (map key rows)" key rows h] by (simp add: ts_def comp_def)
  have A: "sum_list (map (snd \<circ> snd) ts) = sum_list (map (\<lambda>r. \<bar>h r\<bar>) rows)"
    using over [of "\<lambda>l. ?a (fst l)"] sum_of_groups [of "remdups (map key rows)" key rows "\<lambda>r. \<bar>h r\<bar>"]
    by (simp add: ts_def comp_def)
  have line: "\<bar>y - x\<bar> \<le> (G - 1) * a \<and> \<bar>x\<bar> \<le> a" if "(y, x, a) \<in> set ts" for y x a
  proof -
    from that obtain k where "(k, y) \<in> set ls" and xa: "x = ?x k" "a = ?a k" by (auto simp: ts_def)
    then have "(k, y) \<in> set ?lines" using assms by (metis set_mset_mset)
    then have y: "y = fsum (map h (?g k))" by (auto simp: group_rows_def)
    have "\<bar>y - x\<bar> \<le> ((1 + eps64) ^ length (?g k) - 1) * a"
      using fsum_near [of "map h (?g k)"] by (simp add: y xa comp_def)
    moreover have "0 \<le> a" unfolding xa by (rule sum_list_nonneg) auto
    moreover have "(1 + eps64) ^ length (?g k) \<le> G" unfolding G_def by (rule powers_le) simp
    ultimately have "\<bar>y - x\<bar> \<le> (G - 1) * a" by (meson diff_right_mono mult_right_mono order_trans)
    moreover have "\<bar>x\<bar> \<le> a" unfolding xa using sum_list_abs [of "map h (?g k)"] by (simp add: comp_def)
    ultimately show ?thesis by simp
  qed
  have lines: "length ts \<le> ?n"
  proof -
    have "length ts = length ?lines" using arg_cong [OF assms, of size] by (simp add: ts_def)
    also have "\<dots> \<le> ?n" using length_remdups_leq [of "map key rows"] by (simp add: group_rows_def)
    finally show ?thesis .
  qed
  let ?A = "sum_list (map (\<lambda>r. \<bar>h r\<bar>) rows)"
  have A0: "0 \<le> ?A" by (rule sum_list_nonneg) auto
  have two: "G * (1 + eps64) ^ m \<le> (1 + eps64) ^ (2 * ?n)" if "m \<le> ?n" for m
    using that powers_le [of "?n + m" "2 * ?n"] by (simp add: G_def power_add)
  have "\<bar>fsum (map fst ts) - sum_list (map h rows)\<bar> \<le> (G * (1 + eps64) ^ length ts - 1) * ?A"
    using fsum_error [OF G line, of ts, THEN conjunct1] by (simp only: X A)
  also have "\<dots> \<le> ((1 + eps64) ^ (2 * ?n) - 1) * ?A"
    using two [OF lines] A0 by (intro mult_right_mono diff_right_mono)
  finally have "\<bar>total_cost ls - sum_list (map h rows)\<bar> \<le> sum_error (2 * ?n) (map h rows)"
    by (simp add: sum_error_def total_cost_def ts_def comp_def)
  moreover have "\<bar>sum_list (map fst ts) - sum_list (map (fst \<circ> snd) ts)\<bar> \<le> (G - 1) * sum_list (map (snd \<circ> snd) ts)"
    using line
  proof (induction ts)
    case (Cons t ts)
    obtain y x a where t: "t = (y, x, a)" by (cases t)
    have "\<bar>y - x\<bar> \<le> (G - 1) * a" using Cons.prems [of y x a] t by simp
    moreover have "\<bar>sum_list (map fst ts) - sum_list (map (fst \<circ> snd) ts)\<bar> \<le> (G - 1) * sum_list (map (snd \<circ> snd) ts)"
      by (rule Cons.IH) (rule Cons.prems, simp)
    ultimately have "\<bar>y + sum_list (map fst ts) - (x + sum_list (map (fst \<circ> snd) ts))\<bar>
        \<le> (G - 1) * a + (G - 1) * sum_list (map (snd \<circ> snd) ts)" by linarith
    then show ?case unfolding comp_def by (simp add: t distrib_left)
  qed simp
  then have "\<bar>sum_list (map snd ls) - sum_list (map h rows)\<bar> \<le> (G - 1) * ?A"
    unfolding X A by (simp add: ts_def comp_def)
  moreover have "(G - 1) * ?A \<le> ((1 + eps64) ^ (2 * ?n) - 1) * ?A"
    using two [of 0] A0 by (intro mult_right_mono diff_right_mono) simp_all
  ultimately show ?thesis by (simp add: sum_error_def comp_def)
qed

lemma mset_biggest: "mset (biggest_first xs) = mset xs"
  by (simp add: biggest_first_def)

lemma joined_once:
  "(\<And>u. u \<in> set us \<Longrightarrow> length (mates u) = 1) \<Longrightarrow> map fst (joined us mates) = us"
proof (induction us)
  case (Cons u us)
  then obtain b where "mates u = [b]" by (fastforce simp: length_Suc_conv)
  with Cons show ?case by (simp add: joined_def)
qed (simp add: joined_def)

section \<open>Costs add up\<close>

lemma run_conn_one:
  assumes "w_faults w = []"
  shows "run_state (WithTenantConn t (Exec q)) w =
    (let (x, d) = q (as_tenant t w) (w_db w) in (x, reset_sess w\<lparr>w_db := d\<rparr>))"
  using assms by (simp add: run_WithTenantConn_quiet [OF assms quiet_Exec] run_Exec_nil as_tenant_def split_beta)

text \<open>A chain of statements that only read gives the results and leaves the world as it is.\<close>

lemma run_read:
  "w_faults w = [] \<Longrightarrow> q (w_sess w) (w_db w) = (Inr x, w_db w) \<Longrightarrow>
     run_state (then_ok (Exec q) f) w = run_state (f x) w"
  by (simp add: run_then_ok run_Exec_nil)

definition usages :: "int \<Rightarrow> db \<Rightarrow> usage_row list" where
  "usages t d = filter (\<lambda>u. ug_tenant u = t) (tb_rows (llm_usage_logs d))"

lemma usage_of_run: "usage_of t (as_tenant t w) d = (Inr (usages t d), d)"
proof -
  have "(visible (as_tenant t w) x \<and> x = t) = (x = t)" for x by auto
  then show ?thesis by (simp add: usage_of_def sql_select_def usages_def)
qed

definition provider_costs_in :: "int \<Rightarrow> session \<Rightarrow> db \<Rightarrow> (string \<times> rat) list" where
  "provider_costs_in t s d = biggest_first (pair_costs pv_name (joined (usages t d) (providers_of s d)))"

lemma costs_run:
  assumes "w_faults w = []"
  shows "\<exists>c w'. run_state (GetCosts r limit) w = (Reply 200 c, w') \<and> w_db w' = w_db w \<and>
    co_provider c = provider_costs_in (tenantID r) (as_tenant (tenantID r) w) (w_db w) \<and>
    co_feature c = biggest_first (costs_by ug_feature (usages (tenantID r) (w_db w))) \<and>
    co_total c = total_cost (co_provider c) \<and>
    (co_alert c \<longleftrightarrow> limit > 0 \<and> co_total c \<ge> fl64 (limit * fl64 (8 / 10)))"
proof -
  let ?t = "tenantID r"
  let ?cb = "then_ok (Exec (provider_costs ?t)) (\<lambda>ps.
        then_ok (Exec (feature_costs ?t)) (\<lambda>fs.
        then_ok (Exec (daily_costs ?t)) (\<lambda>ds.
        then_ok (Exec (conversation_costs ?t)) (\<lambda>cs. ok (ps, fs, ds, cs)))))"
  obtain ds cs where "run_state ?cb (w\<lparr>w_sess := as_tenant ?t w\<rparr>) =
      (Inr (provider_costs_in ?t (as_tenant ?t w) (w_db w), biggest_first (costs_by ug_feature (usages ?t (w_db w))), ds, cs),
       w\<lparr>w_sess := as_tenant ?t w\<rparr>)"
    using assms
    by (simp add: run_read provider_costs_def feature_costs_def daily_costs_def conversation_costs_def usage_of_run
        provider_costs_in_def)
  moreover have "state_io_rel no_faults ?cb" by (intro quiet_exec.keeps_all)
  ultimately have "run_state (WithTenantConn ?t ?cb) w =
      (Inr (provider_costs_in ?t (as_tenant ?t w) (w_db w), biggest_first (costs_by ug_feature (usages ?t (w_db w))), ds, cs),
       reset_sess (w\<lparr>w_sess := as_tenant ?t w\<rparr>))"
    by (intro run_conn_start [OF assms])
  then show ?thesis unfolding GetCosts_def Let_def run_state_bind by simp
qed

text \<open>Usage rows name a provider of their own tenant.\<close>

definition own_usage :: "db \<Rightarrow> bool" where
  "own_usage d \<longleftrightarrow>
     (\<forall>u \<in> set (tb_rows (llm_usage_logs d)). \<forall>p \<in> set (tb_rows (llm_providers d)).
        pv_id p = ug_provider u \<longrightarrow> pv_tenant p = ug_tenant u)"

lemma filter_key_once:
  "distinct (map key xs) \<Longrightarrow> x \<in> set xs \<Longrightarrow> length (filter (\<lambda>y. key y = key x) xs) = 1"
proof (induction xs)
  case (Cons y xs)
  show ?case
  proof (cases "x = y")
    case True
    with Cons.prems have new: "key x \<notin> key ` set xs" by simp
    have "key z \<noteq> key x" if "z \<in> set xs" for z using imageI [OF that, of key] new by auto
    then have "filter (\<lambda>z. key z = key x) xs = []" by (simp add: filter_empty_conv)
    with True show ?thesis by simp
  next
    case False
    with Cons show ?thesis by auto
  qed
qed simp

lemma one_provider:
  assumes "llm_inv d" "own_usage d" "u \<in> set (usages t d)"
  shows "length (providers_of (as_tenant t w) d u) = 1"
proof -
  let ?rows = "tb_rows (llm_providers d)"
  have u: "u \<in> set (tb_rows (llm_usage_logs d))" "ug_tenant u = t" using assms(3) by (auto simp: usages_def)
  then have "ug_provider u \<in> provider_ids d" using assms(1) by (auto simp: llm_inv_def provider_refs_def)
  then obtain p where p: "p \<in> set ?rows" "pv_id p = ug_provider u" by (auto simp: provider_ids_def)
  have "pv_tenant q = t" if "q \<in> set ?rows" "pv_id q = ug_provider u" for q
    using assms(2) u that by (auto simp: own_usage_def)
  then have eq: "providers_of (as_tenant t w) d u = filter (\<lambda>q. pv_id q = pv_id p) ?rows"
    unfolding providers_of_def p(2) by (intro filter_cong) auto
  have "distinct (map pv_id ?rows)" using assms(1) by (simp add: llm_inv_def)
  then show ?thesis unfolding eq using filter_key_once p(1) by metis
qed

lemma threshold_near:
  assumes "0 < limit"
  shows "limit * (8 / 10) * (1 - eps64) ^ 2 \<le> fl64 (limit * fl64 (8 / 10))"
    "fl64 (limit * fl64 (8 / 10)) \<le> limit * (8 / 10) * (1 + eps64) ^ 2"
proof -
  let ?p = "fl64 (8 / 10)"
  have e: "0 < eps64" "eps64 < 1" by (simp_all add: eps64_def)
  have p: "8 / 10 * (1 - eps64) \<le> ?p" "?p \<le> 8 / 10 * (1 + eps64)"
    using fl64_near [of "8 / 10"] unfolding abs_le_iff by (simp_all add: right_diff_distrib distrib_left)
  then have lp: "limit * (8 / 10) * (1 - eps64) \<le> limit * ?p" "limit * ?p \<le> limit * (8 / 10) * (1 + eps64)"
    using assms by (simp_all add: mult.assoc)
  have "0 < 8 / 10 * (1 - eps64)" using e by simp
  with p(1) have "0 < ?p" by linarith
  then have "0 < limit * ?p" using assms by simp
  then have f: "limit * ?p * (1 - eps64) \<le> fl64 (limit * ?p)" "fl64 (limit * ?p) \<le> limit * ?p * (1 + eps64)"
    using fl64_near [of "limit * ?p"] unfolding abs_le_iff right_diff_distrib distrib_left
    by (simp_all add: mult.commute [of _ eps64])
  have "limit * (8 / 10) * (1 - eps64) * (1 - eps64) \<le> limit * ?p * (1 - eps64)"
    by (rule mult_right_mono [OF lp(1)]) (use e in simp)
  moreover have "limit * ?p * (1 + eps64) \<le> limit * (8 / 10) * (1 + eps64) * (1 + eps64)"
    by (rule mult_right_mono [OF lp(2)]) (use e in simp)
  moreover note f
  ultimately show "limit * (8 / 10) * (1 - eps64) ^ 2 \<le> fl64 (limit * fl64 (8 / 10))"
    "fl64 (limit * fl64 (8 / 10)) \<le> limit * (8 / 10) * (1 + eps64) ^ 2"
    by (simp_all only: power2_eq_square mult.assoc [symmetric])
qed

text \<open>
  C19. The costs of a tenant add up, as far as \<open>float64\<close> goes. Without faults, with the provider
  tables consistent and usage recorded under providers of its own tenant, \<open>GetCosts\<close> changes
  nothing; its total, the costs by provider and the costs by feature are each off the exact sum of
  the costs of the tenant's \<open>n\<close> usage rows by at most \<open>(1 + 2 ^ -53) ^ (2 n) - 1\<close> times the sum of
  their sizes. The alert is raised exactly when the budget is positive and the total reaches the
  rounded 80 percent of it: never when the exact sum stays below 80 percent by more than these
  errors, and always when it is above by more than them.
\<close>

theorem costs_add_up:
  fixes w :: world and r :: request and limit :: rat
  assumes "w_faults w = []" "llm_inv (w_db w)" "own_usage (w_db w)"
  defines "paid \<equiv> map ug_cost (usages (tenantID r) (w_db w))"
    and "off \<equiv> sum_error (2 * length (usages (tenantID r) (w_db w))) (map ug_cost (usages (tenantID r) (w_db w)))"
  shows "\<exists>c w'. run_state (GetCosts r limit) w = (Reply 200 c, w') \<and> w_db w' = w_db w \<and>
    \<bar>co_total c - sum_list paid\<bar> \<le> off \<and>
    \<bar>sum_list (map snd (co_provider c)) - sum_list paid\<bar> \<le> off \<and>
    \<bar>sum_list (map snd (co_feature c)) - sum_list paid\<bar> \<le> off \<and>
    (co_alert c \<longleftrightarrow> limit > 0 \<and> co_total c \<ge> fl64 (limit * fl64 (8 / 10))) \<and>
    (sum_list paid + off < limit * (8 / 10) * (1 - eps64) ^ 2 \<longrightarrow> \<not> co_alert c) \<and>
    (limit > 0 \<and> sum_list paid - off \<ge> limit * (8 / 10) * (1 + eps64) ^ 2 \<longrightarrow> co_alert c)"
proof -
  let ?us = "usages (tenantID r) (w_db w)" and ?s = "as_tenant (tenantID r) w"
  let ?pairs = "joined ?us (providers_of ?s (w_db w))"
  obtain c w' where c: "run_state (GetCosts r limit) w = (Reply 200 c, w')" "w_db w' = w_db w"
    "co_provider c = provider_costs_in (tenantID r) ?s (w_db w)"
    "co_feature c = biggest_first (costs_by ug_feature ?us)" "co_total c = total_cost (co_provider c)"
    "co_alert c \<longleftrightarrow> limit > 0 \<and> co_total c \<ge> fl64 (limit * fl64 (8 / 10))"
    using costs_run [OF assms(1), of r limit] by blast
  have once: "map fst ?pairs = ?us" using joined_once [of ?us "providers_of ?s (w_db w)"] one_provider [OF assms(2,3)] by simp
  then have len: "length ?pairs = length ?us" by (metis length_map)
  have costs: "map (\<lambda>p. ug_cost (fst p)) ?pairs = map ug_cost ?us" using arg_cong [OF once, of "map ug_cost"] by (simp add: comp_def)
  have "mset (co_provider c) = mset (map (\<lambda>(k, g). (k, fsum (map (\<lambda>p. ug_cost (fst p)) g))) (group_rows (\<lambda>p. pv_name (snd p)) ?pairs))"
    by (simp add: c(3) provider_costs_in_def mset_biggest pair_costs_def cost_of_def comp_def)
  note P = lines_near [OF this, unfolded costs len, folded paid_def off_def [unfolded paid_def [symmetric]]]
  have "mset (co_feature c) = mset (map (\<lambda>(k, g). (k, fsum (map ug_cost g))) (group_rows ug_feature ?us))"
    by (simp add: c(4) mset_biggest costs_by_def cost_of_def)
  note F = lines_near [OF this]
  have total: "\<bar>co_total c - sum_list paid\<bar> \<le> off" using P by (simp add: c(5) off_def paid_def)
  have low: "\<not> co_alert c" if "sum_list paid + off < limit * (8 / 10) * (1 - eps64) ^ 2"
  proof
    assume "co_alert c"
    then have "0 < limit" "fl64 (limit * fl64 (8 / 10)) \<le> co_total c" by (simp_all add: c(6))
    with threshold_near(1) [of limit] total that show False by linarith
  qed
  have high: "co_alert c" if "limit > 0" "sum_list paid - off \<ge> limit * (8 / 10) * (1 + eps64) ^ 2"
    using threshold_near(2) [OF that(1)] total that unfolding c(6) by linarith
  show ?thesis
    using c(1,2,6) total P F low high by (intro exI [of _ c] exI [of _ w']) (simp add: off_def paid_def)
qed

definition usage_world :: world where
  "usage_world = default_world\<lparr>w_db := (w_db default_world)\<lparr>llm_usage_logs :=
     \<lparr>tb_rows = [\<lparr>ug_id = 1, ug_tenant = 10, ug_provider = 1, ug_msg = None, ug_in = 0, ug_out = 0, ug_total = 0,
        ug_cin = 0, ug_cout = 0, ug_cost = fl64 (24 / 10), ug_ms = 5, ug_ok = True, ug_error = [], ug_feature = ''analyze'',
        ug_created = 0\<rparr>], tb_seq = 1\<rparr>\<rparr>\<rparr>"

text \<open>
  With one usage row of 2.4, or rather the nearest \<open>float64\<close> of it, a budget of 3 raises no alert: 80 percent
  of 3 is \<open>2.4000000000000004\<close> in \<open>float64\<close>.
\<close>

lemma rounded_budget_no_alert:
  "\<exists>c w'. run_state (GetCosts (admin_of 10) 3) usage_world = (Reply 200 c, w') \<and> co_total c = fl64 (24 / 10) \<and> \<not> co_alert c"
proof -
  have "w_faults usage_world = []" by (simp add: usage_world_def default_world_def)
  from costs_run [OF this, of "admin_of 10" 3] obtain c w' where c: "run_state (GetCosts (admin_of 10) 3) usage_world = (Reply 200 c, w')"
    "co_provider c = provider_costs_in 10 (as_tenant 10 usage_world) (w_db usage_world)" "co_total c = total_cost (co_provider c)"
    "co_alert c \<longleftrightarrow> 3 > (0 :: rat) \<and> co_total c \<ge> fl64 (3 * fl64 (8 / 10))" by auto
  have "fl64 (0 + fl64 (24 / 10)) = fl64 (24 / 10)" "fl64 (24 / 10) < fl64 (3 * fl64 (8 / 10))" by code_simp+
  moreover have "co_provider c = [(''OpenAI'', fsum [fl64 (24 / 10)])]"
    by (simp add: c(2) provider_costs_in_def usages_def usage_world_def joined_def providers_of_def default_world_def llm_world_def
        sample_provider_def pair_costs_def group_rows_def cost_of_def biggest_first_def)
  ultimately have "co_total c = fl64 (24 / 10)" "\<not> co_alert c" by (simp_all add: c(3,4) total_cost_def fsum_def)
  with c(1) show ?thesis by blast
qed

theorem costs_add_up_witness:
  "\<exists>c w'. run_state (GetCosts (admin_of 10) 3) usage_world = (Reply 200 c, w') \<and>
     \<bar>co_total c - fl64 (24 / 10)\<bar> \<le> sum_error 2 [fl64 (24 / 10)]"
proof -
  have "w_faults usage_world = []" by (simp add: usage_world_def default_world_def)
  moreover have "llm_inv (w_db usage_world)" "own_usage (w_db usage_world)"
    by (simp_all add: usage_world_def default_world_def llm_inv_def provider_ids_def provider_refs_def
        default_tenants_def llm_world_def sample_provider_def empty_db_def own_usage_def)
  moreover have "map ug_cost (usages 10 (w_db usage_world)) = [fl64 (24 / 10)]" "length (usages 10 (w_db usage_world)) = 1"
    by (simp_all add: usages_def usage_world_def)
  ultimately show ?thesis using costs_add_up [of usage_world "admin_of 10" 3] by auto
qed

section \<open>What is recommended\<close>

lemma best_of_in: "best_of better x xs \<in> set (x # xs)"
proof (induction xs arbitrary: x)
  case (Cons y xs)
  show ?case using Cons.IH [of "if better y x then y else x"] by (auto split: if_splits)
qed simp

lemma best_of_least: "y \<in> set (x # xs) \<Longrightarrow> f (best_of (\<lambda>a b. f a < f b) x xs) \<le> (f y :: 'a :: linorder)"
proof (induction xs arbitrary: x y)
  case (Cons z xs)
  let ?b = "if f z < f x then z else x"
  have "f (best_of (\<lambda>a b. f a < f b) ?b xs) \<le> f ?b" using Cons.IH [of ?b ?b] by simp
  moreover have "f ?b \<le> f x" "f ?b \<le> f z" by auto
  moreover have "y \<in> set xs \<Longrightarrow> f (best_of (\<lambda>a b. f a < f b) ?b xs) \<le> f y" using Cons.IH [of y ?b] by simp
  ultimately show ?case using Cons.prems by auto
qed simp

lemma average_pos: "xs \<noteq> [] \<Longrightarrow> (\<And>x. x \<in> set xs \<Longrightarrow> 0 < x) \<Longrightarrow> 0 < average xs"
proof -
  assume "xs \<noteq> []" and pos: "\<And>x. x \<in> set xs \<Longrightarrow> 0 < x"
  moreover from this have "0 < sum_list xs"
  proof (induction xs)
    case (Cons x xs)
    have "0 \<le> sum_list xs" by (rule sum_list_nonneg) (use Cons.prems(2) in \<open>simp add: less_imp_le\<close>)
    with Cons.prems(2) [of x] show ?case by simp
  qed simp
  ultimately show ?thesis by (simp add: average_def)
qed

definition own_providers :: "int \<Rightarrow> db \<Rightarrow> provider_row list" where
  "own_providers t d = filter (\<lambda>p. pv_tenant p = t) (tb_rows (llm_providers d))"

lemma provider_stats_run:
  "provider_stats_of t (as_tenant t w) d =
     (Inr (map (\<lambda>(name, ps). stats_line (name, concat (map (uses_of (as_tenant t w) d) ps)))
        (group_rows pv_name (own_providers t d))), d)"
proof -
  have "(visible (as_tenant t w) x \<and> x = t) = (x = t)" for x by auto
  then show ?thesis by (simp add: provider_stats_of_def own_providers_def)
qed

lemma group_rows_mem:
  "(k, g) \<in> set (group_rows key rows) \<longleftrightarrow> k \<in> key ` set rows \<and> g = filter (\<lambda>r. key r = k) rows"
  by (auto simp: group_rows_def)

text \<open>
  The provider nobody used is the fastest one. \<open>GetRecommendations\<close> takes the average over no
  usage for a latency of zero: without faults, as soon as a tenant has a provider name without any
  usage and every recorded call took some time, the provider it calls the fastest by latency is
  one that has never been used.
\<close>

theorem unused_provider_is_fastest:
  assumes "w_faults w = []" "p \<in> set (own_providers (tenantID r) (w_db w))"
    and "\<forall>u \<in> set (tb_rows (llm_usage_logs (w_db w))). 0 < ug_ms u"
    and "\<forall>q \<in> set (own_providers (tenantID r) (w_db w)). pv_name q = pv_name p \<longrightarrow>
           (\<forall>u \<in> set (tb_rows (llm_usage_logs (w_db w))). ug_provider u \<noteq> pv_id q)"
  shows "\<exists>name recs w'. run_state (GetRecommendations r) w = (Reply 200 ((name @ '' is fastest by latency'') # recs), w') \<and>
    name \<in> pv_name ` set (own_providers (tenantID r) (w_db w)) \<and>
    (\<forall>q \<in> set (own_providers (tenantID r) (w_db w)). pv_name q = name \<longrightarrow>
       uses_of (as_tenant (tenantID r) w) (w_db w) q = [])"
proof -
  let ?t = "tenantID r" and ?d = "w_db w"
  let ?uses = "uses_of (as_tenant ?t w) ?d" and ?own = "own_providers ?t ?d"
  let ?line = "\<lambda>(name, ps). stats_line (name, concat (map ?uses ps))"
  let ?stats = "map ?line (group_rows pv_name ?own)"
  have pos: "0 < ug_ms u" if "u \<in> set (?uses q)" for u q using that assms(3) by (simp add: uses_of_def)
  have pin: "(pv_name p, filter (\<lambda>q. pv_name q = pv_name p) ?own) \<in> set (group_rows pv_name ?own)"
    using assms(2) by (simp add: group_rows_mem)
  have "?uses q = []" if "q \<in> set ?own" "pv_name q = pv_name p" for q
    using assms(4) that by (auto simp: uses_of_def filter_empty_conv)
  then have "ps_latency (?line (pv_name p, filter (\<lambda>q. pv_name q = pv_name p) ?own)) = 0"
    by (simp add: stats_line_def average_def concat_eq_Nil_conv)
  moreover have "?line (pv_name p, filter (\<lambda>q. pv_name q = pv_name p) ?own) \<in> set ?stats"
    using imageI [OF pin, of ?line] by (simp only: list.set_map)
  ultimately have zero: "\<exists>a \<in> set ?stats. ps_latency a = 0" by (rule bexI)
  then obtain x xs where st: "?stats = x # xs" by (cases ?stats) auto
  let ?best = "best_of (\<lambda>a b. ps_latency a < ps_latency b) x xs"
  have "?best \<in> set ?stats" unfolding st by (rule best_of_in)
  then obtain name ps where b: "?best = ?line (name, ps)" and g: "(name, ps) \<in> set (group_rows pv_name ?own)" by auto
  have "ps_latency ?best \<le> 0"
    using zero best_of_least [of _ x xs ps_latency] unfolding st by metis
  then have "concat (map ?uses ps) = []"
    using average_pos [of "map ug_ms (concat (map ?uses ps))"] pos
    unfolding b by (fastforce simp: stats_line_def)
  then have "\<forall>q \<in> set ?own. pv_name q = name \<longrightarrow> ?uses q = []"
    using g by (auto simp: group_rows_mem)
  moreover have "name \<in> pv_name ` set ?own" using g by (simp add: group_rows_mem)
  moreover have "ps_name ?best = name" unfolding b by (simp add: stats_line_def)
  then have "\<exists>recs. recommend ?stats = (name @ '' is fastest by latency'') # recs"
    unfolding st recommend_def by simp
  ultimately show ?thesis
    by (auto simp: GetRecommendations_def Let_def run_conn_one [OF assms(1)] provider_stats_run)
qed

theorem unused_provider_is_fastest_witness:
  "\<exists>recs w'. run_state (GetRecommendations (admin_of 10)) default_world =
     (Reply 200 ((''OpenAI'' @ '' is fastest by latency'') # recs), w')"
proof -
  let ?p = "(sample_provider 1 10 ''key-of-10'')\<lparr>pv_default := True\<rparr>"
  have "w_faults default_world = []" by (simp add: default_world_def)
  moreover have "tb_rows (llm_usage_logs (w_db default_world)) = []" "own_providers 10 (w_db default_world) = [?p]"
    by (simp_all add: default_world_def own_providers_def llm_world_def empty_db_def)
  ultimately show ?thesis
    using unused_provider_is_fastest [of default_world ?p "admin_of 10"] by simp
qed

end
