(* ===== verification/Dates.thy ===== *)
theory Dates
  imports GoStrings
begin

text \<open>
  Dates of the form \<open>2006-01-02\<close> as \<open>time.Parse\<close> reads them for the action items and the audit
  log: the time of midnight UTC, in nanoseconds since 1970-01-01, on the proleptic Gregorian
  calendar.
\<close>

definition nanos_per_day :: int where
  "nanos_per_day = 86400000000000"

definition is_leap :: "int \<Rightarrow> bool" where
  "is_leap y \<longleftrightarrow> y mod 4 = 0 \<and> (y mod 100 \<noteq> 0 \<or> y mod 400 = 0)"

definition days_in_month :: "int \<Rightarrow> int \<Rightarrow> int" where
  "days_in_month y m =
     (if m = 2 then (if is_leap y then 29 else 28) else if m \<in> {4, 6, 9, 11} then 30 else 31)"

text \<open>Years counted from March, so that the leap day is the last of its year.\<close>

definition days_from_civil :: "int \<Rightarrow> int \<Rightarrow> int \<Rightarrow> int" where
  "days_from_civil y m d =
     (let y' = (if m \<le> 2 then y - 1 else y);
          doy = (153 * (if m > 2 then m - 3 else m + 9) + 2) div 5 + d - 1
      in 365 * y' + y' div 4 - y' div 100 + y' div 400 + doy - 719468)"

definition parse_date :: "string \<Rightarrow> int option" where
  "parse_date s =
     (if length s \<noteq> 10 \<or> s ! 4 \<noteq> CHR ''-'' \<or> s ! 7 \<noteq> CHR ''-'' then None
      else case (parse_digits (take 4 s), parse_digits (take 2 (drop 5 s)), parse_digits (drop 8 s)) of
             (Some y, Some m, Some d) \<Rightarrow>
               if 1 \<le> m \<and> m \<le> 12 \<and> 1 \<le> d \<and> int d \<le> days_in_month (int y) (int m)
               then Some (days_from_civil (int y) (int m) (int d) * nanos_per_day) else None
           | _ \<Rightarrow> None)"

lemma parse_date_examples:
  "parse_date ''1970-01-01'' = Some 0" "parse_date ''2000-02-29'' = Some (11016 * nanos_per_day)"
  "parse_date ''2000-03-01'' = Some (11017 * nanos_per_day)" "parse_date ''1900-02-29'' = None"
  "parse_date ''2024-13-01'' = None" "parse_date ''2024-1-01'' = None"
  by code_simp+

text \<open>The day after a date is the next day, over the ends of months and years.\<close>

lemma div_pred:
  assumes "0 < k"
  shows "(y - 1) div k = y div k - (if y mod k = 0 then 1 else 0 :: int)"
proof -
  have y: "y = k * (y div k) + y mod k" by simp
  have r: "0 \<le> y mod k" "y mod k < k" using assms by simp_all
  show ?thesis
  proof (cases "y mod k = 0")
    case True
    with y have "y - 1 = k * (y div k - 1) + (k - 1)" by (simp add: algebra_simps)
    then have "(y - 1) div k = y div k - 1" by (rule int_div_pos_eq) (use assms in auto)
    with True show ?thesis by simp
  next
    case False
    from y have "y - 1 = k * (y div k) + (y mod k - 1)" by linarith
    then have "(y - 1) div k = y div k" by (rule int_div_pos_eq) (use r False in auto)
    with False show ?thesis by simp
  qed
qed

lemma february_ends:
  "days_from_civil y 2 (days_in_month y 2) + 1 = days_from_civil y 3 1"
proof -
  have "(y - 1) div 4 = y div 4 - (if y mod 4 = 0 then 1 else 0)"
    "(y - 1) div 100 = y div 100 - (if y mod 100 = 0 then 1 else 0)"
    "(y - 1) div 400 = y div 400 - (if y mod 400 = 0 then 1 else 0)"
    by (rule div_pred, simp)+
  moreover have "4 dvd y" if "100 dvd y" using that by (rule dvd_trans [rotated]) simp
  then have "y mod 100 = 0 \<Longrightarrow> y mod 4 = 0" by (simp add: dvd_eq_mod_eq_0)
  moreover have "100 dvd y" if "400 dvd y" using that by (rule dvd_trans [rotated]) simp
  then have "y mod 400 = 0 \<Longrightarrow> y mod 100 = 0" by (simp add: dvd_eq_mod_eq_0)
  moreover have "days_from_civil y 2 d =
      365 * (y - 1) + (y - 1) div 4 - (y - 1) div 100 + (y - 1) div 400 + d - 719132" for d
    by (simp add: days_from_civil_def Let_def)
  moreover have "days_from_civil y 3 1 = 365 * y + y div 4 - y div 100 + y div 400 - 719468"
    by (simp add: days_from_civil_def Let_def)
  moreover have "days_in_month y 2 = (if is_leap y then 29 else 28)" by (simp add: days_in_month_def)
  ultimately show ?thesis
    unfolding is_leap_def by (smt (verit, best))
qed

lemma next_day:
  assumes "1 \<le> m" "m \<le> 12"
  shows "days_from_civil y m (days_in_month y m) + 1 =
    (if m = 12 then days_from_civil (y + 1) 1 1 else days_from_civil y (m + 1) 1)"
proof (cases "m = 2")
  case False
  then have "m = 1 \<or> m = 3 \<or> m = 4 \<or> m = 5 \<or> m = 6 \<or> m = 7 \<or> m = 8 \<or> m = 9 \<or> m = 10 \<or> m = 11 \<or> m = 12"
    using assms by presburger
  then show ?thesis by (elim disjE) (simp_all add: days_from_civil_def days_in_month_def Let_def)
qed (simp add: february_ends)

end
