(* ===== verification/Items.thy ===== *)
theory Items
  imports Team Dates "HOL-Library.Multiset"
begin

text \<open>
  Action items with their comments, labels and notifications:
  \<open>backend/internal/handlers/action_items.go\<close>, \<open>comments.go\<close>, \<open>labels.go\<close> and
  \<open>notifications.go\<close>. Bodies are given decoded, \<open>None\<close> when \<open>readJSON\<close> fails.
\<close>

section \<open>Pages\<close>

text \<open>
  \<open>LIMIT ... OFFSET ...\<close> on an ordered result. The offset \<open>(page - 1) * limit\<close> is computed in 64
  bits; PostgreSQL refuses a negative one.
\<close>

definition paged :: "int \<times> int \<Rightarrow> 'r list sql \<Rightarrow> 'r list sql" where
  "paged pl q s d =
     (let offset = page_offset (fst pl) (snd pl)
      in if offset < 0 then (Inl Violation, d)
         else map_prod (map_sum id (\<lambda>rows. take (nat (snd pl)) (drop (nat offset) rows))) id (q s d))"

definition ordered :: "('r list \<Rightarrow> 'r list) \<Rightarrow> 'r list sql \<Rightarrow> 'r list sql" where
  "ordered f q s d = map_prod (map_sum id f) id (q s d)"

record 'r page =
  pg_data :: "'r list"
  pg_page :: int
  pg_limit :: int

definition page_of :: "int \<times> int \<Rightarrow> 'r list \<Rightarrow> 'r page" where
  "page_of pl rows = \<lparr>pg_data = rows, pg_page = fst pl, pg_limit = snd pl\<rparr>"

section \<open>Notifications\<close>

definition insert_notification :: "int \<Rightarrow> int \<Rightarrow> string \<Rightarrow> string \<Rightarrow> int \<Rightarrow> notification_row sql" where
  "insert_notification tenant user notifType content now =
     sql_insert notifications notifications_update nt_tenant (\<lambda>d r. has_key us_id user (users d))
       (\<lambda>i. \<lparr>nt_id = i, nt_tenant = tenant, nt_user = user, nt_type = notifType, nt_content = content,
             nt_read = False, nt_created = now\<rparr>)"

definition createNotification :: "int \<Rightarrow> int \<Rightarrow> string \<Rightarrow> string \<Rightarrow> unit act" where
  "createNotification tenant user notifType content = do {
     now \<leftarrow> Now;
     _ \<leftarrow> WithTenantConn tenant (Exec (insert_notification tenant user notifType content now));
     State_Monad.return ()
   }"

text \<open>The body of the list request: the state asked for and the limit.\<close>

definition notification_limit :: "int option \<Rightarrow> int" where
  "notification_limit most =
     (case most of None \<Rightarrow> 50 | Some l \<Rightarrow> if l > 0 \<and> l \<le> 200 then l else 50)"

definition ListNotifications ::
    "request \<Rightarrow> (bool option \<times> int option) option \<Rightarrow> notification_row list response act" where
  "ListNotifications r body =
     (case body of
        None \<Rightarrow> State_Monad.return (Fail 400 ''invalid request'')
      | Some (read, most) \<Rightarrow>
          (case authUserIDPtr r of
             None \<Rightarrow> State_Monad.return (Fail 401 ''unauthorized'')
           | Some user \<Rightarrow> do {
               let tenant = tenantID r;
               res \<leftarrow> WithTenantConn tenant
                 (Exec (sql_select notifications nt_tenant (\<lambda>n. nt_tenant n = tenant \<and> nt_user n = user \<and>
                    (read = None \<or> read = Some (nt_read n)))));
               State_Monad.return
                 (case res of
                    Inl _ \<Rightarrow> Fail 500 ''failed to load notifications''
                  | Inr rows \<Rightarrow> Reply 200 (take (nat (notification_limit most)) (newest_first nt_created rows)))
             }))"

definition mark_read :: "int \<Rightarrow> int \<Rightarrow> int \<Rightarrow> notification_row list sql" where
  "mark_read tenant user notification =
     sql_update notifications notifications_update nt_tenant
       (\<lambda>n. nt_tenant n = tenant \<and> nt_user n = user \<and> nt_id n = notification) (\<lambda>n. n\<lparr>nt_read := True\<rparr>)"

definition MarkNotificationRead :: "request \<Rightarrow> int \<Rightarrow> string response act" where
  "MarkNotificationRead r notification =
     (case authUserIDPtr r of
        None \<Rightarrow> State_Monad.return (Fail 401 ''unauthorized'')
      | Some user \<Rightarrow> do {
          let tenant = tenantID r;
          done \<leftarrow> WithTenantConn tenant
            (then_ok (Exec (mark_read tenant user notification)) (\<lambda>rows. if rows = [] then err NotFound else ok ()));
          State_Monad.return
            (case done of Inl _ \<Rightarrow> Fail 404 ''notification not found'' | Inr _ \<Rightarrow> Reply 200 ''read'')
        })"

section \<open>Action items\<close>

record item_request =
  iq_conversation :: int
  iq_description :: string
  iq_status :: string
  iq_assigned :: "int option"
  iq_due :: "string option"
  iq_watchers :: "int list"

record item_update =
  iu_description :: "string option"
  iu_status :: "string option"
  iu_assigned :: "int option"
  iu_due :: "string option"
  iu_watchers :: "int list option"

text \<open>An absent or empty date is none; \<open>Inl\<close> is a date that does not parse.\<close>

definition due_date :: "string option \<Rightarrow> unit + int option" where
  "due_date due =
     (case due of
        None \<Rightarrow> Inr None
      | Some s \<Rightarrow> if s = [] then Inr None
                  else (case parse_date s of None \<Rightarrow> Inl () | Some t \<Rightarrow> Inr (Some t)))"

definition watchers_json :: "int list \<Rightarrow> json" where
  "watchers_json ws = JArr (map JInt ws)"

text \<open>The foreign key to the conversation does not look at its tenant.\<close>

definition insert_item :: "int \<Rightarrow> item_request \<Rightarrow> int option \<Rightarrow> int \<Rightarrow> action_row sql" where
  "insert_item tenant req due now =
     sql_insert action_items action_items_update ai_tenant
       (\<lambda>d r. has_key cv_id (iq_conversation req) (conversations d))
       (\<lambda>i. \<lparr>ai_id = i, ai_tenant = tenant, ai_conv = iq_conversation req, ai_desc = iq_description req,
             ai_status = (if iq_status req = [] then ''new'' else iq_status req), ai_assigned = iq_assigned req,
             ai_due = due, ai_watchers = (if iq_watchers req = [] then None else Some (watchers_json (iq_watchers req))),
             ai_created = now\<rparr>)"

definition item_event :: "string \<Rightarrow> int \<Rightarrow> json" where
  "item_event kind i = JObj [(''id'', JInt i), (''type'', JStr kind)]"

definition item_activity :: "request \<Rightarrow> int \<Rightarrow> string \<Rightarrow> json \<Rightarrow> unit act" where
  "item_activity r tenant action details =
     (case UserFromContext r of
        None \<Rightarrow> State_Monad.return ()
      | Some u \<Rightarrow> logActivity tenant u action details)"

definition notify_assignee :: "int \<Rightarrow> int option \<Rightarrow> string \<Rightarrow> string \<Rightarrow> unit act" where
  "notify_assignee tenant assignee kind content =
     (case assignee of None \<Rightarrow> State_Monad.return () | Some u \<Rightarrow> createNotification tenant u kind content)"

definition CreateActionItem :: "request \<Rightarrow> item_request option \<Rightarrow> action_row response act" where
  "CreateActionItem r body =
     (case body of
        None \<Rightarrow> State_Monad.return (Fail 400 ''invalid request'')
      | Some req \<Rightarrow>
          if iq_conversation req = 0 \<or> iq_description req = [] then
            State_Monad.return (Fail 400 ''conversation_id and description are required'')
          else case due_date (iq_due req) of
            Inl _ \<Rightarrow> State_Monad.return (Fail 400 ''due_date must be YYYY-MM-DD'')
          | Inr due \<Rightarrow> do {
              let tenant = tenantID r;
              now \<leftarrow> Now;
              made \<leftarrow> WithTenantConn tenant (Exec (insert_item tenant req due now));
              case made of
                Inl _ \<Rightarrow> State_Monad.return (Fail 500 ''failed to create action item'')
              | Inr item \<Rightarrow> do {
                  _ \<leftarrow> item_activity r tenant ''action_item.create''
                    (JObj [(''action_item_id'', JInt (ai_id item)), (''conversation_id'', JInt (ai_conv item))]);
                  _ \<leftarrow> logAudit r tenant (authUserIDPtr r) ''action_item.create'' (Some ''action_item'')
                    (Some (ai_id item)) None
                    (Some (JObj [(''conversation_id'', JInt (ai_conv item)), (''status'', JStr (ai_status item))]));
                  _ \<leftarrow> notify_assignee tenant (ai_assigned item) ''action_item.assigned''
                    ''You have been assigned a new action item.'';
                  _ \<leftarrow> HubBroadcast tenant (item_event ''action_item.create'' (ai_id item));
                  State_Monad.return (Reply 201 item)
                }
            })"

definition changed_item :: "item_update \<Rightarrow> int option \<Rightarrow> action_row \<Rightarrow> action_row" where
  "changed_item req due i =
     i\<lparr>ai_desc := coalesce (iu_description req) (ai_desc i), ai_status := coalesce (iu_status req) (ai_status i),
       ai_assigned := coalesce_null (iu_assigned req) (ai_assigned i), ai_due := coalesce_null due (ai_due i),
       ai_watchers := coalesce_null (map_option watchers_json (iu_watchers req)) (ai_watchers i)\<rparr>"

definition update_item :: "int \<Rightarrow> int \<Rightarrow> (action_row \<Rightarrow> action_row) \<Rightarrow> action_row list sql" where
  "update_item tenant item f =
     sql_update action_items action_items_update ai_tenant (\<lambda>i. ai_id i = item \<and> ai_tenant i = tenant) f"

definition first_row :: "'r list \<Rightarrow> (dberr + 'r) act" where
  "first_row rows = (case rows of [] \<Rightarrow> err NoRows | x # _ \<Rightarrow> ok x)"

definition UpdateActionItem :: "request \<Rightarrow> item_update option \<Rightarrow> int \<Rightarrow> action_row response act" where
  "UpdateActionItem r body itemID =
     (case body of
        None \<Rightarrow> State_Monad.return (Fail 400 ''invalid request'')
      | Some req \<Rightarrow>
          case due_date (iu_due req) of
            Inl _ \<Rightarrow> State_Monad.return (Fail 400 ''due_date must be YYYY-MM-DD'')
          | Inr due \<Rightarrow> do {
              let tenant = tenantID r;
              res \<leftarrow> WithTenantConn tenant (then_ok (Exec (update_item tenant itemID (changed_item req due))) first_row);
              case res of
                Inl _ \<Rightarrow> State_Monad.return (Fail 404 ''action item not found'')
              | Inr item \<Rightarrow> do {
                  _ \<leftarrow> item_activity r tenant ''action_item.update''
                    (JObj [(''action_item_id'', JInt (ai_id item)), (''conversation_id'', JInt (ai_conv item))]);
                  _ \<leftarrow> logAudit r tenant (authUserIDPtr r) ''action_item.update'' (Some ''action_item'')
                    (Some (ai_id item)) None (Some (JObj [(''status'', JStr (ai_status item))]));
                  _ \<leftarrow> notify_assignee tenant (ai_assigned item) ''action_item.reassigned''
                    ''An action item has been assigned to you.'';
                  _ \<leftarrow> HubBroadcast tenant (item_event ''action_item.update'' (ai_id item));
                  State_Monad.return (Reply 200 item)
                }
            })"

text \<open>\<open>ON DELETE CASCADE\<close> of the comments.\<close>

definition cascade_comments :: "action_row list \<Rightarrow> db \<Rightarrow> db" where
  "cascade_comments gone d =
     d\<lparr>comments := (comments d)\<lparr>tb_rows := filter (\<lambda>c. cm_item c \<notin> ai_id ` set gone) (tb_rows (comments d))\<rparr>\<rparr>"

definition delete_item :: "int \<Rightarrow> int \<Rightarrow> nat sql" where
  "delete_item tenant item =
     sql_delete action_items action_items_update ai_tenant cascade_comments
       (\<lambda>i. ai_id i = item \<and> ai_tenant i = tenant)"

definition DeleteActionItem :: "request \<Rightarrow> int \<Rightarrow> string response act" where
  "DeleteActionItem r itemID = do {
     let tenant = tenantID r;
     done \<leftarrow> WithTenantConn tenant (Exec (delete_item tenant itemID));
     case done of
       Inl _ \<Rightarrow> State_Monad.return (Fail 500 ''failed to delete action item'')
     | Inr n \<Rightarrow>
         if n = 0 then State_Monad.return (Fail 404 ''action item not found'')
         else do {
           _ \<leftarrow> item_activity r tenant ''action_item.delete'' (JObj [(''action_item_id'', JInt itemID)]);
           _ \<leftarrow> logAudit r tenant (authUserIDPtr r) ''action_item.delete'' (Some ''action_item'') (Some itemID) None None;
           _ \<leftarrow> HubBroadcast tenant (item_event ''action_item.delete'' itemID);
           State_Monad.return (Reply 200 ''deleted'')
         }
   }"

text \<open>
  \<open>ORDER BY created_at DESC\<close> without a second key: rows of the same time come in an order the
  database chooses anew for each query. \<open>srt\<close> is the order of one query, any that \<open>sorts_by\<close> allows.
\<close>

definition sorts_by :: "('r \<Rightarrow> int) \<Rightarrow> ('r list \<Rightarrow> 'r list) \<Rightarrow> bool" where
  "sorts_by key srt \<longleftrightarrow> (\<forall>xs. mset (srt xs) = mset xs \<and> sorted (map (\<lambda>r. - key r) (srt xs)))"

definition ListActionItems :: "(action_row list \<Rightarrow> action_row list) \<Rightarrow> request \<Rightarrow> action_row page response act" where
  "ListActionItems srt r = do {
     let tenant = tenantID r;
     let pl = parsePagination r;
     res \<leftarrow> WithTenantConn tenant
       (Exec (paged pl (ordered srt
          (sql_select action_items ai_tenant (\<lambda>i. ai_tenant i = tenant)))));
     State_Monad.return
       (case res of Inl _ \<Rightarrow> Fail 500 ''failed to list action items'' | Inr rows \<Rightarrow> Reply 200 (page_of pl rows))
   }"

section \<open>Comments\<close>

definition ListActionItemComments :: "request \<Rightarrow> int \<Rightarrow> comment_row list response act" where
  "ListActionItemComments r itemID = do {
     let tenant = tenantID r;
     res \<leftarrow> WithTenantConn tenant
       (Exec (sql_select comments cm_tenant (\<lambda>c. cm_tenant c = tenant \<and> cm_item c = itemID)));
     State_Monad.return
       (case res of Inl _ \<Rightarrow> Fail 500 ''failed to load comments''
        | Inr rows \<Rightarrow> Reply 200 (sort_key cm_created rows))
   }"

text \<open>The foreign keys to the item and the user do not look at a tenant.\<close>

definition insert_comment :: "int \<Rightarrow> int \<Rightarrow> int \<Rightarrow> string \<Rightarrow> int \<Rightarrow> comment_row sql" where
  "insert_comment tenant item user content now =
     sql_insert comments comments_update cm_tenant
       (\<lambda>d r. has_key ai_id item (action_items d) \<and> has_key us_id user (users d))
       (\<lambda>i. \<lparr>cm_id = i, cm_tenant = tenant, cm_item = item, cm_user = user, cm_content = content,
             cm_created = now\<rparr>)"

definition CreateActionItemComment :: "request \<Rightarrow> string option \<Rightarrow> int \<Rightarrow> comment_row response act" where
  "CreateActionItemComment r body itemID =
     (case body of
        None \<Rightarrow> State_Monad.return (Fail 400 ''invalid request'')
      | Some content \<Rightarrow>
          if content = [] then State_Monad.return (Fail 400 ''content is required'')
          else case authUserIDPtr r of
            None \<Rightarrow> State_Monad.return (Fail 401 ''unauthorized'')
          | Some user \<Rightarrow> do {
              let tenant = tenantID r;
              now \<leftarrow> Now;
              made \<leftarrow> WithTenantConn tenant (Exec (insert_comment tenant itemID user content now));
              case made of
                Inl _ \<Rightarrow> State_Monad.return (Fail 500 ''failed to add comment'')
              | Inr comment \<Rightarrow> do {
                  _ \<leftarrow> logAudit r tenant (Some user) ''comment.create'' (Some ''comment'') (Some (cm_id comment)) None
                    (Some (JObj [(''action_item_id'', JInt itemID)]));
                  State_Monad.return (Reply 201 comment)
                }
            })"

definition delete_comment :: "int \<Rightarrow> int \<Rightarrow> nat sql" where
  "delete_comment tenant comment =
     sql_delete comments comments_update cm_tenant (\<lambda>gone d. d) (\<lambda>c. cm_tenant c = tenant \<and> cm_id c = comment)"

definition DeleteComment :: "request \<Rightarrow> int \<Rightarrow> string response act" where
  "DeleteComment r commentID = do {
     let tenant = tenantID r;
     done \<leftarrow> WithTenantConn tenant
       (then_ok (Exec (delete_comment tenant commentID)) (\<lambda>n. if n = 0 then err NotFound else ok ()));
     case done of
       Inl _ \<Rightarrow> State_Monad.return (Fail 404 ''comment not found'')
     | Inr _ \<Rightarrow> do {
         _ \<leftarrow> logAudit r tenant (authUserIDPtr r) ''comment.delete'' (Some ''comment'') (Some commentID) None None;
         State_Monad.return (Reply 200 ''deleted'')
       }
   }"

section \<open>Labels\<close>

text \<open>A label's name is unique in its tenant.\<close>

definition insert_label :: "int \<Rightarrow> string \<Rightarrow> string \<Rightarrow> int \<Rightarrow> label_row sql" where
  "insert_label tenant name color now =
     sql_insert labels labels_update lb_tenant
       (\<lambda>d r. \<not> (\<exists>l \<in> set (tb_rows (labels d)). lb_tenant l = tenant \<and> lb_name l = name))
       (\<lambda>i. \<lparr>lb_id = i, lb_tenant = tenant, lb_name = name, lb_color = color, lb_created = now\<rparr>)"

definition CreateLabel :: "request \<Rightarrow> (string \<times> string) option \<Rightarrow> label_row response act" where
  "CreateLabel r body =
     (case body of
        None \<Rightarrow> State_Monad.return (Fail 400 ''invalid request'')
      | Some (name, color) \<Rightarrow>
          if name = [] \<or> color = [] then State_Monad.return (Fail 400 ''name and color are required'')
          else do {
            let tenant = tenantID r;
            now \<leftarrow> Now;
            made \<leftarrow> WithTenantConn tenant (Exec (insert_label tenant name color now));
            case made of
              Inl _ \<Rightarrow> State_Monad.return (Fail 500 ''failed to create label'')
            | Inr label \<Rightarrow> do {
                _ \<leftarrow> logAudit r tenant (authUserIDPtr r) ''label.create'' (Some ''label'') (Some (lb_id label)) None
                  (Some (JObj [(''name'', JStr (lb_name label))]));
                State_Monad.return (Reply 201 label)
              }
          })"

text \<open>The key of a labelling is the message with the label; the foreign keys do not look at a tenant.\<close>

definition attach_label :: "int \<Rightarrow> int \<Rightarrow> int \<Rightarrow> int \<Rightarrow> unit sql" where
  "attach_label tenant message label now =
     sql_insert_ignore message_labels message_labels_update ml_tenant
       (\<lambda>d r. has_key ms_id message (messages d) \<and> has_key lb_id label (labels d))
       (\<lambda>i. \<lparr>ml_msg = message, ml_label = label, ml_tenant = tenant, ml_created = now\<rparr>)
       (\<lambda>x. ml_msg x = message \<and> ml_label x = label)"

definition AddLabelToMessage :: "request \<Rightarrow> int option \<Rightarrow> int \<Rightarrow> string response act" where
  "AddLabelToMessage r body messageID =
     (case body of
        None \<Rightarrow> State_Monad.return (Fail 400 ''invalid request'')
      | Some label \<Rightarrow>
          if label = 0 then State_Monad.return (Fail 400 ''label_id is required'')
          else do {
            let tenant = tenantID r;
            now \<leftarrow> Now;
            made \<leftarrow> WithTenantConn tenant (Exec (attach_label tenant messageID label now));
            case made of
              Inl _ \<Rightarrow> State_Monad.return (Fail 500 ''failed to add label'')
            | Inr _ \<Rightarrow> do {
                _ \<leftarrow> logAudit r tenant (authUserIDPtr r) ''message.label_added'' (Some ''message'') (Some messageID) None
                  (Some (JObj [(''label_id'', JInt label)]));
                State_Monad.return (Reply 200 ''labeled'')
              }
          })"

section \<open>Isolation\<close>

context step_core
begin

lemma keeps_first_row [intro]: "state_io_rel R (first_row rows)"
  unfolding first_row_def by (cases rows) (auto intro: keeps_core)

end

lemma logActivity_item [intro]: "state_io_rel (tenant_frame t) (item_activity r t action details)"
  unfolding item_activity_def by (intro tenant.keeps_intros logActivity_tenant)

lemma items_stmts_tenant [intro]:
  "state_io_rel (tenant_frame t) (Exec (insert_notification t u k c now))"
  "state_io_rel (tenant_frame t) (Exec (mark_read t u n))"
  "state_io_rel (tenant_frame t) (Exec (insert_item t req due now))"
  "state_io_rel (tenant_frame t) (Exec (update_item t i (changed_item up due)))"
  "state_io_rel (tenant_frame t) (Exec (insert_comment t i u c now))"
  "state_io_rel (tenant_frame t) (Exec (delete_comment t n))"
  "state_io_rel (tenant_frame t) (Exec (insert_label t c k now))"
  "state_io_rel (tenant_frame t) (Exec (attach_label t i n now))"
  unfolding insert_notification_def mark_read_def insert_item_def update_item_def changed_item_def
    insert_comment_def delete_comment_def insert_label_def attach_label_def
  by (intro keeps_stmts; simp)+

lemma delete_item_tenant [intro]: "state_io_rel (tenant_frame t) (Exec (delete_item t i))"
  unfolding delete_item_def
  by (intro keeps_stmts) (simp_all add: cascade_comments_def db_frame_def shrunk_filter)

lemma items_tenant:
  "state_io_rel (tenant_frame (tenantID r)) (MarkNotificationRead r n)"
  "state_io_rel (tenant_frame (tenantID r)) (CreateActionItem r b1)"
  "state_io_rel (tenant_frame (tenantID r)) (UpdateActionItem r b2 i)"
  "state_io_rel (tenant_frame (tenantID r)) (DeleteActionItem r i)"
  "state_io_rel (tenant_frame (tenantID r)) (CreateActionItemComment r b3 i)"
  "state_io_rel (tenant_frame (tenantID r)) (DeleteComment r i)"
  "state_io_rel (tenant_frame (tenantID r)) (CreateLabel r b4)"
  "state_io_rel (tenant_frame (tenantID r)) (AddLabelToMessage r b5 i)"
  unfolding MarkNotificationRead_def CreateActionItem_def UpdateActionItem_def DeleteActionItem_def
    CreateActionItemComment_def DeleteComment_def CreateLabel_def AddLabelToMessage_def notify_assignee_def
    createNotification_def Let_def
  by (intro tenant.keeps_intros tenant.keeps_first_row items_stmts_tenant delete_item_tenant logActivity_item logAudit_tenant)+

section \<open>Paging\<close>

text \<open>The request for a page of some size.\<close>

definition page_request :: "request \<Rightarrow> int \<Rightarrow> int \<Rightarrow> request" where
  "page_request r p l =
     r\<lparr>rq_query := (\<lambda>k. if k = ''page'' then FormatInt p else if k = ''limit'' then FormatInt l else rq_query r k)\<rparr>"

lemma page_request_tenant [simp]: "tenantID (page_request r p l) = tenantID r"
  by (cases "rq_user r") (simp_all add: page_request_def tenantID_def UserFromContext_def)

lemma FormatInt_nonempty [simp]: "FormatInt i \<noteq> []"
  using nat_digits_spec by (simp add: FormatInt_def)

lemma page_request_paging:
  assumes "1 \<le> p" "is_int64 p" "1 \<le> l" "l \<le> 100"
  shows "parsePagination (page_request r p l) = (p, l)"
proof -
  have "is_int64 l" using assms(3,4) by (simp add: is_int64_def min_int64_def max_int64_def)
  with assms show ?thesis by (simp add: parsePagination_def page_request_def ParseInt_FormatInt)
qed

lemma page_offset_small:
  assumes "1 \<le> p" "0 \<le> l" "p * l \<le> max_int64" "is_int64 p"
  shows "page_offset p l = (p - 1) * l"
proof -
  have "0 \<le> (p - 1) * l" "(p - 1) * l \<le> p * l" using assms(1,2) by (simp_all add: mult_right_mono)
  then have "is_int64 ((p - 1) * l)" using assms(3) by (simp add: is_int64_def min_int64_def)
  moreover have "is_int64 (p - 1)" using assms(1,4) by (simp add: is_int64_def min_int64_def)
  ultimately show ?thesis by (simp add: page_offset_def)
qed

lemma slices_cover:
  "concat (map (\<lambda>k. take m (drop (k * m) xs)) [0..<n]) = take (n * m) xs"
  by (induction n) (simp_all add: take_add [symmetric] add.commute)

fun reply_rows :: "'r page response \<Rightarrow> 'r list" where
  "reply_rows (Reply s p) = pg_data p"
| "reply_rows (Fail s m) = []"

definition own_items :: "int \<Rightarrow> db \<Rightarrow> action_row list" where
  "own_items t d = filter (\<lambda>i. ai_tenant i = t) (tb_rows (action_items d))"

lemma list_items_run:
  assumes "w_faults w = []" "parsePagination r = (p, l)" "0 \<le> page_offset p l"
  shows "fst (run_state (ListActionItems srt r) w) = Reply 200 (page_of (p, l)
    (take (nat l) (drop (nat (page_offset p l)) (srt (own_items (tenantID r) (w_db w))))))"
proof -
  let ?q = "paged (p, l) (ordered srt (sql_select action_items ai_tenant (\<lambda>i. ai_tenant i = tenantID r)))"
  have v: "(visible ((w_sess w)\<lparr>ss_tenant := Some (tenantID r)\<rparr>) x \<and> x = tenantID r) = (x = tenantID r)" for x
    by (auto simp: visible_def)
  have "run_state (WithTenantConn (tenantID r) (Exec ?q)) w =
      (let (x, w') = run_state (Exec ?q) (w\<lparr>w_sess := (w_sess w)\<lparr>ss_tenant := Some (tenantID r)\<rparr>\<rparr>)
       in (x, w'\<lparr>w_sess := (w_sess w')\<lparr>ss_tenant := None\<rparr>\<rparr>))"
    by (rule run_WithTenantConn_quiet [OF assms(1) quiet_Exec])
  then show ?thesis
    using assms by (simp add: ListActionItems_def run_Exec_nil paged_def ordered_def sql_select_def v own_items_def Let_def)
qed

lemma sorts_by_newest: "sorts_by key (newest_first key)"
  by (simp add: sorts_by_def newest_first_def)

lemma sorts_by_unique:
  assumes "sorts_by key srt" "distinct (map key xs)"
  shows "srt xs = newest_first key xs"
proof -
  have "inj_on (\<lambda>r. - key r) (set xs)" using assms(2) by (auto simp: distinct_map inj_on_def)
  with assms(1) show ?thesis
    unfolding newest_first_def sorts_by_def by (metis sort_key_inj_key_eq)
qed

text \<open>One page, for any order of the database.\<close>

lemma one_page:
  assumes "w_faults w = []" "1 \<le> l" "l \<le> 100" "(int k + 1) * l \<le> max_int64"
  shows "reply_rows (fst (run_state (ListActionItems srt (page_request r (int k + 1) l)) w)) =
    take (nat l) (drop (k * nat l) (srt (own_items (tenantID r) (w_db w))))"
proof -
  have "int k + 1 \<le> max_int64" using assms(2,4) by (smt (verit) mult_le_cancel_left1 of_nat_0_le_iff mult.commute)
  then have "is_int64 (int k + 1)" by (simp add: is_int64_def min_int64_def)
  moreover from this assms(2,4) have "page_offset (int k + 1) l = int k * l"
    using page_offset_small [of "int k + 1" l] by simp
  moreover have "nat (int k * l) = k * nat l" using assms(2) by (simp add: nat_mult_distrib)
  ultimately show ?thesis
    using list_items_run [OF assms(1) page_request_paging [of "int k + 1" l r]] assms(2,3)
    by (simp add: page_of_def)
qed

text \<open>
  C21. Paging through the action items shows every one of them once, when no two of the tenant's
  items were created at the same time. Without faults, the pages 1 to \<open>n\<close> of a size \<open>l\<close> between 1 and
  100, put together, are the tenant's action items, the newest first, as soon as \<open>n\<close> pages have room
  for all and \<open>n * l\<close> is a 64-bit number; and this in whichever order \<open>srt k\<close> the database sorts for
  page \<open>k\<close>.
\<close>

theorem pages_cover_items:
  assumes "w_faults w = []" "1 \<le> l" "l \<le> 100" "int n * l \<le> max_int64"
    and "length (own_items (tenantID r) (w_db w)) \<le> n * nat l"
    and "distinct (map ai_created (own_items (tenantID r) (w_db w)))" "\<And>k. sorts_by ai_created (srt k)"
  shows "concat (map (\<lambda>k. reply_rows (fst (run_state (ListActionItems (srt k) (page_request r (int k + 1) l)) w))) [0..<n]) =
    newest_first ai_created (own_items (tenantID r) (w_db w))"
proof -
  let ?rows = "newest_first ai_created (own_items (tenantID r) (w_db w))"
  have page: "reply_rows (fst (run_state (ListActionItems (srt k) (page_request r (int k + 1) l)) w)) =
      take (nat l) (drop (k * nat l) ?rows)" if "k < n" for k
  proof -
    have "(int k + 1) * l \<le> max_int64"
      using that assms(2,4) by (smt (verit) mult_right_mono of_nat_less_iff)
    from one_page [OF assms(1-3) this] show ?thesis by (simp add: sorts_by_unique [OF assms(7,6)])
  qed
  have "concat (map (\<lambda>k. reply_rows (fst (run_state (ListActionItems (srt k) (page_request r (int k + 1) l)) w))) [0..<n]) =
      concat (map (\<lambda>k. take (nat l) (drop (k * nat l) ?rows)) [0..<n])"
    by (intro arg_cong [of _ _ concat] map_cong) (auto simp: page)
  also have "\<dots> = ?rows" unfolding slices_cover using assms(5) by (simp add: newest_first_def)
  finally show ?thesis .
qed

definition item_row :: "int \<Rightarrow> int \<Rightarrow> action_row" where
  "item_row i created =
     \<lparr>ai_id = i, ai_tenant = 1, ai_conv = 1, ai_desc = ''call back'', ai_status = ''new'', ai_assigned = Some 5,
      ai_due = Some 0, ai_watchers = None, ai_created = created\<rparr>"

definition item_world :: world where
  "item_world =
     (team_world ''admin'')\<lparr>w_db := (w_db (team_world ''admin''))\<lparr>action_items :=
        \<lparr>tb_rows = [item_row 1 10, item_row 2 30, item_row 3 20], tb_seq = 3\<rparr>\<rparr>\<rparr>"

theorem pages_cover_items_witness:
  "concat (map (\<lambda>k. reply_rows (fst (run_state
      (ListActionItems (newest_first ai_created) (page_request (sample_request ''GET'' ''/'') (int k + 1) 2)) item_world))) [0..<2]) =
   [item_row 2 30, item_row 3 20, item_row 1 10]"
proof -
  have t: "tenantID (sample_request ''GET'' ''/'') = 1"
    by (simp add: tenantID_def UserFromContext_def sample_request_def)
  have rows: "own_items 1 (w_db item_world) = [item_row 1 10, item_row 2 30, item_row 3 20]"
    by (simp add: own_items_def item_world_def item_row_def)
  have "w_faults item_world = []" by (simp add: item_world_def team_world_def sample_world_def)
  then show ?thesis
    using pages_cover_items [of item_world 2 2 "sample_request ''GET'' ''/''" "\<lambda>k. newest_first ai_created"]
    by (simp add: t rows sorts_by_newest) (simp add: newest_first_def item_row_def max_int64_def)
qed

text \<open>
  C40. Items of one time can be missed. The pages are ordered by the time alone, so when a tenant's
  items are two that were created at the same time, the database may order them differently for the
  two pages of one item each: then both pages show the first item, and the other one is on none.
\<close>

theorem tied_item_missed:
  assumes "w_faults w = []" "own_items (tenantID r) (w_db w) = [i, j]" "i \<noteq> j" "ai_created i = ai_created j"
  shows "\<exists>srt srt'. sorts_by ai_created srt \<and> sorts_by ai_created srt' \<and>
    reply_rows (fst (run_state (ListActionItems srt (page_request r 1 1)) w)) = [i] \<and>
    reply_rows (fst (run_state (ListActionItems srt' (page_request r 2 1)) w)) = [i]"
proof -
  define srt where "srt a b xs = (if xs = [i, j] then [a, b] else newest_first ai_created xs)" for a b xs
  have "sorts_by ai_created (srt i j)" "sorts_by ai_created (srt j i)"
    using sorts_by_newest [of ai_created] assms(4) by (auto simp: sorts_by_def srt_def)
  moreover have "reply_rows (fst (run_state (ListActionItems (srt i j) (page_request r 1 1)) w)) = [i]"
    using one_page [OF assms(1), of 1 0 "srt i j" r] by (simp add: assms(2) srt_def max_int64_def)
  moreover have "reply_rows (fst (run_state (ListActionItems (srt j i) (page_request r 2 1)) w)) = [i]"
    using one_page [OF assms(1), of 1 1 "srt j i" r] by (simp add: assms(2) srt_def max_int64_def)
  ultimately show ?thesis by blast
qed

theorem tied_item_missed_witness:
  "\<exists>srt srt' w. sorts_by ai_created srt \<and> sorts_by ai_created srt' \<and>
    own_items 1 (w_db w) = [item_row 1 10, item_row 2 10] \<and>
    reply_rows (fst (run_state (ListActionItems srt (page_request (sample_request ''GET'' ''/'') 1 1)) w)) = [item_row 1 10] \<and>
    reply_rows (fst (run_state (ListActionItems srt' (page_request (sample_request ''GET'' ''/'') 2 1)) w)) = [item_row 1 10]"
proof -
  let ?w = "item_world\<lparr>w_db := (w_db item_world)\<lparr>action_items := \<lparr>tb_rows = [item_row 1 10, item_row 2 10], tb_seq = 3\<rparr>\<rparr>\<rparr>"
  let ?r = "sample_request ''GET'' ''/''"
  have "tenantID ?r = 1" by (simp add: tenantID_def UserFromContext_def sample_request_def)
  moreover have "own_items 1 (w_db ?w) = [item_row 1 10, item_row 2 10]" by (simp add: own_items_def item_row_def)
  moreover have "w_faults ?w = []" by (simp add: item_world_def team_world_def sample_world_def)
  moreover have "item_row 1 10 \<noteq> item_row 2 10" "ai_created (item_row 1 10) = ai_created (item_row 2 10)"
    by (simp_all add: item_row_def)
  ultimately show ?thesis using tied_item_missed [of ?w ?r "item_row 1 10" "item_row 2 10"] by (metis (no_types))
qed

section \<open>Updating an item\<close>

text \<open>What the log entries of a handler leave alone.\<close>

definition logs_frame :: "world \<Rightarrow> world \<Rightarrow> bool" where
  "logs_frame w w' \<longleftrightarrow>
     w_now w' = w_now w \<and> ss_rls (w_sess w') = ss_rls (w_sess w) \<and> users (w_db w') = users (w_db w) \<and>
     notifications (w_db w') = notifications (w_db w) \<and> action_items (w_db w') = action_items (w_db w) \<and>
     messages (w_db w') = messages (w_db w) \<and> conversations (w_db w') = conversations (w_db w) \<and>
     comments (w_db w') = comments (w_db w)"

interpretation logs: frame_relation logs_frame
  by unfold_locales (auto simp: logs_frame_def)

lemma logs_kept [intro]:
  "state_io_rel logs_frame (logAudit r t uid a rt rid b c)" "state_io_rel logs_frame (item_activity r t a det)"
proof -
  have "state_io_rel logs_frame (Exec (insert_audit t uid a rt rid b c ip ua now))" for ip ua now
    by (rule logs.keeps_Exec) (simp add: insert_audit_def sql_insert_def logs_frame_def Let_def)
  then show "state_io_rel logs_frame (logAudit r t uid a rt rid b c)"
    unfolding logAudit_def by (intro logs.keeps_intros)
  have "state_io_rel logs_frame (Exec (insert_activity t' u' a det now))" for t' u' now
    by (rule logs.keeps_Exec) (simp add: insert_activity_def sql_insert_def logs_frame_def Let_def)
  then show "state_io_rel logs_frame (item_activity r t a det)"
    unfolding item_activity_def logActivity_def by (intro logs.keeps_intros)
qed

lemma logs_quiet [intro]:
  "state_io_rel no_faults (logAudit r t uid a rt rid b c)" "state_io_rel no_faults (item_activity r t a det)"
  unfolding logAudit_def item_activity_def logActivity_def by (intro quiet_exec.keeps_all)+

lemma logs_run:
  assumes "w_faults w = []" "state_io_rel no_faults m" "state_io_rel logs_frame m"
  obtains x v where "run_state m w = (x, v)" "w_faults v = []" "logs_frame w v"
proof -
  have "logs_frame w (snd (run_state m w))" using assms(3) by (simp add: state_io_rel_def)
  with quietD [OF assms(2,1)] that show ?thesis by (cases "run_state m w") simp
qed

lemma run_createNotification:
  assumes "w_faults w = []" "has_key us_id u (users (w_db w))"
  shows "\<exists>v n. run_state (createNotification t u kind content) w = ((), v) \<and> w_faults v = [] \<and>
    tb_rows (notifications (w_db v)) = tb_rows (notifications (w_db w)) @ [n] \<and> nt_user n = u \<and>
    nt_tenant n = t \<and> nt_type n = kind \<and> \<not> nt_read n \<and> action_items (w_db v) = action_items (w_db w)"
proof -
  have vis: "visible ((w_sess w)\<lparr>ss_tenant := Some t\<rparr>) t" by (simp add: visible_def)
  show ?thesis
    using assms by (simp add: createNotification_def run_WithTenantConn_quiet [OF assms(1) quiet_Exec] run_Exec_nil
        insert_notification_def sql_insert_def Let_def vis)
qed

text \<open>
  An update tells the assignee again, and cannot take a due date away. Without faults, an
  update that leaves the assignee as it is and gives an empty due date answers with the old date
  still there, and the assignee gets one more notification that the item has been assigned.
\<close>

theorem update_notifies_again:
  assumes "w_faults w = []"
    and "filter (\<lambda>x. ai_id x = i \<and> ai_tenant x = tenantID r) (tb_rows (action_items (w_db w))) = [item]"
    and "ai_assigned item = Some u" "has_key us_id u (users (w_db w))"
    and "iu_assigned req = None" "iu_due req = Some []"
  shows "\<exists>item' w' n. run_state (UpdateActionItem r (Some req) i) w = (Reply 200 item', w') \<and>
    ai_due item' = ai_due item \<and>
    tb_rows (notifications (w_db w')) = tb_rows (notifications (w_db w)) @ [n] \<and>
    nt_user n = u \<and> nt_type n = ''action_item.reassigned''"
proof -
  let ?t = "tenantID r" and ?f = "changed_item req None"
  let ?item = "?f item"
  have v: "(visible ((w_sess w)\<lparr>ss_tenant := Some ?t\<rparr>) x \<and> P \<and> x = ?t) = (P \<and> x = ?t)" for x P
    by (auto simp: visible_def)
  have cb: "state_io_rel no_faults (then_ok (Exec (update_item ?t i ?f)) first_row)"
    by (intro quiet_exec.keeps_all quiet.keeps_first_row)
  have "\<exists>w1. run_state (WithTenantConn ?t (then_ok (Exec (update_item ?t i ?f)) first_row)) w = (Inr ?item, w1) \<and>
      w_faults w1 = [] \<and> notifications (w_db w1) = notifications (w_db w) \<and> users (w_db w1) = users (w_db w)"
    unfolding run_WithTenantConn_quiet [OF assms(1) cb]
    using assms(1,2) by (simp add: run_then_ok run_Exec_nil update_item_def
        sql_update_def v first_row_def Let_def)
  then obtain w1 where up: "run_state (WithTenantConn ?t (then_ok (Exec (update_item ?t i ?f)) first_row)) w = (Inr ?item, w1)"
    and w1: "w_faults w1 = []" "notifications (w_db w1) = notifications (w_db w)" "users (w_db w1) = users (w_db w)"
    by blast
  have item: "ai_due ?item = ai_due item" "ai_assigned ?item = Some u"
    using assms(3,5) by (simp_all add: changed_item_def)
  obtain x2 w2 where a: "run_state (item_activity r ?t ''action_item.update''
      (JObj [(''action_item_id'', JInt (ai_id ?item)), (''conversation_id'', JInt (ai_conv ?item))])) w1 = (x2, w2)"
    and w2: "w_faults w2 = []" "logs_frame w1 w2"
    using logs_run [OF w1(1) logs_quiet(2) logs_kept(2)] by blast
  obtain x3 w3 where b: "run_state (logAudit r ?t (authUserIDPtr r) ''action_item.update'' (Some ''action_item'')
      (Some (ai_id ?item)) None (Some (JObj [(''status'', JStr (ai_status ?item))]))) w2 = (x3, w3)"
    and w3: "w_faults w3 = []" "logs_frame w2 w3"
    using logs_run [OF w2(1) logs_quiet(1) logs_kept(1)] by blast
  have "has_key us_id u (users (w_db w3))" using assms(4) w1(3) w2(2) w3(2) by (simp add: logs_frame_def)
  then obtain w4 n where c: "run_state (createNotification ?t u ''action_item.reassigned''
      ''An action item has been assigned to you.'') w3 = ((), w4)"
    and w4: "tb_rows (notifications (w_db w4)) = tb_rows (notifications (w_db w3)) @ [n]" "nt_user n = u"
      "nt_type n = ''action_item.reassigned''"
    using run_createNotification [OF w3(1)] by blast
  let ?w5 = "snd (run_state (HubBroadcast ?t (item_event ''action_item.update'' (ai_id ?item))) w4)"
  have "run_state (UpdateActionItem r (Some req) i) w = (Reply 200 ?item, ?w5)"
    unfolding UpdateActionItem_def Let_def option.case assms(6) due_date_def
    by (simp only: if_True refl sum.case run_state_bind up a b prod.case item(2) notify_assignee_def option.case c
        run_HubBroadcast snd_conv run_state_return simp_thms)
  moreover have "notifications (w_db ?w5) = notifications (w_db w4)" by (simp add: run_HubBroadcast)
  moreover have "notifications (w_db w3) = notifications (w_db w)"
    using w1(2) w2(2) w3(2) by (simp add: logs_frame_def)
  ultimately show ?thesis using item(1) w4 by metis
qed

theorem update_notifies_again_witness:
  "\<exists>item' w' n. run_state (UpdateActionItem (sample_request ''PUT'' ''/'') (Some \<lparr>iu_description = None, iu_status = None,
      iu_assigned = None, iu_due = Some [], iu_watchers = None\<rparr>) 1)
        (item_world\<lparr>w_db := (w_db item_world)\<lparr>users := \<lparr>tb_rows = [\<lparr>us_id = 5, us_email = [], us_hash = [], us_tenant = 1,
           us_created = 0, us_updated = 0\<rparr>], tb_seq = 5\<rparr>\<rparr>\<rparr>) = (Reply 200 item', w') \<and>
    ai_due item' = Some 0 \<and> tb_rows (notifications (w_db w')) = [n] \<and> nt_user n = 5 \<and>
    nt_type n = ''action_item.reassigned''"
proof -
  let ?w = "item_world\<lparr>w_db := (w_db item_world)\<lparr>users := \<lparr>tb_rows = [\<lparr>us_id = 5, us_email = [], us_hash = [], us_tenant = 1,
           us_created = 0, us_updated = 0\<rparr>], tb_seq = 5\<rparr>\<rparr>\<rparr>"
  have t: "tenantID (sample_request ''PUT'' ''/'') = 1"
    by (simp add: tenantID_def UserFromContext_def sample_request_def)
  have "w_faults ?w = []" by (simp add: item_world_def team_world_def sample_world_def)
  moreover have "filter (\<lambda>x. ai_id x = 1 \<and> ai_tenant x = 1) (tb_rows (action_items (w_db ?w))) = [item_row 1 10]"
    by (simp add: item_world_def item_row_def)
  moreover have "tb_rows (notifications (w_db ?w)) = []"
    by (simp add: item_world_def team_world_def sample_world_def empty_db_def)
  ultimately show ?thesis
    using update_notifies_again [of ?w 1 "sample_request ''PUT'' ''/''" "item_row 1 10" 5
        "\<lparr>iu_description = None, iu_status = None, iu_assigned = None, iu_due = Some [], iu_watchers = None\<rparr>"]
    by (simp add: t item_row_def has_key_def)
qed

end
