(* ===== verification/Workflows.thy ===== *)
theory Workflows
  imports Items
begin

text \<open>
  Workflows and their executions: \<open>backend/internal/handlers/workflows.go\<close>. The executions have no
  tenant column; their row-level policy looks at the tenant of their workflow. The actions are the
  text of a JSON value.
\<close>

record workflow_request =
  wq_name :: string
  wq_trigger :: string
  wq_actions :: string
  wq_enabled :: "bool option"

section \<open>Workflows\<close>

definition insert_workflow :: "int \<Rightarrow> workflow_request \<Rightarrow> int \<Rightarrow> workflow_row sql" where
  "insert_workflow tenant req now =
     sql_insert workflows workflows_update wf_tenant (\<lambda>d r. True)
       (\<lambda>i. \<lparr>wf_id = i, wf_tenant = tenant, wf_name = wq_name req, wf_trigger = wq_trigger req,
             wf_actions = wq_actions req, wf_enabled = coalesce (wq_enabled req) True, wf_created = now,
             wf_updated = now\<rparr>)"

definition CreateWorkflow :: "request \<Rightarrow> workflow_request option \<Rightarrow> workflow_row response act" where
  "CreateWorkflow r body =
     (case body of
        None \<Rightarrow> State_Monad.return (Fail 400 ''invalid request'')
      | Some req \<Rightarrow>
          if wq_name req = [] \<or> wq_trigger req = [] \<or> wq_actions req = [] then
            State_Monad.return (Fail 400 ''name, trigger, and actions are required'')
          else do {
            let tenant = tenantID r;
            now \<leftarrow> Now;
            made \<leftarrow> WithTenantConn tenant (Exec (insert_workflow tenant req now));
            case made of
              Inl _ \<Rightarrow> State_Monad.return (Fail 500 ''failed to create workflow'')
            | Inr x \<Rightarrow> do {
                _ \<leftarrow> logAudit r tenant (authUserIDPtr r) ''workflow.create'' (Some ''workflow'') (Some (wf_id x)) None
                  (Some (JObj [(''name'', JStr (wf_name x))]));
                State_Monad.return (Reply 201 x)
              }
          })"

definition ListWorkflows :: "request \<Rightarrow> workflow_row list response act" where
  "ListWorkflows r = do {
     let tenant = tenantID r;
     res \<leftarrow> WithTenantConn tenant (Exec (sql_select workflows wf_tenant (\<lambda>x. wf_tenant x = tenant)));
     State_Monad.return
       (case res of Inl _ \<Rightarrow> Fail 500 ''failed to list workflows''
        | Inr rows \<Rightarrow> Reply 200 (newest_first wf_created rows))
   }"

definition changed_workflow :: "workflow_request \<Rightarrow> int \<Rightarrow> workflow_row \<Rightarrow> workflow_row" where
  "changed_workflow req now x =
     x\<lparr>wf_name := coalesce (nullif_empty (wq_name req)) (wf_name x),
       wf_trigger := coalesce (nullif_empty (wq_trigger req)) (wf_trigger x),
       wf_actions := coalesce (nullif_empty (wq_actions req)) (wf_actions x),
       wf_enabled := coalesce (wq_enabled req) (wf_enabled x), wf_updated := now\<rparr>"

text \<open>
  The statement has \<open>COALESCE(NULLIF($3, ''), actions_json)\<close>, of a text and a JSONB column.
  \<open>mixes\<close> says whether the server accepts such a \<open>COALESCE\<close>; PostgreSQL refuses it.
\<close>

definition update_workflow :: "bool \<Rightarrow> int \<Rightarrow> int \<Rightarrow> (workflow_row \<Rightarrow> workflow_row) \<Rightarrow> workflow_row list sql" where
  "update_workflow mixes tenant wid f s d =
     (if mixes then sql_update workflows workflows_update wf_tenant (\<lambda>x. wf_tenant x = tenant \<and> wf_id x = wid) f s d
      else (Inl Violation, d))"

definition UpdateWorkflow :: "bool \<Rightarrow> request \<Rightarrow> workflow_request option \<Rightarrow> int \<Rightarrow> workflow_row response act" where
  "UpdateWorkflow mixes r body wid =
     (case body of
        None \<Rightarrow> State_Monad.return (Fail 400 ''invalid request'')
      | Some req \<Rightarrow> do {
          let tenant = tenantID r;
          now \<leftarrow> Now;
          res \<leftarrow> WithTenantConn tenant
            (then_ok (Exec (update_workflow mixes tenant wid (changed_workflow req now))) first_row);
          case res of
            Inl _ \<Rightarrow> State_Monad.return (Fail 404 ''workflow not found'')
          | Inr x \<Rightarrow> do {
              _ \<leftarrow> logAudit r tenant (authUserIDPtr r) ''workflow.update'' (Some ''workflow'') (Some wid) None
                (Some (JObj [(''name'', JStr (wf_name x))]));
              State_Monad.return (Reply 200 x)
            }
        })"

definition cascade_executions :: "workflow_row list \<Rightarrow> db \<Rightarrow> db" where
  "cascade_executions gone d =
     d\<lparr>workflow_executions := (workflow_executions d)\<lparr>tb_rows :=
        filter (\<lambda>e. we_workflow e \<notin> wf_id ` set gone) (tb_rows (workflow_executions d))\<rparr>\<rparr>"

definition delete_workflow :: "int \<Rightarrow> int \<Rightarrow> nat sql" where
  "delete_workflow tenant wid =
     sql_delete workflows workflows_update wf_tenant cascade_executions (\<lambda>x. wf_tenant x = tenant \<and> wf_id x = wid)"

definition DeleteWorkflow :: "request \<Rightarrow> int \<Rightarrow> string response act" where
  "DeleteWorkflow r wid = do {
     let tenant = tenantID r;
     done \<leftarrow> WithTenantConn tenant
       (then_ok (Exec (delete_workflow tenant wid)) (\<lambda>n. if n = 0 then err NotFound else ok ()));
     case done of
       Inl _ \<Rightarrow> State_Monad.return (Fail 404 ''workflow not found'')
     | Inr _ \<Rightarrow> do {
         _ \<leftarrow> logAudit r tenant (authUserIDPtr r) ''workflow.delete'' (Some ''workflow'') (Some wid) None None;
         State_Monad.return (Reply 200 ''deleted'')
       }
   }"

section \<open>Executions\<close>

text \<open>The policy: the workflow is one of the session's tenant.\<close>

definition run_visible :: "session \<Rightarrow> db \<Rightarrow> int \<Rightarrow> bool" where
  "run_visible s d wid \<longleftrightarrow>
     (ss_rls s \<longrightarrow> (\<exists>x \<in> set (tb_rows (workflows d)). wf_id x = wid \<and> ss_tenant s = Some (wf_tenant x)))"

definition insert_execution :: "int \<Rightarrow> int \<Rightarrow> execution_row sql" where
  "insert_execution wid now s d =
     (let i = tb_seq (workflow_executions d) + 1;
          e = \<lparr>we_id = i, we_workflow = wid, we_time = now, we_success = True, we_error = None, we_created = now\<rparr>
      in if run_visible s d wid \<and> has_key wf_id wid (workflows d)
         then (Inr e, workflow_executions_update (\<lambda>t. t\<lparr>tb_rows := tb_rows t @ [e], tb_seq := i\<rparr>) d)
         else (Inl Violation, workflow_executions_update (\<lambda>t. t\<lparr>tb_seq := i\<rparr>) d))"

definition TestWorkflow :: "request \<Rightarrow> int \<Rightarrow> execution_row response act" where
  "TestWorkflow r wid = do {
     let tenant = tenantID r;
     now \<leftarrow> Now;
     made \<leftarrow> WithTenantConn tenant (Exec (insert_execution wid now));
     case made of
       Inl _ \<Rightarrow> State_Monad.return (Fail 500 ''failed to test workflow'')
     | Inr e \<Rightarrow> do {
         _ \<leftarrow> logAudit r tenant (authUserIDPtr r) ''workflow.test'' (Some ''workflow'') (Some wid) None
           (Some (JObj [(''execution_id'', JInt (we_id e))]));
         State_Monad.return (Reply 200 e)
       }
   }"

definition executions_of :: "int \<Rightarrow> execution_row list sql" where
  "executions_of wid s d =
     (Inr (take 50 (newest_first we_time
        (filter (\<lambda>e. run_visible s d (we_workflow e) \<and> we_workflow e = wid) (tb_rows (workflow_executions d))))), d)"

definition GetWorkflowExecutions :: "request \<Rightarrow> int \<Rightarrow> execution_row list response act" where
  "GetWorkflowExecutions r wid = do {
     let tenant = tenantID r;
     res \<leftarrow> WithTenantConn tenant (Exec (executions_of wid));
     State_Monad.return
       (case res of Inl _ \<Rightarrow> Fail 500 ''failed to load executions'' | Inr rows \<Rightarrow> Reply 200 rows)
   }"

section \<open>Isolation\<close>

lemma workflow_stmts_tenant [intro]:
  "state_io_rel (tenant_frame t) (Exec (insert_workflow t req now))"
  "state_io_rel (tenant_frame t) (Exec (update_workflow mixes t wid (changed_workflow req now)))"
  "state_io_rel (tenant_frame t) (Exec (delete_workflow t wid))"
  "state_io_rel (tenant_frame t) (Exec (insert_execution wid now))"
  "state_io_rel (tenant_frame t) (Exec (executions_of wid))"
proof -
  show "state_io_rel (tenant_frame t) (Exec (insert_workflow t req now))"
    unfolding insert_workflow_def by (intro keeps_stmts) simp
  show "state_io_rel (tenant_frame t) (Exec (delete_workflow t wid))"
    unfolding delete_workflow_def by (intro keeps_stmts) (simp_all add: cascade_executions_def db_frame_def)
  have "state_io_rel (tenant_frame t) (Exec (sql_update workflows workflows_update wf_tenant
      (\<lambda>x. wf_tenant x = t \<and> wf_id x = wid) (changed_workflow req now)))"
    by (intro keeps_stmts) (simp_all add: changed_workflow_def)
  moreover have "update_workflow False t wid f = (\<lambda>s d. (Inl Violation, d))" for f
    by (simp add: update_workflow_def fun_eq_iff)
  moreover have "update_workflow True t wid f = sql_update workflows workflows_update wf_tenant
      (\<lambda>x. wf_tenant x = t \<and> wf_id x = wid) f" for f
    by (simp add: update_workflow_def fun_eq_iff)
  ultimately show "state_io_rel (tenant_frame t) (Exec (update_workflow mixes t wid (changed_workflow req now)))"
    by (cases mixes) (auto intro: tenant.keeps_Exec simp: tenant_frame_def)
  show "state_io_rel (tenant_frame t) (Exec (insert_execution wid now))"
    by (rule tenant.keeps_Exec) (simp add: insert_execution_def tenant_frame_def db_frame_def Let_def)
  show "state_io_rel (tenant_frame t) (Exec (executions_of wid))"
    by (rule tenant.keeps_Exec) (simp add: executions_of_def tenant_frame_def)
qed

lemma workflows_tenant:
  "state_io_rel (tenant_frame (tenantID r)) (CreateWorkflow r body)"
  "state_io_rel (tenant_frame (tenantID r)) (UpdateWorkflow mixes r body wid)"
  "state_io_rel (tenant_frame (tenantID r)) (DeleteWorkflow r wid)"
  "state_io_rel (tenant_frame (tenantID r)) (TestWorkflow r wid)"
  unfolding CreateWorkflow_def UpdateWorkflow_def DeleteWorkflow_def TestWorkflow_def Let_def
  by (intro tenant.keeps_intros tenant.keeps_first_row workflow_stmts_tenant logAudit_tenant)+

section \<open>Updating a workflow\<close>

text \<open>
  No workflow can be changed. On a server that refuses to mix a text and a JSONB value in a
  \<open>COALESCE\<close>, as PostgreSQL does, every update with a readable body is answered with 404 and
  leaves the workflows as they are, whatever the request, the state and the faults.
\<close>

theorem workflow_update_always_404:
  "fst (run_state (UpdateWorkflow False r (Some req) wid) w) = Fail 404 ''workflow not found'' \<and>
   w_db (snd (run_state (UpdateWorkflow False r (Some req) wid) w)) = w_db w"
proof -
  have "WithTenantConn (tenantID r) (then_ok (Exec (update_workflow False (tenantID r) wid f)) first_row) =
      (WithTenantConn (tenantID r) (then_ok (Exec (\<lambda>s d. (Inl Violation, d))) first_row) :: (dberr + workflow_row) act)" for f
    by (rule arg_cong [of _ _ "\<lambda>q. WithTenantConn _ (then_ok (Exec q) first_row)"])
      (simp add: update_workflow_def fun_eq_iff)
  moreover have "\<exists>e v. run_state (WithTenantConn (tenantID r) (then_ok (Exec (\<lambda>s d. (Inl Violation, d))) first_row) ::
      (dberr + workflow_row) act) w = (Inl e, v) \<and> w_db v = w_db w"
    by (auto simp: WithTenantConn_def Acquire_def SetTenant_def Exec_def faulty_def then_ok_def split: list.split)
  ultimately show ?thesis by (auto simp: UpdateWorkflow_def Let_def)
qed

section \<open>Running a workflow of another tenant\<close>

definition runs_frame :: "world \<Rightarrow> world \<Rightarrow> bool" where
  "runs_frame w w' \<longleftrightarrow> workflow_executions (w_db w') = workflow_executions (w_db w)"

interpretation runs: frame_relation runs_frame
  by unfold_locales (auto simp: runs_frame_def)

lemma audit_runs: "state_io_rel runs_frame (logAudit r t uid a rt rid b c)"
proof -
  have "state_io_rel runs_frame (Exec (insert_audit t uid a rt rid b c ip ua now))" for ip ua now
    by (rule runs.keeps_Exec) (simp add: insert_audit_def sql_insert_def runs_frame_def Let_def)
  then show ?thesis unfolding logAudit_def by (intro runs.keeps_intros)
qed

text \<open>
  C35. Only the row-level policy keeps the executions apart. Without faults, \<open>TestWorkflow\<close> on a
  workflow that exists records an execution of it, whoever owns the workflow, unless the database
  applies its policies and the workflow belongs to another tenant; then the request fails and the
  executions stay as they are.
\<close>

theorem executions_follow_policy:
  assumes "w_faults w = []" "distinct (map wf_id (tb_rows (workflows (w_db w))))"
    and "x \<in> set (tb_rows (workflows (w_db w)))" "wf_id x = wid"
  shows "if ss_rls (w_sess w) \<and> wf_tenant x \<noteq> tenantID r
    then fst (run_state (TestWorkflow r wid) w) = Fail 500 ''failed to test workflow'' \<and>
      tb_rows (workflow_executions (w_db (snd (run_state (TestWorkflow r wid) w)))) =
        tb_rows (workflow_executions (w_db w))
    else \<exists>e. fst (run_state (TestWorkflow r wid) w) = Reply 200 e \<and> we_workflow e = wid \<and>
      tb_rows (workflow_executions (w_db (snd (run_state (TestWorkflow r wid) w)))) =
        tb_rows (workflow_executions (w_db w)) @ [e]"
proof -
  let ?t = "tenantID r"
  let ?s = "(w_sess w)\<lparr>ss_tenant := Some ?t\<rparr>"
  have key: "has_key wf_id wid (workflows (w_db w))" using assms(3,4) by (auto simp: has_key_def)
  have owner: "wf_tenant y = wf_tenant x" if "y \<in> set (tb_rows (workflows (w_db w)))" "wf_id y = wid" for y
    using distinct_map_unique [OF assms(2) that(1) assms(3)] that(2) assms(4) by simp
  have "(\<exists>y \<in> set (tb_rows (workflows (w_db w))). wf_id y = wid \<and> ?t = wf_tenant y) \<longleftrightarrow> wf_tenant x = ?t"
    using owner assms(3,4) by metis
  then have vis: "run_visible ?s (w_db w) wid \<longleftrightarrow> \<not> (ss_rls (w_sess w) \<and> wf_tenant x \<noteq> ?t)"
    by (simp add: run_visible_def)
  note conn = run_WithTenantConn_quiet [OF assms(1) quiet_Exec, where t = ?t]
  show ?thesis
  proof (cases "ss_rls (w_sess w) \<and> wf_tenant x \<noteq> ?t")
    case True
    then show ?thesis
      using vis assms(1) by (simp add: TestWorkflow_def Let_def conn run_Exec_nil insert_execution_def)
  next
    case False
    let ?e = "\<lparr>we_id = tb_seq (workflow_executions (w_db w)) + 1, we_workflow = wid, we_time = w_now w,
      we_success = True, we_error = None, we_created = w_now w\<rparr>"
    obtain v where made: "run_state (WithTenantConn ?t (Exec (insert_execution wid (w_now w)))) w = (Inr ?e, v)"
      and v: "tb_rows (workflow_executions (w_db v)) = tb_rows (workflow_executions (w_db w)) @ [?e]"
      using False vis key assms(1) by (simp add: conn run_Exec_nil insert_execution_def Let_def)
    have kept: "workflow_executions (w_db (snd (run_state (logAudit r ?t uid a rt rid b c) v))) =
        workflow_executions (w_db v)" for uid a rt rid b c
      using audit_runs by (auto simp: state_io_rel_def runs_frame_def)
    have "run_state (TestWorkflow r wid) w = (Reply 200 ?e, snd (run_state (logAudit r ?t (authUserIDPtr r)
        ''workflow.test'' (Some ''workflow'') (Some wid) None (Some (JObj [(''execution_id'', JInt (we_id ?e))]))) v))"
      by (simp add: TestWorkflow_def Let_def made split_beta)
    then show ?thesis unfolding if_not_P [OF False] by (intro exI [of _ ?e]) (simp add: kept v)
  qed
qed

definition workflow_world :: "bool \<Rightarrow> world" where
  "workflow_world rls =
     (team_world ''admin'')\<lparr>w_db := (w_db (team_world ''admin''))\<lparr>workflows :=
        \<lparr>tb_rows = [\<lparr>wf_id = 4, wf_tenant = 9, wf_name = ''w'', wf_trigger = ''t'', wf_actions = ''[]'', wf_enabled = True,
           wf_created = 0, wf_updated = 0\<rparr>], tb_seq = 4\<rparr>\<rparr>, w_sess := \<lparr>ss_tenant = None, ss_rls = rls\<rparr>\<rparr>"

theorem executions_follow_policy_witness:
  "fst (run_state (TestWorkflow (sample_request ''POST'' ''/'') 4) (workflow_world True)) =
     Fail 500 ''failed to test workflow'' \<and>
   (\<exists>e. fst (run_state (TestWorkflow (sample_request ''POST'' ''/'') 4) (workflow_world False)) = Reply 200 e)"
proof -
  let ?x = "\<lparr>wf_id = 4, wf_tenant = 9, wf_name = ''w'', wf_trigger = ''t'', wf_actions = ''[]'', wf_enabled = True,
     wf_created = 0, wf_updated = 0\<rparr>"
  have t: "tenantID (sample_request ''POST'' ''/'') = 1"
    by (simp add: tenantID_def UserFromContext_def sample_request_def)
  have w: "w_faults (workflow_world rls) = []" "tb_rows (workflows (w_db (workflow_world rls))) = [?x]"
    "ss_rls (w_sess (workflow_world rls)) = rls" for rls
    by (simp_all add: workflow_world_def team_world_def sample_world_def)
  have "?x \<in> set (tb_rows (workflows (w_db (workflow_world rls))))" for rls by (simp add: w)
  then show ?thesis
    using executions_follow_policy [of "workflow_world True" ?x 4 "sample_request ''POST'' ''/''"]
      executions_follow_policy [of "workflow_world False" ?x 4 "sample_request ''POST'' ''/''"]
    by (auto simp: t w)
qed

end
