(* ===== verification/Integrations.thy ===== *)
theory Integrations
  imports Items
begin

text \<open>
  Integrations and incoming webhooks (\<open>backend/internal/handlers/integrations.go\<close>) and the query
  of the audit log (\<open>audit.go\<close>). HMAC-SHA256 is a parameter: \<open>mac secret payload\<close>.
\<close>

section \<open>Integrations\<close>

definition upsert_integration ::
    "int \<Rightarrow> string \<Rightarrow> (string \<times> json) list \<Rightarrow> int \<Rightarrow> integration_row sql" where
  "upsert_integration tenant itype config now =
     sql_upsert integrations integrations_update ig_tenant (\<lambda>d r. True)
       (\<lambda>i. \<lparr>ig_id = i, ig_tenant = tenant, ig_type = itype, ig_config = JObj config, ig_status = ''active'',
             ig_created = now, ig_updated = now\<rparr>)
       (\<lambda>x. ig_tenant x = tenant \<and> ig_type x = itype)
       (\<lambda>x. x\<lparr>ig_config := JObj config, ig_status := ''active'', ig_updated := now\<rparr>)"

definition ConnectIntegration ::
    "request \<Rightarrow> (string \<times> json) list option \<Rightarrow> string \<Rightarrow> integration_row response act" where
  "ConnectIntegration r body itype =
     (case body of
        None \<Rightarrow> State_Monad.return (Fail 400 ''invalid request'')
      | Some config \<Rightarrow>
          if config = [] then State_Monad.return (Fail 400 ''config is required'')
          else do {
            let tenant = tenantID r;
            now \<leftarrow> Now;
            made \<leftarrow> WithTenantConn tenant (Exec (upsert_integration tenant itype config now));
            case made of
              Inl _ \<Rightarrow> State_Monad.return (Fail 500 ''failed to connect integration'')
            | Inr x \<Rightarrow> do {
                _ \<leftarrow> logAudit r tenant (authUserIDPtr r) ''integration.connected'' (Some ''integration'')
                  (Some (ig_id x)) None (Some (JObj [(''type'', JStr itype)]));
                State_Monad.return (Reply 201 x)
              }
          })"

definition ListIntegrations :: "request \<Rightarrow> integration_row list response act" where
  "ListIntegrations r = do {
     let tenant = tenantID r;
     res \<leftarrow> WithTenantConn tenant (Exec (sql_select integrations ig_tenant (\<lambda>x. ig_tenant x = tenant)));
     State_Monad.return
       (case res of Inl _ \<Rightarrow> Fail 500 ''failed to list integrations''
        | Inr rows \<Rightarrow> Reply 200 (newest_first ig_created rows))
   }"

definition GetIntegrationConfig :: "request \<Rightarrow> int \<Rightarrow> integration_row response act" where
  "GetIntegrationConfig r iid = do {
     let tenant = tenantID r;
     res \<leftarrow> WithTenantConn tenant
       (Exec (sql_row integrations ig_tenant (\<lambda>x. ig_tenant x = tenant \<and> ig_id x = iid)));
     State_Monad.return (case res of Inl _ \<Rightarrow> Fail 404 ''integration not found'' | Inr x \<Rightarrow> Reply 200 x)
   }"

definition delete_integration :: "int \<Rightarrow> int \<Rightarrow> nat sql" where
  "delete_integration tenant iid =
     sql_delete integrations integrations_update ig_tenant (\<lambda>gone d. d) (\<lambda>x. ig_tenant x = tenant \<and> ig_id x = iid)"

definition DisconnectIntegration :: "request \<Rightarrow> int \<Rightarrow> string response act" where
  "DisconnectIntegration r iid = do {
     let tenant = tenantID r;
     done \<leftarrow> WithTenantConn tenant
       (then_ok (Exec (delete_integration tenant iid)) (\<lambda>n. if n = 0 then err NotFound else ok ()));
     case done of
       Inl _ \<Rightarrow> State_Monad.return (Fail 404 ''integration not found'')
     | Inr _ \<Rightarrow> do {
         _ \<leftarrow> logAudit r tenant (authUserIDPtr r) ''integration.disconnected'' (Some ''integration'') (Some iid) None None;
         State_Monad.return (Reply 200 ''deleted'')
       }
   }"

section \<open>Webhooks\<close>

definition verifyHMAC :: "(bytes \<Rightarrow> bytes \<Rightarrow> bytes) \<Rightarrow> bytes \<Rightarrow> string \<Rightarrow> string \<Rightarrow> bool" where
  "verifyHMAC mac payload signature secret \<longleftrightarrow> signature = hex_encode (mac (bytes_of secret) payload)"

text \<open>The secret of a configuration; anything but a text under \<open>secret\<close> is none.\<close>

definition secret_of :: "json \<Rightarrow> string" where
  "secret_of config =
     (case config of
        JObj kvs \<Rightarrow> (case map_of kvs ''secret'' of Some (JStr s) \<Rightarrow> s | _ \<Rightarrow> [])
      | _ \<Rightarrow> [])"

text \<open>The webhook integration that was updated last.\<close>

definition webhook_row :: "int \<Rightarrow> integration_row sql" where
  "webhook_row tenant s d =
     (case first_of (newest_first ig_updated
        (filter (\<lambda>x. visible s (ig_tenant x) \<and> ig_tenant x = tenant \<and> ig_type x = ''webhook'') (tb_rows (integrations d)))) of
        None \<Rightarrow> (Inl NoRows, d) | Some x \<Rightarrow> (Inr x, d))"

definition lookupWebhookSecret :: "int \<Rightarrow> (dberr + string) act" where
  "lookupWebhookSecret tenant =
     WithTenantConn tenant (then_ok (Exec (webhook_row tenant)) (\<lambda>x. ok (secret_of (ig_config x))))"

definition ReceiveWebhook :: "(bytes \<Rightarrow> bytes \<Rightarrow> bytes) \<Rightarrow> request \<Rightarrow> bytes option \<Rightarrow> string response act" where
  "ReceiveWebhook mac r body =
     (case body of
        None \<Rightarrow> State_Monad.return (Fail 400 ''invalid payload'')
      | Some payload \<Rightarrow> do {
          let tenant = tenantID r;
          found \<leftarrow> lookupWebhookSecret tenant;
          case found of
            Inl _ \<Rightarrow> State_Monad.return (Fail 500 ''webhook not configured'')
          | Inr secret \<Rightarrow>
              let signature = rq_header r ''X-Webhook-Signature''
              in if secret \<noteq> [] \<and> (signature = [] \<or> \<not> verifyHMAC mac payload signature secret) then
                   State_Monad.return (Fail 401 ''invalid signature'')
                 else do {
                   _ \<leftarrow> logAudit r tenant (authUserIDPtr r) ''webhook.received'' (Some ''webhook'') None None
                     (Some (JObj [(''size'', JInt (int (length payload)))]));
                   State_Monad.return (Reply 200 ''received'')
                 }
        })"

section \<open>Querying the audit log\<close>

record audit_query =
  qy_user :: "int option"
  qy_action :: "string option"
  qy_resource :: "string option"
  qy_start :: "string option"
  qy_end :: "string option"
  qy_limit :: "int option"

text \<open>A date that is absent, empty or unreadable is no bound; the last day is included.\<close>

definition query_day :: "string option \<Rightarrow> int option" where
  "query_day day = (case day of None \<Rightarrow> None | Some s \<Rightarrow> if s = [] then None else parse_date s)"

definition audit_limit :: "int option \<Rightarrow> int" where
  "audit_limit most = (case most of None \<Rightarrow> 100 | Some l \<Rightarrow> if l > 0 \<and> l \<le> 500 then l else 100)"

definition unless_null :: "'a option \<Rightarrow> ('a \<Rightarrow> bool) \<Rightarrow> bool" where
  "unless_null p P = (case p of None \<Rightarrow> True | Some x \<Rightarrow> P x)"

definition audit_matches :: "audit_query \<Rightarrow> audit_row \<Rightarrow> bool" where
  "audit_matches q a \<longleftrightarrow>
     unless_null (qy_user q) (\<lambda>u. au_user a = Some u) \<and> unless_null (qy_action q) (\<lambda>x. au_action a = x) \<and>
     unless_null (qy_resource q) (\<lambda>x. au_rtype a = Some x) \<and>
     unless_null (query_day (qy_start q)) (\<lambda>t. au_created a \<ge> t) \<and>
     unless_null (query_day (qy_end q)) (\<lambda>t. au_created a < t + nanos_per_day)"

definition GetAuditLogs :: "request \<Rightarrow> audit_query option \<Rightarrow> audit_row list response act" where
  "GetAuditLogs r body =
     (case body of
        None \<Rightarrow> State_Monad.return (Fail 400 ''invalid request'')
      | Some q \<Rightarrow> do {
          let tenant = tenantID r;
          res \<leftarrow> WithTenantConn tenant
            (Exec (sql_select audit_logs au_tenant (\<lambda>a. au_tenant a = tenant \<and> audit_matches q a)));
          State_Monad.return
            (case res of
               Inl _ \<Rightarrow> Fail 500 ''failed to load audit logs''
             | Inr rows \<Rightarrow> Reply 200 (take (nat (audit_limit (qy_limit q))) (newest_first au_created rows)))
        })"

section \<open>Isolation\<close>

lemma integration_stmts_tenant [intro]:
  "state_io_rel (tenant_frame t) (Exec (upsert_integration t k c now))"
  "state_io_rel (tenant_frame t) (Exec (delete_integration t i))"
  unfolding upsert_integration_def delete_integration_def by (intro keeps_stmts; simp)+

lemma webhook_row_tenant [intro]: "state_io_rel (tenant_frame t) (Exec (webhook_row t))"
  by (rule tenant.keeps_Exec) (simp add: webhook_row_def tenant_frame_def split: option.split)

lemma integrations_tenant:
  "state_io_rel (tenant_frame (tenantID r)) (ConnectIntegration r body k)"
  "state_io_rel (tenant_frame (tenantID r)) (DisconnectIntegration r i)"
  "state_io_rel (tenant_frame (tenantID r)) (ReceiveWebhook mac r payload)"
  unfolding ConnectIntegration_def DisconnectIntegration_def ReceiveWebhook_def lookupWebhookSecret_def Let_def
  by (intro tenant.keeps_intros integration_stmts_tenant webhook_row_tenant logAudit_tenant)+

section \<open>Who may deliver a webhook\<close>

definition webhook_of :: "int \<Rightarrow> db \<Rightarrow> integration_row option" where
  "webhook_of t d = first_of (newest_first ig_updated
     (filter (\<lambda>x. ig_tenant x = t \<and> ig_type x = ''webhook'') (tb_rows (integrations d))))"

lemma lookup_run:
  assumes "w_faults w = []"
  shows "\<exists>v. run_state (lookupWebhookSecret t) w =
      ((case webhook_of t (w_db w) of None \<Rightarrow> Inl NoRows | Some x \<Rightarrow> Inr (secret_of (ig_config x))), v) \<and>
    w_faults v = [] \<and> w_db v = w_db w"
proof -
  have q: "state_io_rel no_faults (then_ok (Exec (webhook_row t)) (\<lambda>x. ok (secret_of (ig_config x))))"
    by (intro quiet_exec.keeps_all)
  have v: "(visible ((w_sess w)\<lparr>ss_tenant := Some t\<rparr>) x \<and> x = t \<and> P) = (x = t \<and> P)" for x P
    by (auto simp: visible_def)
  show ?thesis
    unfolding lookupWebhookSecret_def run_WithTenantConn_quiet [OF assms q]
    using assms by (simp add: run_then_ok run_Exec_nil webhook_row_def v webhook_of_def split: option.split)
qed

lemma run_audit:
  assumes "w_faults w = []"
  shows "\<exists>v a. run_state (logAudit r t uid act rt rid b c) w = ((), v) \<and>
    tb_rows (audit_logs (w_db v)) = tb_rows (audit_logs (w_db w)) @ [a] \<and> au_tenant a = t \<and> au_action a = act"
proof -
  have vis: "visible ((w_sess w)\<lparr>ss_tenant := Some t\<rparr>) t" by (simp add: visible_def)
  show ?thesis
    using assms by (simp add: logAudit_def run_WithTenantConn_quiet [OF assms quiet_Exec] run_Exec_nil
        insert_audit_def sql_insert_def Let_def vis)
qed

text \<open>
  C18. Who may deliver a webhook. Without faults, a tenant without a webhook integration gets 500; with
  one whose configuration has a secret, a payload is accepted exactly when the signature is the hex
  of the HMAC of the payload under that secret (which is not empty), and 401 otherwise; with one
  that has no secret every payload is accepted. An accepted payload leaves one audit entry, a
  refused one leaves the database as it is.
\<close>

theorem webhook_acceptance:
  assumes "w_faults w = []"
  shows "\<exists>w'. run_state (ReceiveWebhook mac r (Some payload)) w =
      ((case webhook_of (tenantID r) (w_db w) of
          None \<Rightarrow> Fail 500 ''webhook not configured''
        | Some x \<Rightarrow>
            (let secret = secret_of (ig_config x); signature = rq_header r ''X-Webhook-Signature''
             in if secret = [] \<or> (signature \<noteq> [] \<and> signature = hex_encode (mac (bytes_of secret) payload))
                then Reply 200 ''received'' else Fail 401 ''invalid signature'')), w') \<and>
    (if resp_status (fst (run_state (ReceiveWebhook mac r (Some payload)) w)) = 200
     then \<exists>a. tb_rows (audit_logs (w_db w')) = tb_rows (audit_logs (w_db w)) @ [a] \<and>
            au_tenant a = tenantID r \<and> au_action a = ''webhook.received''
     else w_db w' = w_db w)"
proof -
  let ?t = "tenantID r"
  obtain v where look: "run_state (lookupWebhookSecret ?t) w =
      ((case webhook_of ?t (w_db w) of None \<Rightarrow> Inl NoRows | Some x \<Rightarrow> Inr (secret_of (ig_config x))), v)"
    and v: "w_faults v = []" "w_db v = w_db w"
    using lookup_run [OF assms] by blast
  obtain u a where audit: "run_state (logAudit r ?t (authUserIDPtr r) ''webhook.received'' (Some ''webhook'') None None
      (Some (JObj [(''size'', JInt (int (length payload)))]))) v = ((), u)"
    and a: "tb_rows (audit_logs (w_db u)) = tb_rows (audit_logs (w_db v)) @ [a]" "au_tenant a = ?t"
      "au_action a = ''webhook.received''"
    using run_audit [OF v(1)] by blast
  show ?thesis
  proof (cases "webhook_of ?t (w_db w)")
    case None
    then show ?thesis using v by (simp add: ReceiveWebhook_def Let_def look)
  next
    case (Some x)
    then show ?thesis
      using v a audit by (simp add: ReceiveWebhook_def Let_def look verifyHMAC_def)
  qed
qed

definition hook_row :: integration_row where
  "hook_row = \<lparr>ig_id = 1, ig_tenant = 1, ig_type = ''webhook'', ig_config = JObj [(''secret'', JStr ''k'')],
     ig_status = ''active'', ig_created = 0, ig_updated = 0\<rparr>"

definition hook_world :: world where
  "hook_world = item_world\<lparr>w_db := (w_db item_world)\<lparr>integrations := \<lparr>tb_rows = [hook_row], tb_seq = 1\<rparr>\<rparr>\<rparr>"

theorem webhook_acceptance_witness:
  "\<exists>w'. run_state (ReceiveWebhook (\<lambda>k p. k @ p) (sample_request ''POST'' ''/'') (Some [1])) hook_world =
     (Fail 401 ''invalid signature'', w')"
proof -
  have t: "tenantID (sample_request ''POST'' ''/'') = 1"
    by (simp add: tenantID_def UserFromContext_def sample_request_def)
  have w: "w_faults hook_world = []" by (simp add: hook_world_def item_world_def team_world_def sample_world_def)
  have "webhook_of 1 (w_db hook_world) = Some hook_row"
    by (simp add: webhook_of_def hook_world_def newest_first_def) (simp add: hook_row_def)
  moreover have "rq_header (sample_request ''POST'' ''/'') ''X-Webhook-Signature'' = []" by (simp add: sample_request_def)
  moreover have "secret_of (ig_config hook_row) = ''k''" by (simp add: hook_row_def secret_of_def)
  ultimately show ?thesis
    using webhook_acceptance [OF w, of "\<lambda>k p. k @ p" "sample_request ''POST'' ''/''" "[1]"] by (auto simp: t)
qed

end
