(* ===== verification/Sessions.thy ===== *)
theory Sessions
  imports Syncer "HOL-Library.AList"
begin

text \<open>
  WhatsApp sessions: \<open>backend/internal/whatsapp/manager.go\<close> and the two unauthenticated
  endpoints of \<open>whatsapp_auth.go\<close>. The device store and the network are parameters: which
  device comes first, whether a connection succeeds, what the QR channel delivers. The map of
  sessions is an association list, whose order stands for the order Go's \<open>range\<close> happens to
  give.
\<close>

record wa_session =
  se_id :: string
  se_tenant :: int
  se_client :: wa_client
  se_status :: string
  se_qr :: string
  se_expiry :: int
  se_error :: string
  se_created :: int
  se_updated :: int

record qr_item =
  qr_event :: string
  qr_code :: string
  qr_timeout :: int
  qr_error :: "string option"

type_synonym sessions = "(string \<times> wa_session) list"

section \<open>Pairing\<close>

definition qr_step :: "int \<Rightarrow> qr_item \<Rightarrow> wa_session \<Rightarrow> wa_session" where
  "qr_step now item s0 =
     (let s = s0\<lparr>se_updated := now\<rparr> in
      if qr_event item = ''code'' then
        s\<lparr>se_status := ''pending'', se_qr := qr_code item, se_expiry := qr_timeout item\<rparr>
      else if qr_event item = ''success'' then s\<lparr>se_status := ''connected''\<rparr>
      else if qr_event item = ''timeout'' then s\<lparr>se_status := ''timeout''\<rparr>
      else if qr_event item = ''error'' then
        (case qr_error item of
           None \<Rightarrow> s\<lparr>se_status := ''error''\<rparr>
         | Some e \<Rightarrow> s\<lparr>se_status := ''error'', se_error := e\<rparr>)
      else s\<lparr>se_status := qr_event item\<rparr>)"

text \<open>
  The channel is closed: \<open>paired\<close> tells whether the device store has an id by then. The second
  result tells whether a contact sync is started.
\<close>

definition qr_closed :: "bool \<Rightarrow> wa_session \<Rightarrow> wa_session \<times> bool" where
  "qr_closed paired s =
     (if paired then (s\<lparr>se_status := ''connected''\<rparr>, True)
      else (if se_status s = ''pending'' then s\<lparr>se_status := ''timeout''\<rparr> else s, False))"

definition consumeQR :: "(int \<times> qr_item) list \<Rightarrow> bool \<Rightarrow> wa_session \<Rightarrow> wa_session \<times> bool" where
  "consumeQR items paired s = qr_closed paired (fold (\<lambda>(now, item). qr_step now item) items s)"

section \<open>The manager\<close>

text \<open>
  What \<open>StartSession\<close> finds outside: the first device of the store (\<open>None\<close> on an error),
  the id of a new session, whether the QR channel opens and the connection succeeds.
\<close>

record wa_env =
  we_device :: "wa_client option"
  we_session :: string
  we_qr_ok :: bool
  we_connect_ok :: bool

definition StartSession :: "wa_env \<Rightarrow> int \<Rightarrow> int \<Rightarrow> sessions \<Rightarrow> wa_session option \<times> sessions" where
  "StartSession env now tenant ss =
     (case we_device env of
        None \<Rightarrow> (None, ss)
      | Some client \<Rightarrow>
          let session = \<lparr>se_id = we_session env, se_tenant = tenant, se_client = client, se_status = ''pending'',
                         se_qr = [], se_expiry = 0, se_error = [], se_created = now, se_updated = now\<rparr>
          in if wc_id client \<noteq> None then
               (if \<not> we_connect_ok env then (None, ss)
                else let s = session\<lparr>se_status := ''connected''\<rparr> in (Some s, AList.update (se_id s) s ss))
             else if \<not> we_qr_ok env then (None, ss)
             else if \<not> we_connect_ok env then (None, ss)
             else (Some session, AList.update (se_id session) session ss))"

definition GetSession :: "string \<Rightarrow> sessions \<Rightarrow> wa_session option" where
  "GetSession sid ss = map_of ss sid"

text \<open>\<open>AutoReconnect\<close>: every stored device with an id, for tenant 1; \<open>Connect\<close> may fail for each.\<close>

fun AutoReconnect :: "int \<Rightarrow> (wa_client \<times> bool \<times> string) list \<Rightarrow> sessions \<Rightarrow> sessions" where
  "AutoReconnect now [] ss = ss"
| "AutoReconnect now ((device, connects, sid) # ds) ss =
     AutoReconnect now ds
       (if wc_id device = None then ss
        else if \<not> connects then ss
        else AList.update sid
          \<lparr>se_id = sid, se_tenant = 1, se_client = device, se_status = ''connected'', se_qr = [],
           se_expiry = 0, se_error = [], se_created = now, se_updated = now\<rparr> ss)"

definition connected_session :: "int \<Rightarrow> sessions \<Rightarrow> wa_session option" where
  "connected_session tenant ss =
     map_option snd (find (\<lambda>(sid, s). se_tenant s = tenant \<and> se_status s = ''connected'') ss)"

definition full_jid :: "string \<Rightarrow> string" where
  "full_jid recipient =
     (if Contains recipient ''@'' then recipient
      else if HasPrefix recipient ''12036'' then recipient @ ''@g.us''
      else recipient @ ''@s.whatsapp.net'')"

text \<open>
  \<open>SendMessage\<close>: the client a message goes out through, the recipient and the text, or the
  error. \<open>parse\<close> is \<open>types.ParseJID\<close>, \<open>deliver\<close> the client's own send.
\<close>

definition SendMessage ::
    "(string \<Rightarrow> jid option) \<Rightarrow> (wa_client \<Rightarrow> jid \<Rightarrow> string \<Rightarrow> bool) \<Rightarrow> int \<Rightarrow> string \<Rightarrow> string \<Rightarrow> sessions
       \<Rightarrow> string + wa_client \<times> jid \<times> string" where
  "SendMessage parse deliver tenant recipient content ss =
     (case connected_session tenant ss of
        None \<Rightarrow> Inl ''no connected whatsapp session found for tenant''
      | Some s \<Rightarrow>
          (case parse (full_jid recipient) of
             None \<Rightarrow> Inl ''invalid jid''
           | Some j \<Rightarrow>
               if deliver (se_client s) j content then Inr (se_client s, j, content)
               else Inl ''send failed''))"

definition DisconnectSession :: "int \<Rightarrow> sessions \<Rightarrow> sessions" where
  "DisconnectSession tenant ss =
     (case find (\<lambda>(sid, s). se_tenant s = tenant) ss of
        None \<Rightarrow> ss
      | Some (sid, s) \<Rightarrow> if sid = [] then ss else AList.delete sid ss)"

section \<open>Contacts\<close>

definition contact_name :: "contact \<Rightarrow> string" where
  "contact_name info =
     (if ct_push info \<noteq> [] then ct_push info
      else if ct_full info \<noteq> [] then ct_full info else ct_first info)"

text \<open>\<open>syncContacts\<close> over the contacts the store lists; \<open>zero_time\<close> is Go's zero \<open>time.Time\<close>.\<close>

definition zero_time :: int where
  "zero_time = - 62135596800000000000"

fun syncContacts :: "int \<Rightarrow> wa_client \<Rightarrow> (jid \<times> contact) list \<Rightarrow> nat \<Rightarrow> nat act" where
  "syncContacts tenant client [] count = State_Monad.return count"
| "syncContacts tenant client ((j, info) # cs) count =
     (if j_server j \<noteq> ''s.whatsapp.net'' \<and> j_server j \<noteq> ''g.us'' then syncContacts tenant client cs count
      else do {
        res \<leftarrow> UpsertConversation tenant client j (contact_name info) zero_time;
        syncContacts tenant client cs (case res of Inl _ \<Rightarrow> count | Inr _ \<Rightarrow> count + 1)
      })"

section \<open>The endpoints\<close>

record qr_reply =
  qp_session :: string
  qp_qr :: string
  qp_timeout :: int
  qp_status :: string
  qp_error :: string
  qp_tenant :: int

text \<open>
  \<open>StartWhatsAppAuth\<close>: the loop polls the session up to its deadline; \<open>polled\<close> are the values
  \<open>GetSession\<close> gives at each turn until then. \<open>png\<close> is the QR encoder.
\<close>

fun await_qr :: "wa_session option list \<Rightarrow> wa_session \<Rightarrow> wa_session" where
  "await_qr [] s = s"
| "await_qr (p # ps) s =
     (if se_status s \<noteq> ''connected'' \<and> se_qr s = [] then
        (case p of None \<Rightarrow> s | Some s' \<Rightarrow> await_qr ps s')
      else s)"

text \<open>\<open>base64.StdEncoding\<close>: the other alphabet, and padded.\<close>

definition b64_std :: "bytes \<Rightarrow> string" where
  "b64_std bs =
     map (\<lambda>c. if c = CHR ''-'' then CHR ''+'' else if c = CHR ''_'' then CHR ''/'' else c) (b64_encode bs)
       @ replicate ((3 - length bs mod 3) mod 3) (CHR ''='')"

definition qr_field :: "(string \<Rightarrow> bytes option) \<Rightarrow> wa_session \<Rightarrow> string" where
  "qr_field png s =
     (if se_qr s = [] then []
      else case png (se_qr s) of None \<Rightarrow> [] | Some bs \<Rightarrow> ''data:image/png;base64,'' @ b64_std bs)"

text \<open>\<open>int(session.LastExpiry.Seconds())\<close>, set along with the code.\<close>

definition timeout_field :: "(string \<Rightarrow> bytes option) \<Rightarrow> wa_session \<Rightarrow> int" where
  "timeout_field png s = (if se_qr s = [] \<or> png (se_qr s) = None then 0 else se_expiry s sdiv 1000000000)"

definition StartWhatsAppAuth ::
    "(string \<Rightarrow> bytes option) \<Rightarrow> wa_env \<Rightarrow> int \<Rightarrow> wa_session option list \<Rightarrow> request \<Rightarrow> sessions option
       \<Rightarrow> qr_reply response \<times> sessions option" where
  "StartWhatsAppAuth png env now polled r whatsapp =
     (case whatsapp of
        None \<Rightarrow> (Fail 503 ''whatsapp integration not configured'', None)
      | Some ss \<Rightarrow>
          (case StartSession env now (tenantID r) ss of
             (None, ss') \<Rightarrow> (Fail 500 ''failed to start whatsapp session'', Some ss')
           | (Some s0, ss') \<Rightarrow>
               let s = await_qr polled s0
               in (Reply 200 \<lparr>qp_session = se_id s, qp_qr = qr_field png s, qp_timeout = timeout_field png s, qp_status = se_status s,
                              qp_error = [], qp_tenant = tenantID r\<rparr>, Some ss')))"

datatype status_reply = Waiting qr_reply | SignedIn qr_reply user_row string string string int

definition WhatsAppAuthStatus ::
    "(string \<Rightarrow> bytes option) \<Rightarrow> auth_env \<Rightarrow> request \<Rightarrow> sessions option \<Rightarrow> status_reply response act" where
  "WhatsAppAuthStatus png env r whatsapp =
     (case whatsapp of
        None \<Rightarrow> State_Monad.return (Fail 503 ''whatsapp integration not configured'')
      | Some ss \<Rightarrow>
          if rq_query r ''session_id'' = [] then State_Monad.return (Fail 400 ''session_id is required'')
          else
            case GetSession (rq_query r ''session_id'') ss of
              None \<Rightarrow> State_Monad.return (Fail 404 ''session not found'')
            | Some s \<Rightarrow>
                let resp = \<lparr>qp_session = se_id s, qp_qr = qr_field png s, qp_timeout = timeout_field png s, qp_status = se_status s,
                            qp_error = se_error s, qp_tenant = se_tenant s\<rparr> in
                if se_status s = ''connected'' then do {
                  res \<leftarrow> ensureWhatsAppUser env (se_tenant s) (wc_id (se_client s));
                  State_Monad.return
                    (case res of
                       None \<Rightarrow> Fail 500 ''failed to finalize whatsapp login''
                     | Some (u, role, token, csrf) \<Rightarrow>
                         Reply 200 (SignedIn resp u role token csrf (se_tenant s)))
                }
                else State_Monad.return (Reply 200 (Waiting resp)))"

section \<open>Pairing\<close>

lemma qr_step_other [simp]:
  "se_tenant (qr_step now item s) = se_tenant s" "se_id (qr_step now item s) = se_id s"
  "se_client (qr_step now item s) = se_client s"
  by (auto simp: qr_step_def Let_def split: option.splits)

lemma fold_qr_other [simp]:
  "se_tenant (fold (\<lambda>(now, item). qr_step now item) items s) = se_tenant s"
  "se_id (fold (\<lambda>(now, item). qr_step now item) items s) = se_id s"
  by (induction items arbitrary: s) auto

text \<open>
  How pairing ends. Whatever the QR channel delivered, once it is closed the session is
  connected if the device is paired by then, and starts a contact sync exactly in that case;
  otherwise it is never left pending. Id and tenant of the session do not change.
\<close>

theorem pairing_ends:
  "case consumeQR items paired s of (s', sync) \<Rightarrow>
     sync = paired \<and> se_status s' \<noteq> ''pending'' \<and> (paired \<longrightarrow> se_status s' = ''connected'') \<and>
     se_tenant s' = se_tenant s \<and> se_id s' = se_id s"
  by (simp add: consumeQR_def qr_closed_def)

theorem pairing_ends_witness:
  "case consumeQR [(1, \<lparr>qr_event = ''code'', qr_code = ''q'', qr_timeout = 60, qr_error = None\<rparr>)] True
     \<lparr>se_id = ''s'', se_tenant = 3, se_client = sample_client, se_status = ''pending'', se_qr = [], se_expiry = 0,
      se_error = [], se_created = 0, se_updated = 0\<rparr> of (s', sync) \<Rightarrow>
     sync \<and> se_status s' = ''connected'' \<and> se_tenant s' = 3"
  using pairing_ends [where items = "[(1, \<lparr>qr_event = ''code'', qr_code = ''q'', qr_timeout = 60, qr_error = None\<rparr>)]"
    and paired = True and s = "\<lparr>se_id = ''s'', se_tenant = 3, se_client = sample_client, se_status = ''pending'',
      se_qr = [], se_expiry = 0, se_error = [], se_created = 0, se_updated = 0\<rparr>"]
  by (simp split: prod.splits)

lemma set_AList_update: "set (AList.update k v xs) \<subseteq> insert (k, v) (set xs)"
  by (induction xs) auto

lemma AutoReconnect_all:
  assumes "\<forall>x \<in> set ss. G (snd x)"
    and "\<And>sid device. wc_id device \<noteq> None \<Longrightarrow>
      G \<lparr>se_id = sid, se_tenant = 1, se_client = device, se_status = ''connected'', se_qr = [],
           se_expiry = 0, se_error = [], se_created = now, se_updated = now\<rparr>"
  shows "\<forall>x \<in> set (AutoReconnect now devices ss). G (snd x)"
  using assms(1)
proof (induction devices arbitrary: ss)
  case (Cons d ds)
  obtain device connects sid where d: "d = (device, connects, sid)" by (cases d)
  let ?s = "\<lparr>se_id = sid, se_tenant = 1, se_client = device, se_status = ''connected'', se_qr = [],
           se_expiry = 0, se_error = [], se_created = now, se_updated = now\<rparr>"
  have "\<forall>x \<in> set (if wc_id device = None then ss else if \<not> connects then ss else AList.update sid ?s ss). G (snd x)"
  proof (cases "wc_id device = None \<or> \<not> connects")
    case True
    with Cons.prems show ?thesis by auto
  next
    case False
    then have "G ?s" using assms(2) by blast
    moreover have "x = (sid, ?s) \<or> x \<in> set ss" if "x \<in> set (AList.update sid ?s ss)" for x
      using that set_AList_update [of sid ?s ss] by blast
    ultimately have "G (snd x)" if "x \<in> set (AList.update sid ?s ss)" for x
      using that Cons.prems by fastforce
    with False show ?thesis by auto
  qed
  from Cons.IH [OF this] show ?case by (simp add: d)
qed simp

text \<open>
  A restart moves devices to tenant 1. Every session \<open>AutoReconnect\<close> adds belongs to tenant
  1, whichever tenant the device was paired for, and from then on feeds that tenant's data.
\<close>

theorem reconnect_tenant_one:
  "(sid, s) \<in> set (AutoReconnect now devices []) \<Longrightarrow>
     se_tenant s = 1 \<and> se_status s = ''connected'' \<and> wc_id (se_client s) \<noteq> None"
  using AutoReconnect_all [of "[]" "\<lambda>s. se_tenant s = 1 \<and> se_status s = ''connected'' \<and> wc_id (se_client s) \<noteq> None" now devices]
  by fastforce

theorem reconnect_tenant_one_witness:
  "se_tenant (snd (hd (AutoReconnect 0 [(sample_client, True, ''s1'')] []))) = 1"
  using reconnect_tenant_one [of "''s1''" "snd (hd (AutoReconnect 0 [(sample_client, True, ''s1'')] []))" 0 "[(sample_client, True, ''s1'')]"]
  by (simp add: sample_client_def)

section \<open>Sending and disconnecting\<close>

text \<open>
  C29. Replies go out through a session of the tenant. Whenever \<open>SendMessage\<close> succeeds, the client's
  own send accepted the given text, for the address that the recipient's text completed with a
  server part parses to, and the client is that of a connected session that carries the tenant it
  was called for. (After a restart every session carries tenant 1, whichever tenant paired it.)
\<close>

theorem send_through_own_session:
  assumes "SendMessage parse deliver tenant recipient content ss = Inr (client, j, text)"
  shows "(\<exists>(sid, s) \<in> set ss. se_tenant s = tenant \<and> se_status s = ''connected'' \<and> se_client s = client) \<and>
    text = content \<and> deliver client j content \<and> parse (full_jid recipient) = Some j \<and>
    CHR ''@'' \<in> set (full_jid recipient) \<and> (CHR ''@'' \<in> set recipient \<longrightarrow> full_jid recipient = recipient) \<and>
    HasPrefix (full_jid recipient) recipient"
proof -
  obtain s where s: "connected_session tenant ss = Some s" "se_client s = client" "text = content"
    "parse (full_jid recipient) = Some j" "deliver client j content"
    using assms by (auto simp: SendMessage_def split: option.splits if_splits)
  from s(1) have "\<exists>sid. (sid, s) \<in> set ss \<and> se_tenant s = tenant \<and> se_status s = ''connected''"
    unfolding connected_session_def by (induction ss) (auto split: if_splits)
  then have "\<exists>(sid, s) \<in> set ss. se_tenant s = tenant \<and> se_status s = ''connected'' \<and> se_client s = client"
    using s(2) by blast
  moreover have "CHR ''@'' \<in> set recipient \<Longrightarrow> Contains recipient ''@''"
    by (auto simp: Contains_iff dest: split_list)
  then have "CHR ''@'' \<in> set (full_jid recipient)" "CHR ''@'' \<in> set recipient \<longrightarrow> full_jid recipient = recipient"
    "HasPrefix (full_jid recipient) recipient"
    by (auto simp: full_jid_def HasPrefix_iff) (auto simp: Contains_iff)
  ultimately show ?thesis using s(3-5) by blast
qed

theorem send_through_own_session_witness:
  "\<exists>client j. SendMessage (\<lambda>x. Some \<lparr>j_user = x, j_server = [], j_text = x\<rparr>) (\<lambda>_ _ _. True) 3 ''49'' ''hi''
      [(''s'', \<lparr>se_id = ''s'', se_tenant = 3, se_client = sample_client, se_status = ''connected'', se_qr = [], se_expiry = 0,
      se_error = [], se_created = 0, se_updated = 0\<rparr>)] = Inr (client, j, ''hi'') \<and>
    client = sample_client \<and> j_user j = full_jid ''49'' \<and> HasPrefix (full_jid ''49'') ''49''"
proof -
  let ?s = "\<lparr>se_id = ''s'', se_tenant = 3, se_client = sample_client, se_status = ''connected'', se_qr = [], se_expiry = 0,
      se_error = [], se_created = 0, se_updated = 0\<rparr>"
  let ?j = "\<lparr>j_user = ''49@s.whatsapp.net'', j_server = [], j_text = ''49@s.whatsapp.net''\<rparr>"
  have send: "SendMessage (\<lambda>x. Some \<lparr>j_user = x, j_server = [], j_text = x\<rparr>) (\<lambda>_ _ _. True) 3 ''49'' ''hi'' [(''s'', ?s)]
      = Inr (sample_client, ?j, ''hi'')"
    by (simp add: SendMessage_def connected_session_def full_jid_def)
  from send_through_own_session [OF this] have "HasPrefix (full_jid ''49'') ''49''" by blast
  with send show ?thesis by (auto simp: full_jid_def)
qed

section \<open>A session without signing in\<close>

lemma find_or_insert_total:
  fixes t :: int
  assumes "w_faults w = []" "\<not> ss_rls (w_sess w)" "w_rand w = Some a # Some b # rs" "\<forall>p. ae_hash env p \<noteq> None"
  obtains role u w1 x xs where
    "run_state (WithTenantConn t (find_or_insert env t email)) w = (Inr (role, u), w1)"
    "us_tenant u = t" "us_email u = email" "has_key us_id (us_id u) (users (w_db w1))" "w_faults w1 = []"
    "\<not> ss_rls (w_sess w1)" "w_rand w1 = Some x # xs"
proof (cases "filter (\<lambda>u. us_email u = email \<and> us_tenant u = t) (tb_rows (users (w_db w)))")
  case (Cons u us)
  then have "u \<in> set (filter (\<lambda>u. us_email u = email \<and> us_tenant u = t) (tb_rows (users (w_db w))))" by simp
  then have u: "u \<in> set (tb_rows (users (w_db w)))" "us_email u = email" "us_tenant u = t" by auto
  show ?thesis
    by (rule that [OF find_or_insert_known [OF assms(1,2) Cons]])
      (use u assms in \<open>auto simp: has_key_def\<close>)
next
  case Nil
  obtain h where h: "ae_hash env (string_of a) = Some h" using assms(4) by blast
  have none: "\<not> (\<exists>u \<in> set (tb_rows (users (w_db w))). us_tenant u = t \<and> us_email u = email)"
    using Nil by (auto simp: filter_empty_conv)
  let ?count = "length (filter (\<lambda>u. us_tenant u = t) (tb_rows (users (w_db w))))"
  let ?role = "if ?count = 0 then ''owner'' else ''member''"
  let ?u = "\<lparr>us_id = tb_seq (users (w_db w)) + 1, us_email = email, us_hash = h, us_tenant = t,
     us_created = w_now w, us_updated = w_now w\<rparr>"
  let ?w1 = "w\<lparr>w_db := users_update (\<lambda>T. T\<lparr>tb_rows := tb_rows T @ [?u], tb_seq := tb_seq (users (w_db w)) + 1\<rparr>) (w_db w),
       w_rand := Some b # rs, w_sess := (w_sess w)\<lparr>ss_tenant := None\<rparr>\<rparr>"
  have run: "run_state (WithTenantConn t (find_or_insert env t email)) w = (Inr (?role, ?u), ?w1)"
    using assms(1-3) none Nil h
    by (simp add: find_or_insert_def state_simps count_users_def find_user_def sql_row_def visible_def
        insert_user_def sql_insert_def Let_def)
  show ?thesis
    by (rule that [OF run]) (use assms in \<open>auto simp: has_key_def\<close>)
qed



end
