(* ===== verification/Inbox.thy ===== *)
theory Inbox
  imports Items Sessions
begin

text \<open>
  Conversations, replies and forwards, the dashboard and the summaries: the handlers
  \<open>conversations.go\<close>, \<open>messages.go\<close>, \<open>dashboard.go\<close>, \<open>important.go\<close> and \<open>daily_summary.go\<close> of
  \<open>backend/internal/handlers\<close>, and \<open>LogoutWhatsApp\<close>. What a reply sends through WhatsApp is part of
  its result.
\<close>

section \<open>Conversations\<close>

text \<open>\<open>ORDER BY last_message_at DESC NULLS LAST, created_at DESC\<close>.\<close>

definition latest_first :: "conversation_row list \<Rightarrow> conversation_row list" where
  "latest_first rows =
     (let s = newest_first cv_created rows
      in newest_first (\<lambda>c. case cv_last c of None \<Rightarrow> 0 | Some t \<Rightarrow> t) (filter (\<lambda>c. cv_last c \<noteq> None) s)
         @ filter (\<lambda>c. cv_last c = None) s)"

definition ListConversations :: "request \<Rightarrow> conversation_row page response act" where
  "ListConversations r = do {
     let tenant = tenantID r;
     let pl = parsePagination r;
     res \<leftarrow> WithTenantConn tenant
       (Exec (paged pl (ordered latest_first (sql_select conversations cv_tenant (\<lambda>c. cv_tenant c = tenant)))));
     State_Monad.return
       (case res of Inl _ \<Rightarrow> Fail 500 ''failed to list conversations'' | Inr rows \<Rightarrow> Reply 200 (page_of pl rows))
   }"

text \<open>A message as it is shown: whether it went out, and otherwise a short sender name.\<close>

record shown_message =
  sh_row :: message_row
  sh_outbound :: bool
  sh_name :: "string option"

definition show_message :: "message_row \<Rightarrow> shown_message" where
  "show_message m =
     (if ms_sender m = ''agent'' \<or> ms_sender m = ''me'' then \<lparr>sh_row = m, sh_outbound = True, sh_name = None\<rparr>
      else \<lparr>sh_row = m, sh_outbound = False,
             sh_name = Some (if length (ms_sender m) > 12 then take 12 (ms_sender m) @ ''...'' else ms_sender m)\<rparr>)"

definition GetConversationMessages :: "request \<Rightarrow> int \<Rightarrow> shown_message page response act" where
  "GetConversationMessages r conv = do {
     let tenant = tenantID r;
     let pl = parsePagination r;
     res \<leftarrow> WithTenantConn tenant
       (Exec (paged pl (ordered (sort_key ms_time)
          (sql_select messages ms_tenant (\<lambda>m. ms_tenant m = tenant \<and> ms_conv m = conv)))));
     State_Monad.return
       (case res of Inl _ \<Rightarrow> Fail 500 ''failed to list messages''
        | Inr rows \<Rightarrow> Reply 200 (page_of pl (map show_message rows)))
   }"

section \<open>Replies and forwards\<close>

record reply_request =
  rp_conversation :: int
  rp_content :: string
  rp_sender :: string

record forward_request =
  fw_message :: int
  fw_target :: int
  fw_sender :: string

definition insert_message_row :: "int \<Rightarrow> int \<Rightarrow> string \<Rightarrow> string \<Rightarrow> int \<Rightarrow> message_row sql" where
  "insert_message_row tenant conv sender content now =
     sql_insert messages messages_update ms_tenant (\<lambda>d r. has_key cv_id conv (conversations d))
       (\<lambda>i. \<lparr>ms_id = i, ms_tenant = tenant, ms_conv = conv, ms_sender = sender, ms_content = content, ms_time = now,
             ms_meta = None, ms_created = now\<rparr>)"

definition touch_conversation :: "int \<Rightarrow> int \<Rightarrow> int \<Rightarrow> conversation_row list sql" where
  "touch_conversation tenant conv now =
     sql_update conversations conversations_update cv_tenant (\<lambda>c. cv_id c = conv \<and> cv_tenant c = tenant)
       (\<lambda>c. c\<lparr>cv_last := Some now\<rparr>)"

definition conversation_by_id :: "int \<Rightarrow> int \<Rightarrow> conversation_row sql" where
  "conversation_by_id tenant conv = sql_row conversations cv_tenant (\<lambda>c. cv_id c = conv \<and> cv_tenant c = tenant)"

definition message_by_id :: "int \<Rightarrow> int \<Rightarrow> message_row sql" where
  "message_by_id tenant mid = sql_row messages ms_tenant (\<lambda>m. ms_id m = mid \<and> ms_tenant m = tenant)"

text \<open>What both do once the text is there: the message, the time of the conversation, the log, the hub.\<close>

definition save_message ::
    "request \<Rightarrow> int \<Rightarrow> int \<Rightarrow> string \<Rightarrow> string \<Rightarrow> int \<Rightarrow> string \<Rightarrow> (message_row \<Rightarrow> json) \<Rightarrow> string
       \<Rightarrow> message_row response act" where
  "save_message r tenant conv sender content now action details failure = do {
     made \<leftarrow> WithTenantConn tenant (Exec (insert_message_row tenant conv sender content now));
     case made of
       Inl _ \<Rightarrow> State_Monad.return (Fail 500 failure)
     | Inr m \<Rightarrow> do {
         _ \<leftarrow> WithTenantConn tenant (Exec (touch_conversation tenant conv now));
         _ \<leftarrow> item_activity r tenant action (details m);
         _ \<leftarrow> HubBroadcast tenant (JObj [(''message_id'', JInt (ms_id m)), (''type'', JStr action)]);
         State_Monad.return (Reply 201 m)
       }
   }"

text \<open>The phones: \<open>types.ParseJID\<close>, the client's send and the sessions; \<open>None\<close> without WhatsApp.\<close>

record phones =
  ph_parse :: "string \<Rightarrow> jid option"
  ph_deliver :: "wa_client \<Rightarrow> jid \<Rightarrow> string \<Rightarrow> bool"
  ph_sessions :: sessions

definition agent_or :: "string \<Rightarrow> string" where
  "agent_or sender = (if sender = [] then ''agent'' else sender)"

definition ReplyMessage ::
    "phones option \<Rightarrow> request \<Rightarrow> reply_request option \<Rightarrow> (message_row response \<times> (wa_client \<times> jid \<times> string) option) act" where
  "ReplyMessage whatsapp r body =
     (case body of
        None \<Rightarrow> State_Monad.return (Fail 400 ''invalid request'', None)
      | Some req \<Rightarrow>
          if rp_conversation req = 0 \<or> rp_content req = [] then
            State_Monad.return (Fail 400 ''conversation_id and content are required'', None)
          else do {
            let tenant = tenantID r;
            now \<leftarrow> Now;
            found \<leftarrow> WithTenantConn tenant (Exec (conversation_by_id tenant (rp_conversation req)));
            case found of
              Inl _ \<Rightarrow> State_Monad.return (Fail 404 ''conversation not found'', None)
            | Inr c \<Rightarrow>
                (case map_option (\<lambda>ph. SendMessage (ph_parse ph) (ph_deliver ph) tenant (cv_number c) (rp_content req)
                         (ph_sessions ph)) whatsapp of
                   Some (Inl e) \<Rightarrow> State_Monad.return (Fail 500 (''failed to send whatsapp message: '' @ e), None)
                 | sent \<Rightarrow> do {
                     res \<leftarrow> save_message r tenant (rp_conversation req) (agent_or (rp_sender req)) (rp_content req) now
                       ''message.reply''
                       (\<lambda>m. JObj [(''conversation_id'', JInt (rp_conversation req)), (''message_id'', JInt (ms_id m))])
                       ''failed to save message'';
                     State_Monad.return (res, case sent of Some (Inr x) \<Rightarrow> Some x | _ \<Rightarrow> None)
                   })
          })"

definition ForwardMessage :: "request \<Rightarrow> forward_request option \<Rightarrow> message_row response act" where
  "ForwardMessage r body =
     (case body of
        None \<Rightarrow> State_Monad.return (Fail 400 ''invalid request'')
      | Some req \<Rightarrow>
          if fw_message req = 0 \<or> fw_target req = 0 then
            State_Monad.return (Fail 400 ''message_id and target_conversation_id are required'')
          else do {
            let tenant = tenantID r;
            found \<leftarrow> WithTenantConn tenant (Exec (message_by_id tenant (fw_message req)));
            case found of
              Inl _ \<Rightarrow> State_Monad.return (Fail 404 ''message not found'')
            | Inr source \<Rightarrow> do {
                now \<leftarrow> Now;
                save_message r tenant (fw_target req) (agent_or (fw_sender req)) (ms_content source) now
                  ''message.forward''
                  (\<lambda>m. JObj [(''conversation_id'', JInt (fw_target req)), (''source_message_id'', JInt (fw_message req)),
                             (''target_message_id'', JInt (ms_id m))])
                  ''failed to forward message''
              }
          })"

definition LogoutWhatsApp :: "request \<Rightarrow> sessions option \<Rightarrow> string response \<times> sessions option" where
  "LogoutWhatsApp r whatsapp = (Reply 200 ''disconnected'', map_option (DisconnectSession (tenantID r)) whatsapp)"

text \<open>
  The contact sync of a tenant's connected session; \<open>contacts\<close> is what the client's store lists,
  \<open>None\<close> on an error. The handler answers at once and leaves the sync to a goroutine.
\<close>

definition SyncContactsForTenant ::
    "int \<Rightarrow> (wa_client \<Rightarrow> (jid \<times> contact) list option) \<Rightarrow> sessions \<Rightarrow> nat act" where
  "SyncContactsForTenant tenant contacts ss =
     (case connected_session tenant ss of
        None \<Rightarrow> State_Monad.return 0
      | Some s \<Rightarrow>
          (case contacts (se_client s) of
             None \<Rightarrow> State_Monad.return 0
           | Some cs \<Rightarrow> syncContacts (se_tenant s) (se_client s) cs 0))"

definition SyncContacts ::
    "(wa_client \<Rightarrow> (jid \<times> contact) list option) \<Rightarrow> request \<Rightarrow> sessions option \<Rightarrow> string response \<times> nat act" where
  "SyncContacts contacts r whatsapp =
     (case whatsapp of
        None \<Rightarrow> (Fail 503 ''whatsapp not initialized'', State_Monad.return 0)
      | Some ss \<Rightarrow> (Reply 200 ''sync_started'', SyncContactsForTenant (tenantID r) contacts ss))"

section \<open>Dashboard and summaries\<close>

record dashboard =
  da_conversations :: nat
  da_messages :: nat
  da_important :: nat
  da_open :: nat

definition sql_count :: "(db \<Rightarrow> 'r table) \<Rightarrow> ('r \<Rightarrow> int) \<Rightarrow> ('r \<Rightarrow> bool) \<Rightarrow> nat sql" where
  "sql_count get ten P s d = map_prod (map_sum id length) id (sql_select get ten P s d)"

definition GetDashboard :: "request \<Rightarrow> dashboard response act" where
  "GetDashboard r = do {
     let t = tenantID r;
     res \<leftarrow> WithTenantConn t
       (then_ok (Exec (sql_count conversations cv_tenant (\<lambda>c. cv_tenant c = t))) (\<lambda>a.
        then_ok (Exec (sql_count messages ms_tenant (\<lambda>m. ms_tenant m = t))) (\<lambda>b.
        then_ok (Exec (sql_count important_messages im_tenant (\<lambda>i. im_tenant i = t))) (\<lambda>c.
        then_ok (Exec (sql_count action_items ai_tenant
            (\<lambda>i. ai_tenant i = t \<and> ai_status i \<noteq> ''done'' \<and> ai_status i \<noteq> ''completed''))) (\<lambda>d.
        ok \<lparr>da_conversations = a, da_messages = b, da_important = c, da_open = d\<rparr>)))));
     State_Monad.return
       (case res of Inl _ \<Rightarrow> Fail 500 ''failed to load dashboard'' | Inr x \<Rightarrow> Reply 200 x)
   }"

text \<open>
  The frames of the event stream: one per tick until the request ends, after \<open>ticks\<close> of them, and
  none for a tick whose dashboard fails.
\<close>

fun StreamDashboard :: "nat \<Rightarrow> request \<Rightarrow> dashboard list act" where
  "StreamDashboard 0 r = State_Monad.return []"
| "StreamDashboard (Suc ticks) r = do {
     x \<leftarrow> GetDashboard r;
     rest \<leftarrow> StreamDashboard ticks r;
     State_Monad.return (case x of Reply s d \<Rightarrow> if s = 200 then d # rest else rest | Fail s e \<Rightarrow> rest)
   }"

text \<open>\<open>JOIN messages m ON m.id = im.message_id\<close>.\<close>

definition important_lines :: "int \<Rightarrow> (important_row \<times> message_row) list sql" where
  "important_lines tenant s d =
     (Inr (concat (map (\<lambda>i. map (\<lambda>m. (i, m))
          (filter (\<lambda>m. visible s (ms_tenant m) \<and> ms_id m = im_msg i) (tb_rows (messages d))))
        (newest_first im_created
          (filter (\<lambda>i. visible s (im_tenant i) \<and> im_tenant i = tenant) (tb_rows (important_messages d)))))), d)"

definition ListImportantMessages :: "request \<Rightarrow> (important_row \<times> message_row) page response act" where
  "ListImportantMessages r = do {
     let tenant = tenantID r;
     let pl = parsePagination r;
     res \<leftarrow> WithTenantConn tenant (Exec (paged pl (important_lines tenant)));
     State_Monad.return
       (case res of Inl _ \<Rightarrow> Fail 500 ''failed to list important messages'' | Inr rows \<Rightarrow> Reply 200 (page_of pl rows))
   }"

definition latest_summary :: "int \<Rightarrow> summary_row list sql" where
  "latest_summary tenant =
     ordered (newest_first ds_created) (sql_select daily_summaries ds_tenant (\<lambda>x. ds_tenant x = tenant))"

definition GetDailySummary :: "request \<Rightarrow> summary_row response act" where
  "GetDailySummary r = do {
     let tenant = tenantID r;
     res \<leftarrow> WithTenantConn tenant (then_ok (Exec (latest_summary tenant)) first_row);
     State_Monad.return (case res of Inl _ \<Rightarrow> Fail 404 ''no summary available'' | Inr x \<Rightarrow> Reply 200 x)
   }"

section \<open>Isolation\<close>

lemma inbox_stmts_tenant [intro]:
  "state_io_rel (tenant_frame t) (Exec (insert_message_row t conv sender content now))"
  "state_io_rel (tenant_frame t) (Exec (touch_conversation t conv now))"
  "state_io_rel (tenant_frame t) (Exec (conversation_by_id t' conv))"
  "state_io_rel (tenant_frame t) (Exec (message_by_id t' mid))"
  unfolding insert_message_row_def touch_conversation_def conversation_by_id_def message_by_id_def
  by (intro keeps_stmts; simp)+

lemma save_message_tenant [intro]:
  "state_io_rel (tenant_frame t) (save_message r t conv sender content now action details failure)"
  unfolding save_message_def
  by (intro tenant.keeps_intros inbox_stmts_tenant logActivity_item)

lemma syncContacts_tenant: "state_io_rel (tenant_frame t) (syncContacts t client cs n)"
  by (induction t client cs n rule: syncContacts.induct) (auto intro!: tenant.keeps_intros UpsertConversation_tenant)

lemma SyncContactsForTenant_tenant: "state_io_rel (tenant_frame t) (SyncContactsForTenant t contacts ss)"
proof (cases "connected_session t ss")
  case (Some s)
  then have "se_tenant s = t" unfolding connected_session_def by (auto simp: find_Some_iff)
  with Some show ?thesis
    by (auto simp: SyncContactsForTenant_def intro: syncContacts_tenant tenant.keeps_return split: option.split)
qed (auto simp: SyncContactsForTenant_def intro: tenant.keeps_return)

lemma inbox_tenant:
  "state_io_rel (tenant_frame (tenantID r)) (ReplyMessage whatsapp r b1)"
  "state_io_rel (tenant_frame (tenantID r)) (ForwardMessage r b2)"
  unfolding ReplyMessage_def ForwardMessage_def Let_def
  by (intro tenant.keeps_intros inbox_stmts_tenant save_message_tenant)+

section \<open>What a reply does\<close>

lemma vis_conj: "(visible (s\<lparr>ss_tenant := Some t\<rparr>) x \<and> P \<and> x = t) = (P \<and> x = t)"
  by (auto simp: visible_def)

lemma save_message_run:
  assumes "w_faults w = []" "has_key cv_id conv (conversations (w_db w))"
  shows "\<exists>m v. run_state (save_message r t conv sender content now action details failure) w = (Reply 201 m, v) \<and>
    ms_tenant m = t \<and> ms_conv m = conv \<and> ms_sender m = sender \<and> ms_content m = content \<and>
    tb_rows (messages (w_db v)) = tb_rows (messages (w_db w)) @ [m] \<and>
    tb_rows (conversations (w_db v)) =
      update_where (\<lambda>c. cv_id c = conv \<and> cv_tenant c = t) (\<lambda>c. c\<lparr>cv_last := Some now\<rparr>) (tb_rows (conversations (w_db w)))"
proof -
  let ?m = "\<lparr>ms_id = tb_seq (messages (w_db w)) + 1, ms_tenant = t, ms_conv = conv, ms_sender = sender,
    ms_content = content, ms_time = now, ms_meta = None, ms_created = now\<rparr>"
  have vis: "visible ((w_sess w)\<lparr>ss_tenant := Some t\<rparr>) t" for w :: world by (simp add: visible_def)
  note conn = run_WithTenantConn_quiet [OF _ quiet_Exec]
  obtain w1 where made: "run_state (WithTenantConn t (Exec (insert_message_row t conv sender content now))) w = (Inr ?m, w1)"
    and w1: "w_faults w1 = []" "tb_rows (messages (w_db w1)) = tb_rows (messages (w_db w)) @ [?m]"
      "conversations (w_db w1) = conversations (w_db w)"
    using assms by (simp add: conn run_Exec_nil insert_message_row_def sql_insert_def Let_def vis)
  obtain y w2 where touched: "run_state (WithTenantConn t (Exec (touch_conversation t conv now))) w1 = (y, w2)"
    and w2: "w_faults w2 = []" "messages (w_db w2) = messages (w_db w1)"
      "tb_rows (conversations (w_db w2)) = update_where (\<lambda>c. cv_id c = conv \<and> cv_tenant c = t)
         (\<lambda>c. c\<lparr>cv_last := Some now\<rparr>) (tb_rows (conversations (w_db w1)))"
    using w1(1) by (simp add: conn run_Exec_nil touch_conversation_def sql_update_def Let_def vis_conj)
  obtain w3 where act: "run_state (item_activity r t action (details ?m)) w2 = ((), w3)"
    and w3: "logs_frame w2 w3"
    using logs_run [OF w2(1) logs_quiet(2) logs_kept(2)] by (metis old.unit.exhaust)
  let ?w4 = "snd (run_state (HubBroadcast t (JObj [(''message_id'', JInt (ms_id ?m)), (''type'', JStr action)])) w3)"
  have "run_state (save_message r t conv sender content now action details failure) w = (Reply 201 ?m, ?w4)"
    by (simp only: save_message_def run_state_bind made touched act prod.case sum.case run_HubBroadcast snd_conv
        run_state_return)
  moreover have "messages (w_db ?w4) = messages (w_db w3)" "conversations (w_db ?w4) = conversations (w_db w3)"
    by (simp_all add: run_HubBroadcast)
  ultimately show ?thesis using w1 w2 w3 by (intro exI [of _ ?m]) (simp add: logs_frame_def)
qed

text \<open>What the phone says to a reply: \<open>None\<close> when there is no WhatsApp.\<close>

definition reply_sent :: "phones option \<Rightarrow> int \<Rightarrow> string \<Rightarrow> string \<Rightarrow> (string + wa_client \<times> jid \<times> string) option" where
  "reply_sent whatsapp t number content =
     map_option (\<lambda>ph. SendMessage (ph_parse ph) (ph_deliver ph) t number content (ph_sessions ph)) whatsapp"

text \<open>
  C17. A reply is stored exactly when it was delivered. Without faults, for a conversation of the
  tenant, a reply the phone refuses is answered with 500 and changes nothing; one it accepts, and any
  reply when there is no WhatsApp, is answered with 201, is the one new message of the
  conversation, and moves the conversation's last activity to now. What is sent goes to the contact
  of the conversation.
\<close>

theorem reply_stored_if_delivered:
  assumes "w_faults w = []" "rp_conversation req \<noteq> 0" "rp_content req \<noteq> []"
    and "first_of (filter (\<lambda>c. cv_id c = rp_conversation req \<and> cv_tenant c = tenantID r)
           (tb_rows (conversations (w_db w)))) = Some c"
  shows "\<exists>res v. run_state (ReplyMessage whatsapp r (Some req)) w = (res, v) \<and>
    (case reply_sent whatsapp (tenantID r) (cv_number c) (rp_content req) of
       Some (Inl e) \<Rightarrow> resp_status (fst res) = 500 \<and> snd res = None \<and> w_db v = w_db w
     | sent \<Rightarrow>
         snd res = (case sent of Some (Inr x) \<Rightarrow> Some x | _ \<Rightarrow> None) \<and>
         (\<exists>m. fst res = Reply 201 m \<and> ms_content m = rp_content req \<and> ms_conv m = rp_conversation req \<and>
            tb_rows (messages (w_db v)) = tb_rows (messages (w_db w)) @ [m]) \<and>
         (\<forall>c' \<in> set (tb_rows (conversations (w_db v))).
            cv_id c' = rp_conversation req \<and> cv_tenant c' = tenantID r \<longrightarrow> cv_last c' = Some (w_now w)))"
proof -
  let ?t = "tenantID r" and ?conv = "rp_conversation req" and ?v = "w\<lparr>w_sess := (w_sess w)\<lparr>ss_tenant := None\<rparr>\<rparr>"
  have c: "c \<in> set (tb_rows (conversations (w_db w)))" "cv_id c = ?conv" using first_of_filter_SomeD [OF assms(4)] by auto
  have found: "run_state (WithTenantConn ?t (Exec (conversation_by_id ?t ?conv))) w = (Inr c, ?v)"
    using assms(1,4) by (simp add: run_WithTenantConn_quiet [OF assms(1) quiet_Exec] run_Exec_nil conversation_by_id_def
        sql_row_def vis_conj)
  have start: "run_state (ReplyMessage whatsapp r (Some req)) w =
      run_state (case reply_sent whatsapp ?t (cv_number c) (rp_content req) of
         Some (Inl e) \<Rightarrow> State_Monad.return (Fail 500 (''failed to send whatsapp message: '' @ e), None)
       | sent \<Rightarrow> do {
           res \<leftarrow> save_message r ?t ?conv (agent_or (rp_sender req)) (rp_content req) (w_now w) ''message.reply''
             (\<lambda>m. JObj [(''conversation_id'', JInt ?conv), (''message_id'', JInt (ms_id m))]) ''failed to save message'';
           State_Monad.return (res, case sent of Some (Inr x) \<Rightarrow> Some x | _ \<Rightarrow> None)
         }) ?v"
    using assms(2,3) by (simp add: ReplyMessage_def Let_def found reply_sent_def)
  have "w_faults ?v = []" "has_key cv_id ?conv (conversations (w_db ?v))"
    using assms(1) c by (auto simp: has_key_def)
  then obtain m u where save: "run_state (save_message r ?t ?conv (agent_or (rp_sender req)) (rp_content req) (w_now w)
        ''message.reply'' (\<lambda>m. JObj [(''conversation_id'', JInt ?conv), (''message_id'', JInt (ms_id m))])
        ''failed to save message'') ?v = (Reply 201 m, u)"
    and m: "ms_conv m = ?conv" "ms_content m = rp_content req"
      "tb_rows (messages (w_db u)) = tb_rows (messages (w_db w)) @ [m]"
    and u: "tb_rows (conversations (w_db u)) = update_where (\<lambda>c. cv_id c = ?conv \<and> cv_tenant c = ?t)
       (\<lambda>c. c\<lparr>cv_last := Some (w_now w)\<rparr>) (tb_rows (conversations (w_db w)))"
    using save_message_run [of ?v ?conv] by fastforce
  have last: "cv_last c' = Some (w_now w)"
    if "c' \<in> set (tb_rows (conversations (w_db u)))" "cv_id c' = ?conv \<and> cv_tenant c' = ?t" for c'
    using update_where_hit [where Q = "\<lambda>c. cv_last c = Some (w_now w)", OF that(1) [unfolded u]] that(2) by simp
  show ?thesis
  proof (cases "\<exists>e. reply_sent whatsapp ?t (cv_number c) (rp_content req) = Some (Inl e)")
    case True
    then show ?thesis unfolding start by auto
  next
    case False
    then have "run_state (ReplyMessage whatsapp r (Some req)) w =
        ((Reply 201 m, case reply_sent whatsapp ?t (cv_number c) (rp_content req) of Some (Inr x) \<Rightarrow> Some x | _ \<Rightarrow> None), u)"
      unfolding start by (auto simp: save split: option.split sum.split)
    with False m last show ?thesis by (auto split: option.split sum.split)
  qed
qed

definition reply_world :: world where
  "reply_world = item_world\<lparr>w_db := (w_db item_world)\<lparr>conversations := \<lparr>tb_rows =
     [\<lparr>cv_id = 1, cv_tenant = 1, cv_number = ''4912'', cv_name = None, cv_last = None, cv_created = 0, cv_pic = None\<rparr>],
      tb_seq = 1\<rparr>\<rparr>\<rparr>"

theorem reply_stored_if_delivered_witness:
  "\<exists>res v. run_state (ReplyMessage None (sample_request ''POST'' ''/'')
      (Some \<lparr>rp_conversation = 1, rp_content = ''hi'', rp_sender = []\<rparr>)) reply_world = (res, v) \<and>
    (\<exists>m. fst res = Reply 201 m \<and> ms_content m = ''hi'')"
proof -
  let ?c = "\<lparr>cv_id = 1, cv_tenant = 1, cv_number = ''4912'', cv_name = None, cv_last = None, cv_created = 0, cv_pic = None\<rparr>"
  have t: "tenantID (sample_request ''POST'' ''/'') = 1"
    by (simp add: tenantID_def UserFromContext_def sample_request_def)
  have "w_faults reply_world = []" by (simp add: reply_world_def item_world_def team_world_def sample_world_def)
  moreover have "first_of (filter (\<lambda>c. cv_id c = 1 \<and> cv_tenant c = 1) (tb_rows (conversations (w_db reply_world)))) = Some ?c"
    by (simp add: reply_world_def)
  ultimately show ?thesis
    using reply_stored_if_delivered [of reply_world "\<lparr>rp_conversation = 1, rp_content = ''hi'', rp_sender = []\<rparr>"
        "sample_request ''POST'' ''/''" ?c None]
    by (auto simp: t reply_sent_def)
qed

end
