(* ===== verification/Statements.thy ===== *)
theory Statements
  imports LlmReports Workflows Integrations Inbox
begin

text \<open>
  What the backend can do to its database: the statements that write, as a step relation, and for
  every component the proof that whatever it does is a sequence of them.
\<close>

text \<open>
  Every statement of the backend that writes, with the tenant of its connection. Reading statements
  are left out. Three rules carry a condition the code establishes before it sends the statement:
  the sync looks for a message before it inserts it, an analysis is merged into the metadata that
  was read, and a workflow's executions have no tenant of their own. \<open>rolled_back\<close> is what a
  transaction of the sync leaves that does not commit.
\<close>

inductive stmt :: "int \<Rightarrow> db \<Rightarrow> db \<Rightarrow> bool" for t :: int where
  user: "stmt t d (snd (insert_user email hash t now s d))"
| activity: "stmt t d (snd (insert_activity t u action details now s d))"
| audit: "stmt t d (snd (insert_audit t by what rtype rid before after ip ua now s d))"
| extended: "stmt t d (snd (upsert_extended t u role now s d))"
| member: "stmt t d (snd (upsert_member t u role now s d))"
| role: "stmt t d (snd (insert_role t u role now s d))"
| invitation: "stmt t d (snd (upsert_invitation t email role token by now expires s d))"
| no_extended: "stmt t d (snd (delete_extended t u s d))"
| no_member: "stmt t d (snd (delete_member t u s d))"
| conversation: "stmt t d (snd (upsert_conversation t number name lastAt pic now s d))"
| rolled_back: "stmt t d (conversations_update (\<lambda>T. T\<lparr>tb_seq := tb_seq T + 1\<rparr>) d)"
| touch: "stmt t d (snd (touch_conversation t conv now s d))"
| synced: "(t, mi_id info) \<notin> set (wa_keys (tb_rows (messages d))) \<Longrightarrow>
    stmt t d (snd (insert_message t conv sender content received (Some (message_meta info chat media from)) now s d))"
| sent: "stmt t d (snd (insert_message_row t conv sender content now s d))"
| analysed: "old = None \<or> (\<exists>m \<in> set (tb_rows (messages d)). own_message t mid m \<and> ms_meta m = old) \<Longrightarrow>
    stmt t d (snd (write_meta t mid (merge_analysis old a) s d))"
| important: "stmt t d (snd (flag_important t mid a now s d))"
| summary: "stmt t d (snd (insert_summary t conv x now s d))"
| no_default: "stmt t d (snd (clear_default t s d))"
| provider: "stmt t d (snd (insert_provider t (new_provider req config key t now) s d))"
| changed: "stmt t d (snd (update_provider t pid (changed_provider req encrypted) s d))"
| no_provider: "stmt t d (snd (delete_provider t pid s d))"
| checked: "stmt t d (snd (mark_health t pid status now s d))"
| usage: "stmt t d (snd (insert_usage t pid mid' rec costIn costOut now s d))"
| health: "stmt t d (snd (insert_health t pid status latency e now s d))"
| history: "stmt t d (snd (insert_history t pid by payload now s d))"
| feature: "stmt t d (snd (upsert_feature t name pid priority now s d))"
| no_feature: "stmt t d (snd (delete_feature t name pid s d))"
| item: "stmt t d (snd (insert_item t iq due now s d))"
| item_changed: "stmt t d (snd (update_item t i (changed_item iu due) s d))"
| no_item: "stmt t d (snd (delete_item t i s d))"
| comment: "stmt t d (snd (insert_comment t i u content now s d))"
| no_comment: "stmt t d (snd (delete_comment t i s d))"
| label: "stmt t d (snd (insert_label t name color now s d))"
| labelled: "stmt t d (snd (attach_label t mid l now s d))"
| notification: "stmt t d (snd (insert_notification t u kind content now s d))"
| read: "stmt t d (snd (mark_read t u n s d))"
| workflow: "stmt t d (snd (insert_workflow t wreq now s d))"
| workflow_changed: "stmt t d (snd (update_workflow mixes t wid (changed_workflow wreq now) s d))"
| no_workflow: "stmt t d (snd (delete_workflow t wid s d))"
| executed: "stmt t d (snd (insert_execution wid now s d))"
| integration: "stmt t d (snd (upsert_integration t kind settings now s d))"
| no_integration: "stmt t d (snd (delete_integration t iid s d))"

text \<open>What an action writes: some statements of one tenant, one after the other.\<close>

definition writes :: "int \<Rightarrow> world \<Rightarrow> world \<Rightarrow> bool" where
  "writes t w w' \<longleftrightarrow> (stmt t)\<^sup>*\<^sup>* (w_db w) (w_db w')"

interpretation wr: frame_relation "writes t" for t
  by unfold_locales (auto simp: writes_def)

lemma writes_stmt: "(\<And>s d. stmt t d (snd (q s d))) \<Longrightarrow> state_io_rel (writes t) (Exec q)"
  by (rule wr.keeps_Exec) (auto simp: writes_def)

lemma writes_read: "(\<And>s d. snd (q s d) = d) \<Longrightarrow> state_io_rel (writes t) (Exec q)"
  by (rule wr.keeps_Exec) (auto simp: writes_def)

lemma writes_stmts:
  "state_io_rel (writes t) (Exec (insert_user email hash t now))"
  "state_io_rel (writes t) (Exec (insert_activity t u action details now))"
  "state_io_rel (writes t) (Exec (insert_audit t by what rtype rid before after ip ua now))"
  "state_io_rel (writes t) (Exec (upsert_extended t u role now))"
  "state_io_rel (writes t) (Exec (upsert_member t u role now))"
  "state_io_rel (writes t) (Exec (insert_role t u role now))"
  "state_io_rel (writes t) (Exec (upsert_invitation t email role token by now expires))"
  "state_io_rel (writes t) (Exec (delete_extended t u))"
  "state_io_rel (writes t) (Exec (delete_member t u))"
  "state_io_rel (writes t) (Exec (touch_conversation t conv now))"
  "state_io_rel (writes t) (Exec (insert_message_row t conv sender content now))"
  "state_io_rel (writes t) (Exec (flag_important t mid a now))"
  "state_io_rel (writes t) (Exec (insert_summary t conv x now))"
  "state_io_rel (writes t) (Exec (clear_default t))"
  "state_io_rel (writes t) (Exec (insert_provider t (new_provider req config key t now)))"
  "state_io_rel (writes t) (Exec (update_provider t pid (changed_provider req encrypted)))"
  "state_io_rel (writes t) (Exec (delete_provider t pid))"
  "state_io_rel (writes t) (Exec (mark_health t pid status now))"
  "state_io_rel (writes t) (Exec (insert_usage t pid mid' rec costIn costOut now))"
  "state_io_rel (writes t) (Exec (insert_health t pid status latency e now))"
  "state_io_rel (writes t) (Exec (insert_history t pid by payload now))"
  "state_io_rel (writes t) (Exec (upsert_feature t name pid priority now))"
  "state_io_rel (writes t) (Exec (delete_feature t name pid))"
  "state_io_rel (writes t) (Exec (insert_item t iq due now))"
  "state_io_rel (writes t) (Exec (update_item t i (changed_item iu due)))"
  "state_io_rel (writes t) (Exec (delete_item t i))"
  "state_io_rel (writes t) (Exec (insert_comment t i u content now))"
  "state_io_rel (writes t) (Exec (delete_comment t i))"
  "state_io_rel (writes t) (Exec (insert_label t name color now))"
  "state_io_rel (writes t) (Exec (attach_label t mid l now))"
  "state_io_rel (writes t) (Exec (insert_notification t u kind content now))"
  "state_io_rel (writes t) (Exec (mark_read t u n))"
  "state_io_rel (writes t) (Exec (insert_workflow t wreq now))"
  "state_io_rel (writes t) (Exec (update_workflow mixes t wid (changed_workflow wreq now)))"
  "state_io_rel (writes t) (Exec (delete_workflow t wid))"
  "state_io_rel (writes t) (Exec (insert_execution wid now))"
  "state_io_rel (writes t) (Exec (upsert_integration t kind settings now))"
  "state_io_rel (writes t) (Exec (delete_integration t iid))"
  by (rule writes_stmt, rule stmt.intros)+

lemma writes_reads:
  "state_io_rel (writes t) (Exec (sql_select get ten P))"
  "state_io_rel (writes t) (Exec (sql_row get ten P))"
  "state_io_rel (writes t) (Exec (active_providers t'))"
  "state_io_rel (writes t) (Exec (conversation_texts t' conv))"
  "state_io_rel (writes t) (Exec (find_user email t'))"
  "state_io_rel (writes t) (Exec (count_users t'))"
  "state_io_rel (writes t) (Exec (select_role t' u))"
  "state_io_rel (writes t) (Exec (webhook_row t'))"
  "state_io_rel (writes t) (Exec (conversation_by_id t' conv))"
  "state_io_rel (writes t) (Exec (message_by_id t' mid))"
  by (rule writes_read; simp add: sql_select_def sql_row_def active_providers_def conversation_texts_def find_user_def
      count_users_def select_role_def webhook_row_def conversation_by_id_def message_by_id_def split: option.split)+

lemmas writes_intros =
  wr.keeps_intros wr.keeps_list wr.keeps_first_row wr.keeps_start wr.keeps_memory wr.keeps_try writes_stmts writes_reads

section \<open>Every component writes by statements\<close>

text \<open>The transaction of the sync: it commits, leaves nothing, or leaves an advanced sequence.\<close>

lemma faulty_ok_run: "\<exists>b fs. run_state (faulty (ok ())) (w :: world) = (b, w\<lparr>w_faults := fs\<rparr>) \<and> (b = Inr () \<or> b = Inl Fault)"
  by (cases "w_faults w") (auto simp: faulty_def intro: exI [of _ "w_faults w"])

lemma upsert_effect:
  "snd (upsert_conversation t number name lastAt pic now s d)\<lparr>conversations :=
     (conversations (snd (upsert_conversation t number name lastAt pic now s d)))\<lparr>tb_rows := tb_rows (conversations d)\<rparr>\<rparr> =
   conversations_update (\<lambda>T. T\<lparr>tb_seq := tb_seq T + 1\<rparr>) d"
  by (simp add: upsert_conversation_def sql_upsert_def Let_def split: option.split)

lemma conversation_tx_writes:
  "state_io_rel (writes t) (conversation_tx (upsert_conversation t number name lastAt pic now))"
  unfolding state_io_rel_def
proof
  fix w :: world
  let ?q = "upsert_conversation t number name lastAt pic now"
  let ?q2 = "\<lambda>b. case b of
         Inl e \<Rightarrow> do { _ \<leftarrow> restore_conversations (tb_rows (conversations (w_db w))); err e }
       | Inr row \<Rightarrow> do {
           commit \<leftarrow> faulty (ok ());
           case commit of
             Inl e \<Rightarrow> do { _ \<leftarrow> restore_conversations (tb_rows (conversations (w_db w))); err e }
           | Inr _ \<Rightarrow> ok row
         }"
  obtain b fs where b: "run_state (faulty (ok ())) w = (b, w\<lparr>w_faults := fs\<rparr>)" "b = Inr () \<or> b = Inl Fault"
    using faulty_ok_run by blast
  let ?w = "w\<lparr>w_faults := fs\<rparr>"
  obtain x v where x: "run_state (Exec ?q) ?w = (x, v)" by (cases "run_state (Exec ?q) ?w")
  have v: "w_db v = w_db w \<and> x = Inl Fault \<or>
      w_db v = snd (?q (w_sess w) (w_db w)) \<and> w_sess v = w_sess w"
    using x by (auto simp: Exec_def faulty_def split_beta split: list.splits if_splits)
  have run: "snd (run_state (conversation_tx ?q) w) = (if b = Inr () then snd (run_state (?q2 x) v) else ?w)"
    using b x by (auto simp: conversation_tx_def run_then_ok)
  obtain c gs where c: "run_state (faulty (ok ())) v = (c, v\<lparr>w_faults := gs\<rparr>)"
    using faulty_ok_run by blast
  have undone: "w_db v = w_db w \<or> w_db v = snd (?q (w_sess w) (w_db w)) \<Longrightarrow>
      (stmt t)\<^sup>*\<^sup>* (w_db w) ((w_db v)\<lparr>conversations := (conversations (w_db v))\<lparr>tb_rows := tb_rows (conversations (w_db w))\<rparr>\<rparr>)"
    using upsert_effect [where s = "w_sess w" and d = "w_db w"] stmt.rolled_back [where d = "w_db w"] by auto
  have fine: "(stmt t)\<^sup>*\<^sup>* (w_db w) (snd (?q (w_sess w) (w_db w)))"
    by (intro r_into_rtranclp stmt.conversation)
  have db: "w_db v = w_db w \<or> w_db v = snd (?q (w_sess w) (w_db w))"
    using v by auto
  have "(stmt t)\<^sup>*\<^sup>* (w_db w) (w_db (snd (run_state (?q2 x) v)))"
  proof (cases x)
    case (Inl e)
    with undone [OF db] show ?thesis by (simp add: restore_conversations_def)
  next
    case (Inr row)
    with v have "w_db v = snd (?q (w_sess w) (w_db w))" by auto
    with Inr undone [OF db] c fine show ?thesis by (cases c) (simp_all add: restore_conversations_def)
  qed
  then show "writes t w (snd (run_state (conversation_tx ?q) w))"
    unfolding run by (auto simp: writes_def)
qed

text \<open>The sync looks the message up in the connection it inserts it through.\<close>

lemma writes_inv: "(\<And>d0. state_io_rel (inv_frame (\<lambda>d. (stmt t)\<^sup>*\<^sup>* d0 d)) m) \<Longrightarrow> state_io_rel (writes t) m"
  by (auto simp: state_io_rel_def inv_frame_def writes_def)

lemma Exec_effect:
  "run_state (Exec q) w = (x, w') \<Longrightarrow>
     w_sess w' = w_sess w \<and> (x = Inl Fault \<and> w_db w' = w_db w \<or> q (w_sess w) (w_db w) = (x, w_db w'))"
  by (auto simp: Exec_def faulty_def split_beta prod_eq_iff split: list.splits if_splits)

lemma select_message_none:
  "ss_tenant s = Some t \<Longrightarrow> select_message t i s d = (Inl NoRows, d') \<Longrightarrow> (t, i) \<notin> set (wa_keys (tb_rows (messages d)))"
  by (auto simp: select_message_def sql_row_def visible_def in_wa_keys filter_empty_conv split: option.splits)

lemma select_message_read: "snd (select_message t i s d) = d"
  by (simp add: select_message_def sql_row_def split: option.split)

lemma insertMessage_writes: "state_io_rel (writes t) (insertMessage t conv info content chat media)"
proof -
  let ?sender = "if mi_fromMe info then ''me'' else j_text (mi_sender info)"
  let ?ins = "\<lambda>now. insert_message t conv ?sender content (mi_time info) (Some (message_meta info chat media ?sender)) now"
  let ?fn = "\<lambda>now. do {
       found \<leftarrow> Exec (select_message t (mi_id info));
       case found of
         Inr m \<Rightarrow> ok (ms_id m)
       | Inl e \<Rightarrow>
           if e \<noteq> NoRows then err e
           else
             let sender = ?sender in
             then_ok (Exec (insert_message t conv sender content (mi_time info)
                (Some (message_meta info chat media sender)) now)) (\<lambda>m. ok (ms_id m))
     }"
  have "(stmt t)\<^sup>*\<^sup>* d0 (w_db (snd (run_state (?fn now) v)))"
    if v: "ss_tenant (w_sess v) = Some t" "(stmt t)\<^sup>*\<^sup>* d0 (w_db v)" for d0 v now
  proof -
    obtain f v1 where f: "run_state (Exec (select_message t (mi_id info))) v = (f, v1)"
      by (cases "run_state (Exec (select_message t (mi_id info))) v")
    note e = Exec_effect [OF f]
    have v1: "w_db v1 = w_db v" using e select_message_read by (metis snd_conv)
    obtain x v2 where x: "run_state (Exec (?ins now)) v1 = (x, v2)" by (cases "run_state (Exec (?ins now)) v1")
    have "stmt t (w_db v1) (w_db v2) \<or> w_db v2 = w_db v1" if "f = Inl NoRows"
    proof -
      have "(t, mi_id info) \<notin> set (wa_keys (tb_rows (messages (w_db v1))))"
        using e that select_message_none [OF v(1)] v1 by auto
      from stmt.synced [OF this] Exec_effect [OF x] show ?thesis by (metis snd_conv)
    qed
    with f x v1 v(2) show ?thesis
      by (auto simp: state_simps Let_def split: sum.split intro: rtranclp.rtrancl_into_rtrancl)
  qed
  then have main: "state_io_rel (inv_frame (\<lambda>d. (stmt t)\<^sup>*\<^sup>* d0 d)) (WithTenantConn t (?fn now))" for d0 now
    by (intro WithTenantConn_session)
  have "state_io_rel (writes t) (WithTenantConn t (?fn now))" for now
    by (rule writes_inv) (rule main)
  then show ?thesis
    unfolding insertMessage_def by (intro wr.keeps_bind wr.keeps_Now wr.keeps_return)
qed

lemma Enqueue_writes: "state_io_rel (writes t) (Enqueue m)"
  unfolding Enqueue_def Let_def by (intro wr.keeps_intros wr.keeps_faulty)

lemma UpsertConversation_writes: "state_io_rel (writes t) (UpsertConversation t client chat name lastAt)"
  unfolding UpsertConversation_def Let_def by (intro wr.keeps_intros conversation_tx_writes)

lemma handleMessage_writes: "state_io_rel (writes t) (handleMessage q t client info msg chat name)"
  unfolding handleMessage_def Let_def
  by (intro wr.keeps_intros UpsertConversation_writes insertMessage_writes Enqueue_writes)

lemma on_event_writes: "state_io_rel (writes t) (on_event q t client e)"
proof (cases e)
  case (HistoryEvt h)
  have "state_io_rel (writes t) (history_messages q t client chat name ms)" for chat name ms
    by (induction q t client chat name ms rule: history_messages.induct)
      (simp_all add: wr.keeps_return wr.keeps_bind handleMessage_writes)
  then have "state_io_rel (writes t) (handleHistorySync q t client h)"
    by (induction q t client h rule: handleHistorySync.induct) (auto intro!: wr.keeps_intros)
  then show ?thesis by (simp add: HistoryEvt)
qed (simp add: handleMessage_writes)

lemma SyncContacts_writes: "state_io_rel (writes t) (SyncContactsForTenant t contacts ss)"
proof (cases "connected_session t ss")
  case (Some s)
  then have "se_tenant s = t" unfolding connected_session_def by (auto simp: find_Some_iff)
  moreover have "state_io_rel (writes t) (syncContacts t client cs n)" for client cs n
    by (induction t client cs n rule: syncContacts.induct) (auto intro!: wr.keeps_intros UpsertConversation_writes)
  ultimately show ?thesis using Some
    by (auto simp: SyncContactsForTenant_def intro: wr.keeps_return split: option.split)
qed (auto simp: SyncContactsForTenant_def intro: wr.keeps_return)

text \<open>An analysis is merged into what the same connection has just read.\<close>

lemma StoreAnalysis_writes: "state_io_rel (writes t) (StoreAnalysis t i a)"
proof -
  let ?read = "sql_row messages ms_tenant (own_message t i)"
  let ?rest = "\<lambda>now row. then_ok (Exec (write_meta t i (merge_analysis (case row of Inr m \<Rightarrow> ms_meta m | Inl _ \<Rightarrow> None) a)))
     (\<lambda>_. if an_important a then then_ok (Exec (flag_important t i a now)) (\<lambda>_. ok ()) else ok ())"
  have tail: "state_io_rel (writes t) (if an_important a then then_ok (Exec (flag_important t i a now)) (\<lambda>_. ok ()) else ok ())" for now
    by (intro writes_intros)
  have "writes t w (snd (run_state (store_callback t i a now) w))" for w now
  proof -
    obtain row v where row: "run_state (Exec ?read) w = (row, v)" by (cases "run_state (Exec ?read) w")
    let ?old = "case row of Inr m \<Rightarrow> ms_meta m | Inl _ \<Rightarrow> None"
    have v: "w_db v = w_db w" using Exec_effect [OF row] by (auto simp: sql_row_def split: option.splits)
    have old: "?old = None \<or> (\<exists>m \<in> set (tb_rows (messages (w_db v))). own_message t i m \<and> ms_meta m = ?old)"
      using Exec_effect [OF row]
      by (auto simp: sql_row_def v split: option.splits sum.splits dest!: first_of_filter_SomeD)
    obtain x u where x: "run_state (Exec (write_meta t i (merge_analysis ?old a))) v = (x, u)"
      by (cases "run_state (Exec (write_meta t i (merge_analysis ?old a))) v")
    have "writes t w u"
      using Exec_effect [OF x] stmt.analysed [OF old, of a "w_sess v"] v
      by (auto simp: writes_def prod_eq_iff)
    moreover have "writes t u (snd (run_state (if an_important a then then_ok (Exec (flag_important t i a now)) (\<lambda>_. ok ()) else ok ()) u))"
      using tail unfolding state_io_rel_def by blast
    moreover have "snd (run_state (store_callback t i a now) w) = (case x of Inl e \<Rightarrow> u
        | Inr _ \<Rightarrow> snd (run_state (if an_important a then then_ok (Exec (flag_important t i a now)) (\<lambda>_. ok ()) else ok ()) u))"
      using row x by (simp add: store_callback_def Let_def run_then_ok split: sum.split)
    ultimately show ?thesis by (cases x) (auto intro: wr.trans)
  qed
  then have "state_io_rel (writes t) (store_callback t i a now)" for now by (simp add: state_io_rel_def)
  then show ?thesis unfolding StoreAnalysis_def by (intro wr.keeps_intros)
qed

text \<open>The provider store, the analysis service, the worker and the health monitor.\<close>

lemma store_writes:
  "state_io_rel (writes t) (Store_ListProviders env t)"
  "state_io_rel (writes t) (Store_GetDefaultProvider env t)"
  "state_io_rel (writes t) (Store_GetProviderByID env t i)"
  "state_io_rel (writes t) (ListProviderIDs t)"
  "state_io_rel (writes t) (InsertUsage t i mid rec ci co)"
  "state_io_rel (writes t) (InsertHealth t i status latency e)"
  "state_io_rel (writes t) (RecentHealthFailures t i)"
  "state_io_rel (writes t) (SetProviderHealth t i status)"
  "state_io_rel (writes t) (writeProviderHistory t i u payload)"
  unfolding Store_ListProviders_def Store_GetDefaultProvider_def Store_GetProviderByID_def ListProviderIDs_def
    InsertUsage_def InsertHealth_def RecentHealthFailures_def SetProviderHealth_def writeProviderHistory_def
  by (intro writes_intros)+

lemmas router_writes = wr.keeps_router [OF store_writes(3)] wr.keeps_default [OF store_writes(2,1)]

lemma service_writes:
  "state_io_rel (writes t) (Service_AnalyzeWithFallback env t m mid)"
  "state_io_rel (writes t) (ask_provider env t pid mid feature call)"
  "state_io_rel (writes t) (Service_HealthCheck env t pid)"
  unfolding Service_AnalyzeWithFallback_def Router_AnalyzeWithFallback_def ask_provider_def Service_HealthCheck_def Let_def
  by (intro writes_intros store_writes router_writes)+

lemma worker_item_writes: "state_io_rel (writes (qm_tenant m)) (worker_item env m)"
  unfolding worker_item_def by (intro writes_intros service_writes StoreAnalysis_writes)

lemma health_runOnce_writes: "state_io_rel (writes t) (health_runOnce env t)"
proof -
  have "state_io_rel (writes t) (check_provider env t i)" for i
    unfolding check_provider_def Let_def by (intro writes_intros store_writes router_writes)
  then have "state_io_rel (writes t) (check_providers env t ids)" for ids
    by (induction ids) (auto intro!: wr.keeps_intros)
  then show ?thesis unfolding health_runOnce_def by (intro writes_intros store_writes)
qed

lemma batch_writes:
  "state_io_rel (writes t) (enqueue_batch t' ms)" "state_io_rel (writes t) (analyse_batch env t ms)"
proof -
  show "state_io_rel (writes t) (enqueue_batch t' ms)"
    by (induction t' ms rule: enqueue_batch.induct) (auto intro!: writes_intros Enqueue_writes)
  show "state_io_rel (writes t) (analyse_batch env t ms)"
    by (induction env t ms rule: analyse_batch.induct) (auto intro!: writes_intros service_writes StoreAnalysis_writes)
qed

lemma llm_writes:
  "state_io_rel (writes (tenantID r)) (CreateProvider api r b1)"
  "state_io_rel (writes (tenantID r)) (UpdateProvider api r b2 i)"
  "state_io_rel (writes (tenantID r)) (DeleteProvider r i)"
  "state_io_rel (writes (tenantID r)) (TestProvider api r i)"
  "state_io_rel (writes (tenantID r)) (AnalyzeMessage api r b3)"
  "state_io_rel (writes (tenantID r)) (BatchAnalyze api r b4)"
  "state_io_rel (writes (tenantID r)) (SummarizeConversation api r b5)"
  "state_io_rel (writes (tenantID r)) (AssignProviderToFeature r b6 name)"
  "state_io_rel (writes (tenantID r)) (DeleteFeatureProvider r name i)"
  unfolding CreateProvider_def UpdateProvider_def update_callback_def DeleteProvider_def TestProvider_def AnalyzeMessage_def
    BatchAnalyze_def SummarizeConversation_def AssignProviderToFeature_def DeleteFeatureProvider_def
    load_texts_def summary_provider_def Service_Analyze_def Service_Summarize_def Let_def
  by (intro writes_intros store_writes router_writes service_writes StoreAnalysis_writes batch_writes)+

text \<open>Roles and logs, accounts, and the remaining handlers.\<close>

lemma log_writes:
  "state_io_rel (writes t) (logAudit r t by what rtype rid before after)"
  "state_io_rel (writes t) (logActivity t u action details)"
  "state_io_rel (writes t) (getUserRole t' uid)"
  "state_io_rel (writes t) (item_activity r t action details)"
  "state_io_rel (writes t) (setUserRole t uid role)"
  "state_io_rel (writes t) (createInvitation t email role by)"
  unfolding logAudit_def logActivity_def getUserRole_def item_activity_def setUserRole_def createInvitation_def
  by (intro writes_intros)+

lemma team_writes:
  "state_io_rel (writes (tenantID r)) (Authorize r required)"
  "state_io_rel (writes (tenantID r)) (AddTeamUser r b1)"
  "state_io_rel (writes (tenantID r)) (UpdateTeamUserRole r b2 i)"
  "state_io_rel (writes (tenantID r)) (RemoveTeamUser r i)"
  "state_io_rel (writes (tenantID r)) (SendInvitation r b3)"
  unfolding Authorize_def AddTeamUser_def UpdateTeamUserRole_def RemoveTeamUser_def SendInvitation_def Let_def
  by (intro writes_intros log_writes)+

lemma tokens_writes: "state_io_rel (writes t) (issue_tokens env u)"
  unfolding issue_tokens_def by (intro writes_intros)

lemma ensureWhatsAppUser_writes: "state_io_rel (writes t) (ensureWhatsAppUser env t jid)"
  unfolding ensureWhatsAppUser_def find_or_insert_def Let_def
  by (intro writes_intros log_writes tokens_writes)

lemma items_writes:
  "state_io_rel (writes (tenantID r)) (MarkNotificationRead r n)"
  "state_io_rel (writes (tenantID r)) (CreateActionItem r b1)"
  "state_io_rel (writes (tenantID r)) (UpdateActionItem r b2 i)"
  "state_io_rel (writes (tenantID r)) (DeleteActionItem r i)"
  "state_io_rel (writes (tenantID r)) (CreateActionItemComment r b3 i)"
  "state_io_rel (writes (tenantID r)) (DeleteComment r i)"
  "state_io_rel (writes (tenantID r)) (CreateLabel r b4)"
  "state_io_rel (writes (tenantID r)) (AddLabelToMessage r b5 i)"
  unfolding MarkNotificationRead_def CreateActionItem_def UpdateActionItem_def DeleteActionItem_def
    CreateActionItemComment_def DeleteComment_def CreateLabel_def AddLabelToMessage_def notify_assignee_def
    createNotification_def Let_def
  by (intro writes_intros log_writes)+

lemma other_writes:
  "state_io_rel (writes (tenantID r)) (CreateWorkflow r b1)"
  "state_io_rel (writes (tenantID r)) (UpdateWorkflow mixes r b2 wid)"
  "state_io_rel (writes (tenantID r)) (DeleteWorkflow r wid)"
  "state_io_rel (writes (tenantID r)) (TestWorkflow r wid)"
  "state_io_rel (writes (tenantID r)) (ConnectIntegration r b3 kind)"
  "state_io_rel (writes (tenantID r)) (DisconnectIntegration r i)"
  "state_io_rel (writes (tenantID r)) (ReceiveWebhook mac r payload)"
  "state_io_rel (writes (tenantID r)) (ReplyMessage whatsapp r b4)"
  "state_io_rel (writes (tenantID r)) (ForwardMessage r b5)"
  unfolding CreateWorkflow_def UpdateWorkflow_def DeleteWorkflow_def TestWorkflow_def ConnectIntegration_def
    DisconnectIntegration_def ReceiveWebhook_def lookupWebhookSecret_def ReplyMessage_def ForwardMessage_def
    save_message_def Let_def
  by (intro writes_intros log_writes)+

text \<open>
  Signing in and registering run for the tenant of the body: the user that comes back is one of
  that tenant, and the log entry goes to the user's tenant.
\<close>

lemma WithTenantConn_result:
  assumes "\<And>w. P (fst (run_state fn w))" "\<And>e. P (Inl e)"
  shows "P (fst (run_state (WithTenantConn t fn) w))"
  using assms by (auto simp: WithTenantConn_def split_beta split: sum.split)

lemma Exec_result:
  assumes "\<And>s d. P (fst (q s d))" "P (Inl Fault)"
  shows "P (fst (run_state (Exec q) w))"
  using assms by (auto simp: Exec_def faulty_def split_beta split: list.split)

definition of_tenant :: "int \<Rightarrow> dberr + user_row \<Rightarrow> bool" where
  "of_tenant t x \<longleftrightarrow> (case x of Inl e \<Rightarrow> True | Inr u \<Rightarrow> us_tenant u = t)"

lemma user_of_tenant:
  "of_tenant t (fst (run_state (WithTenantConn t (Exec (find_user email t))) w))"
  "of_tenant t (fst (run_state (WithTenantConn t (Exec (insert_user email h t now))) w))"
  by (rule WithTenantConn_result [where P = "of_tenant t"], rule Exec_result [where P = "of_tenant t"];
      auto simp: of_tenant_def find_user_def sql_row_def insert_user_def sql_insert_def Let_def split: option.split
        dest!: first_of_filter_SomeD)+

context frame_relation
begin

lemma keeps_bind_result:
  assumes "state_io_rel R m" "\<And>w. P (fst (run_state m w))" "\<And>x. P x \<Longrightarrow> state_io_rel R (f x)"
  shows "state_io_rel R (State_Monad.bind m f)"
  unfolding state_io_rel_def
proof
  fix w
  have "R w (snd (run_state m w))" using assms(1) by (simp add: state_io_rel_def)
  moreover have "R (snd (run_state m w)) (snd (run_state (f (fst (run_state m w))) (snd (run_state m w))))"
    using assms(2,3) by (simp add: state_io_rel_def)
  ultimately show "R w (snd (run_state (State_Monad.bind m f) w))" by (auto intro: trans simp: split_beta)
qed

lemma keeps_tokens: "state_io_rel R (issue_tokens env u)"
  unfolding issue_tokens_def by (intro keeps_intros)

text \<open>What follows a row of the tenant's user depends on the tenant alone.\<close>

lemma keeps_user:
  assumes "of_tenant t x" "\<And>e. state_io_rel R (f e)" "\<And>u. us_tenant u = t \<Longrightarrow> state_io_rel R (g u)"
  shows "state_io_rel R (case x of Inl e \<Rightarrow> f e | Inr u \<Rightarrow> g u)"
  using assms by (cases x) (auto simp: of_tenant_def)

lemma keeps_Login:
  assumes "\<And>email. state_io_rel R (Exec (find_user email (rr_tenant req)))"
    and "\<And>u a d. state_io_rel R (logActivity (rr_tenant req) u a d)"
    and "\<And>uid. state_io_rel R (getUserRole (rr_tenant req) uid)"
  shows "state_io_rel R (Login env r (Some req))"
proof -
  have logs: "us_tenant u = rr_tenant req \<Longrightarrow> state_io_rel R (logActivity (us_tenant u) x a d)"
    "us_tenant u = rr_tenant req \<Longrightarrow> state_io_rel R (getUserRole (us_tenant u) i)" for u x a d i
    using assms(2,3) by simp_all
  show ?thesis
    unfolding Login_def option.case
    by (intro keeps_if keeps_return; rule keeps_bind_result [where P = "of_tenant (rr_tenant req)"],
        intro keeps_WithTenantConn assms(1), rule user_of_tenant(1),
        erule keeps_user; intro keeps_intros keeps_tokens logs)
qed

lemma keeps_Register:
  assumes "\<And>email h now. state_io_rel R (Exec (insert_user email h (rr_tenant req) now))"
    and "\<And>u a d. state_io_rel R (logActivity (rr_tenant req) u a d)"
  shows "state_io_rel R (AuthHandlers.Register env r (Some req))"
proof -
  have logs: "us_tenant u = rr_tenant req \<Longrightarrow> state_io_rel R (logActivity (us_tenant u) x a d)" for u x a d
    using assms(2) by simp
  show ?thesis
    unfolding AuthHandlers.Register_def option.case
    by (intro keeps_if keeps_return keeps_option keeps_bind [OF keeps_Now];
        rule keeps_bind_result [where P = "of_tenant (rr_tenant req)"],
        intro keeps_WithTenantConn assms(1), rule user_of_tenant(2),
        erule keeps_user; intro keeps_intros keeps_tokens logs)
qed

end

lemma sign_in_writes:
  "state_io_rel (writes (rr_tenant req)) (Login env r (Some req))"
  "state_io_rel (writes (rr_tenant req)) (AuthHandlers.Register env r (Some req))"
  by (intro wr.keeps_Login wr.keeps_Register writes_intros log_writes)+

lemma sign_in_tenant:
  "state_io_rel (tenant_frame (rr_tenant req)) (Login env r (Some req))"
  "state_io_rel (tenant_frame (rr_tenant req)) (AuthHandlers.Register env r (Some req))"
  unfolding atomize_conj
  by (intro conjI tenant.keeps_Login tenant.keeps_Register logActivity_tenant getUserRole_tenant)
    (unfold find_user_def insert_user_def, (intro keeps_stmts; simp)+)

end
