(* ===== verification/Schema.thy ===== *)
theory Schema
  imports Statements "HOL-Library.Sublist"
begin

text \<open>
  The schema of the migrations as an invariant of the database: keys drawn from sequences, unique
  indexes, foreign keys and integer ranges, and beside it what only the code promises: one message
  per WhatsApp id, and records that are never changed or deleted. Each is proved of every statement
  of \<open>Statements\<close> and carries over to whatever writes by them.
\<close>

section \<open>What the migrations ask of a table\<close>

definition col :: "('r \<Rightarrow> 'a) \<Rightarrow> 'r table \<Rightarrow> 'a set" where
  "col f T = f ` set (tb_rows T)"

definition unique :: "('r \<Rightarrow> 'a) \<Rightarrow> 'r table \<Rightarrow> bool" where
  "unique f T \<longleftrightarrow> distinct (map f (tb_rows T))"

text \<open>\<open>BIGSERIAL PRIMARY KEY\<close>: the ids are distinct and were all drawn from the sequence.\<close>

definition keyed :: "('r \<Rightarrow> int) \<Rightarrow> 'r table \<Rightarrow> bool" where
  "keyed key T \<longleftrightarrow> unique key T \<and> 0 \<le> tb_seq T \<and> (\<forall>i \<in> col key T. 0 < i \<and> i \<le> tb_seq T)"

definition keys_ok :: "db \<Rightarrow> bool" where
  "keys_ok d \<longleftrightarrow>
     keyed us_id (users d) \<and> keyed cv_id (conversations d) \<and> keyed ms_id (messages d) \<and>
     keyed ds_id (daily_summaries d) \<and> keyed im_id (important_messages d) \<and> keyed ai_id (action_items d) \<and>
     keyed ac_id (user_activity_logs d) \<and> keyed pv_id (llm_providers d) \<and> keyed ug_id (llm_usage_logs d) \<and>
     keyed hl_id (llm_provider_health d) \<and> keyed hs_id (llm_provider_history d) \<and>
     keyed fa_id (llm_feature_assignments d) \<and> keyed ur_id (user_roles d) \<and> keyed tm_id (team_members d) \<and>
     keyed ti_id (team_invitations d) \<and> keyed wf_id (workflows d) \<and> keyed we_id (workflow_executions d) \<and>
     keyed ig_id (integrations d) \<and> keyed au_id (audit_logs d) \<and> keyed lb_id (labels d) \<and>
     keyed cm_id (comments d) \<and> keyed nt_id (notifications d)"

text \<open>The primary keys that are not serial, and the unique indexes.\<close>

definition unique_ok :: "db \<Rightarrow> bool" where
  "unique_ok d \<longleftrightarrow>
     unique (\<lambda>u. (us_tenant u, us_email u)) (users d) \<and>
     unique (\<lambda>c. (cv_tenant c, cv_number c)) (conversations d) \<and>
     unique im_msg (important_messages d) \<and> distinct (default_tenants d) \<and>
     unique (\<lambda>a. (fa_tenant a, fa_feature a, fa_provider a)) (llm_feature_assignments d) \<and>
     unique ue_user (users_extended d) \<and> unique (\<lambda>m. (tm_team m, tm_user m)) (team_members d) \<and>
     unique (\<lambda>i. (ti_tenant i, ti_email i, ti_status i)) (team_invitations d) \<and>
     unique (\<lambda>x. (ig_tenant x, ig_type x)) (integrations d) \<and>
     unique (\<lambda>l. (lb_tenant l, lb_name l)) (labels d) \<and>
     unique (\<lambda>x. (ml_msg x, ml_label x)) (message_labels d)"

text \<open>The foreign keys.\<close>

definition refs_ok :: "db \<Rightarrow> bool" where
  "refs_ok d \<longleftrightarrow>
     col ms_conv (messages d) \<subseteq> col cv_id (conversations d) \<and>
     col ds_conv (daily_summaries d) \<subseteq> col cv_id (conversations d) \<and>
     col ai_conv (action_items d) \<subseteq> col cv_id (conversations d) \<and>
     col im_msg (important_messages d) \<subseteq> col ms_id (messages d) \<and>
     col ml_msg (message_labels d) \<subseteq> col ms_id (messages d) \<and>
     col ml_label (message_labels d) \<subseteq> col lb_id (labels d) \<and>
     col cm_item (comments d) \<subseteq> col ai_id (action_items d) \<and>
     col cm_user (comments d) \<subseteq> col us_id (users d) \<and>
     col ac_user (user_activity_logs d) \<subseteq> col us_id (users d) \<and>
     col ue_user (users_extended d) \<subseteq> col us_id (users d) \<and>
     col ur_user (user_roles d) \<subseteq> col us_id (users d) \<and>
     col tm_user (team_members d) \<subseteq> col us_id (users d) \<and>
     col nt_user (notifications d) \<subseteq> col us_id (users d) \<and>
     col we_workflow (workflow_executions d) \<subseteq> col wf_id (workflows d) \<and>
     col ug_provider (llm_usage_logs d) \<subseteq> col pv_id (llm_providers d) \<and>
     col hl_provider (llm_provider_health d) \<subseteq> col pv_id (llm_providers d) \<and>
     col hs_provider (llm_provider_history d) \<subseteq> col pv_id (llm_providers d) \<and>
     col fa_provider (llm_feature_assignments d) \<subseteq> col pv_id (llm_providers d)"

text \<open>The \<open>INTEGER\<close> columns the requests can set.\<close>

definition ranges_ok :: "db \<Rightarrow> bool" where
  "ranges_ok d \<longleftrightarrow>
     list_all fits_int32 (tb_rows (llm_providers d)) \<and>
     list_all (\<lambda>a. is_int32 (fa_priority a)) (tb_rows (llm_feature_assignments d))"

definition schema_ok :: "db \<Rightarrow> bool" where
  "schema_ok d \<longleftrightarrow> keys_ok d \<and> unique_ok d \<and> refs_ok d \<and> ranges_ok d"

section \<open>Keys\<close>

lemma image_update_where: "(\<And>r. P r \<Longrightarrow> g (f r) = g r) \<Longrightarrow> g ` set (update_where P f xs) = g ` set xs"
  by (metis list.set_map map_update_where)

lemma keyed_seq: "keyed key T \<Longrightarrow> keyed key (T\<lparr>tb_seq := tb_seq T + 1\<rparr>)"
  by (fastforce simp: keyed_def unique_def col_def)

lemma keyed_append:
  assumes "keyed key T" "key r = tb_seq T + 1"
  shows "keyed key (T\<lparr>tb_rows := tb_rows T @ [r], tb_seq := tb_seq T + 1\<rparr>)"
proof -
  have "tb_seq T + 1 \<notin> key ` set (tb_rows T)" using assms(1) by (force simp: keyed_def col_def)
  with assms show ?thesis by (fastforce simp: keyed_def unique_def col_def)
qed

lemma keyed_rewrite:
  assumes "keyed key T" "\<And>r. P r \<Longrightarrow> key (f r) = key r"
  shows "keyed key (T\<lparr>tb_rows := update_where P f (tb_rows T)\<rparr>)"
    and "keyed key (T\<lparr>tb_rows := update_where P f (tb_rows T), tb_seq := tb_seq T + 1\<rparr>)"
  using assms by (fastforce simp: keyed_def unique_def col_def image_update_where map_update_where)+

lemma keyed_filter: "keyed key T \<Longrightarrow> keyed key (T\<lparr>tb_rows := filter P (tb_rows T)\<rparr>)"
  by (auto simp: keyed_def unique_def col_def)

text \<open>
  A serial table: the statements on it keep the keys of the database when they number new rows by
  the sequence and leave the key of the others alone.
\<close>

locale serial_table =
  fixes get :: "db \<Rightarrow> 'r table"
    and upd :: "('r table \<Rightarrow> 'r table) \<Rightarrow> db \<Rightarrow> db"
    and key :: "'r \<Rightarrow> int"
  assumes has: "keys_ok d \<Longrightarrow> keyed key (get d)"
    and put: "keys_ok d \<Longrightarrow> keyed key (f (get d)) \<Longrightarrow> keys_ok (upd f d)"
begin

lemma insert: "keys_ok d \<Longrightarrow> (\<And>i. key (mk i) = i) \<Longrightarrow> keys_ok (snd (sql_insert get upd ten good mk s d))"
  unfolding sql_insert_def Let_def by (auto intro!: put keyed_append keyed_seq dest: has)

lemma insert_ignore:
  "keys_ok d \<Longrightarrow> (\<And>i. key (mk i) = i) \<Longrightarrow> keys_ok (snd (sql_insert_ignore get upd ten good mk same s d))"
  unfolding sql_insert_ignore_def Let_def by (auto intro!: put keyed_append keyed_seq dest: has)

lemma update: "keys_ok d \<Longrightarrow> (\<And>r. P r \<Longrightarrow> key (f r) = key r) \<Longrightarrow> keys_ok (snd (sql_update get upd ten P f s d))"
  unfolding sql_update_def Let_def by (auto intro!: put keyed_rewrite dest: has)

lemma upsert:
  "keys_ok d \<Longrightarrow> (\<And>i. key (mk i) = i) \<Longrightarrow> (\<And>r. same r \<Longrightarrow> key (f r) = key r) \<Longrightarrow>
     keys_ok (snd (sql_upsert get upd ten good mk same f s d))"
  unfolding sql_upsert_def Let_def
  by (auto intro!: put keyed_append keyed_seq keyed_rewrite dest: has split: option.split)

lemma delete:
  assumes "keys_ok d" "\<And>gone d. keys_ok d \<Longrightarrow> keys_ok (casc gone d)"
  shows "keys_ok (snd (sql_delete get upd ten casc P s d))"
  unfolding sql_delete_def Let_def snd_conv by (intro assms put keyed_filter has)

lemmas statements = insert insert_ignore update upsert delete

end
interpretation sr_users: serial_table users users_update us_id
  by unfold_locales (simp_all add: keys_ok_def)
interpretation sr_conversations: serial_table conversations conversations_update cv_id
  by unfold_locales (simp_all add: keys_ok_def)
interpretation sr_messages: serial_table messages messages_update ms_id
  by unfold_locales (simp_all add: keys_ok_def)
interpretation sr_summaries: serial_table daily_summaries daily_summaries_update ds_id
  by unfold_locales (simp_all add: keys_ok_def)
interpretation sr_important: serial_table important_messages important_messages_update im_id
  by unfold_locales (simp_all add: keys_ok_def)
interpretation sr_items: serial_table action_items action_items_update ai_id
  by unfold_locales (simp_all add: keys_ok_def)
interpretation sr_activity: serial_table user_activity_logs user_activity_logs_update ac_id
  by unfold_locales (simp_all add: keys_ok_def)
interpretation sr_providers: serial_table llm_providers llm_providers_update pv_id
  by unfold_locales (simp_all add: keys_ok_def)
interpretation sr_usage: serial_table llm_usage_logs llm_usage_logs_update ug_id
  by unfold_locales (simp_all add: keys_ok_def)
interpretation sr_health: serial_table llm_provider_health llm_provider_health_update hl_id
  by unfold_locales (simp_all add: keys_ok_def)
interpretation sr_history: serial_table llm_provider_history llm_provider_history_update hs_id
  by unfold_locales (simp_all add: keys_ok_def)
interpretation sr_features: serial_table llm_feature_assignments llm_feature_assignments_update fa_id
  by unfold_locales (simp_all add: keys_ok_def)
interpretation sr_roles: serial_table user_roles user_roles_update ur_id
  by unfold_locales (simp_all add: keys_ok_def)
interpretation sr_members: serial_table team_members team_members_update tm_id
  by unfold_locales (simp_all add: keys_ok_def)
interpretation sr_invitations: serial_table team_invitations team_invitations_update ti_id
  by unfold_locales (simp_all add: keys_ok_def)
interpretation sr_workflows: serial_table workflows workflows_update wf_id
  by unfold_locales (simp_all add: keys_ok_def)
interpretation sr_executions: serial_table workflow_executions workflow_executions_update we_id
  by unfold_locales (simp_all add: keys_ok_def)
interpretation sr_integrations: serial_table integrations integrations_update ig_id
  by unfold_locales (simp_all add: keys_ok_def)
interpretation sr_audit: serial_table audit_logs audit_logs_update au_id
  by unfold_locales (simp_all add: keys_ok_def)
interpretation sr_labels: serial_table labels labels_update lb_id
  by unfold_locales (simp_all add: keys_ok_def)
interpretation sr_comments: serial_table comments comments_update cm_id
  by unfold_locales (simp_all add: keys_ok_def)
interpretation sr_notifications: serial_table notifications notifications_update nt_id
  by unfold_locales (simp_all add: keys_ok_def)

lemmas serial_statements =
  sr_users.statements sr_conversations.statements sr_messages.statements sr_summaries.statements
  sr_important.statements sr_items.statements sr_activity.statements sr_providers.statements
  sr_usage.statements sr_health.statements sr_history.statements sr_features.statements
  sr_roles.statements sr_members.statements sr_invitations.statements sr_workflows.statements
  sr_executions.statements sr_integrations.statements sr_audit.statements sr_labels.statements
  sr_comments.statements sr_notifications.statements

text \<open>Tables without a serial key, and the rows that go with a deleted one.\<close>

lemma keys_elsewhere:
  "keys_ok (users_extended_update f d) = keys_ok d" "keys_ok (message_labels_update g d) = keys_ok d"
  by (simp_all add: keys_ok_def)

lemma keys_cascade:
  assumes "keys_ok d"
  shows "keys_ok (cascade_providers gone d)" "keys_ok (cascade_comments gone' d)" "keys_ok (cascade_executions gone'' d)"
  using assms by (simp_all add: keys_ok_def cascade_providers_def cascade_comments_def cascade_executions_def Let_def keyed_filter)

lemma stmt_keys: "stmt t d d' \<Longrightarrow> keys_ok d \<Longrightarrow> keys_ok d'"
proof (induction rule: stmt.induct)
  case (extended d u role now s)
  then show ?case by (simp add: upsert_extended_def sql_upsert_def Let_def keys_elsewhere split: option.split)
next
  case (no_extended d u s)
  then show ?case by (simp add: delete_extended_def sql_delete_def Let_def keys_elsewhere)
next
  case (rolled_back d)
  then show ?case by (simp add: keys_ok_def keyed_seq)
next
  case (changed d pid req encrypted s)
  then show ?case
    unfolding update_provider_def split_beta Let_def
    by (auto intro!: sr_providers.update)
next
  case (labelled d mid l now s)
  then show ?case by (simp add: attach_label_def sql_insert_ignore_def Let_def keys_elsewhere)
next
  case (workflow_changed d mixes wid wreq now s)
  then show ?case unfolding update_workflow_def by (auto simp: changed_workflow_def intro!: sr_workflows.update)
next
  case (executed d wid now s)
  then show ?case
    unfolding insert_execution_def Let_def
    by (auto intro!: sr_executions.put keyed_append keyed_seq dest: sr_executions.has)
qed (unfold insert_user_def insert_activity_def insert_audit_def upsert_member_def insert_role_def upsert_invitation_def
    delete_member_def upsert_conversation_def touch_conversation_def insert_message_def insert_message_row_def write_meta_def
    flag_important_def insert_summary_def clear_default_def insert_provider_def delete_provider_def mark_health_def
    insert_usage_def insert_health_def insert_history_def upsert_feature_def delete_feature_def insert_item_def
    update_item_def changed_item_def delete_item_def insert_comment_def delete_comment_def insert_label_def
    insert_notification_def mark_read_def insert_workflow_def delete_workflow_def upsert_integration_def delete_integration_def,
    (rule serial_statements keys_cascade; simp add: keys_cascade)+)

section \<open>Unique indexes\<close>

text \<open>
  A unique index over a key of a table: the statements keep it when a plain insert checks the key,
  a conflict is found by it, and no update changes it.
\<close>

lemma unique_rewrite:
  assumes "unique key T" "\<And>r. P r \<Longrightarrow> key (f r) = key r"
  shows "unique key (T\<lparr>tb_rows := update_where P f (tb_rows T)\<rparr>)"
  using assms map_update_where [of P key f "tb_rows T"] by (simp add: unique_def)

lemma unique_seq: "unique key T \<Longrightarrow> unique key (T\<lparr>tb_seq := i\<rparr>)"
  by (simp add: unique_def)

lemma unique_append:
  "unique key T \<Longrightarrow> key r \<notin> col key T \<Longrightarrow> unique key (T\<lparr>tb_rows := tb_rows T @ [r]\<rparr>)"
  by (auto simp: unique_def col_def)

lemma distinct_twice: "distinct (map t (filter P xs)) \<Longrightarrow> distinct (map t (filter P (filter Q xs)))"
  by (induction xs) auto

locale indexed_table =
  fixes get :: "db \<Rightarrow> 'r table"
    and upd :: "('r table \<Rightarrow> 'r table) \<Rightarrow> db \<Rightarrow> db"
    and key :: "'r \<Rightarrow> 'k"
  assumes has: "unique_ok d \<Longrightarrow> unique key (get d)"
    and put: "unique_ok d \<Longrightarrow> unique key (f (get d)) \<Longrightarrow> unique_ok (upd f d)"
begin

lemma insert:
  assumes "unique_ok d" "\<And>i. good d (mk i) \<Longrightarrow> key (mk i) \<notin> col key (get d)"
  shows "unique_ok (snd (sql_insert get upd ten good mk s d))"
  unfolding sql_insert_def Let_def using assms
  by (auto simp: unique_def col_def intro!: put dest: has)

lemma insert_ignore:
  assumes "unique_ok d" "\<And>i. \<forall>x \<in> set (tb_rows (get d)). \<not> same x \<Longrightarrow> key (mk i) \<notin> col key (get d)"
  shows "unique_ok (snd (sql_insert_ignore get upd ten good mk same s d))"
  unfolding sql_insert_ignore_def Let_def using assms
  by (auto simp: unique_def col_def intro!: put dest: has)

lemma update:
  assumes "unique_ok d" "\<And>r. P r \<Longrightarrow> key (f r) = key r"
  shows "unique_ok (snd (sql_update get upd ten P f s d))"
  unfolding sql_update_def Let_def using assms by (auto intro!: put unique_rewrite dest: has)

lemma upsert:
  assumes "unique_ok d" "\<And>r. same r \<longleftrightarrow> key r = k" "\<And>i. key (mk i) = k" "\<And>r. same r \<Longrightarrow> key (f r) = key r"
  shows "unique_ok (snd (sql_upsert get upd ten good mk same f s d))"
proof -
  have "first_of (filter same (tb_rows (get d))) = None \<Longrightarrow> k \<notin> col key (get d)"
    using assms(2) by (auto simp: filter_empty_conv col_def)
  with assms show ?thesis
    unfolding sql_upsert_def Let_def
    by (auto intro!: put unique_rewrite unique_append unique_seq dest: has split: option.split)
qed

lemma delete:
  assumes "unique_ok d" "\<And>gone d. unique_ok d \<Longrightarrow> unique_ok (casc gone d)"
  shows "unique_ok (snd (sql_delete get upd ten casc P s d))"
  unfolding sql_delete_def Let_def snd_conv
  by (intro assms(2) put) (use assms(1) in \<open>auto simp: unique_def dest: has\<close>)

end

interpretation ix_users: indexed_table users users_update "\<lambda>u. (us_tenant u, us_email u)"
  by unfold_locales (simp_all add: unique_ok_def default_tenants_def)
interpretation ix_conversations: indexed_table conversations conversations_update "\<lambda>c. (cv_tenant c, cv_number c)"
  by unfold_locales (simp_all add: unique_ok_def default_tenants_def)
interpretation ix_important: indexed_table important_messages important_messages_update im_msg
  by unfold_locales (simp_all add: unique_ok_def default_tenants_def)
interpretation ix_features: indexed_table llm_feature_assignments llm_feature_assignments_update
    "\<lambda>a. (fa_tenant a, fa_feature a, fa_provider a)"
  by unfold_locales (simp_all add: unique_ok_def default_tenants_def)
interpretation ix_extended: indexed_table users_extended users_extended_update ue_user
  by unfold_locales (simp_all add: unique_ok_def default_tenants_def)
interpretation ix_members: indexed_table team_members team_members_update "\<lambda>m. (tm_team m, tm_user m)"
  by unfold_locales (simp_all add: unique_ok_def default_tenants_def)
interpretation ix_invitations: indexed_table team_invitations team_invitations_update "\<lambda>i. (ti_tenant i, ti_email i, ti_status i)"
  by unfold_locales (simp_all add: unique_ok_def default_tenants_def)
interpretation ix_integrations: indexed_table integrations integrations_update "\<lambda>x. (ig_tenant x, ig_type x)"
  by unfold_locales (simp_all add: unique_ok_def default_tenants_def)
interpretation ix_labels: indexed_table labels labels_update "\<lambda>l. (lb_tenant l, lb_name l)"
  by unfold_locales (simp_all add: unique_ok_def default_tenants_def)
interpretation ix_mlabels: indexed_table message_labels message_labels_update "\<lambda>x. (ml_msg x, ml_label x)"
  by unfold_locales (simp_all add: unique_ok_def default_tenants_def)

lemma unique_elsewhere:
  "unique_ok (messages_update f1 d) = unique_ok d" "unique_ok (daily_summaries_update f2 d) = unique_ok d"
  "unique_ok (action_items_update f3 d) = unique_ok d" "unique_ok (user_activity_logs_update f4 d) = unique_ok d"
  "unique_ok (llm_usage_logs_update f5 d) = unique_ok d" "unique_ok (llm_provider_health_update f6 d) = unique_ok d"
  "unique_ok (llm_provider_history_update f7 d) = unique_ok d" "unique_ok (user_roles_update f8 d) = unique_ok d"
  "unique_ok (workflows_update f9 d) = unique_ok d" "unique_ok (workflow_executions_update f10 d) = unique_ok d"
  "unique_ok (audit_logs_update f11 d) = unique_ok d" "unique_ok (comments_update f12 d) = unique_ok d"
  "unique_ok (notifications_update f13 d) = unique_ok d"
  by (simp_all add: unique_ok_def default_tenants_def)

lemma unique_cascade:
  assumes "unique_ok d"
  shows "unique_ok (cascade_providers gone d)" "unique_ok (cascade_comments gone' d)" "unique_ok (cascade_executions gone'' d)"
  using assms
  by (simp_all add: unique_ok_def default_tenants_def unique_def cascade_providers_def cascade_comments_def cascade_executions_def Let_def)

lemma one_default:
  assumes "unique_ok d" "distinct (map pv_tenant (filter pv_default (tb_rows (f (llm_providers d)))))"
  shows "unique_ok (llm_providers_update f d)"
  using assms by (simp add: unique_ok_def default_tenants_def)

lemma default_distinct: "unique_ok d \<Longrightarrow> distinct (map pv_tenant (filter pv_default (tb_rows (llm_providers d))))"
  by (simp add: unique_ok_def default_tenants_def)

lemma provider_stmts_unique:
  assumes "unique_ok d"
  shows "unique_ok (snd (clear_default t s d))" "unique_ok (snd (mark_health t pid status now s d))"
    "unique_ok (snd (insert_provider t mk s d))" "unique_ok (snd (update_provider t pid f s d))"
    "unique_ok (snd (delete_provider t pid s d))"
proof -
  note d = default_distinct [OF assms]
  show "unique_ok (snd (clear_default t s d))" "unique_ok (snd (mark_health t pid status now s d))"
    unfolding clear_default_def mark_health_def sql_update_def Let_def snd_conv
    by (rule one_default [OF assms], simp, rule defaults_fewer [OF d]; simp)+
  show "unique_ok (snd (insert_provider t mk s d))"
    unfolding insert_provider_def sql_insert_def Let_def
    using d by (auto simp: default_tenants_def intro!: one_default [OF assms])
  show "unique_ok (snd (update_provider t pid f s d))"
    unfolding update_provider_def sql_update_def Let_def
    using assms by (auto simp: default_tenants_def intro!: one_default)
  show "unique_ok (snd (delete_provider t pid s d))"
    unfolding delete_provider_def sql_delete_def Let_def snd_conv
    by (intro unique_cascade one_default [OF assms])
      (use distinct_twice [OF d] in simp)
qed

lemma stmt_unique: "stmt t d d' \<Longrightarrow> unique_ok d \<Longrightarrow> unique_ok d'"
proof (induction rule: stmt.induct)
  case (user d email h now s)
  then show ?case unfolding insert_user_def by (auto intro!: ix_users.insert simp: col_def)
next
  case (extended d u role now s)
  then show ?case unfolding upsert_extended_def by (intro ix_extended.upsert [where k = u]) simp_all
next
  case (member d u role now s)
  then show ?case unfolding upsert_member_def by (intro ix_members.upsert [where k = "(t, u)"]) auto
next
  case (invitation d email role token by' now expires s)
  then show ?case
    unfolding upsert_invitation_def by (intro ix_invitations.upsert [where k = "(t, email, ''pending'')"]) auto
next
  case (no_extended d u s)
  then show ?case unfolding delete_extended_def by (intro ix_extended.delete)
next
  case (no_member d u s)
  then show ?case unfolding delete_member_def by (intro ix_members.delete)
next
  case (conversation d number name lastAt pic now s)
  then show ?case unfolding upsert_conversation_def by (intro ix_conversations.upsert [where k = "(t, number)"]) auto
next
  case (rolled_back d)
  then show ?case by (intro ix_conversations.put unique_seq ix_conversations.has)
next
  case (touch d conv now s)
  then show ?case unfolding touch_conversation_def by (intro ix_conversations.update) simp_all
next
  case (important d mid a now s)
  then show ?case unfolding flag_important_def by (intro ix_important.insert_ignore) (auto simp: col_def)
next
  case (feature d name pid priority now s)
  then show ?case unfolding upsert_feature_def by (intro ix_features.upsert [where k = "(t, name, pid)"]) auto
next
  case (no_feature d name pid s)
  then show ?case unfolding delete_feature_def by (intro ix_features.delete)
next
  case (no_item d i s)
  then show ?case by (simp add: delete_item_def sql_delete_def Let_def unique_cascade unique_elsewhere)
next
  case (label d name color now s)
  then show ?case unfolding insert_label_def by (intro ix_labels.insert) (auto simp: col_def)
next
  case (labelled d mid l now s)
  then show ?case unfolding attach_label_def by (intro ix_mlabels.insert_ignore) (auto simp: col_def)
next
  case (no_workflow d wid s)
  then show ?case by (simp add: delete_workflow_def sql_delete_def Let_def unique_cascade unique_elsewhere)
next
  case (integration d kind settings now s)
  then show ?case unfolding upsert_integration_def by (intro ix_integrations.upsert [where k = "(t, kind)"]) auto
next
  case (no_integration d iid s)
  then show ?case unfolding delete_integration_def by (intro ix_integrations.delete)
qed (simp_all add: provider_stmts_unique insert_activity_def insert_audit_def insert_role_def insert_message_def insert_message_row_def
    write_meta_def insert_summary_def insert_usage_def insert_health_def insert_history_def insert_item_def update_item_def
    insert_comment_def delete_comment_def insert_notification_def mark_read_def insert_workflow_def update_workflow_def
    insert_execution_def sql_insert_def sql_update_def sql_delete_def Let_def unique_elsewhere)

section \<open>Foreign keys\<close>

text \<open>How the columns of a table change.\<close>

lemma col_simps:
  "col f (T\<lparr>tb_seq := i\<rparr>) = col f T"
  "col f (T\<lparr>tb_rows := tb_rows T @ [r]\<rparr>) = insert (f r) (col f T)"
  by (auto simp: col_def)

lemma col_rewrite:
  "(\<And>r. P r \<Longrightarrow> f (g r) = f r) \<Longrightarrow> col f (T\<lparr>tb_rows := update_where P g (tb_rows T)\<rparr>) = col f T"
  by (simp add: col_def image_update_where)

lemma col_shrink: "col f T \<subseteq> A \<Longrightarrow> col f (T\<lparr>tb_rows := filter P (tb_rows T)\<rparr>) \<subseteq> A"
  by (auto simp: col_def)

lemma col_grow: "A \<subseteq> B \<Longrightarrow> A \<subseteq> insert x B"
  by blast

lemma has_key_col: "has_key key i T \<longleftrightarrow> i \<in> col key T"
  by (auto simp: has_key_def col_def)

text \<open>Rows that refer to a deleted row go with it, so the rest refers to what is left.\<close>

lemma col_cascade:
  "col f C \<subseteq> col key T \<Longrightarrow>
     col f (C\<lparr>tb_rows := filter (\<lambda>c. f c \<notin> key ` {r \<in> set (tb_rows T). P r}) (tb_rows C)\<rparr>)
       \<subseteq> col key (T\<lparr>tb_rows := filter (\<lambda>r. \<not> P r) (tb_rows T)\<rparr>)"
  by (auto simp: col_def)

lemma refs_deleted:
  assumes "refs_ok d"
  shows "refs_ok (cascade_providers (filter P (tb_rows (llm_providers d)))
      (llm_providers_update (\<lambda>T. T\<lparr>tb_rows := filter (\<lambda>r. \<not> P r) (tb_rows T)\<rparr>) d))"
    and "refs_ok (cascade_comments (filter Q (tb_rows (action_items d)))
      (action_items_update (\<lambda>T. T\<lparr>tb_rows := filter (\<lambda>r. \<not> Q r) (tb_rows T)\<rparr>) d))"
    and "refs_ok (cascade_executions (filter H (tb_rows (workflows d)))
      (workflows_update (\<lambda>T. T\<lparr>tb_rows := filter (\<lambda>r. \<not> H r) (tb_rows T)\<rparr>) d))"
  using assms
  by (simp_all add: refs_ok_def cascade_providers_def cascade_comments_def cascade_executions_def Let_def col_cascade col_shrink)

lemmas refs_simps = refs_ok_def col_simps col_rewrite col_shrink col_grow has_key_col Let_def

lemma stmt_refs: "stmt t d d' \<Longrightarrow> refs_ok d \<Longrightarrow> refs_ok d'"
proof (induction rule: stmt.induct)
  case (changed d pid req encrypted s)
  then show ?case by (simp add: refs_simps update_provider_def sql_update_def)
next
  case (no_provider d pid s)
  then show ?case unfolding delete_provider_def sql_delete_def Let_def snd_conv by (rule refs_deleted)
next
  case (no_item d i s)
  then show ?case unfolding delete_item_def sql_delete_def Let_def snd_conv by (rule refs_deleted)
next
  case (no_workflow d wid s)
  then show ?case unfolding delete_workflow_def sql_delete_def Let_def snd_conv by (rule refs_deleted)
next
  case (workflow_changed d mixes wid wreq now s)
  then show ?case by (simp add: refs_simps update_workflow_def sql_update_def changed_workflow_def)
next
  case (executed d wid now s)
  then show ?case by (simp add: refs_simps insert_execution_def)
next
  case (rolled_back d)
  then show ?case by (simp add: refs_simps)
qed (simp_all add: refs_simps sql_insert_def sql_insert_ignore_def sql_update_def sql_upsert_def sql_delete_def
    insert_user_def insert_activity_def insert_audit_def upsert_extended_def upsert_member_def insert_role_def upsert_invitation_def
    delete_extended_def delete_member_def upsert_conversation_def touch_conversation_def insert_message_def insert_message_row_def
    write_meta_def flag_important_def insert_summary_def clear_default_def insert_provider_def mark_health_def
    insert_usage_def insert_health_def insert_history_def upsert_feature_def delete_feature_def insert_item_def
    update_item_def changed_item_def insert_comment_def delete_comment_def insert_label_def attach_label_def
    insert_notification_def mark_read_def insert_workflow_def upsert_integration_def delete_integration_def
    split: option.split)

section \<open>Ranges\<close>

lemma all_rewrite: "list_all P xs \<Longrightarrow> (\<And>x. P x \<Longrightarrow> P (f x)) \<Longrightarrow> list_all P (update_where Q f xs)"
  by (induction xs) auto

lemma all_filter: "list_all P xs \<Longrightarrow> list_all P (filter Q xs)"
  by (auto simp: list_all_iff)

lemma fits_other [simp]:
  "fits_int32 (p\<lparr>pv_default := b\<rparr>) = fits_int32 p" "fits_int32 (p\<lparr>pv_health := h, pv_checked := c\<rparr>) = fits_int32 p"
  by (simp_all add: fits_int32_def)

lemma stmt_ranges: "stmt t d d' \<Longrightarrow> ranges_ok d \<Longrightarrow> ranges_ok d'"
proof (induction rule: stmt.induct)
  case (no_default d s)
  then show ?case
    by (auto simp: ranges_ok_def clear_default_def sql_update_def Let_def intro!: all_rewrite)
next
  case (checked d pid status now s)
  then show ?case
    by (auto simp: ranges_ok_def mark_health_def sql_update_def Let_def intro!: all_rewrite)
next
  case (provider d req config key now s)
  then show ?case by (simp add: ranges_ok_def insert_provider_def sql_insert_def Let_def)
next
  case (changed d pid req encrypted s)
  then show ?case by (simp add: ranges_ok_def update_provider_def sql_update_def Let_def)
next
  case (no_provider d pid s)
  then show ?case
    by (simp add: ranges_ok_def delete_provider_def sql_delete_def cascade_providers_def Let_def all_filter)
next
  case (feature d name pid priority now s)
  then show ?case
    by (auto simp: ranges_ok_def upsert_feature_def sql_upsert_def Let_def intro!: all_rewrite split: option.split)
next
  case (no_feature d name pid s)
  then show ?case by (simp add: ranges_ok_def delete_feature_def sql_delete_def Let_def all_filter)
next
  case (workflow_changed d mixes wid wreq now s)
  then show ?case by (simp add: ranges_ok_def update_workflow_def sql_update_def Let_def)
next
  case (executed d wid now s)
  then show ?case by (simp add: ranges_ok_def insert_execution_def Let_def)
qed (simp_all add: ranges_ok_def sql_insert_def sql_insert_ignore_def sql_update_def sql_upsert_def sql_delete_def Let_def
    insert_user_def insert_activity_def insert_audit_def upsert_extended_def upsert_member_def insert_role_def upsert_invitation_def
    delete_extended_def delete_member_def upsert_conversation_def touch_conversation_def insert_message_def insert_message_row_def
    write_meta_def flag_important_def insert_summary_def insert_usage_def insert_health_def insert_history_def insert_item_def
    update_item_def delete_item_def cascade_comments_def insert_comment_def delete_comment_def insert_label_def attach_label_def
    insert_notification_def mark_read_def insert_workflow_def delete_workflow_def cascade_executions_def upsert_integration_def
    delete_integration_def split: option.split)

lemma stmt_schema: "stmt t d d' \<Longrightarrow> schema_ok d \<Longrightarrow> schema_ok d'"
  unfolding schema_ok_def by (auto intro: stmt_keys stmt_unique stmt_refs stmt_ranges)

section \<open>One message per WhatsApp id\<close>

definition wa_unique :: "db \<Rightarrow> bool" where
  "wa_unique d \<longleftrightarrow> distinct (wa_keys (tb_rows (messages d)))"

text \<open>Writing an analysis back keeps a message's WhatsApp id or, after a failed read, drops it.\<close>

lemma merged_id:
  "whatsapp_id (m\<lparr>ms_meta := Some (merge_analysis old a)\<rparr>) = (if old = None then None else whatsapp_id (m\<lparr>ms_meta := old\<rparr>))"
  by (auto simp: whatsapp_id_def merge_analysis_def update_conv' split: option.split json.split)

lemma wa_keys_Cons: "wa_keys (m # ms) = (case whatsapp_id m of None \<Rightarrow> [] | Some s \<Rightarrow> [(ms_tenant m, s)]) @ wa_keys ms"
  by (simp add: wa_keys_def)

lemma wa_keys_fewer:
  assumes "\<And>m. m \<in> set ms \<Longrightarrow> P m \<Longrightarrow> ms_tenant (f m) = ms_tenant m \<and> (whatsapp_id (f m) = None \<or> whatsapp_id (f m) = whatsapp_id m)"
  shows "set (wa_keys (update_where P f ms)) \<subseteq> set (wa_keys ms)"
    and "distinct (wa_keys ms) \<Longrightarrow> distinct (wa_keys (update_where P f ms))"
proof -
  have "set (wa_keys (update_where P f ms)) \<subseteq> set (wa_keys ms) \<and>
      (distinct (wa_keys ms) \<longrightarrow> distinct (wa_keys (update_where P f ms)))"
    using assms
  proof (induction ms)
    case (Cons m ms)
    then have IH: "set (wa_keys (update_where P f ms)) \<subseteq> set (wa_keys ms)"
      "distinct (wa_keys ms) \<longrightarrow> distinct (wa_keys (update_where P f ms))"
      and m: "P m \<Longrightarrow> ms_tenant (f m) = ms_tenant m \<and> (whatsapp_id (f m) = None \<or> whatsapp_id (f m) = whatsapp_id m)"
      by auto
    show ?case using IH m by (cases "P m"; cases "whatsapp_id m") (auto simp: wa_keys_Cons)
  qed (simp add: wa_keys_def)
  then show "set (wa_keys (update_where P f ms)) \<subseteq> set (wa_keys ms)"
    "distinct (wa_keys ms) \<Longrightarrow> distinct (wa_keys (update_where P f ms))" by auto
qed

lemma stmt_wa: "stmt t d d' \<Longrightarrow> keys_ok d \<Longrightarrow> wa_unique d \<Longrightarrow> wa_unique d'"
proof (induction rule: stmt.induct)
  case (synced info d conv sender content received chat media "from" now s)
  then show ?case by (simp add: wa_unique_def insert_message_def sql_insert_def Let_def)
next
  case (sent d conv sender content now s)
  then show ?case by (simp add: wa_unique_def insert_message_row_def sql_insert_def Let_def whatsapp_id_def)
next
  case (analysed old d mid a s)
  have "unique ms_id (messages d)" using analysed.prems(1) by (simp add: keys_ok_def keyed_def)
  then have same: "m = m'" if "m \<in> set (tb_rows (messages d))" "m' \<in> set (tb_rows (messages d))"
      "own_message t mid m" "own_message t mid m'" for m m'
    using that distinct_map_unique [of ms_id] unfolding unique_def own_message_def by blast
  have old: "m\<lparr>ms_meta := old\<rparr> = m" if "m \<in> set (tb_rows (messages d))" "own_message t mid m" "old \<noteq> None" for m
    using that analysed.hyps same by (metis message_row.surjective message_row.update_convs(7))
  have "ms_tenant (m\<lparr>ms_meta := Some (merge_analysis old a)\<rparr>) = ms_tenant m \<and>
      (whatsapp_id (m\<lparr>ms_meta := Some (merge_analysis old a)\<rparr>) = None \<or>
       whatsapp_id (m\<lparr>ms_meta := Some (merge_analysis old a)\<rparr>) = whatsapp_id m)"
    if "m \<in> set (tb_rows (messages d))" "visible s (ms_tenant m) \<and> own_message t mid m" for m
    using that old unfolding merged_id by auto
  then show ?case using analysed.prems(2)
    by (auto simp: wa_unique_def write_meta_def sql_update_def Let_def intro!: wa_keys_fewer(2))
next
  case (no_provider d pid s)
  then show ?case by (simp add: wa_unique_def delete_provider_def sql_delete_def cascade_providers_def Let_def)
next
  case (changed d pid req encrypted s)
  then show ?case by (simp add: wa_unique_def update_provider_def sql_update_def Let_def)
next
  case (workflow_changed d mixes wid wreq now s)
  then show ?case by (simp add: wa_unique_def update_workflow_def sql_update_def Let_def)
next
  case (executed d wid now s)
  then show ?case by (simp add: wa_unique_def insert_execution_def Let_def)
qed (simp_all add: wa_unique_def sql_insert_def sql_insert_ignore_def sql_update_def sql_upsert_def sql_delete_def Let_def
    insert_user_def insert_activity_def insert_audit_def upsert_extended_def upsert_member_def insert_role_def upsert_invitation_def
    delete_extended_def delete_member_def upsert_conversation_def touch_conversation_def flag_important_def insert_summary_def
    clear_default_def insert_provider_def mark_health_def insert_usage_def insert_health_def insert_history_def upsert_feature_def
    delete_feature_def insert_item_def update_item_def delete_item_def cascade_comments_def insert_comment_def delete_comment_def
    insert_label_def attach_label_def insert_notification_def mark_read_def insert_workflow_def delete_workflow_def
    cascade_executions_def upsert_integration_def delete_integration_def split: option.split)

section \<open>Records that stay\<close>

text \<open>
  Users, conversations, messages, summaries, flags, role grants and both logs: a later database
  has the same rows at the front of each table. Of a conversation everything but its name, its picture
  and the time of its last message counts, of a message everything but the metadata.
\<close>

definition message_core :: "message_row \<Rightarrow> int \<times> int \<times> int \<times> string \<times> string \<times> int \<times> int" where
  "message_core m = (ms_id m, ms_tenant m, ms_conv m, ms_sender m, ms_content m, ms_time m, ms_created m)"

definition conversation_core :: "conversation_row \<Rightarrow> int \<times> int \<times> string \<times> int" where
  "conversation_core c = (cv_id c, cv_tenant c, cv_number c, cv_created c)"

definition kept :: "db \<Rightarrow> db \<Rightarrow> bool" where
  "kept d d' \<longleftrightarrow>
     prefix (tb_rows (users d)) (tb_rows (users d')) \<and>
     prefix (map conversation_core (tb_rows (conversations d))) (map conversation_core (tb_rows (conversations d'))) \<and>
     prefix (map message_core (tb_rows (messages d))) (map message_core (tb_rows (messages d'))) \<and>
     prefix (tb_rows (daily_summaries d)) (tb_rows (daily_summaries d')) \<and>
     prefix (tb_rows (important_messages d)) (tb_rows (important_messages d')) \<and>
     prefix (tb_rows (user_roles d)) (tb_rows (user_roles d')) \<and>
     prefix (tb_rows (audit_logs d)) (tb_rows (audit_logs d')) \<and>
     prefix (tb_rows (user_activity_logs d)) (tb_rows (user_activity_logs d'))"

lemma kept_refl [simp]: "kept d d"
  by (simp add: kept_def)

lemma kept_trans: "kept c d \<Longrightarrow> kept d e \<Longrightarrow> kept c e"
  unfolding kept_def by (auto elim: prefix_order.trans)

lemma core_meta: "message_core (m\<lparr>ms_meta := x\<rparr>) = message_core m"
  by (simp add: message_core_def)

lemma conversation_core_upd:
  "conversation_core (c\<lparr>cv_last := x\<rparr>) = conversation_core c" "conversation_core (c\<lparr>cv_name := n\<rparr>) = conversation_core c"
  "conversation_core (c\<lparr>cv_pic := q\<rparr>) = conversation_core c"
  by (simp_all add: conversation_core_def)

lemma stmt_kept: "stmt t d d' \<Longrightarrow> kept d d'"
proof (induction rule: stmt.induct)
  case (changed d pid req encrypted s)
  then show ?case by (simp add: kept_def update_provider_def sql_update_def Let_def)
next
  case (no_provider d pid s)
  then show ?case by (simp add: kept_def delete_provider_def sql_delete_def cascade_providers_def Let_def)
next
  case (workflow_changed d mixes wid wreq now s)
  then show ?case by (simp add: kept_def update_workflow_def sql_update_def Let_def)
next
  case (executed d wid now s)
  then show ?case by (simp add: kept_def insert_execution_def Let_def)
qed (simp_all add: kept_def sql_insert_def sql_insert_ignore_def sql_update_def sql_upsert_def sql_delete_def Let_def
    map_update_where core_meta conversation_core_upd
    insert_user_def insert_activity_def insert_audit_def upsert_extended_def upsert_member_def insert_role_def upsert_invitation_def
    delete_extended_def delete_member_def upsert_conversation_def touch_conversation_def insert_message_def insert_message_row_def
    write_meta_def flag_important_def insert_summary_def clear_default_def insert_provider_def mark_health_def
    insert_usage_def insert_health_def insert_history_def upsert_feature_def delete_feature_def insert_item_def
    update_item_def delete_item_def cascade_comments_def insert_comment_def delete_comment_def insert_label_def attach_label_def
    insert_notification_def mark_read_def insert_workflow_def delete_workflow_def cascade_executions_def upsert_integration_def
    delete_integration_def split: option.split)

section \<open>From statements to runs\<close>

text \<open>What every statement keeps, every sequence of steps keeps that writes by statements.\<close>

locale db_invariant =
  fixes I :: "db \<Rightarrow> bool"
  assumes stmt: "stmt t d d' \<Longrightarrow> I d \<Longrightarrow> I d'"
begin

lemma writes: "writes t w w' \<Longrightarrow> I (w_db w) \<Longrightarrow> I (w_db w')"
proof -
  have "(Statements.stmt t)\<^sup>*\<^sup>* d d' \<Longrightarrow> I d \<Longrightarrow> I d'" for d d'
    by (induction rule: rtranclp_induct) (auto intro: stmt)
  then show "writes t w w' \<Longrightarrow> I (w_db w) \<Longrightarrow> I (w_db w')" unfolding writes_def by blast
qed

lemma action: "state_io_rel (Statements.writes t) m \<Longrightarrow> state_io_rel (inv_frame I) m"
  using writes by (auto simp: state_io_rel_def inv_frame_def)

lemma run:
  assumes "R\<^sup>*\<^sup>* w w'" "\<And>u v. R u v \<Longrightarrow> \<exists>t. Statements.writes t u v" "I (w_db w)"
  shows "I (w_db w')"
  using assms(1,3) by (induction rule: rtranclp_induct) (use assms(2) writes in blast)+

end

interpretation schema: db_invariant schema_ok
  by unfold_locales (rule stmt_schema)

interpretation synced: db_invariant "\<lambda>d. schema_ok d \<and> wa_unique d"
  by unfold_locales (auto simp: schema_ok_def intro: stmt_keys stmt_unique stmt_refs stmt_ranges stmt_wa)

interpretation records: db_invariant "kept d0" for d0
  by unfold_locales (rule kept_trans [OF _ stmt_kept])

section \<open>The provider tables by themselves\<close>

lemma llm_keep: "llm_inv d \<Longrightarrow> llm_part d' = llm_part d \<Longrightarrow> llm_inv d'"
  using llm_inv_part by blast

lemma stmt_llm: "stmt t d d' \<Longrightarrow> llm_inv d \<Longrightarrow> llm_inv d'"
proof (induction rule: stmt.induct)
  case (workflow_changed d mixes wid wreq now s)
  then show ?case by (rule llm_keep) (simp add: update_workflow_def sql_update_def Let_def llm_part_def)
next
  case (executed d wid now s)
  then show ?case by (rule llm_keep) (simp add: insert_execution_def Let_def llm_part_def)
qed ((rule clear_default_inv insert_provider_inv update_provider_inv delete_provider_inv mark_health_inv insert_children_inv
        feature_rows_inv; simp)
    | (erule llm_keep,
       simp add: llm_part_def sql_insert_def sql_insert_ignore_def sql_update_def sql_upsert_def sql_delete_def Let_def
        insert_user_def insert_activity_def insert_audit_def upsert_extended_def upsert_member_def insert_role_def upsert_invitation_def
        delete_extended_def delete_member_def upsert_conversation_def touch_conversation_def insert_message_def insert_message_row_def
        write_meta_def flag_important_def insert_summary_def insert_item_def update_item_def delete_item_def cascade_comments_def
        insert_comment_def delete_comment_def insert_label_def attach_label_def insert_notification_def mark_read_def
        insert_workflow_def delete_workflow_def cascade_executions_def upsert_integration_def delete_integration_def
        split: option.split))+

interpretation llm: db_invariant llm_inv
  by unfold_locales (rule stmt_llm)

lemma worker_items_llm: "state_io_rel (inv_frame llm_inv) (worker_items env qs)"
  by (induction qs) (auto intro!: inv.keeps_intros llm.action [OF worker_item_writes])

lemma inv_kept: "state_io_rel (inv_frame I) m \<Longrightarrow> I (w_db w) \<Longrightarrow> I (w_db (snd (run_state m w)))"
  by (simp add: state_io_rel_def inv_frame_def)

text \<open>
  Providers stay consistent. Whatever fails meanwhile, every endpoint that writes provider data,
  a round of the worker and a run of the health monitor keep the invariant of the provider tables:
  identifiers are unique, each tenant has at most one default provider, and every usage, health,
  history and assignment row belongs to a provider that exists.
\<close>

theorem provider_tables_consistent:
  assumes "llm_inv (w_db w)"
  shows "llm_inv (w_db (snd (run_state (CreateProvider env r body1) w))) \<and>
    llm_inv (w_db (snd (run_state (UpdateProvider env r body2 i) w))) \<and>
    llm_inv (w_db (snd (run_state (DeleteProvider r i) w))) \<and>
    llm_inv (w_db (snd (run_state (TestProvider env r i) w))) \<and>
    llm_inv (w_db (snd (run_state (AnalyzeMessage env r body3) w))) \<and>
    llm_inv (w_db (snd (run_state (BatchAnalyze env r body4) w))) \<and>
    llm_inv (w_db (snd (run_state (SummarizeConversation env r body5) w))) \<and>
    llm_inv (w_db (snd (run_state (AssignProviderToFeature r body6 feature) w))) \<and>
    llm_inv (w_db (snd (run_state (DeleteFeatureProvider r feature i) w))) \<and>
    llm_inv (w_db (snd (run_state (worker_items (ap_llm env) qs) w))) \<and>
    llm_inv (w_db (snd (run_state (health_runOnce (ap_llm env) t) w)))"
  by (intro conjI inv_kept [where I = llm_inv, OF _ assms] worker_items_llm
      llm_writes [THEN llm.action] health_runOnce_writes [THEN llm.action])

theorem provider_tables_consistent_witness:
  "llm_inv (w_db default_world) \<and>
   llm_inv (w_db (snd (run_state (CreateProvider sample_api (admin_of 10) (Some empty_request)) default_world)))"
proof -
  have "llm_inv (w_db default_world)"
    by (simp add: default_world_def llm_inv_def provider_ids_def provider_refs_def default_tenants_def
        llm_world_def sample_provider_def empty_db_def)
  with provider_tables_consistent [OF this, of sample_api "admin_of 10" "Some empty_request"] show ?thesis by blast
qed

end
