(* ===== verification/System.thy ===== *)
theory System
  imports Schema Sessions
begin

text \<open>
  The components together: a step relation over everything that writes tenant data (message
  synchronisation, the worker, the health monitor, the handlers), tagged with the tenant it runs
  for, its runs, and what a run cannot reach. Its flag says whether the three callers of
  \<open>setUserRole\<close> (\<open>AddTeamUser\<close>, \<open>UpdateTeamUserRole\<close> and \<open>WhatsAppAuthStatus\<close>) are among the steps: theory
  \<open>Team\<close> shows that they write the roles of other tenants. Between steps the clock, the random
  source and the schedule of faults change freely, and so does what Redis and the process hold.
\<close>

inductive serves :: "bool \<Rightarrow> int \<Rightarrow> world \<Rightarrow> world \<Rightarrow> bool" for roles :: bool where
  outside: "w_db w' = w_db w \<Longrightarrow> serves roles t w w'"
| sync: "serves roles t w (snd (run_state (on_event q t client e) w))"
| contacts: "serves roles t w (snd (run_state (SyncContactsForTenant t store ss) w))"
| worker: "serves roles (qm_tenant m) w (snd (run_state (worker_item env m) w))"
| monitor: "serves roles t w (snd (run_state (health_runOnce env t) w))"
| login: "serves roles (rr_tenant b) w (snd (run_state (Login auth r (Some b)) w))"
| register: "serves roles (rr_tenant b) w (snd (run_state (AuthHandlers.Register auth r (Some b)) w))"
| authorize: "serves roles (tenantID r) w (snd (run_state (Authorize r required) w))"
| remove_user: "serves roles (tenantID r) w (snd (run_state (RemoveTeamUser r i) w))"
| invite: "serves roles (tenantID r) w (snd (run_state (SendInvitation r b0) w))"
| create_provider: "serves roles (tenantID r) w (snd (run_state (CreateProvider api r b1) w))"
| update_provider: "serves roles (tenantID r) w (snd (run_state (UpdateProvider api r b2 i) w))"
| delete_provider: "serves roles (tenantID r) w (snd (run_state (DeleteProvider r i) w))"
| test_provider: "serves roles (tenantID r) w (snd (run_state (TestProvider api r i) w))"
| analyze: "serves roles (tenantID r) w (snd (run_state (AnalyzeMessage api r b3) w))"
| batch: "serves roles (tenantID r) w (snd (run_state (BatchAnalyze api r b4) w))"
| summarize: "serves roles (tenantID r) w (snd (run_state (SummarizeConversation api r b5) w))"
| assign: "serves roles (tenantID r) w (snd (run_state (AssignProviderToFeature r b6 feature) w))"
| unassign: "serves roles (tenantID r) w (snd (run_state (DeleteFeatureProvider r feature i) w))"
| mark_read: "serves roles (tenantID r) w (snd (run_state (MarkNotificationRead r i) w))"
| create_item: "serves roles (tenantID r) w (snd (run_state (CreateActionItem r b7) w))"
| update_item: "serves roles (tenantID r) w (snd (run_state (UpdateActionItem r b8 i) w))"
| delete_item: "serves roles (tenantID r) w (snd (run_state (DeleteActionItem r i) w))"
| comment: "serves roles (tenantID r) w (snd (run_state (CreateActionItemComment r b9 i) w))"
| uncomment: "serves roles (tenantID r) w (snd (run_state (DeleteComment r i) w))"
| create_label: "serves roles (tenantID r) w (snd (run_state (CreateLabel r b10) w))"
| add_label: "serves roles (tenantID r) w (snd (run_state (AddLabelToMessage r b11 i) w))"
| create_workflow: "serves roles (tenantID r) w (snd (run_state (CreateWorkflow r b12) w))"
| update_workflow: "serves roles (tenantID r) w (snd (run_state (UpdateWorkflow mixes r b12 i) w))"
| delete_workflow: "serves roles (tenantID r) w (snd (run_state (DeleteWorkflow r i) w))"
| test_workflow: "serves roles (tenantID r) w (snd (run_state (TestWorkflow r i) w))"
| connect: "serves roles (tenantID r) w (snd (run_state (ConnectIntegration r b13 kind) w))"
| disconnect: "serves roles (tenantID r) w (snd (run_state (DisconnectIntegration r i) w))"
| webhook: "serves roles (tenantID r) w (snd (run_state (ReceiveWebhook mac r payload) w))"
| reply: "serves roles (tenantID r) w (snd (run_state (ReplyMessage whatsapp r b14) w))"
| forward: "serves roles (tenantID r) w (snd (run_state (ForwardMessage r b15) w))"
| add_user: "roles \<Longrightarrow> serves roles (tenantID r) w (snd (run_state (AddTeamUser r b16) w))"
| change_role: "roles \<Longrightarrow> serves roles (tenantID r) w (snd (run_state (UpdateTeamUserRole r b17 i) w))"
| status: "roles \<Longrightarrow> (\<And>ss s. whatsapp = Some ss \<Longrightarrow> GetSession (rq_query r ''session_id'') ss = Some s \<Longrightarrow> se_tenant s = t) \<Longrightarrow>
    serves roles t w (snd (run_state (WhatsAppAuthStatus png auth r whatsapp) w))"

text \<open>Runs in which only tenants of a set are served, in any order.\<close>

inductive system_run :: "bool \<Rightarrow> int set \<Rightarrow> world \<Rightarrow> world \<Rightarrow> bool" for roles S where
  start: "system_run roles S w w"
| step: "system_run roles S u v \<Longrightarrow> t \<in> S \<Longrightarrow> serves roles t v w \<Longrightarrow> system_run roles S u w"

lemma relD: "state_io_rel R m \<Longrightarrow> R w (snd (run_state m w))"
  by (simp add: state_io_rel_def)

lemma serves_frame: "serves False t w w' \<Longrightarrow> tenant_frame t w w'"
  by (induction rule: serves.induct)
    ((rule relD,
      rule on_event_tenant SyncContactsForTenant_tenant worker_item_frame health_runOnce_tenant Authorize_tenant RemoveTeamUser_tenant
        SendInvitation_tenant sign_in_tenant llm_writers_tenant items_tenant workflows_tenant integrations_tenant inbox_tenant)
     | simp add: tenant_frame_def)+

text \<open>The frame of one tenant with the extended users set aside.\<close>

definition roles_aside :: "int \<Rightarrow> world \<Rightarrow> world \<Rightarrow> bool" where
  "roles_aside t w w' \<longleftrightarrow> db_frame t ((w_db w)\<lparr>users_extended := users_extended (w_db w')\<rparr>) (w_db w')"

interpretation aside: frame_relation "roles_aside t" for t
proof
  fix u v w :: world
  show "roles_aside t u v \<Longrightarrow> roles_aside t v w \<Longrightarrow> roles_aside t u w"
    unfolding roles_aside_def db_frame_def by (intro conjI; elim conjE; simp; erule (1) same_rows_trans shrunk_rows_trans)
qed (simp_all add: roles_aside_def)

lemma tenant_aside: "tenant_frame t w w' \<Longrightarrow> roles_aside t w w'"
  by (simp add: tenant_frame_def roles_aside_def db_frame_def)

lemma lift_aside: "state_io_rel (tenant_frame t) m \<Longrightarrow> state_io_rel (roles_aside t) m"
  by (simp add: state_io_rel_def tenant_aside)

lemma setUserRole_aside: "state_io_rel (roles_aside t) (setUserRole t u role)"
proof -
  have "state_io_rel (roles_aside t) (Exec (upsert_extended t u role now))" for now
  proof (rule aside.keeps_Exec)
    fix w :: world
    obtain f where "snd (upsert_extended t u role now (w_sess w) (w_db w)) = users_extended_update f (w_db w)"
      unfolding upsert_extended_def using sql_upsert_upd by blast
    then show "roles_aside t w (w\<lparr>w_db := snd (upsert_extended t u role now (w_sess w) (w_db w))\<rparr>)"
      by (simp add: roles_aside_def db_frame_def)
  qed
  moreover have "state_io_rel (tenant_frame t) (Exec (upsert_member t u role now))"
    "state_io_rel (tenant_frame t) (Exec (insert_role t u role now))" for now
    unfolding upsert_member_def insert_role_def by (intro keeps_stmts; auto)+
  ultimately show ?thesis
    unfolding setUserRole_def by (intro aside.keeps_intros) (auto intro: lift_aside)
qed

lemma find_user_aside: "state_io_rel (roles_aside t) (Exec (find_user email t'))"
  unfolding find_user_def by (rule lift_aside) (intro keeps_stmts)

lemma AddTeamUser_aside: "state_io_rel (roles_aside (tenantID r)) (AddTeamUser r b)"
  unfolding AddTeamUser_def Let_def
  by (intro aside.keeps_intros setUserRole_aside find_user_aside lift_aside [OF createInvitation_tenant] lift_aside [OF logAudit_tenant])

lemma UpdateTeamUserRole_aside: "state_io_rel (roles_aside (tenantID r)) (UpdateTeamUserRole r b i)"
  unfolding UpdateTeamUserRole_def Let_def
  by (intro aside.keeps_intros setUserRole_aside lift_aside [OF logAudit_tenant])

lemma ensureWhatsAppUser_aside: "state_io_rel (roles_aside t) (ensureWhatsAppUser auth t jid)"
proof -
  have count: "state_io_rel (roles_aside t) (Exec (count_users t))"
    by (rule aside.keeps_Exec) (simp add: count_users_def roles_aside_def)
  have new: "state_io_rel (roles_aside t) (Exec (insert_user email hash t now))" for email hash now
    unfolding insert_user_def by (rule lift_aside) (intro keeps_stmts, auto)
  show ?thesis
    unfolding ensureWhatsAppUser_def find_or_insert_def issue_tokens_def Let_def
    by (intro aside.keeps_intros setUserRole_aside find_user_aside count new lift_aside [OF logActivity_tenant])
qed

lemma WhatsAppAuthStatus_aside:
  assumes "\<And>ss s. whatsapp = Some ss \<Longrightarrow> GetSession (rq_query r ''session_id'') ss = Some s \<Longrightarrow> se_tenant s = t"
  shows "roles_aside t w (snd (run_state (WhatsAppAuthStatus png auth r whatsapp) w))"
  using assms relD [OF ensureWhatsAppUser_aside, where w = w]
  by (auto simp: WhatsAppAuthStatus_def Let_def split_beta aside.refl split: option.split)

lemma serves_aside: "serves roles t w w' \<Longrightarrow> roles_aside t w w'"
proof (induction rule: serves.induct)
  case (status whatsapp r t w png auth)
  then show ?case using WhatsAppAuthStatus_aside by blast
qed (simp add: roles_aside_def,
     (rule relD, rule AddTeamUser_aside UpdateTeamUserRole_aside | rule tenant_aside, rule relD,
      rule on_event_tenant SyncContactsForTenant_tenant worker_item_frame health_runOnce_tenant Authorize_tenant RemoveTeamUser_tenant
        SendInvitation_tenant sign_in_tenant llm_writers_tenant items_tenant workflows_tenant integrations_tenant inbox_tenant)+)

text \<open>
  What a tenant has: its rows in every table with a tenant column but \<open>users_extended\<close>, which is
  looked at apart; \<open>workflow_executions\<close> and \<open>conversation_profile_pics\<close> have no such column. In the five tables whose rows go
  with the row they refer to, rows may have gone.
\<close>

definition own_rows :: "('r \<Rightarrow> int) \<Rightarrow> int \<Rightarrow> 'r table \<Rightarrow> 'r list" where
  "own_rows ten t T = filter (\<lambda>r. ten r = t) (tb_rows T)"

definition untouched :: "int \<Rightarrow> db \<Rightarrow> db \<Rightarrow> bool" where
  "untouched t d d' \<longleftrightarrow>
     own_rows us_tenant t (users d') = own_rows us_tenant t (users d) \<and>
     own_rows cv_tenant t (conversations d') = own_rows cv_tenant t (conversations d) \<and>
     own_rows ms_tenant t (messages d') = own_rows ms_tenant t (messages d) \<and>
     own_rows ds_tenant t (daily_summaries d') = own_rows ds_tenant t (daily_summaries d) \<and>
     own_rows im_tenant t (important_messages d') = own_rows im_tenant t (important_messages d) \<and>
     own_rows ai_tenant t (action_items d') = own_rows ai_tenant t (action_items d) \<and>
     own_rows ac_tenant t (user_activity_logs d') = own_rows ac_tenant t (user_activity_logs d) \<and>
     own_rows pv_tenant t (llm_providers d') = own_rows pv_tenant t (llm_providers d) \<and>
     own_rows ur_tenant t (user_roles d') = own_rows ur_tenant t (user_roles d) \<and>
     own_rows tm_team t (team_members d') = own_rows tm_team t (team_members d) \<and>
     own_rows ti_tenant t (team_invitations d') = own_rows ti_tenant t (team_invitations d) \<and>
     own_rows wf_tenant t (workflows d') = own_rows wf_tenant t (workflows d) \<and>
     own_rows ig_tenant t (integrations d') = own_rows ig_tenant t (integrations d) \<and>
     own_rows au_tenant t (audit_logs d') = own_rows au_tenant t (audit_logs d) \<and>
     own_rows lb_tenant t (labels d') = own_rows lb_tenant t (labels d) \<and>
     own_rows ml_tenant t (message_labels d') = own_rows ml_tenant t (message_labels d) \<and>
     own_rows nt_tenant t (notifications d') = own_rows nt_tenant t (notifications d) \<and>
     set (own_rows ug_tenant t (llm_usage_logs d')) \<subseteq> set (own_rows ug_tenant t (llm_usage_logs d)) \<and>
     set (own_rows hl_tenant t (llm_provider_health d')) \<subseteq> set (own_rows hl_tenant t (llm_provider_health d)) \<and>
     set (own_rows hs_tenant t (llm_provider_history d')) \<subseteq> set (own_rows hs_tenant t (llm_provider_history d)) \<and>
     set (own_rows fa_tenant t (llm_feature_assignments d')) \<subseteq> set (own_rows fa_tenant t (llm_feature_assignments d)) \<and>
     set (own_rows cm_tenant t (comments d')) \<subseteq> set (own_rows cm_tenant t (comments d))"

lemma same_own: "same_rows ten s T T' \<Longrightarrow> s \<noteq> t \<Longrightarrow> own_rows ten t T' = own_rows ten t T"
proof -
  assume same: "same_rows ten s T T'" and "s \<noteq> t"
  then have "filter (\<lambda>r. ten r = t) (filter (\<lambda>r. ten r \<noteq> s) xs) = filter (\<lambda>r. ten r = t) xs" for xs
    by (intro filter_filter_other) auto
  with same show ?thesis unfolding same_rows_def own_rows_def by metis
qed

lemma shrunk_own:
  assumes "shrunk_rows ten s T T'" "s \<noteq> t"
  shows "set (own_rows ten t T') \<subseteq> set (own_rows ten t T)"
proof -
  obtain K where eq: "filter (\<lambda>r. ten r \<noteq> s) (tb_rows T') = filter K (filter (\<lambda>r. ten r \<noteq> s) (tb_rows T))"
    using assms(1) unfolding shrunk_rows_def by blast
  have "set (filter (\<lambda>r. ten r \<noteq> s) (tb_rows T')) \<subseteq> set (tb_rows T)" unfolding eq by auto
  with assms(2) show ?thesis by (auto simp: own_rows_def)
qed

lemma frame_untouched: "db_frame s (d\<lparr>users_extended := x\<rparr>) d' \<Longrightarrow> s \<noteq> t \<Longrightarrow> untouched t d d'"
proof -
  assume a: "db_frame s (d\<lparr>users_extended := x\<rparr>) d'" and "s \<noteq> t"
  from a [unfolded db_frame_def, simplified] this(2) show "untouched t d d'"
    unfolding untouched_def by (elim conjE, intro conjI) (erule (1) same_own shrunk_own)+
qed

lemma untouched_trans: "untouched t d d' \<Longrightarrow> untouched t d' d'' \<Longrightarrow> untouched t d d''"
  unfolding untouched_def by (elim conjE, intro conjI; erule (1) trans subset_trans)

text \<open>
  C2. What tenants can do to each other. Whatever requests, events, batches and checks run for other
  tenants, in any order and with whatever fails meanwhile, a tenant's own rows of every table with a
  tenant column but \<open>users_extended\<close> are the same rows with the same contents in the same order
  afterwards, whether or not the database applies its row-level policies; of the rows that go with
  the row they refer to, none has changed or come up. Its rows of \<open>users_extended\<close>, the roles, are the
  same too unless a step was one of the three callers of \<open>setUserRole\<close>. (The executions of workflows
  have no tenant column, and are not covered.)
\<close>

theorem tenants_isolated:
  assumes "system_run roles S w w'" "t \<notin> S"
  shows "untouched t (w_db w) (w_db w') \<and>
    (\<not> roles \<longrightarrow> own_rows ue_tenant t (users_extended (w_db w')) = own_rows ue_tenant t (users_extended (w_db w)))"
  using assms
proof (induction rule: system_run.induct)
  case start
  show ?case by (simp add: untouched_def)
next
  case (step u v s w)
  then have "roles_aside s v w" "s \<noteq> t" by (auto intro: serves_aside)
  then have "untouched t (w_db v) (w_db w)" unfolding roles_aside_def by (rule frame_untouched)
  moreover have "own_rows ue_tenant t (users_extended (w_db w)) = own_rows ue_tenant t (users_extended (w_db v))" if "\<not> roles"
  proof -
    from step.hyps(3) that have "tenant_frame s v w" by (simp add: serves_frame)
    with \<open>s \<noteq> t\<close> show ?thesis by (auto simp: tenant_frame_def db_frame_def intro: same_own)
  qed
  ultimately show ?case using step untouched_trans by auto
qed

text \<open>Both cases: a label made for another tenant, and a role changed from another tenant.\<close>

theorem tenants_isolated_witness:
  "(let w' = snd (run_state (CreateLabel (sample_request ''POST'' ''/'') (Some (''vip'', ''red''))) item_world)
    in system_run False {1} item_world w' \<and> untouched 2 (w_db item_world) (w_db w')) \<and>
   (let r = WithUser (sample_request ''PATCH'' '''') (sample_user\<lparr>u_id := 1, u_tenant := 5\<rparr>);
        w' = snd (run_state (UpdateTeamUserRole r (Some ''owner'') 7) (team_world ''member''))
    in system_run True {5} (team_world ''member'') w' \<and> untouched 3 (w_db (team_world ''member'')) (w_db w'))"
proof -
  let ?r = "sample_request ''POST'' ''/''" and ?q = "WithUser (sample_request ''PATCH'' '''') (sample_user\<lparr>u_id := 1, u_tenant := 5\<rparr>)"
  have "tenantID ?r = 1" "tenantID ?q = 5" by (simp_all add: tenantID_def UserFromContext_def sample_request_def WithUser_def)
  then have "serves False 1 item_world (snd (run_state (CreateLabel ?r (Some (''vip'', ''red''))) item_world))"
    "serves True 5 (team_world ''member'') (snd (run_state (UpdateTeamUserRole ?q (Some ''owner'') 7) (team_world ''member'')))"
    using serves.create_label [where r = ?r and w = item_world] serves.change_role [OF TrueI, of ?q] by metis+
  then have one: "system_run False {1} item_world (snd (run_state (CreateLabel ?r (Some (''vip'', ''red''))) item_world))"
    and two: "system_run True {5} (team_world ''member'') (snd (run_state (UpdateTeamUserRole ?q (Some ''owner'') 7) (team_world ''member'')))"
    by (auto intro: system_run.step [OF system_run.start, rotated])
  from one two tenants_isolated [OF one, of 2] tenants_isolated [OF two, of 3] show ?thesis by (simp add: Let_def)
qed

section \<open>Everything that writes\<close>

definition acts :: "world \<Rightarrow> world \<Rightarrow> bool" where
  "acts w w' \<longleftrightarrow> (\<exists>t. serves True t w w')"

lemma status_writes: "\<exists>t. writes t w (snd (run_state (WhatsAppAuthStatus png auth r ss) w))"
proof -
  have made: "writes (se_tenant s) w (snd (run_state (ensureWhatsAppUser auth (se_tenant s) (wc_id (se_client s))) w))" for s
    by (rule relD) (rule ensureWhatsAppUser_writes)
  show ?thesis
  proof (cases "ss = None \<or> rq_query r ''session_id'' = [] \<or> GetSession (rq_query r ''session_id'') (the ss) = None")
    case True
    then have "snd (run_state (WhatsAppAuthStatus png auth r ss) w) = w"
      by (auto simp: WhatsAppAuthStatus_def split: option.split)
    then show ?thesis by (simp add: wr.refl)
  next
    case False
    then obtain x s where "ss = Some x" "rq_query r ''session_id'' \<noteq> []" "GetSession (rq_query r ''session_id'') x = Some s"
      by auto
    with made [of s] show ?thesis
      by (intro exI [of _ "se_tenant s"]) (auto simp: WhatsAppAuthStatus_def Let_def split_beta wr.refl)
  qed
qed

lemma serves_writes: "serves roles t w w' \<Longrightarrow> \<exists>t. writes t w w'"
proof (induction rule: serves.induct)
  case (status whatsapp r t w png auth)
  show ?case by (rule status_writes)
qed ((rule exI, rule relD,
      rule on_event_writes SyncContacts_writes worker_item_writes health_runOnce_writes sign_in_writes team_writes
        llm_writes items_writes other_writes) | simp add: writes_def)+

lemma acts_writes: "acts w w' \<Longrightarrow> \<exists>t. writes t w w'"
  unfolding acts_def using serves_writes by blast

lemma acts_sync: "acts w (snd (run_state (on_event q t client e) w))"
  unfolding acts_def by (rule exI, rule serves.sync)

text \<open>
  The schema holds. Whatever the backend does, in any order, for any tenants and whichever calls
  fail, the database it leaves satisfies what \<open>schema_ok\<close> lists of the migrations. (The database itself
  sees to that: the constraints are part of the statements of theory \<open>Database\<close>.)
\<close>

theorem database_well_formed:
  assumes "acts\<^sup>*\<^sup>* w w'" "schema_ok (w_db w)"
  shows "schema_ok (w_db w')"
  using assms(1) acts_writes assms(2) by (rule schema.run)

section \<open>Messages are stored once\<close>

lemma known_insert:
  assumes "(t, mi_id info) \<in> set (wa_keys ms)"
  shows "state_io_rel (inv_frame (\<lambda>d. tb_rows (messages d) = ms)) (insertMessage t conv info content chat media)"
  unfolding insertMessage_def
proof (intro inv.keeps_bind inv.keeps_Now inv.keeps_return WithTenantConn_session)
  fix now and v :: world assume v: "ss_tenant (w_sess v) = Some t" "tb_rows (messages (w_db v)) = ms"
  obtain f v1 where f: "run_state (Exec (select_message t (mi_id info))) v = (f, v1)"
    by (cases "run_state (Exec (select_message t (mi_id info))) v")
  note e = Exec_effect [OF f]
  have v1: "w_db v1 = w_db v" using e select_message_read by (metis snd_conv)
  have "f \<noteq> Inl NoRows" using e select_message_none [OF v(1), of "mi_id info"] assms v(2) by auto
  with f v1 v(2) show "tb_rows (messages (w_db (snd (run_state (do {
       found \<leftarrow> Exec (select_message t (mi_id info));
       case found of
         Inr m \<Rightarrow> ok (ms_id m)
       | Inl e \<Rightarrow>
           if e \<noteq> NoRows then err e
           else
             let sender = (if mi_fromMe info then ''me'' else j_text (mi_sender info)) in
             then_ok (Exec (insert_message t conv sender content (mi_time info)
                (Some (message_meta info chat media sender)) now)) (\<lambda>m. ok (ms_id m))
     }) v)))) = ms"
    by (auto simp: state_simps split: sum.split)
qed

lemma known_delivery:
  assumes "(t, mi_id info) \<in> set (wa_keys (tb_rows (messages (w_db w))))"
  shows "tb_rows (messages (w_db (snd (run_state (handleMessage q t client info msg chat name) w)))) = tb_rows (messages (w_db w))"
proof -
  let ?ms = "tb_rows (messages (w_db w))"
  let ?R = "inv_frame (\<lambda>d. tb_rows (messages d) = ?ms)"
  have "conv_only u v \<Longrightarrow> ?R u v" for u v by (auto simp: conv_only_def inv_frame_def)
  then have "state_io_rel ?R (conversation_tx (upsert_conversation t number nm lastAt pic now))" for number nm lastAt pic now
    using tx_only [of t number nm lastAt pic now] by (auto simp: state_io_rel_def)
  then have "state_io_rel ?R (handleMessage q t client info msg chat name)"
    unfolding handleMessage_def UpsertConversation_def Enqueue_def Let_def
    by (intro inv.keeps_intros inv.keeps_faulty known_insert [OF assms])
  then show ?thesis by (simp add: state_io_rel_def inv_frame_def)
qed

text \<open>A conversation of tenant 3, without and with a message.\<close>

definition chat_world :: "message_row list \<Rightarrow> world" where
  "chat_world ms = (sync_world ms)\<lparr>w_db := (w_db (sync_world ms))\<lparr>users_extended := empty_table\<rparr>\<rparr>"

definition sample_event :: "string \<Rightarrow> wa_evt" where
  "sample_event i = MessageEvt \<lparr>ev_info = sample_info\<lparr>mi_id := i\<rparr>, ev_message = sample_text\<rparr>"

lemma chat_delivery:
  assumes "i \<noteq> []" "\<forall>m \<in> set ms. whatsapp_id m \<noteq> Some i"
  obtains row where "tb_rows (messages (w_db (snd (run_state (on_event True 3 sample_client (sample_event i)) (chat_world ms))))) = ms @ [row]"
    "ms_tenant row = 3" "whatsapp_id row = Some i"
  using handleMessage_new [of "chat_world ms" "sample_info\<lparr>mi_id := i\<rparr>" sample_text 3 sample_client sample_chat "''Bob''"] assms
  by (auto simp: chat_world_def sample_event_def sample_info_def sample_text_def extractText_def group_row_def)

lemma chat_schema: "schema_ok (w_db (chat_world []))" "wa_unique (w_db (chat_world []))"
  by (simp_all add: chat_world_def sync_world_def sample_world_def empty_db_def schema_ok_def keys_ok_def unique_ok_def refs_ok_def
      ranges_ok_def keyed_def unique_def col_def default_tenants_def wa_unique_def wa_keys_def group_row_def)

text \<open>
  C3. A message is stored once. Whatever the backend does, in any order and whichever calls fail, no
  two messages of a tenant carry the same WhatsApp id; and then a delivery, live or from the history,
  of a message whose id one of them carries leaves all messages as they are, whatever fails during
  it. (An id is lost when an analysis is written back after the read of the message's metadata
  failed; a delivery after that stores the message anew. The actions come one after another here;
  theory \<open>Races\<close> has deliveries that meet.)
\<close>

theorem messages_stored_once:
  assumes "acts\<^sup>*\<^sup>* w w'" "schema_ok (w_db w)" "wa_unique (w_db w)"
  shows "wa_unique (w_db w') \<and>
    (\<forall>q t client info msg chat name.
       (t, mi_id info) \<in> set (wa_keys (tb_rows (messages (w_db w')))) \<longrightarrow>
       tb_rows (messages (w_db (snd (run_state (handleMessage q t client info msg chat name) w')))) = tb_rows (messages (w_db w')))"
  using synced.run [OF assms(1) acts_writes] assms(2,3) by (auto intro: known_delivery)

theorem messages_stored_once_witness:
  "let w1 = snd (run_state (on_event True 3 sample_client (sample_event ''A7'')) (chat_world []));
       w2 = snd (run_state (on_event True 3 sample_client (sample_event ''A7'')) w1)
   in map whatsapp_id (tb_rows (messages (w_db w1))) = [Some ''A7''] \<and> tb_rows (messages (w_db w2)) = tb_rows (messages (w_db w1))"
proof -
  define w1 where "w1 = snd (run_state (on_event True 3 sample_client (sample_event ''A7'')) (chat_world []))"
  have run: "acts\<^sup>*\<^sup>* (chat_world []) w1" unfolding w1_def by (rule r_into_rtranclp, rule acts_sync)
  obtain row where row: "tb_rows (messages (w_db w1)) = [row]" "ms_tenant row = 3" "whatsapp_id row = Some ''A7''"
    unfolding w1_def by (rule chat_delivery [of "''A7''" "[]"]) simp_all
  then have "(3, mi_id (sample_info\<lparr>mi_id := ''A7''\<rparr>)) \<in> set (wa_keys (tb_rows (messages (w_db w1))))"
    by (simp add: wa_keys_def)
  with messages_stored_once [OF run chat_schema] row show ?thesis
    unfolding Let_def w1_def [symmetric] by (simp add: sample_event_def)
qed

text \<open>
  C20. Records stay. Whatever the backend does, it never deletes or reorders a user, a conversation, a
  message, a summary, a flag, a role grant or an entry of the audit and activity logs; it never
  changes one either, but for the name, picture and time of the last message of a conversation and
  the metadata of a message.
\<close>

theorem records_append_only:
  assumes "acts\<^sup>*\<^sup>* w w'"
  shows "kept (w_db w) (w_db w')"
  using records.run [OF assms acts_writes] kept_refl by blast

theorem records_append_only_witness:
  "let w1 = snd (run_state (on_event True 3 sample_client (sample_event ''A7'')) (chat_world [sync_row]))
   in kept (w_db (chat_world [sync_row])) (w_db w1) \<and> take 1 (tb_rows (messages (w_db w1))) = [sync_row] \<and>
     length (tb_rows (messages (w_db w1))) = 2"
proof -
  define w1 where "w1 = snd (run_state (on_event True 3 sample_client (sample_event ''A7'')) (chat_world [sync_row]))"
  have "acts\<^sup>*\<^sup>* (chat_world [sync_row]) w1" unfolding w1_def by (rule r_into_rtranclp, rule acts_sync)
  from records_append_only [OF this] have "kept (w_db (chat_world [sync_row])) (w_db w1)" .
  moreover obtain row where "tb_rows (messages (w_db w1)) = [sync_row] @ [row]"
    unfolding w1_def by (rule chat_delivery [of "''A7''" "[sync_row]"]) (simp_all add: sync_row_def sample_info_def)
  ultimately show ?thesis by (simp add: w1_def [symmetric])
qed

end
