(* ===== verification/Hub.thy ===== *)
theory Hub
  imports Web "HOL-Library.AList"
begin

text \<open>
  The realtime hub: \<open>backend/internal/realtime/hub.go\<close> and the read pump of \<open>websocket.go\<close>.
  A client is its pointer with its immutable fields; channels live in a store of their own,
  so that closing and sending are operations that can panic (\<open>None\<close>). \<open>Register\<close> and
  \<open>Unregister\<close> hold the lock throughout and are atomic; \<open>Broadcast\<close> iterates over the live map
  after it has released the lock and is a sequence of steps.
\<close>

record client =
  c_ptr :: nat
  c_tenant :: int
  c_user :: int

record chan =
  ch_buf :: "json list"
  ch_closed :: bool

record hub =
  hb_clients :: "int \<rightharpoonup> client set"
  hb_presence :: "int \<rightharpoonup> (int \<rightharpoonup> int)"
  hb_chan :: "nat \<Rightarrow> chan"

definition send_cap :: nat where
  "send_cap = 16"

definition NewHub :: "hub" where
  "NewHub = \<lparr>hb_clients = Map.empty, hb_presence = Map.empty,
             hb_chan = (\<lambda>_. \<lparr>ch_buf = [], ch_closed = False\<rparr>)\<rparr>"

section \<open>Operations\<close>

text \<open>The buffer after \<open>select { case client.Send <- message: default: }\<close>.\<close>

definition offer :: "json \<Rightarrow> chan \<Rightarrow> chan" where
  "offer m c = (if length (ch_buf c) < send_cap then c\<lparr>ch_buf := ch_buf c @ [m]\<rparr> else c)"

definition try_send :: "json \<Rightarrow> client \<Rightarrow> hub \<Rightarrow> hub option" where
  "try_send m c h =
     (if ch_closed (hb_chan h (c_ptr c)) then None
      else Some (h\<lparr>hb_chan := (hb_chan h)(c_ptr c := offer m (hb_chan h (c_ptr c)))\<rparr>))"

definition clients_of :: "hub \<Rightarrow> int \<Rightarrow> client set" where
  "clients_of h t = (case hb_clients h t of None \<Rightarrow> {} | Some S \<Rightarrow> S)"

text \<open>A loop of such sends over a set of clients; the channels are distinct, the order is free.\<close>

definition send_all :: "json \<Rightarrow> client set \<Rightarrow> hub \<Rightarrow> hub option" where
  "send_all m S h =
     (if \<exists>c \<in> S. ch_closed (hb_chan h (c_ptr c)) then None
      else Some (h\<lparr>hb_chan := (\<lambda>p. if p \<in> c_ptr ` S then offer m (hb_chan h p) else hb_chan h p)\<rparr>))"

text \<open>The user ids of the presence map; \<open>range\<close> has no order, the set stands for any.\<close>

definition present :: "hub \<Rightarrow> int \<Rightarrow> int set" where
  "present h t = (case hb_presence h t of None \<Rightarrow> {} | Some p \<Rightarrow> dom p)"

definition presence_payload :: "(int set \<Rightarrow> int list) \<Rightarrow> int set \<Rightarrow> json" where
  "presence_payload order users =
     JObj [(''type'', JStr ''presence.update''), (''users'', JArr (map JInt (order users)))]"

definition broadcastPresenceLocked :: "(int set \<Rightarrow> int list) \<Rightarrow> int \<Rightarrow> hub \<Rightarrow> hub option" where
  "broadcastPresenceLocked order t h =
     send_all (presence_payload order (present h t)) (clients_of h t) h"

definition Register :: "(int set \<Rightarrow> int list) \<Rightarrow> client \<Rightarrow> hub \<Rightarrow> hub option" where
  "Register order c h =
     (let t = c_tenant c;
          h1 = h\<lparr>hb_clients := (hb_clients h)(t \<mapsto> insert c (clients_of h t))\<rparr>;
          p = (case hb_presence h1 t of None \<Rightarrow> Map.empty | Some p \<Rightarrow> p);
          n = (case p (c_user c) of None \<Rightarrow> 0 | Some n \<Rightarrow> n);
          h2 = h1\<lparr>hb_presence := (hb_presence h1)(t \<mapsto> p(c_user c \<mapsto> n + 1))\<rparr>
      in broadcastPresenceLocked order t h2)"

definition close_chan :: "client \<Rightarrow> hub \<Rightarrow> hub option" where
  "close_chan c h =
     (if ch_closed (hb_chan h (c_ptr c)) then None
      else Some (h\<lparr>hb_chan := (hb_chan h)(c_ptr c := (hb_chan h (c_ptr c))\<lparr>ch_closed := True\<rparr>)\<rparr>))"

definition drop_presence :: "client \<Rightarrow> (int \<rightharpoonup> int) \<Rightarrow> (int \<rightharpoonup> int)" where
  "drop_presence c p =
     (case p (c_user c) of
        None \<Rightarrow> p
      | Some n \<Rightarrow> if n \<le> 1 then p(c_user c := None) else p(c_user c \<mapsto> n - 1))"

definition Unregister :: "(int set \<Rightarrow> int list) \<Rightarrow> client \<Rightarrow> hub \<Rightarrow> hub option" where
  "Unregister order c h =
     (let t = c_tenant c in
      case hb_clients h t of
        None \<Rightarrow> Some h
      | Some S \<Rightarrow>
          let removed =
            (if c \<in> S then
               (case close_chan c (h\<lparr>hb_clients := (hb_clients h)(t \<mapsto> S - {c})\<rparr>) of
                  None \<Rightarrow> None
                | Some h1 \<Rightarrow>
                    (case hb_presence h1 t of
                       None \<Rightarrow> Some h1
                     | Some p \<Rightarrow>
                         broadcastPresenceLocked order t
                           (h1\<lparr>hb_presence := (hb_presence h1)(t \<mapsto> drop_presence c p)\<rparr>)))
             else Some h)
          in case removed of
               None \<Rightarrow> None
             | Some h2 \<Rightarrow>
                 Some (if clients_of h2 t = {} then h2\<lparr>hb_clients := (hb_clients h2)(t := None)\<rparr> else h2))"

text \<open>A \<open>Broadcast\<close> that no \<open>Unregister\<close> overlaps.\<close>

definition Broadcast :: "int \<Rightarrow> json \<Rightarrow> hub \<Rightarrow> hub option" where
  "Broadcast t m h = send_all m (clients_of h t) h"

section \<open>The abstract hub: the set of connected clients\<close>

definition connected :: "hub \<Rightarrow> client set" where
  "connected h = {c. c \<in> clients_of h (c_tenant c)}"

definition sessions :: "hub \<Rightarrow> int \<Rightarrow> int \<Rightarrow> client set" where
  "sessions h t u = {c \<in> clients_of h t. c_user c = u}"

text \<open>
  The invariant: clients are filed under their tenant, with open channels of their own; the
  presence count of a user is the number of the user's connections, and is absent when that
  is zero; a tenant without clients has no entry.
\<close>

definition hub_inv :: "hub \<Rightarrow> bool" where
  "hub_inv h \<longleftrightarrow>
     (\<forall>t S. hb_clients h t = Some S \<longrightarrow> finite S \<and> S \<noteq> {}) \<and>
     (\<forall>t. \<forall>c \<in> clients_of h t. c_tenant c = t \<and> \<not> ch_closed (hb_chan h (c_ptr c))) \<and>
     (\<forall>t t'. \<forall>c \<in> clients_of h t. \<forall>c' \<in> clients_of h t'. c_ptr c = c_ptr c' \<longrightarrow> c = c') \<and>
     (\<forall>t. clients_of h t \<noteq> {} \<longrightarrow> hb_presence h t \<noteq> None) \<and>
     (\<forall>t p u. hb_presence h t = Some p \<longrightarrow>
        p u = (if sessions h t u = {} then None else Some (int (card (sessions h t u)))))"

section \<open>Facts about sending\<close>

lemma send_all_simps [simp]:
  assumes "send_all m S h = Some h'"
  shows "hb_clients h' = hb_clients h" "hb_presence h' = hb_presence h"
    "ch_closed (hb_chan h' p) = ch_closed (hb_chan h p)" "clients_of h' t = clients_of h t"
    "sessions h' t u = sessions h t u" "present h' t = present h t"
  using assms
  by (auto simp: send_all_def offer_def clients_of_def sessions_def present_def split: if_splits)

lemma hub_inv_send_all: "hub_inv h \<Longrightarrow> send_all m S h = Some h' \<Longrightarrow> hub_inv h'"
  unfolding hub_inv_def by (simp only: send_all_simps)

lemma send_all_total:
  "\<forall>c \<in> S. \<not> ch_closed (hb_chan h (c_ptr c)) \<Longrightarrow> \<exists>h'. send_all m S h = Some h'"
  unfolding send_all_def by (subst if_not_P) blast+

lemma hub_inv_New [simp]: "hub_inv NewHub"
  by (simp add: hub_inv_def NewHub_def clients_of_def)

lemma hub_invD:
  assumes "hub_inv h"
  shows "hb_clients h t = Some S \<Longrightarrow> finite S \<and> S \<noteq> {}"
    and "c \<in> clients_of h t \<Longrightarrow> c_tenant c = t \<and> \<not> ch_closed (hb_chan h (c_ptr c))"
    and "finite (clients_of h t)"
    and "clients_of h t \<noteq> {} \<Longrightarrow> hb_presence h t \<noteq> None"
    and "hb_presence h t = Some p \<Longrightarrow>
      p u = (if sessions h t u = {} then None else Some (int (card (sessions h t u))))"
    and "c \<in> clients_of h t \<Longrightarrow> c' \<in> clients_of h t' \<Longrightarrow> c_ptr c = c_ptr c' \<Longrightarrow> c = c'"
proof -
  show "finite (clients_of h t)"
    using assms unfolding hub_inv_def clients_of_def by (cases "hb_clients h t") auto
qed (use assms in \<open>unfold hub_inv_def, blast+\<close>)

lemma finite_sessions [simp]: "hub_inv h \<Longrightarrow> finite (sessions h t u)"
  using hub_invD(3) [of h t] by (simp add: sessions_def)

lemma present_users: "hub_inv h \<Longrightarrow> present h t = c_user ` clients_of h t"
proof (cases "hb_presence h t")
  case None
  then show "hub_inv h \<Longrightarrow> ?thesis" using hub_invD(4) [of h t] by (auto simp: present_def)
next
  case (Some p)
  then show "hub_inv h \<Longrightarrow> ?thesis"
    using hub_invD(5) [of h t p] by (auto simp: present_def sessions_def dom_def split: if_splits)
qed

text \<open>A connection that is not in the hub yet: its pointer is new, its channel just made.\<close>

definition fresh_client :: "client \<Rightarrow> hub \<Rightarrow> bool" where
  "fresh_client c h \<longleftrightarrow>
     (\<forall>t. \<forall>c' \<in> clients_of h t. c_ptr c' \<noteq> c_ptr c) \<and> \<not> ch_closed (hb_chan h (c_ptr c))"

lemma Register_core:
  assumes inv: "hub_inv h" and fresh: "fresh_client c h"
  defines "t \<equiv> c_tenant c"
  defines "h1 \<equiv> h\<lparr>hb_clients := (hb_clients h)(t \<mapsto> insert c (clients_of h t))\<rparr>"
  defines "p \<equiv> (case hb_presence h1 t of None \<Rightarrow> Map.empty | Some p \<Rightarrow> p)"
  defines "h2 \<equiv> h1\<lparr>hb_presence := (hb_presence h1)(t \<mapsto>
     p(c_user c \<mapsto> (case p (c_user c) of None \<Rightarrow> 0 | Some n \<Rightarrow> n) + 1))\<rparr>"
  shows "hub_inv h2" and "clients_of h2 t' = (if t' = t then insert c (clients_of h t) else clients_of h t')"
proof -
  show cl: "clients_of h2 t' = (if t' = t then insert c (clients_of h t) else clients_of h t')" for t'
    by (simp add: h2_def h1_def clients_of_def)
  have chan: "hb_chan h2 = hb_chan h" by (simp add: h2_def h1_def)
  have new: "c \<notin> clients_of h t" using fresh by (auto simp: fresh_client_def)
  have ses: "sessions h2 t' u = (if t' = t \<and> u = c_user c then insert c (sessions h t u) else sessions h t' u)" for t' u
    by (auto simp: sessions_def cl)
  have pu: "p u = (if sessions h t u = {} then None else Some (int (card (sessions h t u))))" for u
  proof (cases "hb_presence h t")
    case None
    then have "clients_of h t = {}" using hub_invD(4) [OF inv] by blast
    with None show ?thesis by (simp add: p_def h1_def sessions_def)
  next
    case (Some q)
    with hub_invD(5) [OF inv Some] show ?thesis by (simp add: p_def h1_def)
  qed
  have "c \<notin> sessions h t (c_user c)" using new by (simp add: sessions_def)
  then have cnt: "(p(c_user c \<mapsto> (case p (c_user c) of None \<Rightarrow> 0 | Some n \<Rightarrow> n) + 1)) u =
      (if sessions h2 t u = {} then None else Some (int (card (sessions h2 t u))))" for u
    using inv by (simp add: pu ses)
  have pres: "hb_presence h2 t' = (if t' = t then
      Some (p(c_user c \<mapsto> (case p (c_user c) of None \<Rightarrow> 0 | Some n \<Rightarrow> n) + 1)) else hb_presence h t')" for t'
    by (simp add: h2_def h1_def)
  have "p' u = (if sessions h2 t' u = {} then None else Some (int (card (sessions h2 t' u))))"
    if "hb_presence h2 t' = Some p'" for t' p' u
  proof (cases "t' = t")
    case True
    with that cnt [of u] show ?thesis unfolding pres by auto
  next
    case False
    with that hub_invD(5) [OF inv, of t' p' u] show ?thesis by (simp add: pres ses)
  qed
  moreover have "clients_of h2 t' \<noteq> {} \<Longrightarrow> hb_presence h2 t' \<noteq> None" for t'
    using hub_invD(4) [OF inv, of t'] by (simp add: cl pres split: if_splits)
  moreover have "finite S \<and> S \<noteq> {}" if "hb_clients h2 t' = Some S" for t' S
    using that hub_invD(1,3) [OF inv] by (auto simp: h2_def h1_def split: if_splits)
  moreover have "c' \<in> clients_of h2 t' \<Longrightarrow> c_tenant c' = t' \<and> \<not> ch_closed (hb_chan h2 (c_ptr c'))" for c' t'
    using hub_invD(2) [OF inv] fresh by (auto simp: cl chan t_def fresh_client_def split: if_splits)
  moreover have "c1 = c2" if "c1 \<in> clients_of h2 t1" "c2 \<in> clients_of h2 t2" "c_ptr c1 = c_ptr c2" for c1 c2 t1 t2
    using that hub_invD(6) [OF inv] fresh by (fastforce simp: cl fresh_client_def split: if_splits)
  ultimately show "hub_inv h2" unfolding hub_inv_def by blast
qed

text \<open>
  Registration never panics, keeps the invariant, and on the abstract hub is insertion.
\<close>

lemma Register_spec:
  assumes "hub_inv h" "fresh_client c h"
  shows "\<exists>h'. Register order c h = Some h' \<and> hub_inv h' \<and> connected h' = insert c (connected h) \<and>
     (\<forall>t. clients_of h' t = (if t = c_tenant c then insert c (clients_of h t) else clients_of h t)) \<and>
     (\<forall>p. ch_closed (hb_chan h' p) = ch_closed (hb_chan h p))"
proof -
  note core = Register_core [OF assms]
  let ?h2 = "let t = c_tenant c;
          h1 = h\<lparr>hb_clients := (hb_clients h)(t \<mapsto> insert c (clients_of h t))\<rparr>;
          p = (case hb_presence h1 t of None \<Rightarrow> Map.empty | Some p \<Rightarrow> p);
          n = (case p (c_user c) of None \<Rightarrow> 0 | Some n \<Rightarrow> n)
       in h1\<lparr>hb_presence := (hb_presence h1)(t \<mapsto> p(c_user c \<mapsto> n + 1))\<rparr>"
  have reg: "Register order c h = send_all (presence_payload order (present ?h2 (c_tenant c))) (clients_of ?h2 (c_tenant c)) ?h2"
    by (simp add: Register_def Let_def broadcastPresenceLocked_def)
  have inv: "hub_inv ?h2" and cl: "clients_of ?h2 t' = (if t' = c_tenant c then insert c (clients_of h t') else clients_of h t')" for t'
    using core by (simp_all add: Let_def)
  obtain h' where h': "Register order c h = Some h'"
    unfolding reg using send_all_total hub_invD(2) [OF inv] by blast
  note s = send_all_simps [OF h' [unfolded reg]]
  have "ch_closed (hb_chan h' p) = ch_closed (hb_chan h p)" for p
    using s(3) [of p] by (simp add: Let_def)
  moreover have "clients_of h' t' = (if t' = c_tenant c then insert c (clients_of h t') else clients_of h t')" for t'
    using s(4) cl by simp
  ultimately show ?thesis
    using h' hub_inv_send_all [OF inv h' [unfolded reg]]
    by (auto simp: connected_def)
qed

lemma sum_sessions_remove:
  assumes "hub_inv h" "c \<in> clients_of h t" "c_tenant c = t"
    and "\<And>t'. clients_of k t' = (if t' = t then clients_of h t - {c} else clients_of h t')"
  shows "sessions k t' u = (if t' = t \<and> u = c_user c then sessions h t u - {c} else sessions h t' u)"
  using assms(4) by (auto simp: sessions_def)

lemma drop_presence_count:
  assumes inv: "hub_inv h" and c: "c \<in> clients_of h t" and p: "hb_presence h t = Some p"
    and ses: "\<And>u. ses u = (if u = c_user c then sessions h t u - {c} else sessions h t u)"
  shows "drop_presence c p u = (if ses u = {} then None else Some (int (card (ses u))))"
proof -
  have pu: "p v = (if sessions h t v = {} then None else Some (int (card (sessions h t v))))" for v
    by (rule hub_invD(5) [OF inv p])
  have in_ses: "c \<in> sessions h t (c_user c)" using c by (simp add: sessions_def)
  have fin: "finite (sessions h t (c_user c))" by (simp add: inv)
  let ?n = "card (sessions h t (c_user c))"
  have card: "card (sessions h t (c_user c) - {c}) = ?n - 1" using in_ses by simp
  have pos: "?n \<noteq> 0" using in_ses fin by auto
  have empty: "sessions h t (c_user c) - {c} = {} \<longleftrightarrow> ?n = 1"
    using card pos fin by (metis card_0_eq finite_Diff One_nat_def Suc_pred diff_Suc_1 neq0_conv)
  have pc: "p (c_user c) = Some (int ?n)" using pu [of "c_user c"] in_ses by auto
  show ?thesis
  proof (cases "u = c_user c")
    case True
    have "drop_presence c p u = (if int ?n \<le> 1 then None else Some (int ?n - 1))"
      by (simp add: drop_presence_def pc True)
    moreover have "int ?n \<le> 1 \<longleftrightarrow> ?n = 1" using pos by auto
    moreover have "int (?n - 1) = int ?n - 1" using pos by auto
    ultimately show ?thesis by (simp only: ses True simp_thms if_True empty card)
  next
    case False
    have "drop_presence c p u = p u"
      using False by (simp add: drop_presence_def split: option.split)
    with False show ?thesis by (simp only: ses pu if_False)
  qed
qed

lemma clients_of_upd [simp]:
  "clients_of (h\<lparr>hb_clients := (hb_clients h)(t \<mapsto> S)\<rparr>) t' = (if t' = t then S else clients_of h t')"
  "clients_of (h\<lparr>hb_clients := (hb_clients h)(t := None)\<rparr>) t' = (if t' = t then {} else clients_of h t')"
  "clients_of (h\<lparr>hb_presence := q\<rparr>) t' = clients_of h t'"
  "clients_of (h\<lparr>hb_chan := k\<rparr>) t' = clients_of h t'"
  by (simp_all add: clients_of_def)

text \<open>The hub invariant but for an empty entry of one tenant, which holds inside \<open>Unregister\<close>.\<close>

definition pre_inv :: "int \<Rightarrow> hub \<Rightarrow> bool" where
  "pre_inv t0 h \<longleftrightarrow>
     (\<forall>t S. hb_clients h t = Some S \<longrightarrow> finite S \<and> (t \<noteq> t0 \<longrightarrow> S \<noteq> {})) \<and>
     (\<forall>t. \<forall>c \<in> clients_of h t. c_tenant c = t \<and> \<not> ch_closed (hb_chan h (c_ptr c))) \<and>
     (\<forall>t t'. \<forall>c \<in> clients_of h t. \<forall>c' \<in> clients_of h t'. c_ptr c = c_ptr c' \<longrightarrow> c = c') \<and>
     (\<forall>t. clients_of h t \<noteq> {} \<longrightarrow> hb_presence h t \<noteq> None) \<and>
     (\<forall>t p u. hb_presence h t = Some p \<longrightarrow>
        p u = (if sessions h t u = {} then None else Some (int (card (sessions h t u)))))"

lemma pre_inv_send_all: "pre_inv t h \<Longrightarrow> send_all m S h = Some h' \<Longrightarrow> pre_inv t h'"
  unfolding pre_inv_def by (simp only: send_all_simps)

lemma pre_inv_clean:
  assumes "pre_inv t h"
  shows "hub_inv (if clients_of h t = {} then h\<lparr>hb_clients := (hb_clients h)(t := None)\<rparr> else h)"
proof (cases "clients_of h t = {}")
  case True
  let ?k = "h\<lparr>hb_clients := (hb_clients h)(t := None)\<rparr>"
  have cl: "clients_of ?k t' = clients_of h t'" for t' using True by simp
  have ses: "sessions ?k t' u = sessions h t' u" for t' u unfolding sessions_def cl ..
  have k: "hb_presence ?k = hb_presence h" "hb_chan ?k = hb_chan h"
    "\<And>t' S. hb_clients ?k t' = Some S \<Longrightarrow> t' \<noteq> t \<and> hb_clients h t' = Some S"
    by (simp_all split: if_splits)
  have "hub_inv ?k"
    using assms k(3) unfolding hub_inv_def pre_inv_def cl ses k(1,2) by blast
  with True show ?thesis by simp
next
  case False
  then have "hb_clients h t = Some S \<Longrightarrow> S \<noteq> {}" for S by (auto simp: clients_of_def)
  then have "finite S \<and> S \<noteq> {}" if "hb_clients h t' = Some S" for t' S
    using assms that unfolding pre_inv_def by (cases "t' = t") blast+
  then have "hub_inv h" using assms unfolding hub_inv_def pre_inv_def by blast
  with False show ?thesis by simp
qed

lemma Unregister_absent: "c \<notin> clients_of h (c_tenant c) \<Longrightarrow> hub_inv h \<Longrightarrow> Unregister order c h = Some h"
  using hub_invD(1) [of h "c_tenant c"]
  by (auto simp: Unregister_def Let_def clients_of_def split: option.splits)

lemma Unregister_present:
  assumes inv: "hub_inv h" and c: "c \<in> clients_of h (c_tenant c)"
  shows "\<exists>h'. Unregister order c h = Some h' \<and> hub_inv h' \<and> connected h' = connected h - {c} \<and>
     (\<forall>t. clients_of h' t = clients_of h t - {c}) \<and>
     (\<forall>p. ch_closed (hb_chan h' p) \<longleftrightarrow> p = c_ptr c \<or> ch_closed (hb_chan h p))"
proof -
  let ?t = "c_tenant c"
  obtain S where S: "hb_clients h ?t = Some S" "c \<in> S"
    using c by (auto simp: clients_of_def split: option.splits)
  obtain p where p: "hb_presence h ?t = Some p"
    using hub_invD(4) [OF inv, of ?t] c by auto
  define h1 where "h1 = h\<lparr>hb_clients := (hb_clients h)(?t \<mapsto> S - {c}),
    hb_chan := (hb_chan h)(c_ptr c := (hb_chan h (c_ptr c))\<lparr>ch_closed := True\<rparr>)\<rparr>"
  define h2 where "h2 = h1\<lparr>hb_presence := (hb_presence h)(?t \<mapsto> drop_presence c p)\<rparr>"
  have open_c: "\<not> ch_closed (hb_chan h (c_ptr c))" using hub_invD(2) [OF inv c] by simp
  have SS: "clients_of h ?t = S" using S by (simp add: clients_of_def)
  have cl: "clients_of h2 t = (if t = ?t then clients_of h ?t - {c} else clients_of h t)" for t
    by (simp add: h2_def h1_def clients_of_def SS S(1))
  have cl': "clients_of h2 t = clients_of h t - {c}" for t
    using hub_invD(2) [OF inv, of c t] by (auto simp: cl)
  have closed: "ch_closed (hb_chan h2 q) \<longleftrightarrow> q = c_ptr c \<or> ch_closed (hb_chan h q)" for q
    by (simp add: h2_def h1_def)
  note ses = sum_sessions_remove [OF inv c refl cl]
  have pres: "hb_presence h2 t = (if t = ?t then Some (drop_presence c p) else hb_presence h t)" for t
    by (simp add: h2_def h1_def)
  have "q u = (if sessions h2 t u = {} then None else Some (int (card (sessions h2 t u))))"
    if "hb_presence h2 t = Some q" for t q u
  proof (cases "t = ?t")
    case True
    with that drop_presence_count [OF inv c p, of "sessions h2 ?t" u] ses show ?thesis
      by (simp add: pres)
  next
    case False
    with that hub_invD(5) [OF inv, of t q u] show ?thesis by (simp add: pres ses)
  qed
  moreover have "\<not> ch_closed (hb_chan h2 (c_ptr d)) \<and> c_tenant d = t" if "d \<in> clients_of h2 t" for d t
    using that hub_invD(2) [OF inv, of d t] hub_invD(6) [OF inv, of d t c ?t] c by (auto simp: cl' closed)
  moreover have "finite T \<and> (t \<noteq> ?t \<longrightarrow> T \<noteq> {})" if "hb_clients h2 t = Some T" for t T
    using that hub_invD(1) [OF inv] S(1) by (fastforce simp: h2_def h1_def split: if_splits)
  moreover have "clients_of h2 t \<noteq> {} \<Longrightarrow> hb_presence h2 t \<noteq> None" for t
    using hub_invD(4) [OF inv, of t] by (auto simp: cl' pres)
  moreover have "d = d'" if "d \<in> clients_of h2 t" "d' \<in> clients_of h2 t'" "c_ptr d = c_ptr d'" for d d' t t'
    using that hub_invD(6) [OF inv, of d t d' t'] by (simp add: cl')
  ultimately have pre: "pre_inv ?t h2" unfolding pre_inv_def by blast
  have "\<forall>d \<in> clients_of h2 ?t. \<not> ch_closed (hb_chan h2 (c_ptr d))"
    using pre by (auto simp: pre_inv_def)
  then obtain h3 where h3: "broadcastPresenceLocked order ?t h2 = Some h3"
    using send_all_total unfolding broadcastPresenceLocked_def by blast
  note s = send_all_simps [OF h3 [unfolded broadcastPresenceLocked_def]]
  let ?h' = "if clients_of h3 ?t = {} then h3\<lparr>hb_clients := (hb_clients h3)(?t := None)\<rparr> else h3"
  have run: "Unregister order c h = Some ?h'"
    using h3 S open_c p
    by (simp add: Unregister_def Let_def close_chan_def h2_def h1_def)
  have "clients_of ?h' t = clients_of h t - {c}" for t
    using s(4) cl' by auto
  moreover have "ch_closed (hb_chan ?h' q) \<longleftrightarrow> q = c_ptr c \<or> ch_closed (hb_chan h q)" for q
    using s(3) closed by simp
  moreover have "hub_inv ?h'"
    using pre_inv_send_all [OF pre h3 [unfolded broadcastPresenceLocked_def]] by (rule pre_inv_clean)
  ultimately show ?thesis using run by (auto simp: connected_def)
qed

section \<open>Runs of the hub and what they refine\<close>

datatype hub_op = Reg client | Unreg client | Bcast int json

fun hub_do :: "(int set \<Rightarrow> int list) \<Rightarrow> hub_op \<Rightarrow> hub \<Rightarrow> hub option" where
  "hub_do order (Reg c) h = Register order c h"
| "hub_do order (Unreg c) h = Unregister order c h"
| "hub_do order (Bcast t m) h = Broadcast t m h"

fun hub_run :: "(int set \<Rightarrow> int list) \<Rightarrow> hub_op list \<Rightarrow> hub \<Rightarrow> hub option" where
  "hub_run order [] h = Some h"
| "hub_run order (x # xs) h = (case hub_do order x h of None \<Rightarrow> None | Some h' \<Rightarrow> hub_run order xs h')"

fun abs_do :: "hub_op \<Rightarrow> client set \<Rightarrow> client set" where
  "abs_do (Reg c) S = insert c S"
| "abs_do (Unreg c) S = S - {c}"
| "abs_do (Bcast t m) S = S"

fun reg_ptrs :: "hub_op list \<Rightarrow> nat list" where
  "reg_ptrs [] = []"
| "reg_ptrs (Reg c # xs) = c_ptr c # reg_ptrs xs"
| "reg_ptrs (x # xs) = reg_ptrs xs"

text \<open>Channels not handed out yet are open and unused.\<close>

definition unused :: "nat set \<Rightarrow> hub \<Rightarrow> bool" where
  "unused P h \<longleftrightarrow> (\<forall>p \<in> P. \<not> ch_closed (hb_chan h p) \<and> (\<forall>t. \<forall>c \<in> clients_of h t. c_ptr c \<noteq> p))"

lemma Broadcast_total: "hub_inv h \<Longrightarrow> \<exists>h'. Broadcast t m h = Some h'"
  unfolding Broadcast_def using send_all_total hub_invD(2) by blast

lemma hub_do_spec:
  assumes "hub_inv h" "unused (set (reg_ptrs (x # xs))) h" "distinct (reg_ptrs (x # xs))"
  shows "\<exists>h'. hub_do order x h = Some h' \<and> hub_inv h' \<and> unused (set (reg_ptrs xs)) h' \<and>
    connected h' = abs_do x (connected h)"
proof (cases x)
  case (Reg c)
  with assms(2) have "fresh_client c h" by (auto simp: unused_def fresh_client_def)
  from Register_spec [OF assms(1) this, of order] assms(2,3) show ?thesis
    by (fastforce simp: Reg unused_def split: if_splits)
next
  case (Unreg c)
  show ?thesis
  proof (cases "c \<in> clients_of h (c_tenant c)")
    case True
    then have "c_ptr c \<notin> set (reg_ptrs xs)" using assms(2) by (auto simp: Unreg unused_def)
    with Unregister_present [OF assms(1) True, of order] assms(2) show ?thesis
      by (fastforce simp: Unreg unused_def)
  next
    case False
    then have "connected h - {c} = connected h" by (auto simp: connected_def)
    with Unregister_absent [OF False assms(1), of order] assms(1,2) show ?thesis
      by (simp add: Unreg)
  qed
next
  case (Bcast t m)
  obtain h' where h': "Broadcast t m h = Some h'" using Broadcast_total [OF assms(1)] by blast
  note s = send_all_simps [OF h' [unfolded Broadcast_def]]
  from hub_inv_send_all [OF assms(1) h' [unfolded Broadcast_def]] h' assms(2) show ?thesis
    by (auto simp: Bcast unused_def s connected_def)
qed

lemma hub_run_spec:
  assumes "hub_inv h" "unused (set (reg_ptrs xs)) h" "distinct (reg_ptrs xs)"
  shows "\<exists>h'. hub_run order xs h = Some h' \<and> hub_inv h' \<and> connected h' = fold abs_do xs (connected h)"
  using assms
proof (induction xs arbitrary: h)
  case (Cons x xs)
  from hub_do_spec [OF Cons.prems] obtain h1 where h1: "hub_do order x h = Some h1" "hub_inv h1"
    "unused (set (reg_ptrs xs)) h1" "connected h1 = abs_do x (connected h)" by blast
  have "distinct (reg_ptrs xs)" using Cons.prems(3) by (cases x) auto
  from Cons.IH [OF h1(2,3) this] h1 show ?case by simp
qed simp

text \<open>
  C4. The hub refines the set of connected clients. However registrations, removals (also
  repeated ones: both pumps of a connection unregister it) and broadcasts follow each other,
  no channel is closed twice or sent to after it was closed, the registered clients are
  exactly those of the abstract set, and the presence of a tenant lists exactly the users
  with a connection, counted with multiplicity.
\<close>

theorem hub_refines_connections:
  assumes "distinct (reg_ptrs ops)"
  shows "\<exists>h. hub_run order ops NewHub = Some h \<and> connected h = fold abs_do ops {} \<and>
    (\<forall>t. present h t = c_user ` {c \<in> fold abs_do ops {}. c_tenant c = t}) \<and>
    (\<forall>t u n p. hb_presence h t = Some p \<longrightarrow> p u = Some n \<longrightarrow>
       n = int (card {c \<in> fold abs_do ops {}. c_tenant c = t \<and> c_user c = u}))"
proof -
  have "unused (set (reg_ptrs ops)) NewHub" by (simp add: unused_def NewHub_def clients_of_def)
  from hub_run_spec [OF hub_inv_New this assms, of order] obtain h
    where h: "hub_run order ops NewHub = Some h" "hub_inv h" "connected h = fold abs_do ops (connected NewHub)"
    by blast
  have empty: "connected NewHub = {}" by (simp add: connected_def NewHub_def clients_of_def)
  have cl: "clients_of h t = {c \<in> connected h. c_tenant c = t}" for t
    using hub_invD(2) [OF h(2)] by (auto simp: connected_def)
  have "n = int (card {c \<in> connected h. c_tenant c = t \<and> c_user c = u})"
    if "hb_presence h t = Some p" "p u = Some n" for t u n p
    using hub_invD(5) [OF h(2) that(1), of u] that(2)
    by (auto simp: sessions_def cl conj_assoc split: if_splits)
  with h present_users [OF h(2)] cl show ?thesis unfolding empty by auto
qed

theorem hub_refines_connections_witness:
  "\<exists>h. hub_run (\<lambda>_. [])
     [Reg \<lparr>c_ptr = 0, c_tenant = 1, c_user = 7\<rparr>, Reg \<lparr>c_ptr = 1, c_tenant = 1, c_user = 8\<rparr>,
      Unreg \<lparr>c_ptr = 0, c_tenant = 1, c_user = 7\<rparr>, Unreg \<lparr>c_ptr = 0, c_tenant = 1, c_user = 7\<rparr>] NewHub = Some h \<and>
     present h 1 = {8}"
proof -
  let ?a = "\<lparr>c_ptr = 0, c_tenant = 1, c_user = 7\<rparr>" and ?b = "\<lparr>c_ptr = 1, c_tenant = 1, c_user = 8\<rparr>"
  let ?ops = "[Reg ?a, Reg ?b, Unreg ?a, Unreg ?a]"
  have S: "fold abs_do ?ops {} = {?b}" by auto
  have "distinct (reg_ptrs ?ops)" by simp
  from hub_refines_connections [OF this, of "\<lambda>_. []"] obtain h
    where h: "hub_run (\<lambda>_. []) ?ops NewHub = Some h"
      and p: "\<forall>t. present h t = c_user ` {c \<in> fold abs_do ?ops {}. c_tenant c = t}"
    by blast
  have "{c \<in> {?b}. c_tenant c = 1} = {?b}" by auto
  with p have "present h 1 = {8}" unfolding S by simp
  with h show ?thesis by blast
qed

section \<open>Who receives what\<close>

fun op_tenant :: "hub_op \<Rightarrow> int" where
  "op_tenant (Reg c) = c_tenant c"
| "op_tenant (Unreg c) = c_tenant c"
| "op_tenant (Bcast t m) = t"

lemma send_all_SomeD:
  "send_all m S h = Some h' \<Longrightarrow>
     h' = h\<lparr>hb_chan := (\<lambda>p. if p \<in> c_ptr ` S then offer m (hb_chan h p) else hb_chan h p)\<rparr>"
  unfolding send_all_def by (metis option.distinct(1) option.inject)

lemma send_all_chan_if:
  "send_all m S h = Some h' \<Longrightarrow> hb_chan h' p = (if p \<in> c_ptr ` S then offer m (hb_chan h p) else hb_chan h p)"
  by (drule send_all_SomeD) simp

lemma send_all_chan: "send_all m S h = Some h' \<Longrightarrow> p \<notin> c_ptr ` S \<Longrightarrow> hb_chan h' p = hb_chan h p"
  by (simp add: send_all_chan_if)

lemma Unregister_chan:
  assumes "Unregister order d h = Some h'" "p \<notin> c_ptr ` clients_of h (c_tenant d)"
  shows "hb_chan h' p = hb_chan h p"
proof (cases "d \<in> clients_of h (c_tenant d)")
  case False
  with assms(1) show ?thesis
    by (auto simp: Unregister_def Let_def clients_of_def split: option.splits if_splits)
next
  case True
  let ?t = "c_tenant d"
  obtain S where S: "hb_clients h ?t = Some S" using True by (auto simp: clients_of_def split: option.splits)
  have SS: "clients_of h ?t = S" using S by (simp add: clients_of_def)
  define h1 where "h1 = h\<lparr>hb_clients := (hb_clients h)(?t \<mapsto> S - {d}),
    hb_chan := (hb_chan h)(c_ptr d := (hb_chan h (c_ptr d))\<lparr>ch_closed := True\<rparr>)\<rparr>"
  have "p \<noteq> c_ptr d" using assms(2) True by auto
  then have h1: "hb_chan h1 p = hb_chan h p" "clients_of h1 ?t \<subseteq> clients_of h ?t"
    unfolding SS by (auto simp: h1_def clients_of_def)
  obtain h2 :: hub where h2: "hb_chan h2 p = hb_chan h1 p" "hb_chan h' = hb_chan h2"
  proof (cases "hb_presence h ?t")
    case None
    with assms(1) S True SS that [of h1] show ?thesis
      by (auto simp: Unregister_def Let_def close_chan_def h1_def split: if_splits)
  next
    case (Some q)
    let ?h = "h1\<lparr>hb_presence := (hb_presence h)(?t \<mapsto> drop_presence d q)\<rparr>"
    from assms(1) S True SS Some obtain h2 where b: "broadcastPresenceLocked order ?t ?h = Some h2"
      and e: "hb_chan h' = hb_chan h2"
      by (auto simp: Unregister_def Let_def close_chan_def h1_def split: if_splits option.splits)
    have "p \<notin> c_ptr ` clients_of ?h ?t" using h1(2) assms(2) by auto
    from send_all_chan [OF b [unfolded broadcastPresenceLocked_def] this] e that show ?thesis by simp
  qed
  with h1 show ?thesis by simp
qed

text \<open>
  C27. Realtime traffic keeps to its tenant, and a broadcast reaches the whole tenant. An
  operation of another tenant leaves the channel of a connected client as it is; a broadcast
  appends its message to the channel of every connected client of the tenant that has room
  for it (the others drop it).
\<close>

theorem hub_delivery:
  assumes "hub_inv h" "hub_do order x h = Some h'" "c \<in> connected h"
    and "\<And>d. x = Reg d \<Longrightarrow> fresh_client d h"
  shows "(op_tenant x \<noteq> c_tenant c \<longrightarrow> hb_chan h' (c_ptr c) = hb_chan h (c_ptr c)) \<and>
    (\<forall>m. x = Bcast (c_tenant c) m \<longrightarrow>
       ch_buf (hb_chan h' (c_ptr c)) =
         (if length (ch_buf (hb_chan h (c_ptr c))) < 16 then ch_buf (hb_chan h (c_ptr c)) @ [m]
          else ch_buf (hb_chan h (c_ptr c))))"
proof
  have c: "c \<in> clients_of h (c_tenant c)" using assms(3) by (simp add: connected_def)
  have other: "c_ptr c \<notin> c_ptr ` clients_of h t" if "t \<noteq> c_tenant c" for t
    using that c hub_invD(2,6) [OF assms(1)] by (metis imageE)
  show "op_tenant x \<noteq> c_tenant c \<longrightarrow> hb_chan h' (c_ptr c) = hb_chan h (c_ptr c)"
  proof
    assume t: "op_tenant x \<noteq> c_tenant c"
    show "hb_chan h' (c_ptr c) = hb_chan h (c_ptr c)"
    proof (cases x)
      case (Reg d)
      with assms(4) [OF Reg] other [of "c_tenant d"] t c
      have "c_ptr c \<notin> c_ptr ` insert d (clients_of h (c_tenant d))"
        by (auto simp: fresh_client_def)
      with assms(2) Reg show ?thesis
        by (auto simp: Register_def Let_def broadcastPresenceLocked_def dest!: send_all_chan)
    next
      case (Unreg d)
      with assms(2) other [of "c_tenant d"] t show ?thesis by (auto dest: Unregister_chan)
    next
      case (Bcast t' m)
      with assms(2) other [of t'] t show ?thesis by (auto simp: Broadcast_def dest: send_all_chan)
    qed
  qed
  show "\<forall>m. x = Bcast (c_tenant c) m \<longrightarrow> ch_buf (hb_chan h' (c_ptr c)) =
         (if length (ch_buf (hb_chan h (c_ptr c))) < 16 then ch_buf (hb_chan h (c_ptr c)) @ [m]
          else ch_buf (hb_chan h (c_ptr c)))"
  proof (intro allI impI)
    fix m
    assume "x = Bcast (c_tenant c) m"
    with assms(2) have "send_all m (clients_of h (c_tenant c)) h = Some h'" by (simp add: Broadcast_def)
    from send_all_chan_if [OF this, of "c_ptr c"] c
    show "ch_buf (hb_chan h' (c_ptr c)) =
         (if length (ch_buf (hb_chan h (c_ptr c))) < 16 then ch_buf (hb_chan h (c_ptr c)) @ [m]
          else ch_buf (hb_chan h (c_ptr c)))"
      by (simp add: offer_def send_cap_def)
  qed
qed

theorem hub_delivery_witness:
  "\<exists>h h'. connected h = {\<lparr>c_ptr = 0, c_tenant = 1, c_user = 7\<rparr>} \<and>
     Broadcast 2 JNull h = Some h' \<and> hb_chan h' 0 = hb_chan h 0"
proof -
  let ?a = "\<lparr>c_ptr = 0, c_tenant = 1, c_user = 7\<rparr>"
  have "fresh_client ?a NewHub" by (simp add: fresh_client_def NewHub_def clients_of_def)
  from Register_spec [OF hub_inv_New this, of "\<lambda>_. []"] obtain h
    where h: "hub_inv h" "connected h = insert ?a (connected NewHub)" by blast
  then have con: "connected h = {?a}" by (simp add: connected_def NewHub_def clients_of_def)
  from Broadcast_total [OF h(1)] obtain h' where h': "Broadcast 2 JNull h = Some h'" by blast
  with hub_delivery [OF h(1), of "\<lambda>_. []" "Bcast 2 JNull" h' ?a] con
  have "hb_chan h' 0 = hb_chan h 0" by simp
  with h' con show ?thesis by blast
qed

section \<open>Broadcast as it runs\<close>

text \<open>
  \<open>Broadcast\<close> reads the tenant's map under the read lock and iterates over it after it has
  released the lock: the map itself, which registrations and removals of the tenant's clients
  go on writing. A map is removed from the hub with its last client, and the next registration
  makes a new one: \<open>it_live\<close> says that the hub still has the map of the iteration. The clients
  that were there at the start are due; one that comes later may be visited or not. A send on a
  closed channel is a panic; a write to the map while the iteration reads its next entry is a
  fatal error of Go's runtime. Either ends the whole process. \<open>apart\<close> restricts the runs to those
  in which no registration or removal of the tenant falls into an iteration.
\<close>

record iteration =
  it_tenant :: int
  it_message :: json
  it_live :: bool
  it_due :: "client set"
  it_seen :: "client set"

datatype bstate = Idle | Iter iteration | Sending client iteration

datatype sys = Running hub bstate | Panicked | FatalError

fun iterating :: "int \<Rightarrow> bstate \<Rightarrow> bool" where
  "iterating t Idle \<longleftrightarrow> False"
| "iterating t (Iter it) \<longleftrightarrow> it_tenant it = t"
| "iterating t (Sending c it) \<longleftrightarrow> it_tenant it = t"

definition relive :: "hub \<Rightarrow> iteration \<Rightarrow> iteration" where
  "relive h it = it\<lparr>it_live := it_live it \<and> hb_clients h (it_tenant it) \<noteq> None\<rparr>"

fun after_write :: "hub \<Rightarrow> bstate \<Rightarrow> bstate" where
  "after_write h Idle = Idle"
| "after_write h (Iter it) = Iter (relive h it)"
| "after_write h (Sending c it) = Sending c (relive h it)"

inductive hub_step :: "(int set \<Rightarrow> int list) \<Rightarrow> bool \<Rightarrow> sys \<Rightarrow> sys \<Rightarrow> bool"
  for order :: "int set \<Rightarrow> int list" and apart :: bool where
  step_reg: "(apart \<longrightarrow> \<not> iterating (c_tenant c) b) \<Longrightarrow> fresh_client c h \<Longrightarrow> Register order c h = Some h' \<Longrightarrow>
     hub_step order apart (Running h b) (Running h' (after_write h' b))"
| step_unreg: "(apart \<longrightarrow> \<not> iterating (c_tenant c) b) \<Longrightarrow> Unregister order c h = Some h' \<Longrightarrow>
     hub_step order apart (Running h b) (Running h' (after_write h' b))"
| step_start: "hub_step order apart (Running h Idle) (Running h
     (Iter \<lparr>it_tenant = t, it_message = m, it_live = (hb_clients h t \<noteq> None), it_due = clients_of h t, it_seen = {}\<rparr>))"
| step_pick: "it_live it \<Longrightarrow> c \<in> clients_of h (it_tenant it) - it_seen it \<Longrightarrow>
     hub_step order apart (Running h (Iter it)) (Running h (Sending c it))"
| step_send: "try_send (it_message it) c h = Some h' \<Longrightarrow>
     hub_step order apart (Running h (Sending c it)) (Running h' (Iter (it\<lparr>it_seen := insert c (it_seen it)\<rparr>)))"
| step_panic: "try_send (it_message it) c h = None \<Longrightarrow>
     hub_step order apart (Running h (Sending c it)) Panicked"
| step_reg_fatal: "\<not> apart \<Longrightarrow> it_live it \<Longrightarrow> fresh_client c h \<Longrightarrow> c_tenant c = it_tenant it \<Longrightarrow>
     hub_step order apart (Running h (Iter it)) FatalError"
| step_unreg_fatal: "\<not> apart \<Longrightarrow> it_live it \<Longrightarrow> c \<in> clients_of h (it_tenant it) \<Longrightarrow>
     hub_step order apart (Running h (Iter it)) FatalError"
| step_done: "(it_live it \<longrightarrow> clients_of h (it_tenant it) \<inter> it_due it \<subseteq> it_seen it) \<Longrightarrow>
     hub_step order apart (Running h (Iter it)) (Running h Idle)"

fun sys_inv :: "sys \<Rightarrow> bool" where
  "sys_inv (Running h (Sending c it)) \<longleftrightarrow> hub_inv h \<and> c \<in> clients_of h (it_tenant it)"
| "sys_inv (Running h b) \<longleftrightarrow> hub_inv h"
| "sys_inv _ \<longleftrightarrow> False"

lemma try_send_as_send_all: "try_send m c h = Some h' \<Longrightarrow> send_all m {c} h = Some h'"
proof -
  assume a: "try_send m c h = Some h'"
  then have "\<not> ch_closed (hb_chan h (c_ptr c))"
    and h': "h' = h\<lparr>hb_chan := (hb_chan h)(c_ptr c := offer m (hb_chan h (c_ptr c)))\<rparr>"
    by (simp_all add: try_send_def split: if_splits)
  moreover have "(\<lambda>p. if p \<in> c_ptr ` {c} then offer m (hb_chan h p) else hb_chan h p) =
      (hb_chan h)(c_ptr c := offer m (hb_chan h (c_ptr c)))"
    by (simp add: fun_eq_iff)
  ultimately show ?thesis unfolding send_all_def by (subst if_not_P) (blast, simp)
qed

lemma hub_inv_connected: "hub_inv h \<Longrightarrow> c \<in> clients_of h t \<longleftrightarrow> c \<in> connected h \<and> c_tenant c = t"
  using hub_invD(2) [of h c t] by (auto simp: connected_def)

lemma hub_inv_Register: "hub_inv h \<Longrightarrow> fresh_client c h \<Longrightarrow> Register order c h = Some h' \<Longrightarrow>
    hub_inv h' \<and> connected h' = insert c (connected h)"
  using Register_spec [of h c order] by auto

lemma hub_inv_Unregister: "hub_inv h \<Longrightarrow> Unregister order c h = Some h' \<Longrightarrow>
    hub_inv h' \<and> connected h' = connected h - {c}"
  using Unregister_present [of h c order] Unregister_absent [of c h order]
  by (cases "c \<in> clients_of h (c_tenant c)") (auto simp: connected_def)

lemma sys_inv_write:
  assumes "sys_inv (Running h b)" "hub_inv h'" "\<not> iterating (c_tenant c) b"
    "connected h' = insert c (connected h) \<or> connected h' = connected h - {c}"
  shows "sys_inv (Running h' (after_write h' b))"
proof (cases b)
  case (Sending d it)
  with assms(1,3) have "d \<in> connected h" "c_tenant d = it_tenant it" "d \<noteq> c"
    using hub_inv_connected [of h d "it_tenant it"] by auto
  with assms(2,4) Sending hub_inv_connected [of h' d "it_tenant it"] show ?thesis
    by (auto simp: relive_def)
qed (use assms(2) in auto)

lemma apart_step_inv: "hub_step order True s s' \<Longrightarrow> sys_inv s \<Longrightarrow> sys_inv s'"
proof (induction rule: hub_step.induct)
  case (step_reg c b h h')
  moreover have "hub_inv h" using step_reg.prems by (cases b) auto
  ultimately show ?case using hub_inv_Register [of h c order h'] sys_inv_write by blast
next
  case (step_unreg c b h h')
  moreover have "hub_inv h" using step_unreg.prems by (cases b) auto
  ultimately show ?case using hub_inv_Unregister [of h order c h'] sys_inv_write by blast
next
  case (step_send it c h h')
  with try_send_as_send_all [of "it_message it" c h h'] hub_inv_send_all show ?case by auto
next
  case (step_panic it c h)
  with hub_invD(2) [of h c "it_tenant it"] show ?case by (auto simp: try_send_def split: if_splits)
qed auto

text \<open>
  C37. The races of \<open>Broadcast\<close>. It iterates over the tenant's map of clients after it has
  released the lock, so the process can die in two ways while it runs: a client is
  unregistered, and its channel closed, between being picked and being sent to, and the send
  panics; or a client of the tenant registers, a write to the map under the iteration, which
  Go's runtime ends with a fatal error. In the runs in which no registration or removal of the
  tenant falls into an iteration, whatever the other tenants do, neither happens.
\<close>

theorem broadcast_race:
  "(hub_step order False)\<^sup>*\<^sup>* (Running NewHub Idle) Panicked \<and>
   (hub_step order False)\<^sup>*\<^sup>* (Running NewHub Idle) FatalError \<and>
   (\<nexists>s. (hub_step order True)\<^sup>*\<^sup>* (Running NewHub Idle) s \<and> (s = Panicked \<or> s = FatalError))"
proof (intro conjI)
  let ?c = "\<lparr>c_ptr = 0, c_tenant = 1, c_user = 7\<rparr>" and ?R = "(hub_step order False)\<^sup>*\<^sup>*"
  let ?d = "\<lparr>c_ptr = 1, c_tenant = 1, c_user = 8\<rparr>"
  have fresh: "fresh_client ?c NewHub" by (simp add: fresh_client_def NewHub_def clients_of_def)
  from Register_spec [OF hub_inv_New this, of order] obtain h1
    where r: "Register order ?c NewHub = Some h1" "hub_inv h1"
      "\<And>t. clients_of h1 t = (if t = 1 then {?c} else {})" "\<not> ch_closed (hb_chan h1 1)"
    by (auto simp: NewHub_def clients_of_def)
  let ?it = "\<lparr>it_tenant = 1, it_message = JNull, it_live = True, it_due = clients_of h1 1, it_seen = {}\<rparr>"
  have live: "hb_clients h1 1 \<noteq> None" using r(3) [of 1] by (cases "hb_clients h1 1") (auto simp: clients_of_def)
  have "hub_step order False (Running NewHub Idle) (Running h1 Idle)"
    using step_reg [where b = Idle, OF _ fresh r(1), of False] by simp
  moreover have "hub_step order False (Running h1 Idle) (Running h1 (Iter ?it))"
    using step_start [of order False h1 1 JNull] live by simp
  ultimately have iter: "?R (Running NewHub Idle) (Running h1 (Iter ?it))" by (meson converse_rtranclp_into_rtranclp r_into_rtranclp)
  from Unregister_present [OF r(2), of ?c order] r(3) obtain h2
    where u: "Unregister order ?c h1 = Some h2" "ch_closed (hb_chan h2 0)" by auto
  have "hub_step order False (Running h1 (Iter ?it)) (Running h1 (Sending ?c ?it))"
    by (rule step_pick) (simp_all add: r(3))
  moreover have "hub_step order False (Running h1 (Sending ?c ?it)) (Running h2 (Sending ?c (relive h2 ?it)))"
    using step_unreg [where b = "Sending ?c ?it", OF _ u(1), of False] by simp
  moreover have "hub_step order False (Running h2 (Sending ?c (relive h2 ?it))) Panicked"
    by (rule step_panic) (simp add: try_send_def u(2))
  ultimately show "?R (Running NewHub Idle) Panicked"
    using iter by (meson rtranclp.rtrancl_into_rtrancl)
  have "fresh_client ?d h1" using r(3,4) by (simp add: fresh_client_def)
  then have "hub_step order False (Running h1 (Iter ?it)) FatalError"
    by (rule step_reg_fatal [rotated 2]) simp_all
  with iter show "?R (Running NewHub Idle) FatalError" by (rule rtranclp.rtrancl_into_rtrancl)
  have "sys_inv s" if "(hub_step order True)\<^sup>*\<^sup>* (Running NewHub Idle) s" for s
    using that by (induction rule: rtranclp_induct) (auto dest: apart_step_inv)
  then show "\<nexists>s. (hub_step order True)\<^sup>*\<^sup>* (Running NewHub Idle) s \<and> (s = Panicked \<or> s = FatalError)"
    using sys_inv.simps by blast
qed

section \<open>The pumps of a connection\<close>

text \<open>
  \<open>readPump\<close>: a frame is the decoded value or \<open>None\<close> when it is no JSON; the end of the list
  is the read error that ends the loop. Only typing events are passed on, with the sender's
  own user id written over whatever the client sent.
\<close>

definition read_frame :: "client \<Rightarrow> json option \<Rightarrow> json option" where
  "read_frame c payload =
     (case payload of
        Some (JObj kvs) \<Rightarrow>
          (case map_of kvs ''type'' of
             Some (JStr t) \<Rightarrow>
               if t = ''typing'' then Some (JObj (AList.update ''user_id'' (JInt (c_user c)) kvs)) else None
           | _ \<Rightarrow> None)
      | _ \<Rightarrow> None)"

fun readPump :: "(int set \<Rightarrow> int list) \<Rightarrow> client \<Rightarrow> json option list \<Rightarrow> hub \<Rightarrow> hub option" where
  "readPump order c [] h = Unregister order c h"
| "readPump order c (f # fs) h =
     (case read_frame c f of
        None \<Rightarrow> readPump order c fs h
      | Some message \<Rightarrow>
          (case Broadcast (c_tenant c) message h of
             None \<Rightarrow> None
           | Some h' \<Rightarrow> readPump order c fs h'))"

text \<open>\<open>ServeWS\<close> once the upgrade succeeded, with no other connection active.\<close>

definition ServeWS :: "(int set \<Rightarrow> int list) \<Rightarrow> nat \<Rightarrow> int \<Rightarrow> int \<Rightarrow> json option list \<Rightarrow> hub \<Rightarrow> hub option" where
  "ServeWS order ptr tenant uid frames h =
     (let c = \<lparr>c_ptr = ptr, c_tenant = tenant, c_user = uid\<rparr>
      in case Register order c h of None \<Rightarrow> None | Some h' \<Rightarrow> readPump order c frames h')"

text \<open>
  A typing event names its sender: whatever fields a client sends, the message that is
  broadcast carries the id of the authenticated user of the connection, and every other field
  as it was sent.
\<close>

theorem typing_names_sender:
  "read_frame c payload = Some message \<Longrightarrow>
     \<exists>kvs kvs'. payload = Some (JObj kvs) \<and> message = JObj kvs' \<and>
       map_of kvs' = (map_of kvs)(''user_id'' \<mapsto> JInt (c_user c)) \<and>
       map_of kvs ''type'' = Some (JStr ''typing'')"
  by (auto simp: read_frame_def update_conv' split: option.splits json.splits if_splits)

theorem typing_names_sender_witness:
  "\<exists>kvs'. JObj [(''type'', JStr ''typing''), (''user_id'', JInt 7)] = JObj kvs' \<and>
     map_of kvs' = (map_of [(''type'', JStr ''typing''), (''user_id'', JInt 1)])(''user_id'' \<mapsto> JInt 7)"
  using typing_names_sender
    [of "\<lparr>c_ptr = 0, c_tenant = 1, c_user = 7\<rparr>" "Some (JObj [(''type'', JStr ''typing''), (''user_id'', JInt 1)])"
      "JObj [(''type'', JStr ''typing''), (''user_id'', JInt 7)]"]
  by (simp add: read_frame_def)

text \<open>The connection's own end: registered, pumped and unregistered, it leaves no trace.\<close>

lemma readPump_spec:
  assumes "hub_inv h"
  shows "\<exists>h'. readPump order c fs h = Some h' \<and> hub_inv h' \<and> connected h' = connected h - {c}"
  using assms
proof (induction fs arbitrary: h)
  case Nil
  show ?case
  proof (cases "c \<in> clients_of h (c_tenant c)")
    case True
    with Unregister_present [OF Nil True, of order] show ?thesis by auto
  next
    case False
    then have "connected h - {c} = connected h" by (auto simp: connected_def)
    with Unregister_absent [OF False Nil, of order] Nil show ?thesis by simp
  qed
next
  case (Cons f fs)
  show ?case
  proof (cases "read_frame c f")
    case None
    with Cons show ?thesis by simp
  next
    case (Some m)
    obtain h1 where h1: "Broadcast (c_tenant c) m h = Some h1" using Broadcast_total [OF Cons.prems] by blast
    note s = send_all_simps [OF h1 [unfolded Broadcast_def]]
    have "hub_inv h1" using hub_inv_send_all [OF Cons.prems h1 [unfolded Broadcast_def]] .
    moreover have "connected h1 = connected h" by (simp add: connected_def s)
    ultimately show ?thesis using Cons.IH Some h1 by fastforce
  qed
qed

lemma ServeWS_spec:
  assumes "hub_inv h" "fresh_client \<lparr>c_ptr = ptr, c_tenant = t, c_user = u\<rparr> h"
  shows "\<exists>h'. ServeWS order ptr t u fs h = Some h' \<and> hub_inv h' \<and> connected h' = connected h"
proof -
  let ?c = "\<lparr>c_ptr = ptr, c_tenant = t, c_user = u\<rparr>"
  from Register_spec [OF assms, of order] obtain h1
    where h1: "Register order ?c h = Some h1" "hub_inv h1" "connected h1 = insert ?c (connected h)" by blast
  have "?c \<notin> connected h" using assms(2) unfolding connected_def fresh_client_def by fastforce
  with readPump_spec [OF h1(2), of order ?c fs] h1 show ?thesis by (auto simp: ServeWS_def)
qed

end
