(* ===== verification/Sockets.thy ===== *)
theory Sockets
  imports Hub "HOL-Library.Sublist"
begin

text \<open>
  The writing side of a WebSocket connection: \<open>writePump\<close> of \<open>backend/internal/realtime/websocket.go\<close>
  beside the goroutines it shares the client's channel with. What the others do to the channel and
  which case the \<open>select\<close> takes are events, in the order they happen.
\<close>

datatype frame = TextFrame json | PingFrame | CloseFrame

text \<open>
  \<open>Put\<close> and \<open>Shut\<close> are the hub's \<open>select { case client.Send <- m: default: }\<close> and \<open>close(client.Send)\<close>.
  A turn of the pump takes one ready case of its \<open>select\<close>; its flag is whether the write succeeds.
\<close>

datatype pump_event = Put json | Shut | FromSend bool | FromTicker bool

text \<open>
  The frames that reach the peer, the channel, and whether the pump still runs. A closed channel
  first gives what is left in its buffer. Receiving from an empty open one is not ready, so the
  \<open>select\<close> waits. Sending on a closed channel and closing it again panic. The deferred calls, which stop
  the ticker, unregister the client (\<open>Unregister\<close> of theory \<open>Hub\<close>) and close the connection, come after
  the run and are not part of it.
\<close>

fun writePump :: "pump_event list \<Rightarrow> chan \<Rightarrow> (frame list \<times> chan \<times> bool) option" where
  "writePump [] ch = Some ([], ch, True)"
| "writePump (Put m # es) ch = (if ch_closed ch then None else writePump es (offer m ch))"
| "writePump (Shut # es) ch = (if ch_closed ch then None else writePump es (ch\<lparr>ch_closed := True\<rparr>))"
| "writePump (FromTicker wrote # es) ch =
     (if wrote then map_option (apfst ((#) PingFrame)) (writePump es ch) else Some ([], ch, False))"
| "writePump (FromSend wrote # es) ch =
     (case ch_buf ch of
        m # ms \<Rightarrow>
          if wrote then map_option (apfst ((#) (TextFrame m))) (writePump es (ch\<lparr>ch_buf := ms\<rparr>))
          else Some ([], ch\<lparr>ch_buf := ms\<rparr>, False)
      | [] \<Rightarrow>
          if ch_closed ch then Some (if wrote then [CloseFrame] else [], ch, False)
          else writePump es ch)"

fun texts :: "frame list \<Rightarrow> json list" where
  "texts [] = []"
| "texts (TextFrame m # fs) = m # texts fs"
| "texts (PingFrame # fs) = texts fs"
| "texts (CloseFrame # fs) = texts fs"

fun puts :: "pump_event list \<Rightarrow> json list" where
  "puts [] = []"
| "puts (Put m # es) = m # puts es"
| "puts (Shut # es) = puts es"
| "puts (FromSend b # es) = puts es"
| "puts (FromTicker b # es) = puts es"

fun receives :: "pump_event list \<Rightarrow> nat" where
  "receives [] = 0"
| "receives (FromSend b # es) = Suc (receives es)"
| "receives (Put m # es) = receives es"
| "receives (Shut # es) = receives es"
| "receives (FromTicker b # es) = receives es"

definition wrote_all :: "pump_event list \<Rightarrow> bool" where
  "wrote_all es \<longleftrightarrow> FromSend False \<notin> set es \<and> FromTicker False \<notin> set es"

section \<open>What the peer gets\<close>

text \<open>
  The messages the channel takes in a run: of those offered while the pump runs, the ones that find
  fewer than sixteen waiting.
\<close>

fun taken :: "pump_event list \<Rightarrow> chan \<Rightarrow> json list" where
  "taken [] ch = []"
| "taken (Put m # es) ch = (if length (ch_buf ch) < send_cap then m # taken es (offer m ch) else taken es ch)"
| "taken (Shut # es) ch = taken es (ch\<lparr>ch_closed := True\<rparr>)"
| "taken (FromTicker wrote # es) ch = (if wrote then taken es ch else [])"
| "taken (FromSend wrote # es) ch =
     (case ch_buf ch of
        m # ms \<Rightarrow> if wrote then taken es (ch\<lparr>ch_buf := ms\<rparr>) else []
      | [] \<Rightarrow> if ch_closed ch then [] else taken es ch)"

lemma taken_subseq: "subseq (taken es ch) (puts es)"
  by (induction es ch rule: taken.induct) (auto split: list.split)

lemma taken_all:
  "writePump es ch = Some (fs, ch', True) \<Longrightarrow> length (ch_buf ch) + length (puts es) \<le> send_cap \<Longrightarrow> taken es ch = puts es"
  by (induction es ch arbitrary: fs rule: writePump.induct) (auto simp: offer_def split: if_splits list.splits)

lemma taken_append:
  "writePump es ch = Some (fs, ch', True) \<Longrightarrow> taken (es @ es') ch = taken es ch @ taken es' ch'"
  by (induction es ch arbitrary: fs rule: writePump.induct) (auto simp: offer_def split: if_splits list.splits)

text \<open>
  Exact accounting of a run: the messages waiting at the start and those taken are written in order,
  with the rest waiting at the end. Only a message whose own write failed is lost, and then the
  pump has ended.
\<close>

lemma pump_accounts:
  assumes "writePump es ch = Some (fs, ch', on)"
  shows "\<exists>lost. texts fs @ lost @ ch_buf ch' = ch_buf ch @ taken es ch \<and>
    length lost \<le> 1 \<and> (on \<or> wrote_all es \<longrightarrow> lost = [])"
  using assms
proof (induction es ch arbitrary: fs rule: writePump.induct)
  case (2 m es ch)
  then show ?case by (auto simp: offer_def wrote_all_def split: if_splits)
next
  case (3 es ch)
  then show ?case by (auto simp: wrote_all_def split: if_splits)
next
  case (4 wrote es ch)
  then show ?case by (cases wrote) (auto simp: wrote_all_def)
next
  case (5 wrote es ch)
  then show ?case
    by (cases "ch_buf ch"; cases wrote; cases "ch_closed ch") (fastforce simp: wrote_all_def)+
qed simp

text \<open>
  C6. A client gets what its channel took, in order. Whatever the goroutines do, the text frames on the
  wire are the messages that were waiting followed by ones the hub offered, in the order of the
  offers, without repetition; while the pump runs, and when every write succeeded, the frames and what
  waits in the channel are exactly the messages that were waiting and the ones taken since. While the
  pump runs, a message the hub offers is taken if fewer than sixteen wait at that moment, and passed
  over only if the channel is full.
\<close>

theorem write_pump_in_order:
  assumes "writePump es ch = Some (fs, ch', on)"
  shows "subseq (texts fs) (ch_buf ch @ puts es) \<and> subseq (taken es ch) (puts es) \<and>
    (on \<or> wrote_all es \<longrightarrow> texts fs @ ch_buf ch' = ch_buf ch @ taken es ch) \<and>
    (\<forall>es1 m es2 fs1 ch1. es = es1 @ Put m # es2 \<and> writePump es1 ch = Some (fs1, ch1, True) \<longrightarrow>
       taken (es1 @ [Put m]) ch = taken es1 ch @ (if length (ch_buf ch1) < 16 then [m] else []) \<and>
       prefix (taken (es1 @ [Put m]) ch) (taken es ch)) \<and>
    (on \<and> length (ch_buf ch) + length (puts es) \<le> 16 \<longrightarrow> texts fs @ ch_buf ch' = ch_buf ch @ puts es)"
proof -
  obtain lost where t: "texts fs @ lost @ ch_buf ch' = ch_buf ch @ taken es ch" "on \<or> wrote_all es \<longrightarrow> lost = []"
    using pump_accounts [OF assms] by blast
  have "subseq (texts fs) (texts fs @ lost @ ch_buf ch')" by (intro prefix_imp_subseq) simp
  also have "subseq (texts fs @ lost @ ch_buf ch') (ch_buf ch @ puts es)"
    unfolding t(1) using taken_subseq [of es ch] by (simp add: subseq_append')
  finally have sub: "subseq (texts fs) (ch_buf ch @ puts es)" .
  have step: "taken (es1 @ [Put m]) ch = taken es1 ch @ (if length (ch_buf ch1) < 16 then [m] else []) \<and>
      prefix (taken (es1 @ [Put m]) ch) (taken es ch)"
    if "es = es1 @ Put m # es2 \<and> writePump es1 ch = Some (fs1, ch1, True)" for es1 m es2 fs1 ch1
  proof -
    from that have run: "writePump es1 ch = Some (fs1, ch1, True)" and es: "es = es1 @ Put m # es2" by simp_all
    show ?thesis
      using taken_append [OF run, of "[Put m]"] taken_append [OF run, of "Put m # es2"]
      by (simp add: es send_cap_def)
  qed
  have "taken es ch = puts es" if "on" "length (ch_buf ch) + length (puts es) \<le> 16"
    using taken_all [of es ch fs ch'] assms that by (simp add: send_cap_def)
  with t show ?thesis by (intro conjI allI impI sub taken_subseq step [THEN conjunct1] step [THEN conjunct2]) auto
qed

theorem write_pump_in_order_witness:
  "writePump [Put (JInt 2), FromSend True, FromTicker True, Put (JInt 3), FromSend True] \<lparr>ch_buf = [JInt 1], ch_closed = False\<rparr> =
     Some ([TextFrame (JInt 1), PingFrame, TextFrame (JInt 2)], \<lparr>ch_buf = [JInt 3], ch_closed = False\<rparr>, True) \<and>
   texts [TextFrame (JInt 1), PingFrame, TextFrame (JInt 2)] @ [JInt 3] = [JInt 1] @ [JInt 2, JInt 3]"
proof -
  have run: "writePump [Put (JInt 2), FromSend True, FromTicker True, Put (JInt 3), FromSend True] \<lparr>ch_buf = [JInt 1], ch_closed = False\<rparr> =
     Some ([TextFrame (JInt 1), PingFrame, TextFrame (JInt 2)], \<lparr>ch_buf = [JInt 3], ch_closed = False\<rparr>, True)"
    by (simp add: offer_def send_cap_def)
  from write_pump_in_order [OF this] run show ?thesis by (simp add: offer_def send_cap_def)
qed

section \<open>How it ends\<close>

lemma pump_closed_run:
  assumes "ch_closed ch" "puts es = []" "Shut \<notin> set es" "length (ch_buf ch) < receives es"
  shows "\<exists>fs ch'. writePump es ch = Some (fs, ch', False) \<and> length fs \<le> length es \<and>
    (wrote_all es \<longrightarrow> texts fs = ch_buf ch \<and> fs \<noteq> [] \<and> last fs = CloseFrame)"
  using assms
proof (induction es ch rule: writePump.induct)
  case (4 wrote es ch)
  then show ?case by (cases wrote) (fastforce simp: wrote_all_def)+
next
  case (5 wrote es ch)
  show ?case
  proof (cases "ch_buf ch")
    case Nil
    with "5.prems"(1) show ?thesis by (auto simp: wrote_all_def)
  next
    case (Cons m ms)
    show ?thesis
    proof (cases wrote)
      case True
      from "5.IH"(2) [OF Cons True] "5.prems" Cons obtain fs ch' where
        "writePump es (ch\<lparr>ch_buf := ms\<rparr>) = Some (fs, ch', False)" "length fs \<le> length es"
        "wrote_all es \<longrightarrow> texts fs = ms \<and> fs \<noteq> [] \<and> last fs = CloseFrame"
        by auto
      with Cons True show ?thesis by (auto simp: wrote_all_def)
    next
      case False
      with Cons show ?thesis by (auto simp: wrote_all_def)
    qed
  qed
qed auto

text \<open>
  C24. The pump ends. Once the hub has closed the channel, the pump returns after at most as many turns on
  the channel as messages wait in it and one more, whatever turns of the ticker come between; with no
  failing write it first delivers all that wait, and its last frame is the close frame. A write that
  fails ends it at once.
\<close>

theorem write_pump_ends:
  assumes "ch_closed ch" "puts es = []" "Shut \<notin> set es" "length (ch_buf ch) < receives es"
  shows "(\<exists>fs ch'. writePump es ch = Some (fs, ch', False) \<and>
      (wrote_all es \<longrightarrow> texts fs = ch_buf ch \<and> fs \<noteq> [] \<and> last fs = CloseFrame)) \<and>
    (\<exists>ch'. writePump (FromTicker False # es) ch = Some ([], ch', False)) \<and>
    (\<exists>ch'. writePump (FromSend False # es) ch = Some ([], ch', False))"
  using pump_closed_run [OF assms] assms(1) by (auto split: list.split)

theorem write_pump_ends_witness:
  "\<exists>fs ch'. writePump [FromTicker True, FromSend True, FromSend True, FromSend True] \<lparr>ch_buf = [JInt 4], ch_closed = True\<rparr>
     = Some (fs, ch', False) \<and> texts fs = [JInt 4] \<and> last fs = CloseFrame"
  using write_pump_ends [of "\<lparr>ch_buf = [JInt 4], ch_closed = True\<rparr>" "[FromTicker True, FromSend True, FromSend True, FromSend True]"]
  by (auto simp: wrote_all_def)

text \<open>
  Both pumps of a connection unregister its client on their way out. The second time nothing happens:
  the channel is closed once.
\<close>

theorem unregister_once:
  assumes "hub_inv h" "Unregister order c h = Some h1"
  shows "Unregister order c h1 = Some h1"
proof (rule Unregister_absent)
  show "hub_inv h1" using hub_inv_Unregister [OF assms] by blast
  show "c \<notin> clients_of h1 (c_tenant c)"
    using Unregister_present [OF assms(1), of c order] Unregister_absent [OF _ assms(1), of c order] assms(2)
    by (cases "c \<in> clients_of h (c_tenant c)") auto
qed

end
