(* ===== verification/Crossings.thy ===== *)
theory Crossings
  imports Schema
begin

text \<open>
  References that cross tenants. A foreign key is checked against all rows of a table, whatever the
  tenant and with or without row-level security, and the handlers that take the id of another row
  do not look at its tenant: what such a reference shows, and what becomes of it.
\<close>

section \<open>A comment on another tenant's item\<close>

lemma visible_conn [simp]: "visible (s\<lparr>ss_tenant := Some t\<rparr>) t"
  by (simp add: visible_def)

lemma comment_run:
  assumes "w_faults w = []" "authUserIDPtr r = Some u" "content \<noteq> []"
    and "has_key ai_id i (action_items (w_db w))" "has_key us_id u (users (w_db w))"
  shows "\<exists>c w'. run_state (CreateActionItemComment r (Some content) i) w = (Reply 201 c, w') \<and> w_faults w' = [] \<and>
    cm_tenant c = tenantID r \<and> cm_item c = i \<and>
    comments (w_db w') = \<lparr>tb_rows = tb_rows (comments (w_db w)) @ [c], tb_seq = tb_seq (comments (w_db w)) + 1\<rparr> \<and>
    action_items (w_db w') = action_items (w_db w)"
proof -
  let ?t = "tenantID r"
  let ?c = "\<lparr>cm_id = tb_seq (comments (w_db w)) + 1, cm_tenant = ?t, cm_item = i, cm_user = u, cm_content = content,
    cm_created = w_now w\<rparr>"
  obtain w1 where made: "run_state (WithTenantConn ?t (Exec (insert_comment ?t i u content (w_now w)))) w = (Inr ?c, w1)"
    and w1: "w_faults w1 = []" "action_items (w_db w1) = action_items (w_db w)"
      "comments (w_db w1) = \<lparr>tb_rows = tb_rows (comments (w_db w)) @ [?c], tb_seq = tb_seq (comments (w_db w)) + 1\<rparr>"
    using assms by (simp add: run_WithTenantConn_quiet [OF assms(1) quiet_Exec] run_Exec_nil insert_comment_def
        sql_insert_def Let_def)
  obtain x w2 where logged: "run_state (logAudit r ?t (Some u) ''comment.create'' (Some ''comment'') (Some (cm_id ?c)) None
      (Some (JObj [(''action_item_id'', JInt i)]))) w1 = (x, w2)"
    and w2: "w_faults w2 = []" "logs_frame w1 w2"
    using logs_run [OF w1(1) logs_quiet(1) logs_kept(1)] by blast
  have "run_state (CreateActionItemComment r (Some content) i) w = (Reply 201 ?c, w2)"
    unfolding CreateActionItemComment_def Let_def option.case assms(2)
    using assms(3) by (simp only: if_False run_state_bind run_Now made sum.case prod.case logged run_state_return)
  moreover have "comments (w_db w2) = comments (w_db w1)" "action_items (w_db w2) = action_items (w_db w)"
    using w2(2) w1(2) by (simp_all add: logs_frame_def)
  ultimately show ?thesis using w1(3) w2(1) by (intro exI [of _ ?c] exI [of _ w2]) simp
qed

lemma delete_item_run:
  assumes "w_faults w = []" "x \<in> set (tb_rows (action_items (w_db w)))" "ai_id x = i" "ai_tenant x = tenantID r"
  shows "fst (run_state (DeleteActionItem r i) w) = Reply 200 ''deleted''"
    and "\<forall>c \<in> set (tb_rows (comments (w_db (snd (run_state (DeleteActionItem r i) w))))). cm_item c \<noteq> i"
proof -
  let ?t = "tenantID r"
  let ?hit = "\<lambda>y. visible ((w_sess w)\<lparr>ss_tenant := Some ?t\<rparr>) (ai_tenant y) \<and> ai_id y = i \<and> ai_tenant y = ?t"
  have hit: "x \<in> set (filter ?hit (tb_rows (action_items (w_db w))))" using assms(2-4) by simp
  obtain n w1 where gone: "run_state (WithTenantConn ?t (Exec (delete_item ?t i))) w = (Inr n, w1)"
    and n: "n = length (filter ?hit (tb_rows (action_items (w_db w))))" and w1: "w_faults w1 = []"
      "tb_rows (comments (w_db w1)) = filter (\<lambda>c. cm_item c \<notin> ai_id ` set (filter ?hit (tb_rows (action_items (w_db w)))))
         (tb_rows (comments (w_db w)))"
    using assms(1) by (simp add: run_WithTenantConn_quiet [OF assms(1) quiet_Exec] run_Exec_nil delete_item_def
        sql_delete_def cascade_comments_def Let_def)
  have "n \<noteq> 0" using hit n by (metis length_pos_if_in_set less_numeral_extra(3))
  have off: "\<forall>c \<in> set (tb_rows (comments (w_db w1))). cm_item c \<noteq> i"
    using hit assms(3) by (auto simp: w1(2))
  obtain y w2 where a: "run_state (item_activity r ?t ''action_item.delete'' (JObj [(''action_item_id'', JInt i)])) w1 = (y, w2)"
    and w2: "w_faults w2 = []" "logs_frame w1 w2"
    using logs_run [OF w1(1) logs_quiet(2) logs_kept(2)] by blast
  obtain z w3 where b: "run_state (logAudit r ?t (authUserIDPtr r) ''action_item.delete'' (Some ''action_item'') (Some i) None None) w2 = (z, w3)"
    and w3: "w_faults w3 = []" "logs_frame w2 w3"
    using logs_run [OF w2(1) logs_quiet(1) logs_kept(1)] by blast
  let ?w4 = "if w_hub w3 then w3\<lparr>w_bcast := w_bcast w3 @ [(?t, item_event ''action_item.delete'' i)]\<rparr> else w3"
  have run: "run_state (DeleteActionItem r i) w = (Reply 200 ''deleted'', ?w4)"
    unfolding DeleteActionItem_def Let_def
    using \<open>n \<noteq> 0\<close> by (simp only: run_state_bind gone sum.case prod.case if_False a b run_HubBroadcast run_state_return)
  then show "fst (run_state (DeleteActionItem r i) w) = Reply 200 ''deleted''" by simp
  have "comments (w_db ?w4) = comments (w_db w1)" using w2(2) w3(2) by (simp add: logs_frame_def)
  with off show "\<forall>c \<in> set (tb_rows (comments (w_db (snd (run_state (DeleteActionItem r i) w))))). cm_item c \<noteq> i"
    by (simp add: run)
qed

text \<open>An item of tenant 1, and a user of tenant 30.\<close>

definition crossing_world :: world where
  "crossing_world = (team_world ''admin'')\<lparr>w_db := (w_db (team_world ''admin''))\<lparr>
     action_items := \<lparr>tb_rows = [item_row 1 0], tb_seq = 1\<rparr>,
     users := \<lparr>tb_rows = [\<lparr>us_id = 1, us_email = [], us_hash = [], us_tenant = 30, us_created = 0, us_updated = 0\<rparr>],
       tb_seq = 1\<rparr>\<rparr>\<rparr>"

text \<open>
  C36. A comment can be put on another tenant's item, and goes with it. A signed-in user who sends the id
  of an item of another tenant gets the comment stored under the own tenant; when the other tenant
  deletes its item, the comment is deleted too. Row-level security changes neither.
\<close>

theorem foreign_comment_lost:
  assumes "w_faults w = []" "authUserIDPtr r = Some u" "content \<noteq> []" "has_key us_id u (users (w_db w))"
    and "x \<in> set (tb_rows (action_items (w_db w)))" "ai_tenant x = tenantID r'" "tenantID r' \<noteq> tenantID r"
  shows "\<exists>c w1. run_state (CreateActionItemComment r (Some content) (ai_id x)) w = (Reply 201 c, w1) \<and>
    cm_tenant c = tenantID r \<and> c \<in> set (tb_rows (comments (w_db w1))) \<and>
    c \<notin> set (tb_rows (comments (w_db (snd (run_state (DeleteActionItem r' (ai_id x)) w1)))))"
proof -
  have "has_key ai_id (ai_id x) (action_items (w_db w))" using assms(5) by (auto simp: has_key_def)
  from comment_run [OF assms(1-3) this assms(4)] obtain c w1 where
    c: "run_state (CreateActionItemComment r (Some content) (ai_id x)) w = (Reply 201 c, w1)" "w_faults w1 = []"
      "cm_tenant c = tenantID r" "cm_item c = ai_id x" "c \<in> set (tb_rows (comments (w_db w1)))"
      "action_items (w_db w1) = action_items (w_db w)"
    by auto
  have "c \<notin> set (tb_rows (comments (w_db (snd (run_state (DeleteActionItem r' (ai_id x)) w1)))))"
    using delete_item_run(2) [OF c(2), of x "ai_id x" r'] assms(5,6) c(4,6) by auto
  with c show ?thesis by blast
qed

theorem foreign_comment_lost_witness:
  "\<exists>c w1. run_state (CreateActionItemComment (admin_of 30) (Some ''note'') 1) crossing_world = (Reply 201 c, w1) \<and>
    cm_tenant c = 30 \<and> c \<notin> set (tb_rows (comments (w_db (snd (run_state (DeleteActionItem (admin_of 1) 1) w1)))))"
proof -
  have "w_faults crossing_world = []" "has_key us_id 1 (users (w_db crossing_world))"
    "item_row 1 0 \<in> set (tb_rows (action_items (w_db crossing_world)))"
    by (simp_all add: crossing_world_def team_world_def sample_world_def)
  moreover have "authUserIDPtr (admin_of 30) = Some 1" by (simp add: authUserIDPtr_def admin_of_def UserFromContext_def)
  ultimately show ?thesis
    using foreign_comment_lost [of crossing_world "admin_of 30" 1 "''note''" "item_row 1 0" "admin_of 1"]
    by (fastforce simp: item_row_def)
qed

section \<open>Another tenant's provider\<close>

lemma upsert_feature_run:
  assumes "has_key pv_id pid (llm_providers d)" "is_int32 prio" "ss_tenant s = Some t"
  shows "\<exists>a d'. upsert_feature t feature pid prio now s d = (Inr a, d') \<and> llm_providers d' = llm_providers d \<and>
    (\<exists>a \<in> set (tb_rows (llm_feature_assignments d')). fa_tenant a = t \<and> fa_feature a = feature \<and> fa_provider a = pid)"
proof (cases "first_of (filter (\<lambda>a. fa_tenant a = t \<and> fa_feature a = feature \<and> fa_provider a = pid)
    (tb_rows (llm_feature_assignments d)))")
  case None
  with assms show ?thesis by (simp add: upsert_feature_def sql_upsert_def Let_def visible_def)
next
  case (Some a)
  let ?T = "llm_feature_assignments d" and ?same = "\<lambda>a. fa_tenant a = t \<and> fa_feature a = feature \<and> fa_provider a = pid"
  let ?d = "d\<lparr>llm_feature_assignments := ?T\<lparr>tb_rows := update_where ?same (\<lambda>a. a\<lparr>fa_priority := prio\<rparr>) (tb_rows ?T)\<rparr>\<rparr>"
  from first_of_filter_SomeD [OF Some] have a: "a \<in> set (tb_rows ?T)" "?same a" by auto
  then have "a\<lparr>fa_priority := prio\<rparr> \<in> set (update_where ?same (\<lambda>a. a\<lparr>fa_priority := prio\<rparr>) (tb_rows ?T))"
    by (force simp: update_where_def)
  then have "\<exists>x \<in> set (update_where ?same (\<lambda>a. a\<lparr>fa_priority := prio\<rparr>) (tb_rows ?T)). ?same x"
    using a(2) by (intro bexI) auto
  moreover have "\<exists>x d'. upsert_feature t feature pid prio now s d = (Inr x, d') \<and> llm_providers d' = llm_providers d \<and>
      tb_rows (llm_feature_assignments d') = update_where ?same (\<lambda>a. a\<lparr>fa_priority := prio\<rparr>) (tb_rows ?T)"
    using Some assms a by (simp add: upsert_feature_def sql_upsert_def Let_def visible_def)
  ultimately show ?thesis by metis
qed

lemma feature_lines:
  assumes "feature_providers t feature s d = (Inr xs, d')"
  shows "l \<in> set xs \<longleftrightarrow> (\<exists>a q. a \<in> set (tb_rows (llm_feature_assignments d)) \<and> visible s (fa_tenant a) \<and> fa_tenant a = t \<and>
      fa_feature a = feature \<and> q \<in> set (tb_rows (llm_providers d)) \<and> visible s (pv_tenant q) \<and> pv_id q = fa_provider a \<and>
      l = \<lparr>fl_provider = fa_provider a, fl_priority = fa_priority a, fl_name = pv_name q, fl_model = pv_model q, fl_health = pv_health q\<rparr>)"
proof -
  let ?line = "\<lambda>a q. \<lparr>fl_provider = fa_provider a, fl_priority = fa_priority a, fl_name = pv_name q, fl_model = pv_model q,
    fl_health = pv_health q\<rparr>"
  let ?P = "\<lambda>a q. a \<in> set (tb_rows (llm_feature_assignments d)) \<and> visible s (fa_tenant a) \<and> fa_tenant a = t \<and>
      fa_feature a = feature \<and> q \<in> set (tb_rows (llm_providers d)) \<and> visible s (pv_tenant q) \<and> pv_id q = fa_provider a"
  have "set xs = (\<lambda>(a, q). ?line a q) ` {(a, q). ?P a q}"
  proof -
    have "set (concat (map (\<lambda>a. map (Pair a) (filter (\<lambda>p. visible s (pv_tenant p) \<and> pv_id p = fa_provider a) (tb_rows (llm_providers d))))
        (filter (\<lambda>a. visible s (fa_tenant a) \<and> fa_tenant a = t \<and> fa_feature a = feature) (tb_rows (llm_feature_assignments d)))))
      = {(a, q). ?P a q}" by auto
    with assms show ?thesis unfolding feature_providers_def prod.inject sum.inject by (metis (no_types, lifting) set_map set_sort)
  qed
  then show ?thesis by auto
qed

text \<open>
  A feature can be given another tenant's provider. The id in the request is checked against all
  providers, so the assignment is accepted whether or not row-level security is on. Without it the list
  of the feature's providers then shows the other tenant's provider with its name, model and health;
  with it the assignment stays in the table and is never listed.
\<close>

theorem foreign_provider_shown:
  assumes "w_faults w = []" "p \<in> set (tb_rows (llm_providers (w_db w)))" "pv_tenant p \<noteq> tenantID r"
    and "unique pv_id (llm_providers (w_db w))" "pv_id p \<noteq> 0" "is_int32 prio"
  shows "\<exists>w1 xs w2. run_state (AssignProviderToFeature r (Some (pv_id p, prio)) feature) w = (Reply 200 ''assigned'', w1) \<and>
    run_state (GetFeatureProviders r feature) w1 = (Reply 200 xs, w2) \<and>
    ((\<exists>l \<in> set xs. fl_provider l = pv_id p) \<longleftrightarrow> \<not> ss_rls (w_sess w)) \<and>
    (\<forall>l \<in> set xs. fl_provider l = pv_id p \<longrightarrow> fl_name l = pv_name p \<and> fl_model l = pv_model p \<and> fl_health l = pv_health p)"
proof -
  let ?t = "tenantID r" and ?prio = "if prio = 0 then 1 else prio"
  let ?s = "(w_sess w)\<lparr>ss_tenant := Some ?t\<rparr>"
  have "has_key pv_id (pv_id p) (llm_providers (w_db w))" using assms(2) by (auto simp: has_key_def)
  moreover have "is_int32 ?prio" using assms(6) by (simp add: is_int32_def)
  ultimately obtain a d' where u: "upsert_feature ?t feature (pv_id p) ?prio (w_now w) ?s (w_db w) = (Inr a, d')"
    and d': "llm_providers d' = llm_providers (w_db w)"
      "\<exists>a \<in> set (tb_rows (llm_feature_assignments d')). fa_tenant a = ?t \<and> fa_feature a = feature \<and> fa_provider a = pv_id p"
    using upsert_feature_run [of "pv_id p" "w_db w" ?prio ?s ?t feature "w_now w"] by auto
  let ?w1 = "w\<lparr>w_db := d', w_sess := (w_sess w)\<lparr>ss_tenant := None\<rparr>\<rparr>"
  have run1: "run_state (AssignProviderToFeature r (Some (pv_id p, prio)) feature) w = (Reply 200 ''assigned'', ?w1)"
    using assms(1,5) u by (simp add: AssignProviderToFeature_def run_state_bind run_Now Let_def run_WithTenantConn_nil
        run_then_ok run_Exec_nil ok_def)
  obtain xs where xs: "feature_providers ?t feature ?s d' = (Inr xs, d')" by (simp add: feature_providers_def)
  have run2: "run_state (GetFeatureProviders r feature) ?w1 = (Reply 200 xs, ?w1)"
    using assms(1) xs by (simp add: GetFeatureProviders_def run_state_bind Let_def run_WithTenantConn_nil run_Exec_nil)
  have one: "q = p" if "q \<in> set (tb_rows (llm_providers (w_db w)))" "pv_id q = pv_id p" for q
    using distinct_map_unique [of pv_id _ q p] assms(2,4) that unfolding unique_def by blast
  let ?line = "\<lambda>a q. \<lparr>fl_provider = fa_provider a, fl_priority = fa_priority a, fl_name = pv_name q, fl_model = pv_model q,
    fl_health = pv_health q\<rparr>"
  note mem = feature_lines [OF xs, unfolded d'(1)]
  have "fl_name l = pv_name p \<and> fl_model l = pv_model p \<and> fl_health l = pv_health p \<and> \<not> ss_rls (w_sess w)"
    if "l \<in> set xs" "fl_provider l = pv_id p" for l
  proof -
    from that(1) obtain a :: feature_row and q where q: "q \<in> set (tb_rows (llm_providers (w_db w)))" "visible ?s (pv_tenant q)"
      "pv_id q = fa_provider a" "l = ?line a q" by (simp only: mem) blast
    with one [of q] that(2) have "q = p" by simp
    with q assms(3) show ?thesis by (auto simp: visible_def)
  qed
  moreover have "\<exists>l \<in> set xs. fl_provider l = pv_id p" if off: "\<not> ss_rls (w_sess w)"
  proof -
    obtain a where "a \<in> set (tb_rows (llm_feature_assignments d'))" "fa_tenant a = ?t" "fa_feature a = feature" "fa_provider a = pv_id p"
      using d'(2) by blast
    with assms(2) off have "?line a p \<in> set xs" unfolding mem by (intro exI [of _ a] exI [of _ p]) (simp add: visible_def)
    with \<open>fa_provider a = pv_id p\<close> show ?thesis by (intro bexI) simp_all
  qed
  ultimately show ?thesis using run1 run2 by blast
qed

theorem foreign_provider_shown_witness:
  "\<exists>w1 xs w2. run_state (GetFeatureProviders (admin_of 10) ''summarization'') w1 = (Reply 200 xs, w2) \<and>
     (\<exists>l \<in> set xs. fl_provider l = 2)"
proof -
  have "unique pv_id (llm_providers (w_db llm_world))" "\<not> ss_rls (w_sess llm_world)"
    by (simp_all add: unique_def llm_world_def sample_provider_def sample_world_def)
  with foreign_provider_shown [of llm_world "sample_provider 2 20 ''key-of-20''" "admin_of 10" 3 "''summarization''"]
  show ?thesis by (fastforce simp: is_int32_def)
qed

end
