(* ===== verification/Races.thy ===== *)
theory Races
  imports Schema
begin

text \<open>
  Deliveries at the same time: \<open>insertMessage\<close> of \<open>backend/internal/whatsapp/sync.go\<close> in goroutines of
  its own (a live message beside a history sync, or two sessions of a tenant). Each has a connection
  of its own and makes two statements, with nothing around them that keeps the others out.
\<close>

record delivery =
  dl_tenant :: int
  dl_conv :: int
  dl_info :: message_info
  dl_content :: string
  dl_chat :: jid
  dl_media :: "media_info option"
  dl_now :: int

text \<open>Where a goroutine is: before its \<open>SELECT\<close>, before its \<open>INSERT\<close>, or through with a result.\<close>

datatype phase = Looking | Missing | Through "dberr + int"

definition delivery_sess :: "bool \<Rightarrow> delivery \<Rightarrow> session" where
  "delivery_sess rls m = \<lparr>ss_tenant = Some (dl_tenant m), ss_rls = rls\<rparr>"

definition delivery_sender :: "delivery \<Rightarrow> string" where
  "delivery_sender m = (if mi_fromMe (dl_info m) then ''me'' else j_text (mi_sender (dl_info m)))"

definition look :: "bool \<Rightarrow> delivery \<Rightarrow> db \<Rightarrow> phase" where
  "look rls m d =
     (case fst (select_message (dl_tenant m) (mi_id (dl_info m)) (delivery_sess rls m) d) of
        Inr row \<Rightarrow> Through (Inr (ms_id row))
      | Inl e \<Rightarrow> if e \<noteq> NoRows then Through (Inl e) else Missing)"

definition store :: "bool \<Rightarrow> delivery \<Rightarrow> db \<Rightarrow> phase \<times> db" where
  "store rls m d =
     (case insert_message (dl_tenant m) (dl_conv m) (delivery_sender m) (dl_content m) (mi_time (dl_info m))
        (Some (message_meta (dl_info m) (dl_chat m) (dl_media m) (delivery_sender m))) (dl_now m) (delivery_sess rls m) d of
        (Inr row, d') \<Rightarrow> (Through (Inr (ms_id row)), d')
      | (Inl e, d') \<Rightarrow> (Through (Inl e), d'))"

text \<open>
  One goroutine moves. With \<open>locked\<close> a goroutine only looks when no other is between its two
  statements, as it would be if \<open>insertMessage\<close> took a lock or an exclusive transaction.
\<close>

inductive deliver_step :: "bool \<Rightarrow> bool \<Rightarrow> delivery list \<Rightarrow> phase list \<times> db \<Rightarrow> phase list \<times> db \<Rightarrow> bool"
  for locked rls :: bool and ms :: "delivery list" where
  step_look: "i < length ms \<Longrightarrow> ps ! i = Looking \<Longrightarrow> (locked \<longrightarrow> Missing \<notin> set ps) \<Longrightarrow>
     deliver_step locked rls ms (ps, d) (ps[i := look rls (ms ! i) d], d)"
| step_store: "i < length ms \<Longrightarrow> ps ! i = Missing \<Longrightarrow> store rls (ms ! i) d = (p, d') \<Longrightarrow>
     deliver_step locked rls ms (ps, d) (ps[i := p], d')"

section \<open>One delivery alone\<close>

lemma store_messages:
  assumes "store rls m d = (p, d')"
  shows "wa_keys (tb_rows (messages d')) = wa_keys (tb_rows (messages d)) \<or>
    wa_keys (tb_rows (messages d')) = wa_keys (tb_rows (messages d)) @ [(dl_tenant m, mi_id (dl_info m))]"
  using assms by (auto simp: store_def insert_message_def sql_insert_def Let_def split: if_splits)

lemma store_done:
  assumes "store rls m d = (p, d')" "has_key cv_id (dl_conv m) (conversations d)"
  shows "(\<exists>i. p = Through (Inr i)) \<and> has_key cv_id (dl_conv m) (conversations d') \<and>
    wa_keys (tb_rows (messages d')) = wa_keys (tb_rows (messages d)) @ [(dl_tenant m, mi_id (dl_info m))]"
  using assms
  by (auto simp: store_def insert_message_def sql_insert_def Let_def visible_def delivery_sess_def split: if_splits)

lemma store_not_missing: "store rls m d = (p, d') \<Longrightarrow> p \<noteq> Missing \<and> p \<noteq> Looking"
  by (auto simp: store_def split: prod.splits sum.splits)

lemma look_missing: "look rls m d = Missing \<longleftrightarrow> (dl_tenant m, mi_id (dl_info m)) \<notin> set (wa_keys (tb_rows (messages d)))"
  by (auto simp: look_def select_message_def sql_row_def visible_def in_wa_keys filter_empty_conv delivery_sess_def
      split: option.splits dest!: first_of_filter_SomeD)

text \<open>Without faults and alone, \<open>insertMessage\<close> is its look and, if that finds nothing, its store.\<close>

lemma select_message_db: "snd (select_message t i s d) = d"
  by (auto simp: select_message_def sql_row_def split: option.splits)

lemma insertMessage_alone:
  assumes "w_faults w = []"
    and m: "m = \<lparr>dl_tenant = t, dl_conv = conv, dl_info = info, dl_content = content, dl_chat = chat, dl_media = media, dl_now = w_now w\<rparr>"
    and run: "run_state (insertMessage t conv info content chat media) w = (res, w')"
  shows "(case look (ss_rls (w_sess w)) m (w_db w) of
      Missing \<Rightarrow> store (ss_rls (w_sess w)) m (w_db w) = (Through (map_sum id fst res), w_db w')
    | p \<Rightarrow> p = Through (map_sum id fst res) \<and> w_db w' = w_db w)"
proof -
  let ?s = "(w_sess w)\<lparr>ss_tenant := Some t\<rparr>"
  have s: "delivery_sess (ss_rls (w_sess w)) m = ?s" by (simp add: delivery_sess_def m)
  obtain x where x: "select_message t (mi_id info) ?s (w_db w) = (x, w_db w)"
    using select_message_db by (metis surj_pair snd_conv)
  have l: "look (ss_rls (w_sess w)) m (w_db w) = (case x of Inr row \<Rightarrow> Through (Inr (ms_id row))
      | Inl e \<Rightarrow> if e \<noteq> NoRows then Through (Inl e) else Missing)"
    by (simp add: look_def s, simp add: m x)
  show ?thesis
  proof (cases x)
    case (Inr row)
    with run assms(1) x show ?thesis
      by (auto simp: insertMessage_def run_WithTenantConn_nil run_state_bind run_Now run_Exec_nil l ok_def)
  next
    case (Inl e)
    show ?thesis
    proof (cases "e = NoRows")
      case False
      with run assms(1) x Inl show ?thesis
        by (auto simp: insertMessage_def run_WithTenantConn_nil run_state_bind run_Now run_Exec_nil l err_def)
    next
      case True
      obtain r d' where q: "insert_message t conv (delivery_sender m) content (mi_time info)
          (Some (message_meta info chat media (delivery_sender m))) (w_now w) ?s (w_db w) = (r, d')"
        by (rule prod.exhaust)
      have "delivery_sender m = (if mi_fromMe info then ''me'' else j_text (mi_sender info))" by (simp add: delivery_sender_def m)
      note q' = q [unfolded this]
      have "look (ss_rls (w_sess w)) m (w_db w) = Missing" using Inl True by (simp add: l)
      moreover have "store (ss_rls (w_sess w)) m (w_db w) = (case r of Inr row \<Rightarrow> (Through (Inr (ms_id row)), d') | Inl e \<Rightarrow> (Through (Inl e), d'))"
        using q by (simp add: store_def s, simp add: m)
      ultimately show ?thesis
        using run assms(1) x Inl True
        by (cases r) (auto simp: insertMessage_def run_WithTenantConn_nil run_state_bind run_Now run_Exec_nil run_then_ok ok_def q' Let_def)
    qed
  qed
qed

section \<open>Deliveries that meet\<close>

lemma deliver_step_wa:
  assumes "deliver_step True rls ms st st'"
    and "distinct (wa_keys (tb_rows (messages (snd st))))" "length (fst st) = length ms"
    and "\<forall>i < length ms. fst st ! i = Missing \<longrightarrow>
      (dl_tenant (ms ! i), mi_id (dl_info (ms ! i))) \<notin> set (wa_keys (tb_rows (messages (snd st)))) \<and>
      (\<forall>j < length ms. fst st ! j = Missing \<longrightarrow> j = i)"
  shows "distinct (wa_keys (tb_rows (messages (snd st')))) \<and> length (fst st') = length ms \<and>
    (\<forall>i < length ms. fst st' ! i = Missing \<longrightarrow>
      (dl_tenant (ms ! i), mi_id (dl_info (ms ! i))) \<notin> set (wa_keys (tb_rows (messages (snd st')))) \<and>
      (\<forall>j < length ms. fst st' ! j = Missing \<longrightarrow> j = i))"
  using assms
proof cases
  case (step_look i ps d)
  then have "\<forall>j < length ms. ps ! j \<noteq> Missing" using assms(3) by (metis fst_conv nth_mem)
  with step_look assms(2,3) look_missing [of rls "ms ! i" d] show ?thesis by (auto simp: nth_list_update)
next
  case (step_store i ps d p d')
  note new = store_messages [OF step_store(5)] and p = store_not_missing [OF step_store(5)]
  have "(dl_tenant (ms ! i), mi_id (dl_info (ms ! i))) \<notin> set (wa_keys (tb_rows (messages d)))"
    using assms(4) step_store by auto
  with new assms(2) step_store(1) have "distinct (wa_keys (tb_rows (messages d')))" by auto
  moreover have "ps[i := p] ! j \<noteq> Missing" if "j < length ms" for j
    using that assms(3,4) step_store p by (cases "j = i") auto
  ultimately show ?thesis using assms(3) step_store by auto
qed

lemma deliver_steps_wa:
  assumes "(deliver_step True rls ms)\<^sup>*\<^sup>* (replicate (length ms) Looking, d) st"
    and "distinct (wa_keys (tb_rows (messages d)))"
  shows "distinct (wa_keys (tb_rows (messages (snd st)))) \<and> length (fst st) = length ms \<and>
    (\<forall>i < length ms. fst st ! i = Missing \<longrightarrow>
      (dl_tenant (ms ! i), mi_id (dl_info (ms ! i))) \<notin> set (wa_keys (tb_rows (messages (snd st)))) \<and>
      (\<forall>j < length ms. fst st ! j = Missing \<longrightarrow> j = i))"
  using assms(1)
proof (induction rule: rtranclp_induct)
  case (step st st')
  then show ?case by (intro deliver_step_wa [of rls ms st st']) auto
qed (use assms(2) in simp)

text \<open>
  C15. A message that is delivered twice at the same time is stored twice. Nothing in the schema keeps the
  second row out: from a database with one message per WhatsApp id, two deliveries of a new message
  into a conversation that exists can both succeed and leave two rows with the same id. If a delivery
  only looked while no other was between its look and its store, that could never happen, however
  many deliveries there are.
\<close>

theorem deliveries_race:
  assumes "wa_unique d" "has_key cv_id conv (conversations d)" "(t, mi_id info) \<notin> set (wa_keys (tb_rows (messages d)))"
    and "m = \<lparr>dl_tenant = t, dl_conv = conv, dl_info = info, dl_content = content, dl_chat = chat, dl_media = media, dl_now = now\<rparr>"
  shows "(\<exists>i j d'. (deliver_step False rls [m, m])\<^sup>*\<^sup>* ([Looking, Looking], d) ([Through (Inr i), Through (Inr j)], d') \<and> \<not> wa_unique d') \<and>
    (\<forall>ms ps d'. (deliver_step True rls ms)\<^sup>*\<^sup>* (replicate (length ms) Looking, d) (ps, d') \<longrightarrow> wa_unique d')"
proof (intro conjI allI impI)
  let ?R = "deliver_step False rls [m, m]"
  obtain p1 d1 where s1: "store rls m d = (p1, d1)" by (rule prod.exhaust)
  have "has_key cv_id (dl_conv m) (conversations d)" using assms(2,4) by simp
  note one = store_done [OF s1 this]
  then obtain i where p1: "p1 = Through (Inr i)" by blast
  obtain p2 d2 where s2: "store rls m d1 = (p2, d2)" by (rule prod.exhaust)
  note two = store_done [OF s2] one
  then obtain j where p2: "p2 = Through (Inr j)" by blast
  have look: "look rls m d = Missing" using assms(3,4) by (simp add: look_missing)
  have a: "?R ([Looking, Looking], d) ([Missing, Looking], d)" using step_look [of 0 "[m, m]" "[Looking, Looking]" False rls d] look by simp
  have b: "?R ([Missing, Looking], d) ([Missing, Missing], d)" using step_look [of 1 "[m, m]" "[Missing, Looking]" False rls d] look by simp
  have c: "?R ([Missing, Missing], d) ([p1, Missing], d1)" using step_store [of 0 "[m, m]" "[Missing, Missing]" rls d p1 d1 False] s1 by simp
  have e: "?R ([p1, Missing], d1) ([p1, p2], d2)" using step_store [of 1 "[m, m]" "[p1, Missing]" rls d1 p2 d2 False] s2 by simp
  note r = converse_rtranclp_into_rtranclp [of ?R]
  have "?R\<^sup>*\<^sup>* ([Looking, Looking], d) ([p1, p2], d2)" by (rule r [OF a r [OF b r [OF c r_into_rtranclp [of ?R, OF e]]]])
  moreover have "\<not> wa_unique d2" using two by (auto simp: wa_unique_def)
  ultimately show "\<exists>i j d'. ?R\<^sup>*\<^sup>* ([Looking, Looking], d) ([Through (Inr i), Through (Inr j)], d') \<and> \<not> wa_unique d'"
    using p1 p2 by blast
next
  fix ms ps d' assume "(deliver_step True rls ms)\<^sup>*\<^sup>* (replicate (length ms) Looking, d) (ps, d')"
  from deliver_steps_wa [OF this] assms(1) show "wa_unique d'" by (simp add: wa_unique_def)
qed

theorem deliveries_race_witness:
  "\<exists>m i j d'. dl_tenant m = 1 \<and>
    (deliver_step False False [m, m])\<^sup>*\<^sup>* ([Looking, Looking], w_db (sync_world [])) ([Through (Inr i), Through (Inr j)], d') \<and>
    \<not> wa_unique d'"
proof -
  have "wa_unique (w_db (sync_world []))" "has_key cv_id 1 (conversations (w_db (sync_world [])))"
    "(1, mi_id sample_info) \<notin> set (wa_keys (tb_rows (messages (w_db (sync_world [])))))"
    by (simp_all add: wa_unique_def sync_world_def has_key_def group_row_def)
  from deliveries_race [OF this refl, where rls = False and content = "[]" and chat = sample_chat and media = None and now = 0, THEN conjunct1] show ?thesis
    by (metis delivery.select_convs(1))
qed

end
