(* ===== verification/Startup.thy ===== *)
theory Startup
  imports HttpRouter Sessions Inbox LlmApi Hub
begin

text \<open>
  The process: \<open>main\<close> of \<open>backend/cmd/server/main.go\<close> and the constructors it calls (\<open>db.New\<close>,
  \<open>llm.NewQueue\<close>, \<open>whatsapp.NewManager\<close>, \<open>SetSyncer\<close>, \<open>NewSyncer\<close>, \<open>NewAPI\<close>, \<open>router.New\<close>), and what
  the handlers are given by it. What the libraries answer when they are opened is a parameter.
\<close>

section \<open>Opening the parts\<close>

text \<open>
  What the process finds outside: the environment, the errors of \<open>pgxpool.New\<close>, \<open>redis.ParseURL\<close>
  and \<open>sqlstore.New\<close> (\<open>None\<close> for success), and what \<open>GetAllDevices\<close> gives: each device of the
  store, whether \<open>Connect\<close> succeeds for it, and the id its session gets.
\<close>

record host =
  hs_getenv :: "string \<Rightarrow> string"
  hs_pool :: "string \<Rightarrow> string option"
  hs_redis :: "string \<Rightarrow> string option"
  hs_container :: "string \<Rightarrow> string option"
  hs_devices :: "string + (wa_client \<times> bool \<times> string) list"

text \<open>\<open>db.New\<close>, \<open>llm.NewQueue\<close> and \<open>whatsapp.NewManager\<close>: the error, if there is one.\<close>

definition db_New :: "(string \<Rightarrow> string option) \<Rightarrow> string \<Rightarrow> string option" where
  "db_New pool databaseURL =
     (if databaseURL = [] then Some ''DATABASE_URL is required'' else pool databaseURL)"

definition NewQueue :: "(string \<Rightarrow> string option) \<Rightarrow> string \<Rightarrow> string option" where
  "NewQueue redis redisURL = redis redisURL"

text \<open>The syncer: whether it has a queue and a hub. The manager has a syncer once it is set.\<close>

record syncer =
  sy_queue :: bool
  sy_hub :: bool

record manager =
  mg_sessions :: sessions
  mg_syncer :: "syncer option"

definition NewSyncer :: "bool \<Rightarrow> bool \<Rightarrow> syncer" where
  "NewSyncer queue has_hub = \<lparr>sy_queue = queue, sy_hub = has_hub\<rparr>"

definition NewManager :: "(string \<Rightarrow> string option) \<Rightarrow> string \<Rightarrow> string + manager" where
  "NewManager container databaseURL =
     (if databaseURL = [] then Inl ''database url required''
      else case container databaseURL of
             Some e \<Rightarrow> Inl e
           | None \<Rightarrow> Inr \<lparr>mg_sessions = [], mg_syncer = None\<rparr>)"

definition SetSyncer :: "syncer \<Rightarrow> manager \<Rightarrow> manager" where
  "SetSyncer s m = m\<lparr>mg_syncer := Some s\<rparr>"

text \<open>
  \<open>Client.HealthCheck\<close> of \<open>whatsapp.go\<close>: the library's \<open>ErrNotLoggedIn\<close>, the error of its \<open>GetUserInfo\<close>,
  and the client, if there is one.
\<close>

definition HealthCheck :: "string \<Rightarrow> (wa_client \<Rightarrow> string option) \<Rightarrow> wa_client option \<Rightarrow> string option" where
  "HealthCheck not_logged_in get_info client =
     (case client of
        None \<Rightarrow> Some not_logged_in
      | Some c \<Rightarrow> get_info c)"

section \<open>The process\<close>

text \<open>
  The struct \<open>API\<close> with the router's fields: the parts that may be missing are flags or options.
  \<open>LLM\<close>, \<open>LLMStore\<close>, \<open>HealthScheduler\<close> and \<open>Hub\<close> are always there.
\<close>

record server =
  sv_addr :: string
  sv_origin :: string
  sv_auth :: auth_service
  sv_master :: string
  sv_hub :: hub
  sv_queue :: bool
  sv_workers :: bool
  sv_whatsapp :: "manager option"
  sv_limiter :: limiter
  sv_logged :: "string list"

text \<open>The two parts that may be missing, each with what is printed when it cannot be opened.\<close>

definition open_queue :: "host \<Rightarrow> config \<Rightarrow> bool \<times> string list" where
  "open_queue h cfg =
     (if cfg_redis cfg \<noteq> [] then
        case NewQueue (hs_redis h) (cfg_redis cfg) of
          Some e \<Rightarrow> (False, [''failed to init redis queue: '' @ e])
        | None \<Rightarrow> (True, [])
      else (False, []))"

definition open_manager :: "host \<Rightarrow> config \<Rightarrow> bool \<Rightarrow> manager option \<times> string list" where
  "open_manager h cfg queue =
     (if cfg_database cfg \<noteq> [] then
        case NewManager (hs_container h) (cfg_database cfg) of
          Inl e \<Rightarrow> (None, [''failed to init whatsapp manager: '' @ e])
        | Inr m \<Rightarrow> (Some (SetSyncer (NewSyncer queue True) m), [])
      else (None, []))"

text \<open>\<open>main\<close> up to the point where it listens; an error is that of \<open>log.Fatalf\<close>.\<close>

definition startup :: "host \<Rightarrow> string + server" where
  "startup h =
     (let cfg = config_Load (hs_getenv h) in
      case db_New (hs_pool h) (cfg_database cfg) of
        Some e \<Rightarrow> Inl (''failed to connect to database: '' @ e)
      | None \<Rightarrow>
          (case NewService (cfg_jwt cfg) (24 * 3600 * 1000000000) of
             Inl e \<Rightarrow> Inl (''failed to init auth: '' @ e)
           | Inr service \<Rightarrow>
               let (queue, log1) = open_queue h cfg;
                   workers = queue;
                   (manager, log2) = open_manager h cfg queue
               in Inr \<lparr>sv_addr = '':'' @ cfg_port cfg, sv_origin = cfg_origin cfg, sv_auth = service,
                       sv_master = cfg_master cfg, sv_hub = NewHub, sv_queue = queue, sv_workers = workers,
                       sv_whatsapp = manager, sv_limiter = NewRateLimiter 60 60000000000,
                       sv_logged = log1 @ log2\<rparr>))"

text \<open>The goroutine of \<open>main\<close> that runs \<open>AutoReconnect\<close>, once it is through.\<close>

definition reconnected :: "host \<Rightarrow> int \<Rightarrow> server \<Rightarrow> server" where
  "reconnected h now sv =
     (case sv_whatsapp sv of
        None \<Rightarrow> sv
      | Some m \<Rightarrow>
          (case hs_devices h of
             Inl e \<Rightarrow> sv\<lparr>sv_logged := sv_logged sv @ [''whatsapp auto-reconnect error: '' @ e]\<rparr>
           | Inr ds \<Rightarrow> sv\<lparr>sv_whatsapp := Some (m\<lparr>mg_sessions := AutoReconnect now ds (mg_sessions m)\<rparr>)\<rparr>))"

text \<open>
  How the process ends: \<open>ListenAndServe\<close> fails, or a signal comes, with the reconnection through by then
  or not, and \<open>Shutdown\<close> answers. The result is the exit of \<open>log.Fatalf\<close> with its message, or a normal
  end with what was printed; the lines of the two goroutines may also come in the other order.
\<close>

datatype main_event = ListenFails string | Signal bool "string option"
datatype main_end = Fatal string | Stopped "string list"

definition main :: "host \<Rightarrow> int \<Rightarrow> main_event \<Rightarrow> main_end" where
  "main h now e =
     (case startup h of
        Inl msg \<Rightarrow> Fatal msg
      | Inr sv \<Rightarrow>
          (case e of
             ListenFails msg \<Rightarrow> Fatal (''server error: '' @ msg)
           | Signal through shut \<Rightarrow>
               Stopped (sv_logged (if through then reconnected h now sv else sv) @
                 [''server listening on '' @ sv_addr sv] @
                 (case shut of None \<Rightarrow> [] | Some msg \<Rightarrow> [''shutdown error: '' @ msg]))))"

section \<open>What the handlers are given\<close>

definition server_router :: "(string \<Rightarrow> int \<Rightarrow> string \<Rightarrow> claims option) \<Rightarrow> server \<Rightarrow> int \<Rightarrow> router" where
  "server_router parse sv now =
     \<lparr>rt_parse = ParseToken parse (sv_auth sv) now, rt_origin = sv_origin sv, rt_hub = True\<rparr>"

text \<open>\<open>base\<close> brings the SDKs and AES-GCM; the master key is the server's.\<close>

definition server_api :: "llm_env \<Rightarrow> (bytes \<Rightarrow> bytes \<Rightarrow> bytes \<Rightarrow> bytes) \<Rightarrow> server \<Rightarrow> api_env" where
  "server_api base seal sv =
     \<lparr>ap_llm = base\<lparr>le_master := sv_master sv\<rparr>, ap_seal = seal, ap_queue = sv_queue sv\<rparr>"

definition server_phones ::
    "(string \<Rightarrow> jid option) \<Rightarrow> (wa_client \<Rightarrow> jid \<Rightarrow> string \<Rightarrow> bool) \<Rightarrow> server \<Rightarrow> phones option" where
  "server_phones parse deliver sv =
     map_option (\<lambda>m. \<lparr>ph_parse = parse, ph_deliver = deliver, ph_sessions = mg_sessions m\<rparr>) (sv_whatsapp sv)"

section \<open>Starting\<close>

lemma open_queue_iff:
  "fst (open_queue h cfg) \<longleftrightarrow> cfg_redis cfg \<noteq> [] \<and> hs_redis h (cfg_redis cfg) = None"
  by (simp add: open_queue_def NewQueue_def split: option.split)

lemma open_manager_eq:
  "fst (open_manager h cfg queue) = (if cfg_database cfg \<noteq> [] \<and> hs_container h (cfg_database cfg) = None
     then Some \<lparr>mg_sessions = [], mg_syncer = Some \<lparr>sy_queue = queue, sy_hub = True\<rparr>\<rparr> else None)"
  by (simp add: open_manager_def NewManager_def SetSyncer_def NewSyncer_def split: option.split)

lemma startup_ok:
  assumes "hs_getenv h ''DATABASE_URL'' \<noteq> []" "hs_pool h (hs_getenv h ''DATABASE_URL'') = None"
    "hs_getenv h ''JWT_SECRET'' \<noteq> []"
  shows "\<exists>sv. startup h = Inr sv"
  using assms by (simp add: startup_def Let_def db_New_def config_Load_def NewService_def split_beta)

lemma startup_Inr:
  assumes "startup h = Inr sv"
  shows "hs_getenv h ''DATABASE_URL'' \<noteq> []" "hs_pool h (hs_getenv h ''DATABASE_URL'') = None"
    "hs_getenv h ''JWT_SECRET'' \<noteq> []" "sv_hub sv = NewHub" "sv_limiter sv = NewRateLimiter 60 60000000000"
    "sv_master sv = hs_getenv h ''MASTER_KEY''" "sv_workers sv = sv_queue sv"
    "sv_auth sv = \<lparr>svc_secret = hs_getenv h ''JWT_SECRET'', svc_ttl = 24 * 3600 * 1000000000\<rparr>"
    "sv_queue sv = fst (open_queue h (config_Load (hs_getenv h)))"
    "sv_whatsapp sv = fst (open_manager h (config_Load (hs_getenv h)) (sv_queue sv))"
  using assms
  by (auto simp: startup_def Let_def db_New_def config_Load_def [of "hs_getenv h"] NewService_def split_beta
      split: option.splits sum.splits if_splits)

lemma startup_whatsapp:
  assumes "startup h = Inr sv"
  shows "sv_whatsapp sv = (if hs_container h (hs_getenv h ''DATABASE_URL'') = None
    then Some \<lparr>mg_sessions = [], mg_syncer = Some \<lparr>sy_queue = sv_queue sv, sy_hub = True\<rparr>\<rparr> else None)"
  using startup_Inr(1,10) [OF assms] by (simp add: open_manager_eq config_Load_def)

lemma reconnected_whatsapp:
  assumes "startup h = Inr sv" "sv_whatsapp (reconnected h now sv) = Some m"
  shows "hs_container h (hs_getenv h ''DATABASE_URL'') = None"
    and "mg_sessions m = (case hs_devices h of Inl e \<Rightarrow> [] | Inr ds \<Rightarrow> AutoReconnect now ds [])"
  using assms(2) startup_whatsapp [OF assms(1)] by (auto simp: reconnected_def split: if_splits sum.splits)

lemma reconnected_sessions:
  assumes "startup h = Inr sv" "sv_whatsapp (reconnected h now sv) = Some m" "x \<in> set (mg_sessions m)"
  shows "se_tenant (snd x) = 1 \<and> se_status (snd x) = ''connected'' \<and> wc_id (se_client (snd x)) \<noteq> None"
proof (cases "hs_devices h")
  case (Inr ds)
  have "\<forall>x \<in> set (AutoReconnect now ds []).
      se_tenant (snd x) = 1 \<and> se_status (snd x) = ''connected'' \<and> wc_id (se_client (snd x)) \<noteq> None"
    by (rule AutoReconnect_all [where G = "\<lambda>s. se_tenant s = 1 \<and> se_status s = ''connected'' \<and> wc_id (se_client s) \<noteq> None"]) simp_all
  with assms(3) reconnected_whatsapp(2) [OF assms(1,2)] Inr show ?thesis by simp
qed (use assms(3) reconnected_whatsapp(2) [OF assms(1,2)] in simp)

text \<open>
  C25. What the process needs and what it can do without. It comes up exactly when \<open>DATABASE_URL\<close> and
  \<open>JWT_SECRET\<close> are set and the pool opens. Redis and the WhatsApp store may fail without stopping it:
  then there is no queue and no worker, or no manager. The hub it starts with is consistent and empty, no
  client is counted by its limiter yet, and every session the reconnection brings is connected.
\<close>

theorem server_starts:
  "((\<exists>sv. startup h = Inr sv) \<longleftrightarrow>
      hs_getenv h ''DATABASE_URL'' \<noteq> [] \<and> hs_pool h (hs_getenv h ''DATABASE_URL'') = None \<and> hs_getenv h ''JWT_SECRET'' \<noteq> []) \<and>
   (\<forall>sv. startup h = Inr sv \<longrightarrow>
      (sv_queue sv \<longleftrightarrow> hs_getenv h ''REDIS_URL'' \<noteq> [] \<and> hs_redis h (hs_getenv h ''REDIS_URL'') = None) \<and>
      (sv_workers sv \<longleftrightarrow> sv_queue sv) \<and>
      (sv_whatsapp sv = None \<longleftrightarrow> hs_container h (hs_getenv h ''DATABASE_URL'') \<noteq> None) \<and>
      hub_inv (sv_hub sv) \<and> connected (sv_hub sv) = {} \<and> limiter_inv (sv_limiter sv) \<and>
      lim_items (sv_limiter sv) = Map.empty \<and>
      (\<forall>m \<in> set_option (sv_whatsapp (reconnected h now sv)). \<forall>(sid, s) \<in> set (mg_sessions m).
         se_status s = ''connected'' \<and> wc_id (se_client s) \<noteq> None))"
proof (intro conjI allI impI)
  show "(\<exists>sv. startup h = Inr sv) \<longleftrightarrow>
      hs_getenv h ''DATABASE_URL'' \<noteq> [] \<and> hs_pool h (hs_getenv h ''DATABASE_URL'') = None \<and> hs_getenv h ''JWT_SECRET'' \<noteq> []"
    using startup_Inr(1-3) startup_ok by blast
next
  fix sv assume sv: "startup h = Inr sv"
  show "sv_queue sv \<longleftrightarrow> hs_getenv h ''REDIS_URL'' \<noteq> [] \<and> hs_redis h (hs_getenv h ''REDIS_URL'') = None"
    by (simp add: startup_Inr(9) [OF sv] open_queue_iff config_Load_def)
  show "sv_workers sv \<longleftrightarrow> sv_queue sv" by (simp add: startup_Inr(7) [OF sv])
  show "sv_whatsapp sv = None \<longleftrightarrow> hs_container h (hs_getenv h ''DATABASE_URL'') \<noteq> None" by (simp add: startup_whatsapp [OF sv])
  show "hub_inv (sv_hub sv)" by (simp add: startup_Inr(4) [OF sv] hub_inv_New)
  show "connected (sv_hub sv) = {}" by (simp add: startup_Inr(4) [OF sv] connected_def clients_of_def NewHub_def)
  show "limiter_inv (sv_limiter sv)" by (simp add: startup_Inr(5) [OF sv] limiter_inv_New)
  show "lim_items (sv_limiter sv) = Map.empty" by (simp add: startup_Inr(5) [OF sv] NewRateLimiter_def)
  show "\<forall>m \<in> set_option (sv_whatsapp (reconnected h now sv)). \<forall>(sid, s) \<in> set (mg_sessions m).
      se_status s = ''connected'' \<and> wc_id (se_client s) \<noteq> None"
    using reconnected_sessions [OF sv] by fastforce
qed

text \<open>A host with every part in place, and one with no Redis, no WhatsApp store and no master key.\<close>

definition full_host :: host where
  "full_host = \<lparr>hs_getenv = (\<lambda>n. if n = ''MASTER_KEY'' then replicate 32 (CHR ''k'') else n), hs_pool = (\<lambda>_. None),
     hs_redis = (\<lambda>_. None), hs_container = (\<lambda>_. None), hs_devices = Inr [(sample_client, True, ''s'')]\<rparr>"

definition bare_host :: host where
  "bare_host = \<lparr>hs_getenv = (\<lambda>n. if n = ''MASTER_KEY'' \<or> n = ''REDIS_URL'' then [] else n), hs_pool = (\<lambda>_. None),
     hs_redis = (\<lambda>_. Some ''refused''), hs_container = (\<lambda>_. Some ''no schema''), hs_devices = Inl ''none''\<rparr>"

lemma full_host_starts: "startup full_host = Inr (the (case startup full_host of Inr sv \<Rightarrow> Some sv | Inl _ \<Rightarrow> None))"
  using startup_ok [of full_host] by (auto simp: full_host_def)

lemma bare_host_starts: "startup bare_host = Inr (the (case startup bare_host of Inr sv \<Rightarrow> Some sv | Inl _ \<Rightarrow> None))"
  using startup_ok [of bare_host] by (auto simp: bare_host_def)

theorem server_starts_witness:
  "\<exists>sv. startup bare_host = Inr sv \<and> \<not> sv_workers sv \<and> sv_whatsapp sv = None \<and> hub_inv (sv_hub sv)"
  using server_starts [of bare_host 0] by (auto simp: bare_host_def)

section \<open>Devices after a restart\<close>

lemma connected_session_None:
  "\<forall>x \<in> set ss. se_tenant (snd x) \<noteq> t \<Longrightarrow> connected_session t ss = None"
  by (auto simp: connected_session_def find_None_iff)

lemma connected_session_Some:
  assumes "\<forall>x \<in> set ss. se_tenant (snd x) = t \<and> se_status (snd x) = ''connected''" "ss \<noteq> []"
  shows "connected_session t ss = Some (snd (hd ss))"
proof (cases ss)
  case (Cons a as)
  then have "se_tenant (snd a) = t" "se_status (snd a) = ''connected''" using assms(1) by simp_all
  then show ?thesis by (simp add: connected_session_def Cons split_beta)
qed (use assms(2) in simp)

lemma update_nonempty [simp]: "AList.update k y ss \<noteq> []"
  by (cases ss) auto

lemma AutoReconnect_mono: "ss \<noteq> [] \<Longrightarrow> AutoReconnect now ds ss \<noteq> []"
proof (induction ds arbitrary: ss)
  case (Cons x ds)
  have "(if P then ss else if Q then ss else AList.update k y ss) \<noteq> []" for P Q k y using Cons.prems by simp
  from Cons.IH [OF this] show ?case by (cases x) (simp only: AutoReconnect.simps not_False_eq_True)
qed simp

lemma AutoReconnect_nonempty:
  "(d, True, sid) \<in> set ds \<Longrightarrow> wc_id d \<noteq> None \<Longrightarrow> AutoReconnect now ds ss \<noteq> []"
proof (induction ds arbitrary: ss)
  case (Cons x ds)
  show ?case
  proof (cases "(d, True, sid) \<in> set ds")
    case True
    then show ?thesis using Cons.IH Cons.prems(2) by (cases x) simp
  next
    case False
    with Cons.prems have x: "x = (d, True, sid)" by simp
    from Cons.prems(2) show ?thesis by (simp only: x AutoReconnect.simps if_False not_True_eq_False) (rule AutoReconnect_mono, simp)
  qed
qed simp

lemma update_set: "(sid, s) \<in> set (AList.update k y ss) \<Longrightarrow> (sid, s) \<in> set ss \<or> (sid = k \<and> s = y)"
  by (induction ss) (auto split: if_splits)

lemma AutoReconnect_clients:
  assumes "(sid, s) \<in> set (AutoReconnect now ds ss)"
  shows "(sid, s) \<in> set ss \<or> (se_client s, True, sid) \<in> set ds"
  using assms
proof (induction ds arbitrary: ss)
  case (Cons x ds)
  obtain d c k where x: "x = (d, c, k)" by (cases x)
  show ?case
  proof (cases "wc_id d = None \<or> \<not> c")
    case True
    then have "AutoReconnect now (x # ds) ss = AutoReconnect now ds ss" by (cases "wc_id d = None") (simp_all add: x)
    with Cons.prems have "(sid, s) \<in> set (AutoReconnect now ds ss)" by (simp only:)
    from Cons.IH [OF this] show ?thesis by auto
  next
    case False
    then obtain y where y: "(sid, s) \<in> set (AutoReconnect now ds (AList.update k y ss))" "se_client y = d"
      using Cons.prems by (auto simp: x)
    from Cons.IH [OF y(1)] update_set [of sid s k y ss] y(2) False show ?thesis by (auto simp: x)
  qed
qed simp

interpretation same_db: frame_core "\<lambda>w w'. w_db w' = w_db w"
  by unfold_locales auto

lemma conversation_by_id_quiet: "state_io_rel (\<lambda>w w'. w_db w' = w_db w) (WithTenantConn t (Exec (conversation_by_id t c)))"
  by (intro same_db.keeps_WithTenantConn same_db.keeps_Exec)
    (auto simp: conversation_by_id_def sql_row_def sql_select_def split: list.splits option.splits)

lemma ReplyMessage_cut_off:
  assumes "whatsapp = Some ph" "connected_session (tenantID r) (ph_sessions ph) = None"
    "run_state (ReplyMessage whatsapp r body) w = ((res, sent), w')"
  shows "400 \<le> resp_status res \<and> sent = None \<and> w_db w' = w_db w"
proof (cases body)
  case (Some req)
  show ?thesis
  proof (cases "rp_conversation req = 0 \<or> rp_content req = []")
    case False
    obtain x w1 where x: "run_state (WithTenantConn (tenantID r) (Exec (conversation_by_id (tenantID r) (rp_conversation req)))) w = (x, w1)"
      by (rule prod.exhaust)
    have "w_db w1 = w_db w" using conversation_by_id_quiet x by (fastforce simp: state_io_rel_def)
    with x False assms Some show ?thesis
      by (auto simp: ReplyMessage_def run_state_bind run_Now SendMessage_def Let_def split: sum.splits)
  qed (use assms Some in \<open>auto simp: ReplyMessage_def\<close>)
qed (use assms in \<open>auto simp: ReplyMessage_def\<close>)

text \<open>
  C16. A restart hands every phone to tenant 1. \<open>AutoReconnect\<close> puts all stored devices under tenant 1,
  whoever paired them. So after a start with a WhatsApp store, a reply of any other tenant is refused
  and nothing is stored until the tenant pairs again, while tenant 1's messages go out through a
  stored device, as soon as one connects, whichever tenant it was paired for.
\<close>

theorem restart_hands_over_phones:
  assumes "startup h = Inr sv" "hs_container h (hs_getenv h ''DATABASE_URL'') = None" "hs_devices h = Inr ds"
  shows "(tenantID r \<noteq> 1 \<longrightarrow>
      run_state (ReplyMessage (server_phones parse deliver (reconnected h now sv)) r body) w = ((res, sent), w') \<longrightarrow>
      400 \<le> resp_status res \<and> sent = None \<and> w_db w' = w_db w) \<and>
    ((\<exists>d sid. (d, True, sid) \<in> set ds \<and> wc_id d \<noteq> None) \<longrightarrow>
      (\<exists>ph d sid. server_phones parse deliver (reconnected h now sv) = Some ph \<and> (d, True, sid) \<in> set ds \<and>
         (\<forall>to text j. parse (full_jid to) = Some j \<longrightarrow> deliver d j text \<longrightarrow>
            SendMessage (ph_parse ph) (ph_deliver ph) 1 to text (ph_sessions ph) = Inr (d, j, text))))"
proof -
  obtain m where m: "sv_whatsapp (reconnected h now sv) = Some m" "mg_sessions m = AutoReconnect now ds []"
    using startup_whatsapp [OF assms(1)] assms(2,3) by (simp add: reconnected_def)
  let ?ph = "\<lparr>ph_parse = parse, ph_deliver = deliver, ph_sessions = mg_sessions m\<rparr>"
  have ph: "server_phones parse deliver (reconnected h now sv) = Some ?ph" by (simp add: server_phones_def m(1))
  have one: "\<forall>x \<in> set (mg_sessions m). se_tenant (snd x) = 1 \<and> se_status (snd x) = ''connected''"
    using reconnected_sessions [OF assms(1) m(1)] by blast
  have out: "connected_session (tenantID r) (ph_sessions ?ph) = None" if "tenantID r \<noteq> 1"
    using one that by (intro connected_session_None) auto
  have own: "\<exists>d sid. (d, True, sid) \<in> set ds \<and> (\<forall>to text j. parse (full_jid to) = Some j \<longrightarrow> deliver d j text \<longrightarrow>
      SendMessage parse deliver 1 to text (mg_sessions m) = Inr (d, j, text))"
    if "(d0, True, k) \<in> set ds" "wc_id d0 \<noteq> None" for d0 k
  proof -
    have "mg_sessions m \<noteq> []" using AutoReconnect_nonempty [OF that] m(2) by simp
    then obtain sid s where hd: "hd (mg_sessions m) = (sid, s)" "(sid, s) \<in> set (mg_sessions m)"
      by (metis hd_in_set surj_pair)
    then have "connected_session 1 (mg_sessions m) = Some s"
      using connected_session_Some [OF one \<open>mg_sessions m \<noteq> []\<close>] by simp
    moreover have "(se_client s, True, sid) \<in> set ds" using AutoReconnect_clients [of sid s now ds "[]"] hd(2) m(2) by simp
    ultimately show ?thesis by (intro exI [of _ "se_client s"] exI [of _ sid]) (simp add: SendMessage_def)
  qed
  show ?thesis using ReplyMessage_cut_off [OF ph out] own by (auto simp: ph)
qed

theorem restart_hands_over_phones_witness:
  "\<exists>ph. server_phones (\<lambda>x. Some \<lparr>j_user = x, j_server = [], j_text = x\<rparr>) (\<lambda>_ _ _. True)
      (reconnected full_host 0 (the (case startup full_host of Inr sv \<Rightarrow> Some sv | Inl _ \<Rightarrow> None))) = Some ph \<and>
    SendMessage (ph_parse ph) (ph_deliver ph) 1 ''4917'' ''hi'' (ph_sessions ph) =
      Inr (sample_client, \<lparr>j_user = ''4917@s.whatsapp.net'', j_server = [], j_text = ''4917@s.whatsapp.net''\<rparr>, ''hi'')"
proof -
  have *: "full_jid ''4917'' = ''4917@s.whatsapp.net''" by (simp add: full_jid_def)
  have "hs_devices full_host = Inr [(sample_client, True, ''s'')]" "hs_container full_host (hs_getenv full_host ''DATABASE_URL'') = None"
    by (simp_all add: full_host_def)
  note t = restart_hands_over_phones [OF full_host_starts this(2) this(1), where parse = "\<lambda>x. Some \<lparr>j_user = x, j_server = [], j_text = x\<rparr>"
      and deliver = "\<lambda>_ _ _. True" and now = 0, THEN conjunct2]
  have "wc_id sample_client \<noteq> None" by (simp add: sample_client_def)
  with t show ?thesis by (fastforce simp: *)
qed

section \<open>The master key\<close>

text \<open>
  C26. The master key is not checked when the process starts. With a key of fewer than 32 bytes, or none,
  it comes up all the same, but no provider can be created: every request is refused before the
  database is reached. Providers that are already stored are used with their ciphertext as API key.
\<close>

theorem started_without_master_key:
  assumes "startup h = Inr sv" "length (hs_getenv h ''MASTER_KEY'') < 32"
  shows "(\<exists>code msg. run_state (CreateProvider (server_api base seal sv) r body) w = (Fail code msg, w) \<and> 400 \<le> code) \<and>
    pc_key (config_of_row (ap_llm (server_api base seal sv)) p) = pv_key p"
proof -
  let ?env = "server_api base seal sv"
  have key: "le_master (ap_llm ?env) = hs_getenv h ''MASTER_KEY''"
    using startup_Inr(6) [OF assms(1)] by (simp add: server_api_def)
  have "encrypt_key ?env k = State_Monad.return (Inl ShortKey)" for k using assms(2) by (simp add: encrypt_key_def key)
  then have "\<exists>code msg. run_state (CreateProvider ?env r body) w = (Fail code msg, w) \<and> 400 \<le> code"
    by (auto simp: CreateProvider_def run_state_bind Let_def split: option.split)
  moreover have "pc_key (config_of_row (ap_llm ?env) p) = pv_key p"
    using assms(2) by (simp add: config_of_row_def Decrypt_def key)
  ultimately show ?thesis by blast
qed

theorem started_without_master_key_witness:
  "\<exists>code msg. run_state (CreateProvider (server_api sample_llm (\<lambda>_ _ _. [])
     (the (case startup bare_host of Inr sv \<Rightarrow> Some sv | Inl _ \<Rightarrow> None))) (admin_of 1) None) llm_world = (Fail code msg, llm_world)"
  using started_without_master_key [OF bare_host_starts, of sample_llm "\<lambda>_ _ _. []" "admin_of 1" None llm_world]
  by (simp add: bare_host_def [THEN arg_cong [where f = hs_getenv]]) blast

section \<open>The limiter of the process\<close>

text \<open>Requests one after another, each with the time it comes in.\<close>

fun serve_all :: "router \<Rightarrow> (int \<times> request) list \<Rightarrow> limiter option \<Rightarrow> world \<Rightarrow> limiter option \<times> world" where
  "serve_all rt [] rl w = (rl, w)"
| "serve_all rt ((now, r) # rs) rl w =
     (case ServeHTTP rt r rl (w\<lparr>w_now := now\<rparr>) of (_, rl', w') \<Rightarrow> serve_all rt rs rl' w')"

definition user_key :: "int \<Rightarrow> string" where
  "user_key uid = ''user:'' @ FormatInt uid"

text \<open>An anonymous request that names the key of a signed-in user as its address.\<close>

definition forged :: "int \<Rightarrow> request \<Rightarrow> bool" where
  "forged uid r \<longleftrightarrow> rq_method r \<noteq> ''OPTIONS'' \<and> \<not> requiresAuth (clean_path r) \<and>
     rq_header r ''X-Forwarded-For'' = user_key uid"

lemma user_key_plain: "CHR '','' \<notin> set (user_key uid)" "TrimSpace (user_key uid) = user_key uid" "user_key uid \<noteq> []"
proof -
  have "\<forall>c \<in> set (FormatInt uid). is_digit c \<or> c = CHR ''-''"
    using nat_digits_spec [of "nat uid"] nat_digits_spec [of "nat (- uid)"] by (auto simp: FormatInt_def)
  then show "CHR '','' \<notin> set (user_key uid)" by (auto simp: user_key_def is_digit_def)
  show "TrimSpace (user_key uid) = user_key uid"
    using FormatInt_plain [of uid] by (subst TrimSpace_plain; simp add: user_key_def plain_char_def)
  show "user_key uid \<noteq> []" by (simp add: user_key_def)
qed

lemma forged_key: "forged uid r \<Longrightarrow> ClientKey r = user_key uid"
  by (simp add: forged_def ClientKey_def Let_def Split_no_sep user_key_plain)

lemma forged_limiter:
  assumes "forged uid r"
  shows "fst (snd (ServeHTTP rt r (Some rl) w)) = Some (snd (Allow (user_key uid) (w_now w) rl))"
proof -
  obtain b l where a: "Allow (user_key uid) (w_now w) rl = (b, l)" by (rule prod.exhaust)
  have "admit rt r (w_now w) (Some rl) = (if \<not> b then Inl (Refused 429 ''rate limit exceeded'') else Inr r, Some l)"
    using assms by (simp add: admit_def forged_def forged_key [OF assms] a)
  with assms show ?thesis by (auto simp: ServeHTTP_def forged_def HandleCORS_def a split_beta)
qed

lemma forged_drain:
  assumes "\<forall>(t, r) \<in> set rs. forged uid r \<and> t \<le> e" "window_end (user_key uid) rl = Some e" "0 \<le> budget (user_key uid) rl"
  shows "\<exists>l w'. serve_all rt rs (Some rl) w = (Some l, w') \<and> window_end (user_key uid) l = Some e \<and>
    budget (user_key uid) l = max 0 (budget (user_key uid) rl - int (length rs))"
  using assms
proof (induction rs arbitrary: rl w)
  case (Cons x rs)
  obtain t r where x: "x = (t, r)" by (cases x)
  let ?k = "user_key uid" and ?w = "w\<lparr>w_now := t\<rparr>"
  let ?l = "snd (Allow ?k t rl)"
  obtain o' w1 where s: "ServeHTTP rt r (Some rl) ?w = (o', Some ?l, w1)"
    using forged_limiter [of uid r rt rl ?w] Cons.prems(1) x by (cases "ServeHTTP rt r (Some rl) ?w") auto
  obtain en where en: "lim_items rl ?k = Some en" "re_reset en = e" using Cons.prems(2) by (auto simp: window_end_def)
  have "t \<le> re_reset en" using Cons.prems(1) x en(2) by auto
  note a = Allow_within [OF en(1) this]
  have "\<exists>l w'. serve_all rt rs (Some ?l) w1 = (Some l, w') \<and> window_end ?k l = Some e \<and>
      budget ?k l = max 0 (budget ?k ?l - int (length rs))"
    using Cons.prems a en(2) by (intro Cons.IH) auto
  then show ?case using a Cons.prems(3) by (auto simp: x s)
qed simp

text \<open>
  C13. Anyone can lock out a signed-in user. The limiter takes the key of an anonymous request from the
  \<open>X-Forwarded-For\<close> header, where the caller may write \<open>user:<id>\<close>, the key of a signed-in user. Sixty
  such requests, none of them with a token, and each request of that user until the window ends is
  refused.
\<close>

theorem forged_key_locks_out:
  assumes "startup h = Inr sv" "length rs = 59" "forged uid r0"
    and "\<forall>(t, r) \<in> set rs. forged uid r \<and> t \<le> t0 + 60000000000"
    and "Authenticate (rt_parse rt) req = Some u" "u_id u = uid" "requiresAuth (clean_path req)" "rq_method req \<noteq> ''OPTIONS''"
    and "now \<le> t0 + 60000000000"
  shows "\<exists>rl w'. serve_all rt ((t0, r0) # rs) (Some (sv_limiter sv)) w = (rl, w') \<and>
    fst (ServeHTTP rt req rl (w'\<lparr>w_now := now\<rparr>)) = Refused 429 ''rate limit exceeded''"
proof -
  let ?k = "user_key uid" and ?w = "w\<lparr>w_now := t0\<rparr>"
  let ?l = "snd (Allow ?k t0 (sv_limiter sv))"
  have lim: "lim_items (sv_limiter sv) ?k = None" "lim_limit (sv_limiter sv) = 60" "lim_window (sv_limiter sv) = 60000000000"
    by (simp_all add: startup_Inr(5) [OF assms(1)] NewRateLimiter_def)
  obtain o' w1 where s: "ServeHTTP rt r0 (Some (sv_limiter sv)) ?w = (o', Some ?l, w1)"
    using forged_limiter [OF assms(3), of rt "sv_limiter sv" ?w] by (cases "ServeHTTP rt r0 (Some (sv_limiter sv)) ?w") auto
  have o: "budget ?k ?l = 59" "window_end ?k ?l = Some (t0 + 60000000000)"
    using Allow_opens [where rl = "sv_limiter sv" and k = ?k and t = t0] lim by auto
  from forged_drain [OF assms(4) o(2), of rt w1] obtain l w' where
    l: "serve_all rt rs (Some ?l) w1 = (Some l, w')" "window_end ?k l = Some (t0 + 60000000000)" "budget ?k l = 0"
    using o(1) assms(2) by auto
  obtain en where en: "lim_items l ?k = Some en" "re_reset en = t0 + 60000000000" using l(2) by (auto simp: window_end_def)
  have "\<not> fst (Allow ?k now l)" using Allow_within(1) [OF en(1), of now] en(2) assms(9) l(3) by simp
  then have "fst (ServeHTTP rt req (Some l) (w'\<lparr>w_now := now\<rparr>)) = Refused 429 ''rate limit exceeded''"
    using assms(5-8) by (simp add: ServeHTTP_def HandleCORS_def admit_def user_key_def split_beta Let_def)
  with l(1) s show ?thesis by simp
qed

text \<open>A request for the start page that claims to come from the user of the sample.\<close>

definition forged_request :: request where
  "forged_request = (sample_request ''GET'' ''/'')\<lparr>rq_header := (\<lambda>n. if n = ''X-Forwarded-For'' then user_key 7 else [])\<rparr>"

lemma forged_request_forged: "forged 7 forged_request"
proof -
  have "clean_path forged_request = ''/''" by (simp add: clean_path_def forged_request_def sample_request_def TrimSuffix_def HasSuffix_def)
  then show ?thesis by (simp add: forged_def forged_request_def sample_request_def requiresAuth_def HasPrefix_def)
qed

theorem forged_key_locks_out_witness:
  "\<exists>rl w'. serve_all sample_router (replicate 60 (0, forged_request))
       (Some (sv_limiter (the (case startup full_host of Inr sv \<Rightarrow> Some sv | Inl _ \<Rightarrow> None)))) llm_world = (rl, w') \<and>
     fst (ServeHTTP sample_router (sample_request ''GET'' ''/api/v1/dashboard'') rl (w'\<lparr>w_now := 59000000000\<rparr>))
       = Refused 429 ''rate limit exceeded''"
proof -
  have r: "replicate 60 (0, forged_request) = (0, forged_request) # replicate 59 (0, forged_request)"
    by (simp add: numeral_eq_Suc)
  have p: "requiresAuth (clean_path (sample_request ''GET'' ''/api/v1/dashboard''))" by code_simp
  have m: "rq_method (sample_request ''GET'' ''/api/v1/dashboard'') \<noteq> ''OPTIONS''" by (simp add: sample_request_def)
  show ?thesis
    unfolding r
    by (rule forged_key_locks_out [OF full_host_starts _ forged_request_forged _ sample_Authenticate _ p m])
      (simp_all add: forged_request_forged sample_user_def)
qed

end
