(* ===== verification/Pipeline.thy ===== *)
theory Pipeline
  imports Schema
begin

text \<open>
  The way of a message through the backend: \<open>handleMessage\<close> of \<open>whatsapp/sync.go\<close> stores and queues
  it, \<open>Worker.Start\<close> of \<open>llm/queue.go\<close> takes it off the queue, \<open>Service.AnalyzeWithFallback\<close> analyses
  it and \<open>StoreAnalysis\<close> of \<open>llm/pipeline.go\<close> writes the analysis back and flags the message.
\<close>

section \<open>What the worker does to a message\<close>

definition analysis_of :: "message_row \<Rightarrow> json option" where
  "analysis_of m = (case ms_meta m of Some (JObj kvs) \<Rightarrow> map_of kvs ''analysis'' | _ \<Rightarrow> None)"

lemma analysis_of_merge [simp]: "analysis_of (m\<lparr>ms_meta := Some (merge_analysis old a)\<rparr>) = Some (analysis_json a)"
  by (simp add: analysis_of_def merge_analysis_def update_conv')

text \<open>The message \<open>i\<close> of tenant \<open>t\<close> with text \<open>x\<close> and WhatsApp id \<open>s\<close> is there; and it is analysed.\<close>

definition held :: "int \<Rightarrow> int \<Rightarrow> string \<Rightarrow> string \<Rightarrow> message_row \<Rightarrow> bool" where
  "held t i x s m \<longleftrightarrow> own_message t i m \<and> ms_content m = x \<and> whatsapp_id m = Some s"

definition flagged :: "int \<Rightarrow> db \<Rightarrow> bool" where
  "flagged i d \<longleftrightarrow> (\<exists>f \<in> set (tb_rows (important_messages d)). im_msg f = i)"

definition analysed :: "int \<Rightarrow> int \<Rightarrow> string \<Rightarrow> string \<Rightarrow> db \<Rightarrow> bool" where
  "analysed t i x s d \<longleftrightarrow> (\<exists>m \<in> set (tb_rows (messages d)). held t i x s m \<and>
     (\<exists>a. analysis_of m = Some (analysis_json a) \<and> (an_important a \<longrightarrow> flagged i d)))"

definition stored :: "int \<Rightarrow> int \<Rightarrow> string \<Rightarrow> string \<Rightarrow> db \<Rightarrow> bool" where
  "stored t i x s d \<longleftrightarrow> distinct (map ms_id (tb_rows (messages d))) \<and> (\<exists>m \<in> set (tb_rows (messages d)). held t i x s m)"

text \<open>What does not touch messages and flags keeps both.\<close>

definition messages_frame :: "world \<Rightarrow> world \<Rightarrow> bool" where
  "messages_frame w w' \<longleftrightarrow> messages (w_db w') = messages (w_db w) \<and> important_messages (w_db w') = important_messages (w_db w)"

interpretation msgs: frame_relation messages_frame
  by unfold_locales (auto simp: messages_frame_def)

lemma messages_stmts [intro]:
  "state_io_rel messages_frame (Exec (active_providers t))"
  "state_io_rel messages_frame (Exec (sql_row llm_providers pv_tenant P))"
  "state_io_rel messages_frame (Exec (insert_usage t pid mid rec ci co now))"
  by (rule msgs.keeps_Exec, simp add: messages_frame_def active_providers_def sql_select_def sql_row_def insert_usage_def
      sql_insert_def Let_def split: option.split)+

lemma service_messages: "state_io_rel messages_frame (Service_AnalyzeWithFallback env t m mid)"
  unfolding Service_AnalyzeWithFallback_def Router_AnalyzeWithFallback_def Store_ListProviders_def InsertUsage_def
  by (intro msgs.keeps_intros msgs.keeps_try messages_stmts)

section \<open>Storing an analysis\<close>

lemma flag_important_flags:
  assumes "has_key ms_id i (messages d)"
  shows "flagged i (snd (flag_important t i a now (as_tenant t w) d))"
  using assms by (auto simp: flagged_def flag_important_def sql_insert_ignore_def Let_def as_tenant_def visible_def)

lemma flag_important_keeps:
  "flagged i d \<Longrightarrow> flagged i (snd (flag_important t j a now s d))"
  by (auto simp: flagged_def flag_important_def sql_insert_ignore_def Let_def)

lemma StoreAnalysis_flags:
  fixes w :: world and t j :: int and a :: analysis
  assumes "w_faults w = []"
  defines "d' \<equiv> w_db (snd (run_state (StoreAnalysis t j a) w))"
  shows "flagged i (w_db w) \<Longrightarrow> flagged i d'"
    and "an_important a \<Longrightarrow> has_key ms_id j (messages (w_db w)) \<Longrightarrow> flagged j d'"
proof -
  have d': "d' = (if an_important a then snd (flag_important t j a (w_now w) (as_tenant t w) (metas_written t j a (w_db w)))
      else metas_written t j a (w_db w))"
    unfolding d'_def by (simp add: run_StoreAnalysis [OF assms(1)] Let_def split_beta)
  have metas: "flagged i (metas_written t j a (w_db w)) = flagged i (w_db w)" for i
    by (simp add: flagged_def metas_written_def Let_def)
  have "has_key ms_id j (messages (metas_written t j a (w_db w))) = has_key ms_id j (messages (w_db w))"
    by (simp add: has_key_map metas_written_def Let_def map_update_where)
  then show "flagged i (w_db w) \<Longrightarrow> flagged i d'"
    and "an_important a \<Longrightarrow> has_key ms_id j (messages (w_db w)) \<Longrightarrow> flagged j d'"
    by (auto simp: d' metas intro: flag_important_keeps flag_important_flags)
qed

lemma StoreAnalysis_stored:
  fixes w :: world and t' j :: int and a :: analysis
  assumes "w_faults w = []" "stored t i x s (w_db w)"
  defines "d' \<equiv> w_db (snd (run_state (StoreAnalysis t' j a) w))"
  shows "stored t i x s d'"
    and "t' = t \<and> j = i \<or> analysed t i x s (w_db w) \<Longrightarrow> analysed t i x s d'"
proof -
  let ?f = "\<lambda>m. m\<lparr>ms_meta := Some (merge_analysis (ms_meta m) a)\<rparr>"
  have dist: "distinct (map ms_id (tb_rows (messages (w_db w))))" using assms(2) by (simp add: stored_def)
  have rows: "tb_rows (messages d') = update_where (own_message t' j) ?f (tb_rows (messages (w_db w)))"
    unfolding d'_def by (rule run_StoreAnalysis_messages(1) [OF assms(1) dist])
  have held: "held t i x s (?f m) = held t i x s m" for m :: message_row by (simp add: held_def own_message_def)
  have in': "(if own_message t' j m then ?f m else m) \<in> set (tb_rows (messages d'))" if "m \<in> set (tb_rows (messages (w_db w)))" for m
    using that by (auto simp: rows in_update_where)
  obtain m where m: "m \<in> set (tb_rows (messages (w_db w)))" "held t i x s m" using assms(2) by (auto simp: stored_def)
  have "held t i x s (if own_message t' j m then ?f m else m)" using m(2) held by simp
  then have "\<exists>m \<in> set (tb_rows (messages d')). held t i x s m" using in' [OF m(1)] by (intro bexI)
  moreover have "map ms_id (tb_rows (messages d')) = map ms_id (tb_rows (messages (w_db w)))"
    by (simp add: rows map_update_where)
  ultimately show "stored t i x s d'" using dist by (simp add: stored_def)
  assume now: "t' = t \<and> j = i \<or> analysed t i x s (w_db w)"
  show "analysed t i x s d'"
  proof (cases "t' = t \<and> j = i")
    case True
    then have "?f m \<in> set (tb_rows (messages d'))" using in' [OF m(1)] m(2) by (simp add: held_def)
    moreover have "an_important a \<longrightarrow> flagged i d'"
      using StoreAnalysis_flags(2) [OF assms(1), of a j t'] True m by (auto simp: d'_def has_key_def held_def own_message_def)
    ultimately show ?thesis using held m(2) unfolding analysed_def by (intro bexI [of _ "?f m"]) auto
  next
    case False
    with now obtain m b where m: "m \<in> set (tb_rows (messages (w_db w)))" "held t i x s m"
      "analysis_of m = Some (analysis_json b)" "an_important b \<longrightarrow> flagged i (w_db w)" by (auto simp: analysed_def)
    have "\<not> own_message t' j m" using False m(2) by (auto simp: held_def own_message_def)
    with in' [OF m(1)] m StoreAnalysis_flags(1) [OF assms(1), of i t' j a] show ?thesis
      unfolding analysed_def d'_def [symmetric] by auto
  qed
qed

section \<open>The worker\<close>

lemma messages_frame_stored:
  "messages_frame w w' \<Longrightarrow> stored t i x s (w_db w') = stored t i x s (w_db w) \<and> analysed t i x s (w_db w') = analysed t i x s (w_db w)"
  by (simp add: messages_frame_def stored_def analysed_def flagged_def)

lemma worker_item_stored:
  fixes w :: world and env :: llm_env and q :: queue_message
  assumes "w_faults w = []" "w_hub w" "stored t i x s (w_db w)"
  defines "w' \<equiv> snd (run_state (worker_item env q) w)"
  shows "stored t i x s (w_db w') \<and>
    (qm_tenant q = t \<and> qm_message q = i \<or> analysed t i x s (w_db w) \<longrightarrow> analysed t i x s (w_db w'))"
proof -
  obtain a w1 where a: "run_state (Service_AnalyzeWithFallback env (qm_tenant q) (qm_content q) (Some (qm_message q))) w = (Inr a, w1)"
    using service_answers by (metis prod.collapse)
  have "messages_frame w (snd (run_state (Service_AnalyzeWithFallback env (qm_tenant q) (qm_content q) (Some (qm_message q))) w))"
    using service_messages [of env "qm_tenant q" "qm_content q" "Some (qm_message q)"] by (simp add: state_io_rel_def)
  then have "messages_frame w w1" by (simp add: a)
  note same = messages_frame_stored [OF this, of t i x s]
  have "w_faults w1 = []"
    using quietD [OF quiet_exec.keeps_service(1) assms(1), of env "qm_tenant q" "qm_content q" "Some (qm_message q)"] a by simp
  note st = StoreAnalysis_stored [OF this, of t i x s "qm_tenant q" "qm_message q" a]
  obtain y w2 where y: "run_state (StoreAnalysis (qm_tenant q) (qm_message q) a) w1 = (y, w2)" by (rule prod.exhaust)
  have "w_db w' = w_db w2" unfolding w'_def worker_item_def by (simp add: a y run_HubBroadcast)
  moreover have "stored t i x s (w_db w1)" "analysed t i x s (w_db w1) = analysed t i x s (w_db w)" using same assms(3) by simp_all
  ultimately show ?thesis using st by (simp only: y snd_conv) blast
qed

lemma worker_items_stored:
  assumes "w_faults w = []" "w_hub w" "stored t i x s (w_db w)"
  shows "stored t i x s (w_db (snd (run_state (worker_items env qs) w))) \<and>
    ((\<exists>q \<in> set qs. qm_tenant q = t \<and> qm_message q = i) \<or> analysed t i x s (w_db w) \<longrightarrow>
       analysed t i x s (w_db (snd (run_state (worker_items env qs) w))))"
  using assms
proof (induction qs arbitrary: w)
  case (Cons q qs)
  define w1 where "w1 = snd (run_state (worker_item env q) w)"
  note one = worker_item_stored [OF Cons.prems, of env q, folded w1_def]
  have "w_faults w1 = []" "w_hub w1" using worker_item_run [OF Cons.prems(1,2), of env q] by (simp_all add: w1_def)
  note rest = Cons.IH [OF this] 
  have "run_state (worker_items env (q # qs)) w = run_state (worker_items env qs) w1" by (simp add: w1_def split_beta)
  with one rest show ?case by auto
qed simp

lemma worker_loop_analyses:
  assumes "w_faults w = []" "w_hub w" "stored t i x s (w_db w)"
    and "(\<exists>q \<in> set (w_queue w (queueKey t)). qm_tenant q = t \<and> qm_message q = i) \<or> analysed t i x s (w_db w)"
    and "length (w_queue w (queueKey t)) \<le> turns * batch_size batch"
  shows "analysed t i x s (w_db (snd (run_state (worker_loop env t batch turns) w)))"
  using assms
proof (induction turns arbitrary: w)
  case (Suc turns)
  let ?q = "w_queue w (queueKey t)" and ?n = "batch_size batch"
  show ?case
  proof (cases "?q = []")
    case True
    with Suc show ?thesis by (simp add: worker_round_idle)
  next
    case False
    let ?items = "take ?n (rev ?q)"
    let ?w1 = "w\<lparr>w_queue := (w_queue w)(queueKey t := rev (drop ?n (rev ?q)))\<rparr>"
    define w2 where "w2 = snd (run_state (worker_items env ?items) ?w1)"
    have "?items \<noteq> []" using False by (simp add: batch_size_def)
    then have run: "snd (run_state (worker_round env t batch) w) = w2"
      by (simp add: w2_def worker_round_def Let_def worker_dequeue [OF Suc.prems(1)] split_beta del: take_eq_Nil fun_upd_apply
          split: prod.split)
    have w2: "w_faults w2 = []" "w_hub w2" "w_queue w2 (queueKey t) = rev (drop ?n (rev ?q))"
      using worker_items_run [of ?w1 env ?items] Suc.prems(1,2) by (simp_all add: w2_def)
    have it: "stored t i x s (w_db w2) \<and> ((\<exists>q \<in> set ?items. qm_tenant q = t \<and> qm_message q = i) \<or> analysed t i x s (w_db w) \<longrightarrow>
        analysed t i x s (w_db w2))"
      using worker_items_stored [of ?w1 t i x s env ?items] Suc.prems(1-3) by (simp add: w2_def)
    have "set ?q = set ?items \<union> set (drop ?n (rev ?q))" by (metis append_take_drop_id set_append set_rev)
    then have "(\<exists>q \<in> set (w_queue w2 (queueKey t)). qm_tenant q = t \<and> qm_message q = i) \<or> analysed t i x s (w_db w2)"
      using it Suc.prems(4) by (auto simp: w2(3))
    moreover have "length (w_queue w2 (queueKey t)) \<le> turns * ?n" using Suc.prems(5) by (simp add: w2(3))
    ultimately have "analysed t i x s (w_db (snd (run_state (worker_loop env t batch turns) w2)))"
      using it w2(1,2) by (intro Suc.IH) auto
    with run show ?thesis by (simp add: split_beta)
  qed
qed auto

section \<open>From the phone to the analysis\<close>

interpretation keys: db_invariant keys_ok
  by unfold_locales (rule stmt_keys)

text \<open>
  C5. A message that comes in is analysed when nothing fails. Without faults, with a hub and with the
  keys of the tables in order, a text message with an id that is new to a tenant, delivered by
  WhatsApp while Redis is there, is stored; after enough turns of the tenant's worker its row carries
  an analysis under its WhatsApp id and text, it is flagged if the analysis calls it important, the
  queue is empty and both the message and its analysis have been announced, whatever the providers
  answer, and whatever else was waiting. (A call of the database or of Redis that fails on the way
  loses the message, its place in the queue or its analysis.)
\<close>

theorem message_gets_analysed:
  fixes w :: world and info :: message_info and msg :: "wa_message option" and client :: wa_client
    and t batch :: int and env :: llm_env and turns :: nat
  assumes "w_faults w = []" "w_hub w" "keys_ok (w_db w)" "mi_id info \<noteq> []" "extractText msg \<noteq> []"
    and "(t, mi_id info) \<notin> set (wa_keys (tb_rows (messages (w_db w))))"
    and "length (w_queue w (queueKey t)) < turns * batch_size batch"
  defines "w1 \<equiv> snd (run_state (on_event True t client (MessageEvt \<lparr>ev_info = info, ev_message = msg\<rparr>)) w)"
  defines "w2 \<equiv> snd (run_state (worker_loop env t batch turns) w1)"
  shows "\<exists>m \<in> set (tb_rows (messages (w_db w2))).
      ms_tenant m = t \<and> ms_content m = extractText msg \<and> whatsapp_id m = Some (mi_id info) \<and>
      (\<exists>a. analysis_of m = Some (analysis_json a) \<and>
         (an_important a \<longrightarrow> (\<exists>f \<in> set (tb_rows (important_messages (w_db w2))). im_msg f = ms_id m))) \<and>
      w_queue w2 (queueKey t) = [] \<and>
      (\<exists>conv. (t, received_payload (ms_id m) conv) \<in> set (w_bcast w2)) \<and> (t, analysis_event (ms_id m)) \<in> set (w_bcast w2)"
proof -
  have "keyed cv_id (conversations (w_db w))" using assms(3) by (simp add: keys_ok_def)
  then have conv: "0 \<le> tb_seq (conversations (w_db w))" "\<forall>c \<in> set (tb_rows (conversations (w_db w))). 0 < cv_id c"
    by (auto simp: keyed_def col_def)
  have new: "\<forall>m \<in> set (tb_rows (messages (w_db w))). ms_tenant m = t \<longrightarrow> whatsapp_id m \<noteq> Some (mi_id info)"
    using assms(6) by (auto simp: in_wa_keys)
  have eq: "snd (run_state (handleMessage True t client info msg (mi_chat info) (mi_push info)) w) = w1"
    by (simp add: w1_def)
  note come = handleMessage_new [OF assms(1,2,4,5) new conv, of client "mi_chat info" "mi_push info", unfolded eq]
  then have w1: "w_faults w1 = []" "w_hub w1" by blast+
  from come obtain row where rows: "tb_rows (messages (w_db w1)) = tb_rows (messages (w_db w)) @ [row]" and
    row: "ms_tenant row = t" "ms_content row = extractText msg" "whatsapp_id row = Some (mi_id info)"
    "w_queue w1 (queueKey t) = \<lparr>qm_tenant = t, qm_message = ms_id row, qm_content = extractText msg,
       qm_feature = ''analysis'', qm_created = w_now w\<rparr> # w_queue w (queueKey t)"
    "w_bcast w1 = w_bcast w @ [(t, received_payload (ms_id row) (ms_conv row))]"
    by blast
  let ?i = "ms_id row"
  have "inv_frame keys_ok w w1"
    unfolding w1_def by (rule keys.action [OF on_event_writes, unfolded state_io_rel_def, rule_format])
  then have "keys_ok (w_db w1)" using assms(3) by (simp add: inv_frame_def)
  then have "distinct (map ms_id (tb_rows (messages (w_db w1))))" by (simp add: keys_ok_def keyed_def unique_def)
  then have st: "stored t ?i (extractText msg) (mi_id info) (w_db w1)"
    using row(1-3) rows by (auto simp: stored_def held_def own_message_def)
  have len: "length (w_queue w1 (queueKey t)) \<le> turns * batch_size batch" using assms(7) by (simp add: row(4))
  have "analysed t ?i (extractText msg) (mi_id info) (w_db w2)"
    unfolding w2_def by (rule worker_loop_analyses [OF w1 st _ len]) (simp add: row(4))
  then obtain m a where m: "m \<in> set (tb_rows (messages (w_db w2)))" "held t ?i (extractText msg) (mi_id info) m"
    "analysis_of m = Some (analysis_json a)" "an_important a \<longrightarrow> flagged ?i (w_db w2)" by (auto simp: analysed_def)
  have out: "w_queue w2 = (w_queue w1)(queueKey t := [])" "w_bcast w2 = w_bcast w1 @ announcements (rev (w_queue w1 (queueKey t)))"
    unfolding w2_def using worker_loop_drains [OF w1 len] by blast+
  have "(t, analysis_event ?i) \<in> set (w_bcast w2)" by (simp add: out(2) row(4) announcements_def)
  moreover have "(t, received_payload ?i (ms_conv row)) \<in> set (w_bcast w2)" by (simp add: out(2) row(5))
  ultimately show ?thesis
    using m out(1) by (intro bexI [OF _ m(1)]) (auto simp: held_def own_message_def flagged_def)
qed

theorem message_gets_analysed_witness:
  "\<exists>m \<in> set (tb_rows (messages (w_db (snd (run_state (worker_loop sample_llm 3 0 1)
      (snd (run_state (on_event True 3 sample_client (MessageEvt \<lparr>ev_info = sample_info, ev_message = sample_text\<rparr>)) (sync_world [])))))))). 
     ms_content m = ''hi'' \<and> (\<exists>a. analysis_of m = Some (analysis_json a))"
proof -
  have "keys_ok (w_db (sync_world []))"
    by (simp add: keys_ok_def keyed_def unique_def col_def sync_world_def sample_world_def empty_db_def group_row_def default_tenants_def)
  moreover have "mi_id sample_info \<noteq> []" "extractText sample_text = ''hi''"
    by (simp_all add: sample_info_def sample_text_def extractText_def)
  moreover have "length (w_queue (sync_world []) (queueKey 3)) < 1 * batch_size 0"
    by (simp add: sync_world_def sample_world_def batch_size_def)
  ultimately show ?thesis
    using message_gets_analysed [where w = "sync_world []" and info = sample_info and msg = sample_text and t = 3
      and turns = 1 and batch = 0 and client = sample_client and env = sample_llm] by fastforce
qed

end
