(* ===== verification/Spec2Isabelle.thy ===== *)
theory Spec2Isabelle
  imports System Sockets Crossings Races Startup Pipeline
begin

text \<open>
  MessageFlow: the Go backend under \<open>src/backend\<close> that connects tenants' WhatsApp accounts, stores
  their conversations in PostgreSQL, analyses messages with language models, and serves a web
  front end over HTTP and WebSockets.

  \<^bold>\<open>How the model reads.\<close> A handler or a background step is an action on a \<open>world\<close> (theory
  \<open>Database\<close>): the database, the session of the tenant connection, a schedule of faults (one entry
  per call that reaches a server), the clock, the random bytes to come, and what the process and
  Redis hold. A SQL statement is a function of session and database; row-level security is a flag of
  the session, since it does not bind the role the containers connect with. A request's JSON body is
  its decoded form, \<open>None\<close> when it does not decode. What a handler writes is a \<open>Reply\<close> with its status
  or a \<open>Fail\<close>. Strings are lists of bytes, times are nanoseconds, and
  \<open>int64\<close> arithmetic that can leave its range wraps around (\<open>Prelude\<close>). A \<open>float64\<close> is the rational
  it stands for, and what the code computes with such values is rounded as the machine does (\<open>Float64\<close>).

  \<^bold>\<open>Theories and code.\<close> (paths under \<open>src/backend/internal\<close>)
  \<^item> \<open>Prelude\<close>, \<open>Float64\<close>, \<open>GoStrings\<close>, \<open>Dates\<close>: 64-bit integers, rows of a table, rounded sums with
    a bound on what they are off, and the parts of \<open>strings\<close>, \<open>strconv\<close> and \<open>time\<close> the code uses.
  \<^item> \<open>Codec\<close>: \<open>crypto/crypto.go\<close> with base64 and hex. \<open>Web\<close>: requests, identities, \<open>auth/jwt.go\<close>,
    \<open>config/config.go\<close> and the helpers of \<open>handlers/api.go\<close>.
  \<^item> \<open>Tables\<close>: \<open>models/models.go\<close> and the schema. \<open>Database\<close>: \<open>db/db.go\<close>, the statements, and the locales
    of relations every step respects. \<open>Tenancy\<close>: isolation as such a relation, and a locale for the
    statements on a table with a tenant column, interpreted for all 23 of them.
  \<^item> \<open>Middleware\<close>, \<open>Rbac\<close>, \<open>HttpRouter\<close>: \<open>middleware/middleware.go\<close>, \<open>handlers/rbac.go\<close> with the audit and
    activity logs, \<open>router/router.go\<close>.
  \<^item> \<open>Team\<close>, \<open>AuthHandlers\<close>: \<open>handlers/team.go\<close>, \<open>handlers/auth.go\<close> and the user made for a paired phone.
  \<^item> \<open>Hub\<close>: \<open>realtime/hub.go\<close> and \<open>realtime/websocket.go\<close>, with a refinement to sets of connections, and
    the hub in goroutines: a broadcast ranges over the clients without the lock.
  \<^item> \<open>Queue\<close>, \<open>Syncer\<close>, \<open>Sessions\<close>: the Redis queue of \<open>llm/queue.go\<close>, \<open>whatsapp/sync.go\<close>,
    \<open>whatsapp/manager.go\<close> with \<open>handlers/whatsapp_auth.go\<close>.
  \<^item> \<open>Providers\<close>, \<open>LlmStore\<close>, \<open>LlmService\<close>: \<open>llm/providers\<close> and \<open>llm/contract\<close>; \<open>llm/store.go\<close>,
    \<open>llm/factory.go\<close>, \<open>llm/router.go\<close>; \<open>llm/fallback.go\<close>, \<open>llm/service.go\<close>, \<open>llm/pipeline.go\<close>, the worker of
    \<open>llm/queue.go\<close>, \<open>llm/health.go\<close> and the schedulers.
  \<^item> \<open>LlmApi\<close>, \<open>LlmReports\<close>: the two halves of \<open>handlers/llm.go\<close>.
  \<^item> \<open>Items\<close>, \<open>Workflows\<close>, \<open>Integrations\<close>, \<open>Inbox\<close>: the other handlers.
  \<^item> \<open>Statements\<close>: the SQL statements that write, as one inductive relation, and that everything the
    backend does to the database is a sequence of them. \<open>Schema\<close>: the constraints of
    \<open>backend/migrations\<close> as predicates on the database, each kept by every statement, and a locale that
    carries such an invariant over to runs.
  \<^item> \<open>System\<close>: everything that writes tenant data as one step relation, with or without the callers of
    \<open>setUserRole\<close>, and the invariants of its runs.
  \<^item> \<open>Sockets\<close>: \<open>writePump\<close> beside the goroutines that share its channel. \<open>Races\<close>: \<open>insertMessage\<close> in
    goroutines that meet. \<open>Crossings\<close>: references from one tenant's rows to another's.
  \<^item> \<open>Pipeline\<close>: the way of a message from the phone over the queue and the worker to its analysis.
  \<^item> \<open>Startup\<close>: \<open>main\<close> of \<open>backend/cmd/server/main.go\<close>, the constructors it calls and what they give
    the handlers; \<open>whatsapp/whatsapp.go\<close>.

  \<^bold>\<open>What the lemmas show.\<close> Access: a handler runs only behind authentication, the CSRF check and the
  role it is meant for, but for one gap in the paths of workflows; rate limits; log-in tokens; what the pairing endpoints give away. Isolation: in any
  run of \<open>System\<close> a tenant's rows are out of reach of the steps of other tenants; the exceptions
  (\<open>setUserRole\<close> on the roles of users, the executions of workflows) are shown to be such, with the
  policies that would prevent them; what a reference across tenants shows, and what becomes of it. State: in any run of
  \<open>System\<close>, under any faults, the keys, unique indexes, foreign keys and ranges that \<open>Schema\<close> states hold, at most one message
  of a tenant has a given WhatsApp id and a delivery of an id that is stored adds none, and users, messages
  and the logs are never deleted; two deliveries of a message that meet store it twice, which a lock
  would prevent. Function: delivery of
  the hub and of the socket behind it, first-in-first-out of the queue, a worker that drains it, a new
  message that ends up analysed and announced, the fallback order of providers, retries, replies,
  webhooks, costs up to their rounding errors, pages of items with and without ties in time. Start-up: what the process needs, what it does without, and what a restart
  does to phones, keys and limits. Termination: the write pump ends once its channel is closed. Round
  trips: base64, encryption, stored API keys, tokens, decimal numbers. Several properties state
  behaviour that looks unintended; the manifest lists those as findings.

  \<^bold>\<open>Bounds and fuel.\<close> The endless loops (the worker, the event stream) are cut off after a given number
  of turns, and what they achieve is stated for every number that is enough. All other loops
  recurse over a list or a bound of the code, so every action is total.

  \<^bold>\<open>Parameters.\<close> AES-GCM, HMAC-SHA256, bcrypt and the JWT library, the vendors' SDKs, the WhatsApp
  library (parsing of addresses, sending, events, its store), the opening of the pools, the QR encoder,
  the order in which PostgreSQL sorts equal creation times of action items, and whether it accepts a
  \<open>COALESCE\<close> of a text and a JSONB column. What a property needs of
  them is a named law.

  \<^bold>\<open>Not modelled.\<close> The generated protocol code (used nowhere), the WhatsApp test program (a terminal
  dialogue), the server's own time-outs, timers and goroutine scheduling other than the interleavings
  of \<open>Hub\<close>, \<open>Sockets\<close> and \<open>Races\<close>, request time-outs other than as faults, and the front end. Rows
  that SQL leaves unordered come in the order of the table, where they are not a parameter; a fault in
  the middle of streaming rows is a fault of the statement. A JSON value does not tell an empty list
  from Go's nil, which \<open>encoding/json\<close> writes as \<open>null\<close>.

  \<^bold>\<open>Plan.\<close> Next are what the audit log records of each change, the interleaving of other handlers that
  read before they write (the default provider, the first user of a tenant, role changes).
\<close>

end
